(* ===== verification/Prelude.thy ===== *)
theory Prelude
  imports Main "HOL-Library.AList" "HOL-Library.Word" "HOL-Library.Multiset"
    "HOL-Library.Char_ord" "HOL-Library.List_Lexorder"
begin

text \<open>
  What every component of the development shares.

  \<^item> A Go panic is a value of \<open>go_panic\<close>; a computation that may panic returns
    \<open>go_panic + 'a\<close> (\<open>'a go\<close>), with the panic on the left.
  \<^item> A Go map is an association list \<open>('k, 'v) gomap\<close>. Reading is \<open>map_of\<close>,
    storing is \<open>AList.update\<close>, deleting is \<open>AList.delete\<close>. The order of the
    list is the order in which a \<open>range\<close> visits the entries; Go leaves that order
    open, so the theorems hold for every list, and where the order matters they say so.
  \<^item> A Go string is a list of bytes, which is what \<open>string\<close> is.
  \<^item> The collections \<open>gomap_simps\<close> (lookups after updates) and \<open>go_defs\<close> (the
    definitions that a concrete evaluation unfolds) carry the component proofs.
\<close>

named_theorems gomap_simps "lookups in Go maps after updates and deletions"
named_theorems go_defs "definitions unfolded when a concrete run is evaluated"

section \<open>Panics\<close>

datatype go_panic = NilDereference | IndexOutOfRange | Panicked string

type_synonym 'a go = "go_panic + 'a"

definition go_bind :: "'a go \<Rightarrow> ('a \<Rightarrow> 'b go) \<Rightarrow> 'b go" where
  "go_bind m f = (case m of Inl p \<Rightarrow> Inl p | Inr x \<Rightarrow> f x)"

lemma go_bind_simps [simp]: "go_bind (Inl p) f = Inl p" "go_bind (Inr x) f = f x"
  by (simp_all add: go_bind_def)

lemma go_bind_eq_Inr: "go_bind m f = Inr y \<longleftrightarrow> (\<exists>x. m = Inr x \<and> f x = Inr y)"
  by (cases m) auto

text \<open>A loop whose body may panic: it stops at the first panic.\<close>

fun go_fold :: "('a \<Rightarrow> 's \<Rightarrow> 's go) \<Rightarrow> 'a list \<Rightarrow> 's \<Rightarrow> 's go" where
  "go_fold f [] s = Inr s"
| "go_fold f (x # xs) s = go_bind (f x s) (go_fold f xs)"

lemma go_fold_append: "go_fold f (xs @ ys) s = go_bind (go_fold f xs s) (go_fold f ys)"
  by (induction xs arbitrary: s) (auto simp: go_bind_def split: sum.splits)

lemma go_fold_Inr:
  assumes "\<And>x s. x \<in> set xs \<Longrightarrow> f x s = Inr (g x s)"
  shows "go_fold f xs s = Inr (fold g xs s)"
  using assms by (induction xs arbitrary: s) auto

lemma go_fold_invariant:
  assumes "go_fold f xs s = Inr t" and "I s"
    and "\<And>x s t. x \<in> set xs \<Longrightarrow> I s \<Longrightarrow> f x s = Inr t \<Longrightarrow> I t"
  shows "I t"
  using assms
proof (induction xs arbitrary: s)
  case Nil
  then show ?case by simp
next
  case (Cons x xs)
  from Cons.prems(1) obtain u where u: "f x s = Inr u" "go_fold f xs u = Inr t"
    by (auto simp: go_bind_eq_Inr)
  with Cons.prems(2,3) have "I u" by (metis list.set_intros(1))
  with Cons.IH u(2) Cons.prems(3) show ?case by (metis list.set_intros(2))
qed

text \<open>A loop in which no turn panics.\<close>

lemma go_fold_returns:
  assumes "I s" and "\<And>x s. x \<in> set xs \<Longrightarrow> I s \<Longrightarrow> \<exists>t. f x s = Inr t \<and> I t"
  shows "\<exists>t. go_fold f xs s = Inr t \<and> I t"
  using assms
proof (induction xs arbitrary: s)
  case (Cons x xs)
  then obtain u where u: "f x s = Inr u" "I u" by (meson list.set_intros(1))
  moreover have "\<exists>t. go_fold f xs u = Inr t \<and> I t"
    using Cons.IH [OF u(2)] Cons.prems(2) by (meson list.set_intros(2))
  ultimately show ?case by auto
qed simp

text \<open>
  A computation that may panic or not return at all: \<open>None\<close> when it does not return. The
  next call of a sequence runs only when the one before it returned without a panic.
\<close>

definition ogo_bind :: "'a go option \<Rightarrow> ('a \<Rightarrow> 'b go option) \<Rightarrow> 'b go option" where
  "ogo_bind m f =
     (case m of None \<Rightarrow> None | Some (Inl p) \<Rightarrow> Some (Inl p) | Some (Inr x) \<Rightarrow> f x)"

lemma ogo_bind_simps [simp]:
  "ogo_bind None f = None" "ogo_bind (Some (Inl p)) f = Some (Inl p)" "ogo_bind (Some (Inr x)) f = f x"
  by (simp_all add: ogo_bind_def)

lemma ogo_bind_eq_Inr: "ogo_bind m f = Some (Inr y) \<longleftrightarrow> (\<exists>x. m = Some (Inr x) \<and> f x = Some (Inr y))"
  by (auto simp: ogo_bind_def split: option.splits sum.splits)

fun ogo_fold :: "('a \<Rightarrow> 's \<Rightarrow> 's go option) \<Rightarrow> 'a list \<Rightarrow> 's \<Rightarrow> 's go option" where
  "ogo_fold f [] s = Some (Inr s)"
| "ogo_fold f (x # xs) s = ogo_bind (f x s) (ogo_fold f xs)"

lemma ogo_fold_invariant:
  assumes "ogo_fold f xs s = Some (Inr t)" and "I s"
    and "\<And>x s t. x \<in> set xs \<Longrightarrow> I s \<Longrightarrow> f x s = Some (Inr t) \<Longrightarrow> I t"
  shows "I t"
  using assms
proof (induction xs arbitrary: s)
  case Nil
  then show ?case by simp
next
  case (Cons x xs)
  from Cons.prems(1) obtain u where u: "f x s = Some (Inr u)" "ogo_fold f xs u = Some (Inr t)"
    by (auto simp: ogo_bind_eq_Inr)
  with Cons.prems(2,3) have "I u" by (metis list.set_intros(1))
  with Cons.IH u(2) Cons.prems(3) show ?case by (metis list.set_intros(2))
qed

text \<open>A loop that cannot fail, when every turn returns.\<close>

lemma ogo_fold_returns:
  assumes "I s" and "\<And>x s. x \<in> set xs \<Longrightarrow> I s \<Longrightarrow> \<exists>t. f x s = Some (Inr t) \<and> I t"
  shows "\<exists>t. ogo_fold f xs s = Some (Inr t) \<and> I t"
  using assms
proof (induction xs arbitrary: s)
  case (Cons x xs)
  then obtain u where u: "f x s = Some (Inr u)" "I u" by (meson list.set_intros(1))
  moreover have "\<exists>t. ogo_fold f xs u = Some (Inr t) \<and> I t"
    using Cons.IH [OF u(2)] Cons.prems(2) by (meson list.set_intros(2))
  ultimately show ?case by auto
qed simp

text \<open>
  What one turn establishes and the other turns keep holds at the end; an invariant of the
  loop helps.
\<close>

lemma ogo_fold_establishes:
  assumes "ogo_fold f xs s = Some (Inr t)" and "x \<in> set xs" and "J s"
    and J: "\<And>y s t. y \<in> set xs \<Longrightarrow> J s \<Longrightarrow> f y s = Some (Inr t) \<Longrightarrow> J t"
    and est: "\<And>s t. J s \<Longrightarrow> f x s = Some (Inr t) \<Longrightarrow> P t"
    and keep: "\<And>y s t. y \<in> set xs \<Longrightarrow> J s \<Longrightarrow> P s \<Longrightarrow> f y s = Some (Inr t) \<Longrightarrow> P t"
  shows "P t"
proof -
  obtain ys zs where xs: "xs = ys @ x # zs" using assms(2) by (meson split_list)
  have app: "ogo_fold f (as @ bs) s = ogo_bind (ogo_fold f as s) (ogo_fold f bs)" for as bs s
    by (induction as arbitrary: s) (auto simp: ogo_bind_def split: option.splits sum.splits)
  from assms(1) obtain u v where u: "ogo_fold f ys s = Some (Inr u)" "f x u = Some (Inr v)"
    and v: "ogo_fold f zs v = Some (Inr t)"
    by (auto simp: xs app ogo_bind_eq_Inr)
  have "J u" using u(1) assms(3) by (rule ogo_fold_invariant) (use J xs in auto)
  then have "J v \<and> P v" using u(2) J [of x u v] est xs by simp
  with v have "J t \<and> P t"
    by (rule ogo_fold_invariant [where I = "\<lambda>s. J s \<and> P s"])
       (use xs in \<open>auto intro: J keep\<close>)
  then show ?thesis ..
qed

text \<open>
  A \<open>for\<close> loop without a condition: a turn says whether the loop goes on. A loop that does
  not stop has the value \<open>None\<close>. \<open>turns f n s\<close> is the state after \<open>n\<close> turns that went on.
\<close>

datatype loop_ctl = Again | Return

partial_function (option) go_loop :: "('s \<Rightarrow> (loop_ctl \<times> 's) go) \<Rightarrow> 's \<Rightarrow> 's go option" where
  "go_loop f s =
     (case f s of
        Inl p \<Rightarrow> Some (Inl p)
      | Inr (ctl, t) \<Rightarrow> if ctl = Return then Some (Inr t) else go_loop f t)"

fun turns :: "('s \<Rightarrow> (loop_ctl \<times> 's) go) \<Rightarrow> nat \<Rightarrow> 's \<Rightarrow> 's option" where
  "turns f 0 s = Some s"
| "turns f (Suc n) s = (case f s of Inr (Again, t) \<Rightarrow> turns f n t | _ \<Rightarrow> None)"

lemma go_loop_turns:
  "turns f n s = Some t \<Longrightarrow> go_loop f s = go_loop f t"
proof (induction n arbitrary: s)
  case (Suc n)
  then show ?case
    by (subst go_loop.simps) (auto split: sum.splits loop_ctl.splits prod.splits)
qed simp

lemma go_loop_stops:
  "turns f n s = Some t \<Longrightarrow> f t = Inr (Return, u) \<Longrightarrow> go_loop f s = Some (Inr u)"
  "turns f n s = Some t \<Longrightarrow> f t = Inl p \<Longrightarrow> go_loop f s = Some (Inl p)"
  by (auto dest: go_loop_turns simp: go_loop.simps [of f t])

lemma go_loop_Some:
  assumes "go_loop f s = Some r"
  shows "\<exists>n t. turns f n s = Some t \<and> (case r of Inl p \<Rightarrow> f t = Inl p | Inr u \<Rightarrow> f t = Inr (Return, u))"
proof (rule go_loop.raw_induct
    [where P = "\<lambda>f s r. \<exists>n t. turns f n s = Some t \<and>
       (case r of Inl p \<Rightarrow> f t = Inl p | Inr u \<Rightarrow> f t = Inr (Return, u))", OF _ assms])
  fix g f s r
  assume IH: "\<And>f s r. g f s = Some r \<Longrightarrow> \<exists>n t. turns f n s = Some t \<and>
      (case r of Inl p \<Rightarrow> f t = Inl p | Inr u \<Rightarrow> f t = Inr (Return, u))"
    and eq: "(case f s of Inl p \<Rightarrow> Some (Inl p)
      | Inr (ctl, t) \<Rightarrow> if ctl = Return then Some (Inr t) else g f t) = Some r"
  show "\<exists>n t. turns f n s = Some t \<and> (case r of Inl p \<Rightarrow> f t = Inl p | Inr u \<Rightarrow> f t = Inr (Return, u))"
  proof (cases "\<exists>t. f s = Inr (Again, t)")
    case True
    then obtain t where t: "f s = Inr (Again, t)" ..
    with eq have "g f t = Some r" by simp
    from IH [OF this] obtain n u where "turns f n t = Some u"
      "case r of Inl p \<Rightarrow> f u = Inl p | Inr v \<Rightarrow> f u = Inr (Return, v)" by blast
    with t show ?thesis by (intro exI [of _ "Suc n"] exI [of _ u]) simp
  next
    case False
    with eq show ?thesis
      by (intro exI [of _ 0] exI [of _ s])
         (auto split: sum.splits if_splits prod.splits; metis loop_ctl.exhaust)
  qed
qed

section \<open>Go maps\<close>

type_synonym ('k, 'v) gomap = "('k \<times> 'v) list"

text \<open>A Go map holds each key once.\<close>

abbreviation wf_map :: "('k, 'v) gomap \<Rightarrow> bool" where
  "wf_map m \<equiv> distinct (map fst m)"

lemma map_of_update [gomap_simps, simp]: "map_of (AList.update k v m) = (map_of m)(k \<mapsto> v)"
  by (simp add: update_conv')

lemma map_of_delete [gomap_simps, simp]: "map_of (AList.delete k m) = (map_of m)(k := None)"
  by (simp add: delete_conv')

lemma wf_map_update [intro, simp]: "wf_map m \<Longrightarrow> wf_map (AList.update k v m)"
  by (rule distinct_update)

lemma wf_map_delete [intro, simp]: "wf_map m \<Longrightarrow> wf_map (AList.delete k m)"
  by (rule distinct_delete)

lemma keys_update [gomap_simps]: "fst ` set (AList.update k v m) = insert k (fst ` set m)"
proof -
  have "dom (map_of (AList.update k v m)) = insert k (dom (map_of m))" by simp
  then show ?thesis by (simp only: dom_map_of_conv_image_fst)
qed

lemma keys_delete [gomap_simps]: "fst ` set (AList.delete k m) = fst ` set m - {k}"
proof -
  have "dom (map_of (AList.delete k m)) = dom (map_of m) - {k}" by simp
  then show ?thesis by (simp only: dom_map_of_conv_image_fst)
qed

lemma wf_map_set_iff: "wf_map m \<Longrightarrow> (k, v) \<in> set m \<longleftrightarrow> map_of m k = Some v"
  by (metis map_of_SomeD map_of_is_SomeI)

lemma update_fresh: "k \<notin> fst ` set m \<Longrightarrow> AList.update k v m = m @ [(k, v)]"
  by (induction m) auto

subsection \<open>Maps of slices\<close>

text \<open>\<open>m[k] = append(m[k], v)\<close>; a missing key reads as the nil slice.\<close>

definition map_append :: "'k \<Rightarrow> 'v \<Rightarrow> ('k, 'v list) gomap \<Rightarrow> ('k, 'v list) gomap" where
  "map_append k v m = AList.update k ((case map_of m k of None \<Rightarrow> [] | Some vs \<Rightarrow> vs) @ [v]) m"

definition append_all :: "('k \<times> 'v) list \<Rightarrow> ('k, 'v list) gomap \<Rightarrow> ('k, 'v list) gomap" where
  "append_all kvs m = fold (\<lambda>(k, v). map_append k v) kvs m"

text \<open>The values that a list of pairs holds for a key, in order.\<close>

definition values_for :: "'k \<Rightarrow> ('k \<times> 'v) list \<Rightarrow> 'v list" where
  "values_for k kvs = map snd (filter (\<lambda>(k', _). k' = k) kvs)"

lemma values_for_simps [simp]:
  "values_for k [] = []"
  "values_for k ((k', v) # kvs) = (if k' = k then [v] else []) @ values_for k kvs"
  "values_for k (xs @ ys) = values_for k xs @ values_for k ys"
  by (auto simp: values_for_def)

lemma values_for_empty_iff: "values_for k kvs = [] \<longleftrightarrow> k \<notin> fst ` set kvs"
  by (induction kvs) auto

lemma values_for_map: "values_for k (map (\<lambda>x. (f x, g x)) xs) = map g (filter (\<lambda>x. f x = k) xs)"
  by (induction xs) auto

lemma values_for_concat: "values_for k (concat xss) = concat (map (values_for k) xss)"
  by (induction xss) auto

lemma append_all_simps [simp]:
  "append_all [] m = m"
  "append_all ((k, v) # kvs) m = append_all kvs (map_append k v m)"
  "append_all (xs @ ys) m = append_all ys (append_all xs m)"
  by (auto simp: append_all_def)

lemma map_of_append_all:
  "map_of (append_all kvs m) k =
     (case map_of m k of
        None \<Rightarrow> if values_for k kvs = [] then None else Some (values_for k kvs)
      | Some vs \<Rightarrow> Some (vs @ values_for k kvs))"
proof (induction kvs arbitrary: m)
  case Nil
  then show ?case by (simp split: option.split)
next
  case (Cons kv kvs)
  then show ?case
    by (cases kv; cases "fst kv = k"; cases "map_of m k") (simp_all add: map_append_def)
qed

lemma map_of_append_all_empty:
  "map_of (append_all kvs []) k = (if values_for k kvs = [] then None else Some (values_for k kvs))"
  by (simp add: map_of_append_all)

lemma wf_map_append: "wf_map m \<Longrightarrow> wf_map (map_append k v m)"
  unfolding map_append_def by (rule wf_map_update)

lemma wf_append_all: "wf_map m \<Longrightarrow> wf_map (append_all kvs m)"
proof (induction kvs arbitrary: m)
  case (Cons kv kvs)
  then show ?case by (cases kv) (simp add: wf_map_append)
qed simp

lemma fold_append_all:
  assumes "\<And>x m. f x m = append_all (g x) m"
  shows "fold f xs m = append_all (concat (map g xs)) m"
  by (induction xs arbitrary: m) (simp_all add: assms)

subsection \<open>Loops over a map that touch one key per turn\<close>

lemma fold_per_key:
  assumes "wf_map m" "inj g"
    and f: "\<And>p v s k. map_of (f (p, v) s) k = (if k = g p then h p v (map_of s k) else map_of s k)"
  shows "map_of (fold f m s) (g p) =
     (case map_of m p of None \<Rightarrow> map_of s (g p) | Some v \<Rightarrow> h p v (map_of s (g p)))"
  using assms(1)
proof (induction m arbitrary: s)
  case Nil
  then show ?case by simp
next
  case (Cons qv m)
  obtain q v where qv: "qv = (q, v)" by fastforce
  from Cons.prems qv have m: "wf_map m" "q \<notin> fst ` set m" by auto
  from m have None: "map_of m q = None" by (simp add: map_of_eq_None_iff)
  show ?case
  proof (cases "q = p")
    case True
    with None show ?thesis by (simp add: qv Cons.IH [OF m(1)] f)
  next
    case False
    moreover from False have "g p \<noteq> g q" using injD [OF assms(2), of q p] by auto
    ultimately show ?thesis by (cases "map_of m p") (simp_all add: qv Cons.IH [OF m(1)] f)
  qed
qed

lemma fold_other_key:
  assumes "\<And>p v s k. map_of (f (p, v) s) k = (if k = g p then h p v (map_of s k) else map_of s k)"
    and "k \<notin> range g"
  shows "map_of (fold f m s) k = map_of s k"
proof (induction m arbitrary: s)
  case (Cons qv m)
  then show ?case using assms by (cases qv) auto
qed simp

section \<open>Lists and multisets\<close>

lemma mset_sort_unique:
  fixes xs ys :: "'a::linorder list"
  shows "sort xs = sort ys \<longleftrightarrow> mset xs = mset ys"
  by (metis mset_sort properties_for_sort sorted_sort)

lemma map_sort_key: "map f (sort_key f xs) = sort (map f xs)"
  by (rule properties_for_sort [symmetric]) simp_all

text \<open>Writing \<open>vs\<close> at the positions \<open>js\<close> of a list, in order.\<close>

lemma length_write_all [simp]: "length (fold (\<lambda>(i, j) xs. xs[j := f i]) ijs acc) = length acc"
  by (induction ijs arbitrary: acc) auto

lemma nth_write_all_other:
  "k \<notin> snd ` set ijs \<Longrightarrow> fold (\<lambda>(i, j) xs. xs[j := f i]) ijs acc ! k = acc ! k"
  by (induction ijs arbitrary: acc) auto

lemma nth_write_all:
  "distinct (map snd ijs) \<Longrightarrow> (i, j) \<in> set ijs \<Longrightarrow> j < length acc \<Longrightarrow>
     fold (\<lambda>(i, j) xs. xs[j := f i]) ijs acc ! j = f i"
proof (induction ijs arbitrary: acc)
  case Nil
  then show ?case by simp
next
  case (Cons ij ijs)
  show ?case
  proof (cases "ij = (i, j)")
    case True
    with Cons.prems have "j \<notin> snd ` set ijs" by auto
    with True Cons.prems show ?thesis by (simp add: nth_write_all_other)
  next
    case False
    with Cons show ?thesis by (auto simp: case_prod_beta)
  qed
qed

lemma map_via_index: "map f xs = map (\<lambda>i. f (xs ! i)) [0..<length xs]"
  by (rule nth_equalityI) simp_all

lemma mset_write_permutation:
  assumes p: "mset js = mset [0..<length s]"
  shows "mset (fold (\<lambda>(i, j) xs. xs[j := s ! i]) (zip [0..<length js] js) (replicate (length s) d)) = mset s"
    (is "mset ?r = _")
proof -
  have len: "length js = length s" using mset_eq_length [OF p] by simp
  have dist: "distinct js" using mset_eq_imp_distinct_iff [OF p] by simp
  have set: "set js = {0..<length s}" using mset_eq_setD [OF p] by simp
  have r: "?r ! (js ! i) = s ! i" if "i < length js" for i
  proof (rule nth_write_all)
    show "distinct (map snd (zip [0..<length js] js))" using dist by simp
    show "(i, js ! i) \<in> set (zip [0..<length js] js)" using that by (auto simp: in_set_zip intro!: exI [of _ i])
    show "js ! i < length (replicate (length s) d)" using nth_mem [OF that] set by simp
  qed
  have "mset ?r = mset (map ((!) ?r) [0..<length ?r])" by (simp only: map_nth)
  also have "\<dots> = image_mset ((!) ?r) (mset [0..<length s])"
    by (simp only: mset_map length_write_all length_replicate)
  also have "\<dots> = mset (map ((!) ?r) js)" by (simp only: p [symmetric] mset_map)
  also have "\<dots> = mset (map (\<lambda>i. ?r ! (js ! i)) [0..<length js])"
    by (subst map_via_index) (rule refl)
  also have "\<dots> = mset (map ((!) s) [0..<length js])"
    by (rule arg_cong [of _ _ mset], rule map_cong) (simp_all only: set_upt r atLeastLessThan_iff)
  also have "\<dots> = mset s" by (simp only: map_nth len)
  finally show ?thesis .
qed

lemma mset_rotate_eq: "mset (rotate n xs) = mset xs"
proof (induction n)
  case (Suc n)
  have "mset (rotate1 ys) = mset ys" for ys :: "'a list" by (cases ys) simp_all
  with Suc show ?case by simp
qed simp

lemma fold_invariant:
  assumes "I s" and "\<And>x s. x \<in> set xs \<Longrightarrow> I s \<Longrightarrow> I (f x s)"
  shows "I (fold f xs s)"
  using assms by (induction xs arbitrary: s) auto

end
