(* ===== verification/GoStd.thy ===== *)
theory GoStd
  imports Prelude
begin

text \<open>
  The parts of the Go standard library that the sources call, written out: \<open>strings\<close>
  (Contains, HasSuffix, Split, SplitN, TrimSpace, Join), \<open>strconv\<close> (Itoa, Atoi),
  \<open>net.JoinHostPort\<close>, \<open>net.SplitHostPort\<close>, and the methods of \<open>net.IP\<close>.
  An \<open>int\<close> of Go is 64 bits wide on the platforms the program runs on; \<open>int32\<close>
  fields are \<open>32 word\<close>s read by \<open>sint\<close>. A \<open>net.IP\<close> is its slice of bytes, with
  \<open>[]\<close> for the nil slice. Parsing an IP address is done by \<open>k8s.io/utils/net\<close>, which
  is not part of the repository: it is a parameter wherever it is used.
\<close>

unbundle bit_operations_syntax

type_synonym int32 = "32 word"
type_synonym byte = "8 word"
type_synonym IP = "byte list"

section \<open>Package strings\<close>

fun index_byte :: "char \<Rightarrow> string \<Rightarrow> nat option" where
  "index_byte c [] = None"
| "index_byte c (x # xs) = (if x = c then Some 0 else map_option Suc (index_byte c xs))"

definition last_index :: "char \<Rightarrow> string \<Rightarrow> nat option" where
  "last_index c s = map_option (\<lambda>i. length s - 1 - i) (index_byte c (rev s))"

fun has_prefix :: "string \<Rightarrow> string \<Rightarrow> bool" where
  "has_prefix s [] = True"
| "has_prefix [] (p # ps) = False"
| "has_prefix (x # xs) (p # ps) = (x = p \<and> has_prefix xs ps)"

definition HasSuffix :: "string \<Rightarrow> string \<Rightarrow> bool" where
  "HasSuffix s suf = has_prefix (rev s) (rev suf)"

fun Contains :: "string \<Rightarrow> string \<Rightarrow> bool" where
  "Contains [] sub = (sub = [])"
| "Contains (x # xs) sub = (has_prefix (x # xs) sub \<or> Contains xs sub)"

text \<open>\<open>strings.Split(s, sep)\<close> for a one-byte separator.\<close>

fun Split :: "char \<Rightarrow> string \<Rightarrow> string list" where
  "Split c [] = [[]]"
| "Split c (x # xs) =
     (if x = c then [] # Split c xs
      else (case Split c xs of [] \<Rightarrow> [[x]] | y # ys \<Rightarrow> (x # y) # ys))"

text \<open>\<open>strings.SplitN(s, sep, 2)\<close> for a one-byte separator: at most two pieces.\<close>

definition SplitN2 :: "char \<Rightarrow> string \<Rightarrow> string list" where
  "SplitN2 c s = (case index_byte c s of None \<Rightarrow> [s] | Some i \<Rightarrow> [take i s, drop (Suc i) s])"

text \<open>The ASCII white space that \<open>strings.TrimSpace\<close> removes at both ends.\<close>

definition is_space :: "char \<Rightarrow> bool" where
  "is_space c \<longleftrightarrow> c \<in> {CHR '' '', CHR 0x09, CHR 0x0A, CHR 0x0B, CHR 0x0C, CHR 0x0D}"

definition TrimSpace :: "string \<Rightarrow> string" where
  "TrimSpace s = rev (dropWhile is_space (rev (dropWhile is_space s)))"

fun Join :: "string list \<Rightarrow> string \<Rightarrow> string" where
  "Join [] sep = []"
| "Join [x] sep = x"
| "Join (x # y # ys) sep = x @ sep @ Join (y # ys) sep"

section \<open>Package strconv\<close>

definition digit :: "nat \<Rightarrow> char" where
  "digit d = char_of (48 + d)"

definition is_digit :: "char \<Rightarrow> bool" where
  "is_digit c \<longleftrightarrow> 48 \<le> (of_char c :: nat) \<and> (of_char c :: nat) \<le> 57"

fun decimal :: "nat \<Rightarrow> string" where
  "decimal n = (if n < 10 then [] else decimal (n div 10)) @ [digit (n mod 10)]"

declare decimal.simps [simp del]

definition Itoa :: "int \<Rightarrow> string" where
  "Itoa i = (if i < 0 then CHR ''-'' # decimal (nat (- i)) else decimal (nat i))"

definition digits_value :: "string \<Rightarrow> nat" where
  "digits_value s = foldl (\<lambda>a c. 10 * a + (of_char c - 48)) 0 s"

datatype strconv_error = ErrSyntax | ErrRange

text \<open>\<open>strconv.Atoi\<close>: an optional sign, then decimal digits, in the range of a 64-bit int.\<close>

definition Atoi :: "string \<Rightarrow> strconv_error + int" where
  "Atoi s =
     (let neg = (s \<noteq> [] \<and> hd s = CHR ''-'');
          body = (if s \<noteq> [] \<and> hd s \<in> {CHR ''-'', CHR ''+''} then tl s else s)
      in if body = [] \<or> \<not> list_all is_digit body then Inl ErrSyntax
         else let v = int (digits_value body); n = (if neg then - v else v)
              in if - (2 ^ 63) \<le> n \<and> n < 2 ^ 63 then Inr n else Inl ErrRange)"

lemma of_char_digit [simp]: "d < 10 \<Longrightarrow> (of_char (digit d) :: nat) = 48 + d"
  by (simp add: digit_def)

lemma is_digit_digit [simp]: "d < 10 \<Longrightarrow> is_digit (digit d)"
  by (simp add: is_digit_def)

lemma decimal_nonempty [simp]: "decimal n \<noteq> []"
  by (subst decimal.simps) simp

lemma decimal_digits: "list_all is_digit (decimal n)"
proof (induction n rule: decimal.induct)
  case (1 n)
  then show ?case by (subst decimal.simps) auto
qed

lemma digits_value_snoc: "digits_value (s @ [c]) = 10 * digits_value s + (of_char c - 48)"
  by (simp add: digits_value_def)

lemma digits_value_decimal [simp]: "digits_value (decimal n) = n"
proof (induction n rule: decimal.induct)
  case (1 n)
  show ?case
  proof (cases "n < 10")
    case True
    then show ?thesis by (subst decimal.simps) (simp add: digits_value_def)
  next
    case False
    then have "digits_value (decimal n) = 10 * (n div 10) + n mod 10"
      by (subst decimal.simps) (simp add: digits_value_snoc "1.IH")
    then show ?thesis by simp
  qed
qed

lemma digit_not_special: "is_digit c \<Longrightarrow> c \<notin> {CHR ''-'', CHR ''+'', CHR '':'', CHR ''['', CHR '']'', CHR ''.''}"
  by (auto simp: is_digit_def)

lemma decimal_no_special:
  "c \<in> {CHR ''-'', CHR ''+'', CHR '':'', CHR ''['', CHR '']'', CHR ''.''} \<Longrightarrow> c \<notin> set (decimal n)"
  using decimal_digits [of n] digit_not_special by (auto simp: list_all_iff)

lemma Itoa_no_special:
  "c \<in> {CHR '':'', CHR ''['', CHR '']'', CHR ''.''} \<Longrightarrow> c \<notin> set (Itoa i)"
  using decimal_no_special by (auto simp: Itoa_def)

lemma Itoa_nonempty [simp]: "Itoa i \<noteq> []"
  by (simp add: Itoa_def)

lemma Atoi_Itoa:
  assumes "- (2 ^ 63) \<le> i" "i < 2 ^ 63"
  shows "Atoi (Itoa i) = Inr i"
proof (cases "i < 0")
  case True
  with assms show ?thesis by (simp add: Itoa_def Atoi_def decimal_digits)
next
  case False
  have "hd (decimal (nat i)) \<notin> {CHR ''-'', CHR ''+''}"
    by (metis decimal_no_special decimal_nonempty insertCI insertE empty_iff list.set_sel(1))
  with False assms show ?thesis by (auto simp: Itoa_def Atoi_def decimal_digits Let_def)
qed

lemma Itoa_inj:
  assumes "Itoa i = Itoa j"
  shows "i = j"
proof -
  have *: "\<And>n m. decimal n \<noteq> CHR ''-'' # decimal m"
    by (metis decimal_no_special insertCI list.set_intros(1))
  show ?thesis
  proof (cases "i < 0"; cases "j < 0")
    assume "i < 0" "j < 0"
    with assms have "decimal (nat (- i)) = decimal (nat (- j))" by (simp add: Itoa_def)
    then have "nat (- i) = nat (- j)" by (metis digits_value_decimal)
    with \<open>i < 0\<close> \<open>j < 0\<close> show ?thesis by simp
  next
    assume "\<not> i < 0" "\<not> j < 0"
    with assms have "decimal (nat i) = decimal (nat j)" by (simp add: Itoa_def)
    then have "nat i = nat j" by (metis digits_value_decimal)
    with \<open>\<not> i < 0\<close> \<open>\<not> j < 0\<close> show ?thesis by simp
  qed (use assms * in \<open>auto simp: Itoa_def\<close>, metis *)
qed

section \<open>Host and port\<close>

datatype addr_error =
    MissingPort | TooManyColons | MissingBracket | UnexpectedOpen | UnexpectedClose

definition JoinHostPort :: "string \<Rightarrow> string \<Rightarrow> string" where
  "JoinHostPort host port =
     (if CHR '':'' \<in> set host then ''['' @ host @ '']:'' @ port else host @ '':'' @ port)"

text \<open>The checks that \<open>net.SplitHostPort\<close> makes at its end; \<open>i\<close> is the last colon.\<close>

definition split_finish :: "string \<Rightarrow> string \<Rightarrow> nat \<Rightarrow> nat \<Rightarrow> nat \<Rightarrow> addr_error + (string \<times> string)" where
  "split_finish s host j k i =
     (if CHR ''['' \<in> set (drop j s) then Inl UnexpectedOpen
      else if CHR '']'' \<in> set (drop k s) then Inl UnexpectedClose
      else Inr (host, drop (Suc i) s))"

definition SplitHostPort :: "string \<Rightarrow> addr_error + (string \<times> string)" where
  "SplitHostPort s =
     (case last_index CHR '':'' s of
        None \<Rightarrow> Inl MissingPort
      | Some i \<Rightarrow>
          if hd s = CHR ''['' then
            (case index_byte CHR '']'' s of
               None \<Rightarrow> Inl MissingBracket
             | Some e \<Rightarrow>
                 if Suc e = length s then Inl MissingPort
                 else if Suc e = i then split_finish s (take (e - 1) (tl s)) 1 (Suc e) i
                 else if s ! Suc e = CHR '':'' then Inl TooManyColons
                 else Inl MissingPort)
          else if CHR '':'' \<in> set (take i s) then Inl TooManyColons
          else split_finish s (take i s) 0 0 i)"

lemma index_byte_None [simp]: "index_byte c s = None \<longleftrightarrow> c \<notin> set s"
  by (induction s) auto

lemma index_byte_append: "c \<notin> set xs \<Longrightarrow> index_byte c (xs @ c # ys) = Some (length xs)"
  by (induction xs) auto

lemma index_byte_SomeD:
  "index_byte c s = Some i \<Longrightarrow> i < length s \<and> s ! i = c \<and> c \<notin> set (take i s)"
  by (induction s arbitrary: i) (auto split: if_splits)

lemma last_index_append: "c \<notin> set ys \<Longrightarrow> last_index c (xs @ c # ys) = Some (length xs)"
  by (simp add: last_index_def index_byte_append)

lemma last_index_None [simp]: "last_index c s = None \<longleftrightarrow> c \<notin> set s"
  by (simp add: last_index_def)

text \<open>Splitting what \<open>JoinHostPort\<close> joined gives the host and the port back.\<close>

lemma SplitHostPort_JoinHostPort:
  assumes "CHR ''['' \<notin> set host" "CHR '']'' \<notin> set host"
    and "set port \<inter> {CHR '':'', CHR ''['', CHR '']''} = {}"
  shows "SplitHostPort (JoinHostPort host port) = Inr (host, port)"
proof (cases "CHR '':'' \<in> set host")
  case True
  let ?s = "CHR ''['' # host @ CHR '']'' # CHR '':'' # port"
  have s: "JoinHostPort host port = ?s" using True by (simp add: JoinHostPort_def)
  have "last_index CHR '':'' ((CHR ''['' # host @ [CHR '']'']) @ CHR '':'' # port)
    = Some (length (CHR ''['' # host @ [CHR '']'']))"
    using assms by (intro last_index_append) auto
  then have l: "last_index CHR '':'' ?s = Some (length host + 2)" by simp
  have "index_byte CHR '']'' ((CHR ''['' # host) @ CHR '']'' # CHR '':'' # port)
    = Some (length (CHR ''['' # host))"
    using assms by (intro index_byte_append) auto
  then have i: "index_byte CHR '']'' ?s = Some (Suc (length host))" by simp
  show ?thesis unfolding s SplitHostPort_def l i
    using assms by (auto simp: split_finish_def)
next
  case False
  have s: "JoinHostPort host port = host @ CHR '':'' # port"
    using False by (simp add: JoinHostPort_def)
  have l: "last_index CHR '':'' (host @ CHR '':'' # port) = Some (length host)"
    using assms by (intro last_index_append) auto
  have h: "hd (host @ CHR '':'' # port) \<noteq> CHR ''[''"
    using assms by (cases host) auto
  show ?thesis unfolding s SplitHostPort_def l
    using assms False h by (auto simp: split_finish_def)
qed

lemma SplitHostPort_no_colon: "CHR '':'' \<notin> set s \<Longrightarrow> SplitHostPort s = Inl MissingPort"
proof -
  assume "CHR '':'' \<notin> set s"
  then have "last_index CHR '':'' s = None" by simp
  then show ?thesis by (simp only: SplitHostPort_def option.case)
qed

section \<open>Methods of net.IP\<close>

definition v4InV6Prefix :: IP where
  "v4InV6Prefix = [0, 0, 0, 0, 0, 0, 0, 0, 0, 0, 0xff, 0xff]"

definition To4 :: "IP \<Rightarrow> IP" where
  "To4 ip = (if length ip = 4 then ip
             else if length ip = 16 \<and> take 12 ip = v4InV6Prefix then drop 12 ip else [])"

definition To16 :: "IP \<Rightarrow> IP" where
  "To16 ip = (if length ip = 4 then v4InV6Prefix @ ip else if length ip = 16 then ip else [])"

definition IPv6loopback :: IP where
  "IPv6loopback = [0, 0, 0, 0, 0, 0, 0, 0, 0, 0, 0, 0, 0, 0, 0, 1]"

definition IP_Equal :: "IP \<Rightarrow> IP \<Rightarrow> bool" where
  "IP_Equal ip x =
     (if length ip = length x then ip = x
      else if length ip = 4 \<and> length x = 16 then take 12 x = v4InV6Prefix \<and> ip = drop 12 x
      else if length ip = 16 \<and> length x = 4 then take 12 ip = v4InV6Prefix \<and> drop 12 ip = x
      else False)"

definition IsLoopback :: "IP \<Rightarrow> bool" where
  "IsLoopback ip = (if To4 ip \<noteq> [] then To4 ip ! 0 = 127 else IP_Equal ip IPv6loopback)"

definition IsLinkLocalUnicast :: "IP \<Rightarrow> bool" where
  "IsLinkLocalUnicast ip =
     (if To4 ip \<noteq> [] then To4 ip ! 0 = 169 \<and> To4 ip ! 1 = 254
      else length ip = 16 \<and> ip ! 0 = 0xfe \<and> (ip ! 1) AND 0xc0 = 0x80)"

definition IsLinkLocalMulticast :: "IP \<Rightarrow> bool" where
  "IsLinkLocalMulticast ip =
     (if To4 ip \<noteq> [] then To4 ip ! 0 = 224 \<and> To4 ip ! 1 = 0 \<and> To4 ip ! 2 = 0
      else length ip = 16 \<and> ip ! 0 = 0xff \<and> (ip ! 1) AND 0x0f = 0x02)"

definition IsInterfaceLocalMulticast :: "IP \<Rightarrow> bool" where
  "IsInterfaceLocalMulticast ip \<longleftrightarrow>
     length ip = 16 \<and> ip ! 0 = 0xff \<and> (ip ! 1) AND 0x0f = 0x01"

text \<open>Hexadecimal digits: \<open>%02x\<close> of a byte, and \<open>appendHex\<close> (no leading zeros).\<close>

definition hex_digit :: "nat \<Rightarrow> char" where
  "hex_digit d = (if d < 10 then char_of (48 + d) else char_of (87 + d))"

definition hex2 :: "byte \<Rightarrow> string" where
  "hex2 b = [hex_digit (unat b div 16), hex_digit (unat b mod 16)]"

fun appendHex :: "nat \<Rightarrow> string" where
  "appendHex n = (if n < 16 then [] else appendHex (n div 16)) @ [hex_digit (n mod 16)]"

declare appendHex.simps [simp del]

text \<open>
  \<open>net.IP.String\<close>: dotted decimal for an IPv4 address (also in its 16-byte form), RFC 5952
  for an IPv6 one, \<open><nil>\<close> for the nil address. \<open>zero_run ws i\<close> is the end of the run of
  zero groups that starts at group \<open>i\<close>; \<open>longest_zero_run\<close> walks the groups as the
  library's loop does, and keeps the first longest run.
\<close>

fun groups :: "IP \<Rightarrow> nat list" where
  "groups (a # b # r) = (unat a * 256 + unat b) # groups r"
| "groups _ = []"

definition zero_run :: "nat list \<Rightarrow> nat \<Rightarrow> nat" where
  "zero_run ws i = i + length (takeWhile (\<lambda>w. w = 0) (drop i ws))"

fun longest_zero_run :: "nat list \<Rightarrow> nat list \<Rightarrow> nat \<times> nat \<Rightarrow> nat \<times> nat" where
  "longest_zero_run ws [] r = r"
| "longest_zero_run ws (i # is) (e0, e1) =
     (let j = zero_run ws i in
      longest_zero_run ws is (if i < j \<and> e1 - e0 < j - i then (i, j) else (e0, e1)))"

definition ipv6_string :: "IP \<Rightarrow> string" where
  "ipv6_string ip =
     (let ws = groups ip; (e0, e1) = longest_zero_run ws [0..<8] (0, 0) in
      if e1 - e0 \<le> 1 then Join (map appendHex ws) '':''
      else Join (map appendHex (take e0 ws)) '':'' @ ''::'' @ Join (map appendHex (drop e1 ws)) '':'')"

definition IP_String :: "IP \<Rightarrow> string" where
  "IP_String ip =
     (if ip = [] then ''<nil>''
      else if To4 ip \<noteq> [] then Join (map (\<lambda>b. Itoa (int (unat b))) (To4 ip)) ''.''
      else if length ip \<noteq> 16 then ''?'' @ concat (map hex2 ip)
      else ipv6_string ip)"

lemma To4_16: "length ip = 4 \<Longrightarrow> To4 (To16 ip) = ip"
  by (simp add: To4_def To16_def v4InV6Prefix_def)

lemma length_To4: "To4 ip \<noteq> [] \<Longrightarrow> length (To4 ip) = 4"
  by (auto simp: To4_def split: if_splits)

lemma IP_String_v4:
  "IP_String [a, b, c, d] =
     Itoa (int (unat a)) @ ''.'' @ Itoa (int (unat b)) @ ''.'' @ Itoa (int (unat c)) @ ''.'' @ Itoa (int (unat d))"
  by (simp add: IP_String_def To4_def)

lemma hex_digit_inj: "d < 16 \<Longrightarrow> e < 16 \<Longrightarrow> hex_digit d = hex_digit e \<Longrightarrow> d = e"
proof -
  assume d: "d < 16" and e: "e < 16" and h: "hex_digit d = hex_digit e"
  have "(of_char (hex_digit d) :: nat) = (if d < 10 then 48 + d else 87 + d)"
    and "(of_char (hex_digit e) :: nat) = (if e < 10 then 48 + e else 87 + e)"
    using d e by (auto simp: hex_digit_def)
  with h have "(if d < 10 then 48 + d else 87 + d) = (if e < 10 then 48 + e else 87 + e)" by metis
  with d e show "d = e" by (auto split: if_splits)
qed

lemma unat_byte_less: "unat (b :: byte) < 256"
proof -
  have "unat b < 2 ^ LENGTH(8)" by (rule unsigned_less)
  then show ?thesis by simp
qed

lemma hex2_inj: "hex2 a = hex2 b \<Longrightarrow> a = b"
proof -
  assume "hex2 a = hex2 b"
  then have "hex_digit (unat a div 16) = hex_digit (unat b div 16)"
    and "hex_digit (unat a mod 16) = hex_digit (unat b mod 16)"
    by (simp_all add: hex2_def)
  moreover have "unat a div 16 < 16" "unat b div 16 < 16"
    using unat_byte_less [of a] unat_byte_less [of b] by simp_all
  ultimately have "unat a div 16 = unat b div 16" "unat a mod 16 = unat b mod 16"
    using hex_digit_inj by auto
  then have "unat a = unat b" by (metis div_mult_mod_eq)
  then show "a = b" by (rule unsigned_word_eqI)
qed

lemma length_hex2 [simp]: "length (hex2 b) = 2"
  by (simp add: hex2_def)

end
