(* ===== verification/Localnet.thy ===== *)
theory Localnet
  imports GoStd
begin

text \<open>
  The objects that KPNG delivers to the sinks (\<open>localnetv1\<close> of \<open>sigs.k8s.io/kpng/api\<close>,
  generated protobuf code), with the fields the sources read, and the namespaced name of
  \<open>k8s.io/apimachinery\<close>. Message-typed fields of a protobuf message are pointers that may
  be nil, here \<open>option\<close>; the elements of a repeated field are never nil.
\<close>

datatype Protocol = Protocol_TCP | Protocol_UDP | Protocol_other nat

record PortMapping =
  pm_Name :: string
  pm_Protocol :: Protocol
  pm_Port :: int32
  pm_NodePort :: int32
  pm_TargetPort :: int32

record IPSet =
  ips_V4 :: "string list"
  ips_V6 :: "string list"

record ServiceIPs =
  sip_ClusterIPs :: "IPSet option"
  sip_ExternalIPs :: "IPSet option"

record Service =
  svc_Namespace :: string
  svc_Name :: string
  svc_Ports :: "PortMapping list"
  svc_IPs :: "ServiceIPs option"
  svc_Annotations :: "(string, string) gomap"

record Endpoint =
  end_IPs :: "IPSet option"

record NamespacedName =
  nn_Namespace :: string
  nn_Name :: string

text \<open>The generated getter \<open>GetIPs\<close> returns nil on a nil message.\<close>

definition GetIPs :: "Endpoint option \<Rightarrow> IPSet option" where
  "GetIPs endpoint = (case endpoint of None \<Rightarrow> None | Some e \<Rightarrow> end_IPs e)"

definition svc_key :: "Service \<Rightarrow> NamespacedName" where
  "svc_key service = \<lparr>nn_Namespace = svc_Namespace service, nn_Name = svc_Name service\<rparr>"

end
