(* ===== verification/LoadBalancer.thy ===== *)
theory LoadBalancer
  imports Localnet
begin

text \<open>
  The interface \<open>LoadBalancer\<close> of \<^verbatim>\<open>pkg/proxy/userspace/loadbalancer.go\<close>, as the part
  its clients in the proxy rely on. A provider has the operations \<open>next_ep\<close> (NextEndpoint),
  \<open>new_service\<close> and \<open>delete_service\<close>, an invariant, and a view: the endpoints of a service
  in the order in which they are handed out next (\<open>None\<close>: the service is unknown). The laws
  say that the view is a rotating queue. The errors are abstract: \<open>e_service\<close> and
  \<open>e_endpoints\<close> are the two that NextEndpoint returns.
\<close>

text \<open>\<open>n\<close> calls of NextEndpoint for one service; \<open>None\<close> when a call fails or panics.\<close>

fun next_calls ::
  "('k \<Rightarrow> 's \<Rightarrow> (('e + string) \<times> 's) go) \<Rightarrow> 'k \<Rightarrow> nat \<Rightarrow> 's \<Rightarrow> (string list \<times> 's) option" where
  "next_calls next_ep k 0 s = Some ([], s)"
| "next_calls next_ep k (Suc n) s =
     (case next_ep k s of
        Inr (Inr e, s') \<Rightarrow> map_option (\<lambda>(es, t). (e # es, t)) (next_calls next_ep k n s')
      | _ \<Rightarrow> None)"

locale load_balancer =
  fixes next_ep :: "'k \<Rightarrow> string \<Rightarrow> bool \<Rightarrow> 's \<Rightarrow> (('e + string) \<times> 's) go"
    and new_service :: "'k \<Rightarrow> 'a \<Rightarrow> int \<Rightarrow> 's \<Rightarrow> 's"
    and delete_service :: "'k \<Rightarrow> 's \<Rightarrow> 's"
    and view :: "'s \<Rightarrow> 'k \<Rightarrow> string list option"
    and inv :: "'s \<Rightarrow> bool"
    and e_service :: 'e
    and e_endpoints :: 'e
  assumes next_unknown: "view s k = None \<Longrightarrow> next_ep k addr reset s = Inr (Inl e_service, s)"
    and next_empty: "view s k = Some [] \<Longrightarrow> next_ep k addr reset s = Inr (Inl e_endpoints, s)"
    and next_some: "inv s \<Longrightarrow> view s k = Some (e # es) \<Longrightarrow>
          \<exists>s'. next_ep k addr reset s = Inr (Inr e, s') \<and> inv s' \<and> view s' = (view s)(k \<mapsto> es @ [e])"
    and new_view: "view (new_service k aff ttl s) =
          (case view s k of None \<Rightarrow> (view s)(k \<mapsto> []) | Some _ \<Rightarrow> view s)"
    and new_inv: "inv s \<Longrightarrow> inv (new_service k aff ttl s)"
    and delete_view: "view (delete_service k s) = (view s)(k := None)"
    and delete_inv: "inv s \<Longrightarrow> inv (delete_service k s)"
begin

text \<open>NextEndpoint never panics, and tells the three cases apart.\<close>

lemma next_total: "inv s \<Longrightarrow> \<exists>r s'. next_ep k addr reset s = Inr (r, s') \<and> inv s'"
  by (cases "view s k"; cases "the (view s k)")
     (use next_unknown next_empty next_some in \<open>fastforce+\<close>)

lemma next_result:
  assumes "inv s" "next_ep k addr reset s = Inr (r, s')"
  shows "case view s k of
           None \<Rightarrow> r = Inl e_service \<and> s' = s
         | Some [] \<Rightarrow> r = Inl e_endpoints \<and> s' = s
         | Some (e # es) \<Rightarrow> r = Inr e \<and> inv s' \<and> view s' = (view s)(k \<mapsto> es @ [e])"
proof (cases "view s k")
  case None
  with assms(2) next_unknown [OF None, of addr reset] show ?thesis by simp
next
  case (Some es)
  show ?thesis
  proof (cases es)
    case Nil
    with Some assms(2) next_empty [of s k addr reset] show ?thesis by simp
  next
    case (Cons e es')
    with Some assms next_some [of s k e es' addr reset] show ?thesis by auto
  qed
qed

text \<open>Only the service that is asked for rotates.\<close>

lemma next_frame:
  assumes "inv s" "next_ep k addr reset s = Inr (r, s')" "k' \<noteq> k"
  shows "view s' k' = view s k'"
  using next_result [OF assms(1,2)] assms(3) by (auto split: option.splits list.splits)

text \<open>\<open>n\<close> calls return the queue read in a circle, and leave it rotated by \<open>n\<close>.\<close>

lemma next_calls_rotate:
  assumes "inv s" "view s k = Some es" "es \<noteq> []"
  shows "\<exists>s'. next_calls (\<lambda>k. next_ep k addr reset) k n s = Some (map (\<lambda>j. es ! (j mod length es)) [0..<n], s') \<and>
              inv s' \<and> view s' = (view s)(k \<mapsto> rotate n es)"
  using assms
proof (induction n arbitrary: s es)
  case 0
  then show ?case by (auto simp: fun_upd_idem)
next
  case (Suc n)
  then obtain e r where es: "es = e # r" by (cases es) auto
  with Suc.prems obtain s1 where s1: "next_ep k addr reset s = Inr (Inr e, s1)" "inv s1"
    "view s1 = (view s)(k \<mapsto> r @ [e])" using next_some [of s k e r addr reset] by auto
  have "view s1 k = Some (r @ [e])" by (simp add: s1(3))
  from Suc.IH [OF s1(2) this] obtain s2 where
    s2: "next_calls (\<lambda>k. next_ep k addr reset) k n s1 = Some (map (\<lambda>j. (r @ [e]) ! (j mod length (r @ [e]))) [0..<n], s2)"
      "inv s2" "view s2 = (view s1)(k \<mapsto> rotate n (r @ [e]))" by blast
  have nth: "(r @ [e]) ! (j mod Suc (length r)) = (e # r) ! (Suc j mod Suc (length r))" for j
    using nth_rotate [of "j mod length es" es 1] by (simp add: es rotate1_hd_tl mod_Suc_eq)
  have "map (\<lambda>j. es ! (j mod length es)) [0..<Suc n] =
    es ! 0 # map (\<lambda>j. es ! (Suc j mod length es)) [0..<n]"
    by (subst upt_conv_Cons) (simp_all add: map_Suc_upt [symmetric] comp_def del: upt_Suc)
  moreover have "rotate n (r @ [e]) = rotate (Suc n) es"
    by (simp add: es rotate1_rotate_swap [symmetric] del: rotate_Suc) (simp add: rotate_Suc rotate1_rotate_swap)
  ultimately show ?case using s1 s2 es by (simp add: nth fun_eq_iff del: rotate_Suc)
qed

text \<open>One round: every endpoint once, in queue order, and the queue is back where it was.\<close>

lemma next_calls_round:
  assumes "inv s" "view s k = Some es" "es \<noteq> []"
  shows "\<exists>s'. next_calls (\<lambda>k. next_ep k addr reset) k (length es) s = Some (es, s') \<and> inv s' \<and> view s' = view s"
proof -
  have "map (\<lambda>j. es ! (j mod length es)) [0..<length es] = es"
    by (rule nth_equalityI) auto
  with next_calls_rotate [where n = "length es", OF assms] assms(2) show ?thesis
    by (auto simp: rotate_id fun_upd_idem)
qed

end

end
