(* ===== verification/EndpointUtil.thy ===== *)
theory EndpointUtil
  imports GoStd
begin

text \<open>
  \<^verbatim>\<open>pkg/proxy/util/endpoints.go\<close>: the IP part and the port part of an
  \<open>ip:port\<close> endpoint string, and the CIDR of a host address. \<open>parse_ip\<close> stands for
  \<open>netutils.ParseIPSloppy\<close> of \<open>k8s.io/utils/net\<close>; \<open>[]\<close> is its nil result.
\<close>

datatype port_error = BadHostPort addr_error | BadPort strconv_error

definition IPPart :: "(string \<Rightarrow> IP) \<Rightarrow> string \<Rightarrow> string" where
  "IPPart parse_ip s =
     (if parse_ip s \<noteq> [] then s
      else (case SplitHostPort s of
              Inl err \<Rightarrow> []
            | Inr (host, _) \<Rightarrow>
                (let ip = parse_ip host in if ip = [] then [] else IP_String ip)))"

text \<open>The pair is Go's \<open>(int, error)\<close>; \<open>None\<close> is the nil error.\<close>

definition PortPart :: "string \<Rightarrow> int \<times> port_error option" where
  "PortPart s =
     (case SplitHostPort s of
        Inl err \<Rightarrow> (-1, Some (BadHostPort err))
      | Inr (_, port) \<Rightarrow>
          (case Atoi port of
             Inl err \<Rightarrow> (-1, Some (BadPort err))
           | Inr portNumber \<Rightarrow> (portNumber, None)))"

definition ToCIDR :: "IP \<Rightarrow> string" where
  "ToCIDR ip = (let len = (if To4 ip = [] then 128 else 32) in IP_String ip @ ''/'' @ Itoa len)"

text \<open>
  What the code relies on from the address parser: it accepts no string with a bracket, and
  no string made of an accepted colon-free address, a colon and anything.
\<close>

definition host_parser :: "(string \<Rightarrow> IP) \<Rightarrow> bool" where
  "host_parser parse_ip \<longleftrightarrow>
     (\<forall>s. parse_ip s \<noteq> [] \<longrightarrow> CHR ''['' \<notin> set s \<and> CHR '']'' \<notin> set s) \<and>
     (\<forall>h p. parse_ip h \<noteq> [] \<longrightarrow> CHR '':'' \<notin> set h \<longrightarrow> parse_ip (h @ CHR '':'' # p) = [])"

lemma host_parser_no_bracket:
  "host_parser parse_ip \<Longrightarrow> parse_ip s \<noteq> [] \<Longrightarrow> CHR ''['' \<notin> set s \<and> CHR '']'' \<notin> set s"
  by (simp add: host_parser_def)

lemma host_parser_join:
  "host_parser parse_ip \<Longrightarrow> parse_ip host \<noteq> [] \<Longrightarrow> parse_ip (JoinHostPort host port) = []"
  unfolding host_parser_def JoinHostPort_def
  by (cases "CHR '':'' \<in> set host") (fastforce, simp)

lemma Itoa_port_chars: "set (Itoa i) \<inter> {CHR '':'', CHR ''['', CHR '']''} = {}"
  using Itoa_no_special by auto

lemma SplitHostPort_endpoint:
  "CHR ''['' \<notin> set host \<Longrightarrow> CHR '']'' \<notin> set host \<Longrightarrow>
     SplitHostPort (JoinHostPort host (Itoa port)) = Inr (host, Itoa port)"
  by (rule SplitHostPort_JoinHostPort) (auto simp: Itoa_port_chars)

lemma PortPart_endpoint:
  assumes "CHR ''['' \<notin> set host" "CHR '']'' \<notin> set host" "- (2 ^ 63) \<le> port" "port < 2 ^ 63"
  shows "PortPart (JoinHostPort host (Itoa port)) = (port, None)"
  using assms by (simp add: PortPart_def SplitHostPort_endpoint Atoi_Itoa)

lemma IPPart_endpoint:
  assumes "host_parser parse_ip" "parse_ip host \<noteq> []"
  shows "IPPart parse_ip (JoinHostPort host (Itoa port)) = IP_String (parse_ip host)"
  using assms host_parser_no_bracket [OF assms] host_parser_join [OF assms]
  by (simp add: IPPart_def SplitHostPort_endpoint)

text \<open>
  C40. Round trip: the port part of an endpoint string that \<open>newBaseEndpointInfo\<close> builds
  (\<open>net.JoinHostPort(ip, strconv.Itoa(port))\<close>) is the port it was built from, for an
  IPv4 or an IPv6 host and every port that fits in Go's int, and its IP part is the
  canonical form of the host, whatever parser \<open>netutils.ParseIPSloppy\<close> is.
\<close>

theorem endpoint_string_roundtrip:
  assumes "host_parser parse_ip" "parse_ip host \<noteq> []" "- (2 ^ 63) \<le> port" "port < 2 ^ 63"
  shows "PortPart (JoinHostPort host (Itoa port)) = (port, None) \<and>
         IPPart parse_ip (JoinHostPort host (Itoa port)) = IP_String (parse_ip host)"
  using assms host_parser_no_bracket [OF assms(1,2)]
  by (simp add: PortPart_endpoint IPPart_endpoint)

definition parse_two :: "string \<Rightarrow> IP" where
  "parse_two s = (if s = ''10.0.0.1'' then [10, 0, 0, 1]
                  else if s = ''fd00::5'' then [0xfd, 0, 0, 0, 0, 0, 0, 0, 0, 0, 0, 0, 0, 0, 0, 5]
                  else [])"

lemma host_parser_parse_two: "host_parser parse_two"
  by (auto simp: host_parser_def parse_two_def split: if_splits)

theorem endpoint_string_roundtrip_witness:
  "PortPart (JoinHostPort ''fd00::5'' (Itoa 8080)) = (8080, None) \<and>
   IPPart parse_two (JoinHostPort ''fd00::5'' (Itoa 8080)) = IP_String (parse_two ''fd00::5'')"
  by (rule endpoint_string_roundtrip [OF host_parser_parse_two]) (simp_all add: parse_two_def)

lemma PortPart_error: "PortPart s = (n, Some e) \<Longrightarrow> n = -1"
  by (auto simp: PortPart_def split: sum.splits prod.splits)

text \<open>A string without a colon has no port part: the code returns -1 and the error.\<close>

lemma PortPart_no_colon: "CHR '':'' \<notin> set s \<Longrightarrow> PortPart s = (-1, Some (BadHostPort MissingPort))"
  by (simp add: PortPart_def SplitHostPort_no_colon)

lemma IPPart_of_ip: "parse_ip s \<noteq> [] \<Longrightarrow> IPPart parse_ip s = s"
  by (simp add: IPPart_def)

end
