(* ===== verification/ProxyUtil.thy ===== *)
theory ProxyUtil
  imports EndpointUtil
begin

text \<open>
  \<^verbatim>\<open>pkg/proxy/util/utils.go\<close>: address checks, the IP family maps, the filtered
  dialer, the text buffer helpers and the port bookkeeping. Parameters stand for
  \<open>k8s.io/utils/net\<close> (\<open>parse_ip\<close>, \<open>parse_cidr\<close>, \<open>is_ipv6\<close>, \<open>is_ipv6_cidr\<close>), for the
  resolver and the wrapped dialer, for the list of interface addresses of the machine and
  for \<open>utilrand.Perm\<close>. Logging is left out.
\<close>

section \<open>Data\<close>

datatype IPFamily = IPv4Protocol | IPv6Protocol

datatype util_error = ErrAddressNotAllowed | ErrNoAddresses | OtherError string

record IPNet =
  net_IP :: IP
  net_Mask :: "byte list"

record EndpointPort_v1 =
  ep1_Name :: string
  ep1_Port :: int32

record EndpointSubset =
  ss_Addresses :: "string list"
  ss_Ports :: "EndpointPort_v1 list"

section \<open>Endpoints by port name\<close>

definition isValidEndpoint :: "string \<Rightarrow> int \<Rightarrow> bool" where
  "isValidEndpoint host port \<longleftrightarrow> host \<noteq> [] \<and> 0 < port"

definition add_subset_addr ::
  "EndpointPort_v1 \<Rightarrow> string \<Rightarrow> (string, string list) gomap \<Rightarrow> (string, string list) gomap" where
  "add_subset_addr port addr m =
     (if isValidEndpoint addr (sint (ep1_Port port))
      then map_append (ep1_Name port) (JoinHostPort addr (Itoa (sint (ep1_Port port)))) m
      else m)"

definition BuildPortsToEndpointsMap :: "EndpointSubset list \<Rightarrow> (string, string list) gomap" where
  "BuildPortsToEndpointsMap subsets =
     fold (\<lambda>ss m. fold (\<lambda>port m. fold (add_subset_addr port) (ss_Addresses ss) m) (ss_Ports ss) m)
       subsets []"

section \<open>Addresses\<close>

definition IPv4ZeroCIDR :: string where "IPv4ZeroCIDR = ''0.0.0.0/0''"
definition IPv6ZeroCIDR :: string where "IPv6ZeroCIDR = ''::/0''"

definition IsZeroCIDR :: "string \<Rightarrow> bool" where
  "IsZeroCIDR cidr = (if cidr = IPv4ZeroCIDR \<or> cidr = IPv6ZeroCIDR then True else False)"

text \<open>A nil error is \<open>None\<close>.\<close>

definition isProxyableIP :: "IP \<Rightarrow> util_error option" where
  "isProxyableIP ip =
     (if IsLoopback ip \<or> IsLinkLocalUnicast ip \<or> IsLinkLocalMulticast ip \<or> IsInterfaceLocalMulticast ip
      then Some ErrAddressNotAllowed else None)"

definition IsProxyableIP :: "(string \<Rightarrow> IP) \<Rightarrow> string \<Rightarrow> util_error option" where
  "IsProxyableIP parse_ip ip =
     (let netIP = parse_ip ip in
      if netIP = [] then Some ErrAddressNotAllowed else isProxyableIP netIP)"

text \<open>The first error in a list of addresses, in the order of the loop.\<close>

fun first_error :: "(IP \<Rightarrow> util_error option) \<Rightarrow> IP list \<Rightarrow> util_error option" where
  "first_error check [] = None"
| "first_error check (ip # ips) =
     (case check ip of Some e \<Rightarrow> Some e | None \<Rightarrow> first_error check ips)"

definition IsProxyableHostname ::
  "(string \<Rightarrow> util_error + IP list) \<Rightarrow> string \<Rightarrow> util_error option" where
  "IsProxyableHostname resolv hostname =
     (case resolv hostname of
        Inl err \<Rightarrow> Some err
      | Inr resp \<Rightarrow>
          if resp = [] then Some ErrNoAddresses else first_error isProxyableIP resp)"

text \<open>\<open>net.IPNet.Contains\<close>: \<open>networkNumberAndMask\<close> and the comparison under the mask.\<close>

definition networkNumberAndMask :: "IPNet \<Rightarrow> IP \<times> byte list" where
  "networkNumberAndMask n =
     (let ip = (if To4 (net_IP n) \<noteq> [] then To4 (net_IP n) else net_IP n); m = net_Mask n in
      if To4 (net_IP n) = [] \<and> length (net_IP n) \<noteq> 16 then ([], [])
      else if length m = 4 then (if length ip = 4 then (ip, m) else ([], []))
      else if length m = 16 then (ip, if length ip = 4 then drop 12 m else m)
      else ([], []))"

definition IPNet_Contains :: "IPNet \<Rightarrow> IP \<Rightarrow> bool" where
  "IPNet_Contains n ip0 =
     (let (nn, m) = networkNumberAndMask n; ip = (if To4 ip0 \<noteq> [] then To4 ip0 else ip0) in
      length ip = length nn \<and> map2 (AND) nn m = map2 (AND) ip m)"

fun IsAllowedHost :: "IP \<Rightarrow> IPNet list \<Rightarrow> util_error option" where
  "IsAllowedHost host [] = None"
| "IsAllowedHost host (ipNet # denied) =
     (if IPNet_Contains ipNet host then Some ErrAddressNotAllowed else IsAllowedHost host denied)"

fun parse_addrs ::
  "(string \<Rightarrow> util_error + (IP \<times> IPNet)) \<Rightarrow> string list \<Rightarrow> IP list \<Rightarrow> util_error + IP list" where
  "parse_addrs parse_cidr [] localAddrs = Inr localAddrs"
| "parse_addrs parse_cidr (addr # addrs) localAddrs =
     (case parse_cidr addr of
        Inl err \<Rightarrow> Inl err
      | Inr (ip, _) \<Rightarrow> parse_addrs parse_cidr addrs (localAddrs @ [ip]))"

definition GetLocalAddrs ::
  "(string \<Rightarrow> util_error + (IP \<times> IPNet)) \<Rightarrow> util_error + string list \<Rightarrow> util_error + IP list" where
  "GetLocalAddrs parse_cidr interfaceAddrs =
     (case interfaceAddrs of
        Inl err \<Rightarrow> Inl err
      | Inr addrs \<Rightarrow> parse_addrs parse_cidr addrs [])"

text \<open>The addresses that are inserted in the local IP set: none when they could not be read.\<close>

definition GetLocalAddrSet ::
  "(string \<Rightarrow> util_error + (IP \<times> IPNet)) \<Rightarrow> util_error + string list \<Rightarrow> IP set" where
  "GetLocalAddrSet parse_cidr interfaceAddrs =
     (case GetLocalAddrs parse_cidr interfaceAddrs of Inl err \<Rightarrow> {} | Inr ips \<Rightarrow> set ips)"

section \<open>IP families\<close>

definition getIPFamilyFromIP ::
  "(string \<Rightarrow> IP) \<Rightarrow> (IP \<Rightarrow> bool) \<Rightarrow> string \<Rightarrow> util_error + IPFamily" where
  "getIPFamilyFromIP parse_ip is_ipv6 ipStr =
     (let netIP = parse_ip ipStr in
      if netIP = [] then Inl ErrAddressNotAllowed
      else if is_ipv6 netIP then Inr IPv6Protocol else Inr IPv4Protocol)"

definition getIPFamilyFromCIDR ::
  "(string \<Rightarrow> util_error + (IP \<times> IPNet)) \<Rightarrow> (IPNet \<Rightarrow> bool) \<Rightarrow> string \<Rightarrow> util_error + IPFamily" where
  "getIPFamilyFromCIDR parse_cidr is_ipv6_cidr cidrStr =
     (case parse_cidr cidrStr of
        Inl err \<Rightarrow> Inl ErrAddressNotAllowed
      | Inr (_, netCIDR) \<Rightarrow> if is_ipv6_cidr netCIDR then Inr IPv6Protocol else Inr IPv4Protocol)"

text \<open>Both loops over strings have this body: append to the family's list, or skip.\<close>

definition add_by_family ::
  "(string \<Rightarrow> util_error + IPFamily) \<Rightarrow> string \<Rightarrow> (IPFamily, string list) gomap
     \<Rightarrow> (IPFamily, string list) gomap" where
  "add_by_family family s m = (case family s of Inl err \<Rightarrow> m | Inr f \<Rightarrow> map_append f s m)"

definition MapIPsByIPFamily ::
  "(string \<Rightarrow> IP) \<Rightarrow> (IP \<Rightarrow> bool) \<Rightarrow> string list \<Rightarrow> (IPFamily, string list) gomap" where
  "MapIPsByIPFamily parse_ip is_ipv6 ipStrings =
     fold (add_by_family (getIPFamilyFromIP parse_ip is_ipv6)) ipStrings []"

definition MapCIDRsByIPFamily ::
  "(string \<Rightarrow> util_error + (IP \<times> IPNet)) \<Rightarrow> (IPNet \<Rightarrow> bool) \<Rightarrow> string list
     \<Rightarrow> (IPFamily, string list) gomap" where
  "MapCIDRsByIPFamily parse_cidr is_ipv6_cidr cidrStrings =
     fold (add_by_family (getIPFamilyFromCIDR parse_cidr is_ipv6_cidr)) cidrStrings []"

definition OtherIPFamily :: "IPFamily \<Rightarrow> IPFamily" where
  "OtherIPFamily ipFamily = (if ipFamily = IPv6Protocol then IPv4Protocol else IPv6Protocol)"

definition AppendPortIfNeeded :: "(string \<Rightarrow> IP) \<Rightarrow> string \<Rightarrow> int32 \<Rightarrow> string" where
  "AppendPortIfNeeded parse_ip addr port =
     (case SplitHostPort addr of
        Inr _ \<Rightarrow> addr
      | Inl _ \<Rightarrow>
          (let ip = parse_ip addr in
           if ip = [] then addr
           else if To4 ip \<noteq> [] then addr @ '':'' @ Itoa (sint port)
           else ''['' @ addr @ '']:'' @ Itoa (sint port)))"

section \<open>Events\<close>

text \<open>
  \<open>LogAndEmitIncorrectIPVersionEvent\<close>: the event it emits when it has a recorder. The
  message is passed as the format of the event's note. \<open>recorder\<close> is \<open>Eventf\<close> of client-go,
  which acts on the world \<open>'w\<close>; logging is left out.
\<close>

record ip_version_event =
  ive_Kind :: string
  ive_Name :: string
  ive_Namespace :: string
  ive_UID :: string
  ive_type :: string
  ive_reason :: string
  ive_action :: string
  ive_note :: string

definition LogAndEmitIncorrectIPVersionEvent ::
  "(ip_version_event \<Rightarrow> 'w \<Rightarrow> 'w) option \<Rightarrow> string \<Rightarrow> string \<Rightarrow> string \<Rightarrow> string \<Rightarrow> string \<Rightarrow> 'w \<Rightarrow> 'w" where
  "LogAndEmitIncorrectIPVersionEvent recorder fieldName fieldValue svcNamespace svcName svcUID w =
     (let errMsg = fieldValue @ '' in '' @ fieldName @ '' has incorrect IP version''
      in case recorder of
           None \<Rightarrow> w
         | Some eventf \<Rightarrow>
             eventf \<lparr>ive_Kind = ''Service'', ive_Name = svcName, ive_Namespace = svcNamespace, ive_UID = svcUID,
                     ive_type = ''Warning'', ive_reason = ''KubeProxyIncorrectIPVersion'',
                     ive_action = ''GatherEndpoints'', ive_note = errMsg\<rparr> w)"

section \<open>Shuffling\<close>

text \<open>
  \<open>perm n\<close> is \<open>utilrand.Perm(n)\<close>. The loop writes \<open>s[i]\<close> at \<open>shuffled[perm[i]]\<close>, for the
  \<open>i\<close> from 0 on; a fresh slice holds empty strings. A nil slice and an empty one are both
  \<open>[]\<close>, and both give \<open>[]\<close>.
\<close>

definition ShuffleStrings :: "(nat \<Rightarrow> nat list) \<Rightarrow> string list \<Rightarrow> string list" where
  "ShuffleStrings perm s =
     fold (\<lambda>(i, j) shuffled. shuffled[j := s ! i])
       (zip [0..<length (perm (length s))] (perm (length s)))
       (replicate (length s) [])"

text \<open>What \<open>utilrand.Perm\<close> documents: a permutation of \<open>0..n-1\<close>.\<close>

definition perm_ok :: "(nat \<Rightarrow> nat list) \<Rightarrow> bool" where
  "perm_ok perm \<longleftrightarrow> (\<forall>n. mset (perm n) = mset [0..<n])"

section \<open>The filtered dialer\<close>

record FilteredDialOptions =
  DialHostCIDRDenylist :: "IPNet list"
  AllowLocalLoopback :: bool

text \<open>
  One address of the answer: the loopback check unless it is switched off, then the
  denylist. A nil and an empty denylist behave alike.
\<close>

definition check_host :: "FilteredDialOptions \<Rightarrow> IP \<Rightarrow> util_error option" where
  "check_host opts ip =
     (case (if \<not> AllowLocalLoopback opts then isProxyableIP ip else None) of
        Some err \<Rightarrow> Some err
      | None \<Rightarrow>
          if DialHostCIDRDenylist opts \<noteq> [] then IsAllowedHost ip (DialHostCIDRDenylist opts) else None)"

text \<open>
  \<open>wrapped\<close> and \<open>resolv\<close> are optional (nil in Go); \<open>default_dial\<close> and \<open>default_resolv\<close> are
  the library's. The result is the dial function: an error, or what the wrapped dialer
  returned when it was called.
\<close>

definition NewFilteredDialContext ::
  "(string \<Rightarrow> string \<Rightarrow> 'c) \<Rightarrow> (string \<Rightarrow> util_error + IP list) \<Rightarrow>
   (string \<Rightarrow> string \<Rightarrow> 'c) option \<Rightarrow> (string \<Rightarrow> util_error + IP list) option \<Rightarrow>
   FilteredDialOptions option \<Rightarrow> string \<Rightarrow> string \<Rightarrow> util_error + 'c" where
  "NewFilteredDialContext default_dial default_resolv wrapped0 resolv0 opts network address =
     (let wrapped = (case wrapped0 of None \<Rightarrow> default_dial | Some w \<Rightarrow> w) in
      case opts of
        None \<Rightarrow> Inr (wrapped network address)
      | Some opts \<Rightarrow>
          (let resolv = (case resolv0 of None \<Rightarrow> default_resolv | Some r \<Rightarrow> r) in
           if DialHostCIDRDenylist opts = [] \<and> AllowLocalLoopback opts
           then Inr (wrapped network address)
           else
             (let addressToResolve =
                    (case SplitHostPort address of Inl _ \<Rightarrow> address | Inr (host, _) \<Rightarrow> host) in
              case resolv addressToResolve of
                Inl err \<Rightarrow> Inl err
              | Inr resp \<Rightarrow>
                  if resp = [] then Inl ErrNoAddresses
                  else (case first_error (check_host opts) resp of
                          Some err \<Rightarrow> Inl err
                        | None \<Rightarrow> Inr (wrapped network address)))))"

section \<open>Buffers and ports\<close>

text \<open>The loop writes each word, then a space, or a newline after the last one.\<close>

fun WriteLine :: "string \<Rightarrow> string list \<Rightarrow> string" where
  "WriteLine buf [] = buf"
| "WriteLine buf [w] = buf @ w @ [CHR 0x0A]"
| "WriteLine buf (w # v # vs) = WriteLine (buf @ w @ '' '') (v # vs)"

definition WriteRuleLine :: "string \<Rightarrow> string \<Rightarrow> string list \<Rightarrow> string" where
  "WriteRuleLine buf chainName words =
     (if words = [] then buf else WriteLine (buf @ ''-A '' @ chainName @ '' '') words)"

definition WriteBytesLine :: "string \<Rightarrow> string \<Rightarrow> string" where
  "WriteBytesLine buf bytes = buf @ bytes @ [CHR 0x0A]"

definition CountBytesLines :: "string \<Rightarrow> nat" where
  "CountBytesLines b = count_list b CHR 0x0A"

text \<open>The closeables that \<open>RevertPorts\<close> closes, in the order of the range; a nil is \<open>None\<close>.\<close>

fun RevertPorts :: "('p, 'c) gomap \<Rightarrow> ('p, 'c option) gomap \<Rightarrow> 'c list" where
  "RevertPorts [] originalPortsMap = []"
| "RevertPorts ((k, v) # replacement) originalPortsMap =
     (case map_of originalPortsMap k of
        Some (Some _) \<Rightarrow> RevertPorts replacement originalPortsMap
      | _ \<Rightarrow> v # RevertPorts replacement originalPortsMap)"

section \<open>The cluster IP of a service\<close>

text \<open>
  The body of \<open>GetClusterIPByFamily\<close> is commented out in the source, but for its last
  line: it returns the empty string for every family and every service.
\<close>

definition GetClusterIPByFamily :: "IPFamily \<Rightarrow> 'svc \<Rightarrow> string" where
  "GetClusterIPByFamily ipFamily service = []"

section \<open>Endpoint maps by port name\<close>

definition subset_pairs :: "EndpointSubset \<Rightarrow> (string \<times> string) list" where
  "subset_pairs ss =
     concat (map (\<lambda>port. map (\<lambda>addr. (ep1_Name port, JoinHostPort addr (Itoa (sint (ep1_Port port)))))
       (filter (\<lambda>addr. isValidEndpoint addr (sint (ep1_Port port))) (ss_Addresses ss))) (ss_Ports ss))"

lemma add_subset_addr_all:
  "fold (add_subset_addr port) addrs m = append_all
     (map (\<lambda>addr. (ep1_Name port, JoinHostPort addr (Itoa (sint (ep1_Port port)))))
       (filter (\<lambda>addr. isValidEndpoint addr (sint (ep1_Port port))) addrs)) m"
  by (induction addrs arbitrary: m) (simp_all add: add_subset_addr_def)

lemma BuildPortsToEndpointsMap_append_all:
  "BuildPortsToEndpointsMap subsets = append_all (concat (map subset_pairs subsets)) []"
  unfolding BuildPortsToEndpointsMap_def subset_pairs_def
  by (intro fold_append_all add_subset_addr_all)

text \<open>
  \<open>BuildPortsToEndpointsMap\<close> groups exactly the valid \<open>ip:port\<close> pairs (host non-empty,
  port positive) of all subsets by port name, in order, and a port name without a valid pair
  has no entry.
\<close>

lemma BuildPortsToEndpointsMap_groups:
  "map_of (BuildPortsToEndpointsMap subsets) name =
     (let vs = [JoinHostPort addr (Itoa (sint (ep1_Port port))).
                  ss \<leftarrow> subsets, port \<leftarrow> ss_Ports ss, addr \<leftarrow> ss_Addresses ss,
                  addr \<noteq> [], 0 < sint (ep1_Port port), ep1_Name port = name]
      in if vs = [] then None else Some vs)"
proof -
  have inner: "values_for name (map (\<lambda>addr. (n, f addr)) (filter (\<lambda>addr. isValidEndpoint addr i) addrs))
    = concat (map (\<lambda>addr. if addr \<noteq> [] then if 0 < i then if n = name then [f addr] else [] else [] else []) addrs)"
    for n i addrs and f :: "string \<Rightarrow> string"
    by (induction addrs) (auto simp: isValidEndpoint_def)
  have "values_for name (concat (map subset_pairs subsets)) =
    [JoinHostPort addr (Itoa (sint (ep1_Port port))).
       ss \<leftarrow> subsets, port \<leftarrow> ss_Ports ss, addr \<leftarrow> ss_Addresses ss,
       addr \<noteq> [], 0 < sint (ep1_Port port), ep1_Name port = name]"
    by (simp only: subset_pairs_def values_for_concat map_map comp_def inner)
  then show ?thesis
    by (simp only: BuildPortsToEndpointsMap_append_all map_of_append_all_empty Let_def)
qed

section \<open>IP families\<close>

definition family_pairs :: "(string \<Rightarrow> util_error + IPFamily) \<Rightarrow> string list \<Rightarrow> (IPFamily \<times> string) list" where
  "family_pairs family ss = concat (map (\<lambda>s. case family s of Inl _ \<Rightarrow> [] | Inr f \<Rightarrow> [(f, s)]) ss)"

lemma add_by_family_all: "fold (add_by_family family) ss m = append_all (family_pairs family ss) m"
  unfolding family_pairs_def
  by (rule fold_append_all) (simp add: add_by_family_def split: sum.split)

lemma values_for_family_pairs:
  "values_for f (family_pairs family ss) = filter (\<lambda>s. family s = Inr f) ss"
  by (induction ss) (auto simp: family_pairs_def split: sum.splits)

lemma map_by_family:
  "map_of (fold (add_by_family family) ss []) f =
     (let vs = filter (\<lambda>s. family s = Inr f) ss in if vs = [] then None else Some vs)"
  by (simp add: add_by_family_all map_of_append_all_empty values_for_family_pairs)

text \<open>
  \<open>MapIPsByIPFamily\<close> partitions the parseable strings: the entry of a family is the
  sublist, in order, of the strings that parse to an address of that family; strings that do
  not parse are in no entry; and a family without an address has no entry at all.
\<close>

lemma MapIPsByIPFamily_partition:
  "map_of (MapIPsByIPFamily parse_ip is_ipv6 ss) f =
     (let vs = filter (\<lambda>s. parse_ip s \<noteq> [] \<and> (is_ipv6 (parse_ip s) \<longleftrightarrow> f = IPv6Protocol)) ss
      in if vs = [] then None else Some vs)"
proof -
  have "getIPFamilyFromIP parse_ip is_ipv6 s = Inr f \<longleftrightarrow>
      parse_ip s \<noteq> [] \<and> (is_ipv6 (parse_ip s) \<longleftrightarrow> f = IPv6Protocol)" for s
    by (cases f) (auto simp: getIPFamilyFromIP_def Let_def split: if_splits)
  then show ?thesis by (simp add: MapIPsByIPFamily_def map_by_family)
qed

lemma OtherIPFamily_involutive: "OtherIPFamily (OtherIPFamily f) = f" "OtherIPFamily f \<noteq> f"
  by (cases f; simp add: OtherIPFamily_def)+

section \<open>Shuffling\<close>

text \<open>
  \<open>ShuffleStrings\<close> returns a permutation of its argument for every permutation that
  the random source draws: no endpoint is lost, duplicated or invented.
\<close>

lemma ShuffleStrings_permutation:
  assumes "perm_ok perm"
  shows "mset (ShuffleStrings perm s) = mset s"
  using assms unfolding ShuffleStrings_def
  by (intro mset_write_permutation) (simp add: perm_ok_def)

lemma perm_ok_rev: "perm_ok (\<lambda>n. rev [0..<n])"
  by (simp add: perm_ok_def)

theorem ShuffleStrings_permutation_witness:
  "ShuffleStrings (\<lambda>n. rev [0..<n]) [''a'', ''b'', ''c''] = [''c'', ''b'', ''a''] \<and>
   mset (ShuffleStrings (\<lambda>n. rev [0..<n]) [''a'', ''b'', ''c'']) = mset [''a'', ''b'', ''c'']"
  using ShuffleStrings_permutation [OF perm_ok_rev, of "[''a'', ''b'', ''c'']"] by code_simp

section \<open>The filtered dialer\<close>

lemma first_error_None: "first_error check ips = None \<longleftrightarrow> (\<forall>ip \<in> set ips. check ip = None)"
  by (induction ips) (auto split: option.splits)

lemma IsAllowedHost_None: "IsAllowedHost ip denied = None \<longleftrightarrow> (\<forall>n \<in> set denied. \<not> IPNet_Contains n ip)"
  by (induction denied) auto

lemma check_host_None:
  "check_host opts ip = None \<longleftrightarrow>
     (AllowLocalLoopback opts \<or> isProxyableIP ip = None) \<and>
     (\<forall>n \<in> set (DialHostCIDRDenylist opts). \<not> IPNet_Contains n ip)"
  by (auto simp: check_host_def IsAllowedHost_None split: option.splits if_splits)

text \<open>
  C39. Safety of the filtered dialer: when filtering is asked for, the wrapped dialer is
  called (with the caller's own network and address) exactly if the host part of the address
  resolves to a non-empty list in which every address passes the loopback/link-local check
  (unless loopback is allowed) and lies in no denied network.
\<close>

theorem NewFilteredDialContext_safe:
  assumes "DialHostCIDRDenylist opts \<noteq> [] \<or> \<not> AllowLocalLoopback opts"
  shows "NewFilteredDialContext dd dr (Some dial) (Some resolv) (Some opts) network address = Inr c \<longleftrightarrow>
     c = dial network address \<and>
     (\<exists>ips. resolv (case SplitHostPort address of Inl _ \<Rightarrow> address | Inr (host, _) \<Rightarrow> host) = Inr ips \<and>
        ips \<noteq> [] \<and>
        (\<forall>ip \<in> set ips. (AllowLocalLoopback opts \<or> isProxyableIP ip = None) \<and>
           (\<forall>n \<in> set (DialHostCIDRDenylist opts). \<not> IPNet_Contains n ip)))"
  using assms
  by (auto simp: NewFilteredDialContext_def Let_def first_error_None check_host_None
      split: sum.split option.split; metis check_host_None first_error_None not_None_eq)

definition demo_opts :: FilteredDialOptions where
  "demo_opts = \<lparr>DialHostCIDRDenylist = [\<lparr>net_IP = [10, 0, 0, 0], net_Mask = [255, 0, 0, 0]\<rparr>],
                AllowLocalLoopback = False\<rparr>"

theorem NewFilteredDialContext_safe_witness:
  "NewFilteredDialContext (\<lambda>_ _. False) (\<lambda>_. Inl ErrNoAddresses) (Some (\<lambda>n a. a = ''h:80''))
     (Some (\<lambda>h. if h = ''h'' then Inr [[192, 168, 0, 7]] else Inl ErrNoAddresses)) (Some demo_opts)
     ''tcp'' ''h:80'' = Inr True"
proof -
  have "DialHostCIDRDenylist demo_opts \<noteq> [] \<or> \<not> AllowLocalLoopback demo_opts"
    by (simp add: demo_opts_def)
  moreover have "SplitHostPort ''h:80'' = Inr (''h'', ''80'')" by code_simp
  moreover have "isProxyableIP [192, 168, 0, 7] = None" by code_simp
  moreover have "\<not> IPNet_Contains \<lparr>net_IP = [10, 0, 0, 0], net_Mask = [255, 0, 0, 0]\<rparr> [192, 168, 0, 7]"
    by code_simp
  ultimately show ?thesis
    by (subst NewFilteredDialContext_safe) (auto simp: demo_opts_def)
qed

section \<open>Appending a port\<close>

text \<open>
  \<open>AppendPortIfNeeded\<close>: an address that splits is returned as it is, a string that is
  neither split nor parsed too, and an address without a port gets one that
  \<open>SplitHostPort\<close> finds again, provided an address whose text holds a colon is an IPv6
  address (an IPv4-mapped address written with colons is the exception, next lemma).
\<close>

lemma AppendPortIfNeeded_splits:
  assumes "host_parser parse_ip"
    and "CHR '':'' \<in> set addr \<longleftrightarrow> To4 (parse_ip addr) = []"
    and "parse_ip addr \<noteq> []" and "SplitHostPort addr = Inl e"
  shows "SplitHostPort (AppendPortIfNeeded parse_ip addr port) = Inr (addr, Itoa (sint port))"
proof -
  have "AppendPortIfNeeded parse_ip addr port = JoinHostPort addr (Itoa (sint port))"
    using assms(2-4) by (auto simp: AppendPortIfNeeded_def JoinHostPort_def)
  moreover have "CHR ''['' \<notin> set addr" "CHR '']'' \<notin> set addr"
    using host_parser_no_bracket [OF assms(1,3)] by auto
  ultimately show ?thesis by (simp add: SplitHostPort_endpoint)
qed

theorem AppendPortIfNeeded_splits_witness:
  "SplitHostPort (AppendPortIfNeeded parse_two ''fd00::5'' 443) = Inr (''fd00::5'', Itoa (sint (443 :: int32)))"
proof (rule AppendPortIfNeeded_splits [OF host_parser_parse_two])
  show "SplitHostPort ''fd00::5'' = Inl TooManyColons" by code_simp
qed (simp_all add: parse_two_def To4_def v4InV6Prefix_def)

lemma count_Join: "(\<forall>w \<in> set ws. c \<notin> set w) \<Longrightarrow> c \<notin> set sep \<Longrightarrow> count_list (Join ws sep) c = 0"
  by (induction ws sep rule: Join.induct) (auto simp: count_list_0_iff)

text \<open>An IPv4-mapped IPv6 literal has a 4-byte form, so it gets no brackets.\<close>

lemma AppendPortIfNeeded_mapped:
  assumes "parse_ip ''::ffff:10.0.0.1'' = To16 [10, 0, 0, 1]"
  shows "AppendPortIfNeeded parse_ip ''::ffff:10.0.0.1'' 80 = ''::ffff:10.0.0.1:80'' \<and>
         SplitHostPort (AppendPortIfNeeded parse_ip ''::ffff:10.0.0.1'' 80) = Inl TooManyColons"
proof -
  have "SplitHostPort ''::ffff:10.0.0.1'' = Inl TooManyColons" by code_simp
  moreover have "To16 [10, 0, 0, 1] \<noteq> []" "To4 (To16 [10, 0, 0, 1]) \<noteq> []" by code_simp+
  moreover have "Itoa (sint (80 :: int32)) = ''80''" by code_simp
  ultimately have "AppendPortIfNeeded parse_ip ''::ffff:10.0.0.1'' 80 = ''::ffff:10.0.0.1:80''"
    using assms by (simp add: AppendPortIfNeeded_def)
  moreover have "SplitHostPort ''::ffff:10.0.0.1:80'' = Inl TooManyColons" by code_simp
  ultimately show ?thesis by simp
qed

section \<open>Buffers\<close>

lemma WriteLine_Join:
  "WriteLine buf words = buf @ (if words = [] then [] else Join words '' '' @ [CHR 0x0A])"
  by (induction buf words rule: WriteLine.induct) auto

text \<open>
  A rule line: \<open>WriteRuleLine\<close> leaves the buffer alone without words, and otherwise adds
  exactly one line, \<open>-A chain w1 ... wn\<close> with single spaces, so \<open>CountBytesLines\<close> grows by
  one when neither the chain name nor a word holds a newline.
\<close>

lemma WriteRuleLine_line:
  assumes "words \<noteq> []" "\<forall>w \<in> set (chainName # words). CHR 0x0A \<notin> set w"
  shows "WriteRuleLine buf chainName words = buf @ Join (''-A'' # chainName # words) '' '' @ [CHR 0x0A] \<and>
         CountBytesLines (WriteRuleLine buf chainName words) = Suc (CountBytesLines buf)"
  using assms
  by (cases words) (auto simp: WriteRuleLine_def WriteLine_Join CountBytesLines_def count_Join count_list_0_iff)

section \<open>Reverting ports\<close>

text \<open>
  \<open>RevertPorts\<close> closes exactly the listeners of the replacement map whose port is not
  (or only as nil) in the original map, each once: ports that were open before stay open.
\<close>

lemma RevertPorts_closes_new:
  "RevertPorts replacement original =
     map snd (filter (\<lambda>(k, _). \<forall>c. map_of original k \<noteq> Some (Some c)) replacement)"
  by (induction replacement original rule: RevertPorts.induct) (auto split: option.splits)

end
