(* ===== verification/RoundRobin.thy ===== *)
theory RoundRobin
  imports Localnet ProxyUtil
begin

text \<open>
  \<^verbatim>\<open>pkg/proxy/userspace/roundrobin.go\<close>, the round-robin load balancer of the userspace
  proxy, with the interface \<open>LoadBalancer\<close> it implements
  (\<^verbatim>\<open>pkg/proxy/userspace/loadbalancer.go\<close>) and \<open>buildPortsToEndpointsMap\<close> of
  \<^verbatim>\<open>pkg/proxy/userspace/utils.go\<close>. Every method holds the lock from its first access
  to its last, so a method is one step. The \<open>*balancerState\<close> pointers live in the services
  map only and none is nil; the model keeps the states themselves in the map. The random
  source is a parameter: \<open>rnd k n\<close> is what \<open>utilrand.Perm(n)\<close> draws for service port \<open>k\<close>
  in this call. Times are nanoseconds.
\<close>

section \<open>State\<close>

record ServicePortName =
  spn_NamespacedName :: NamespacedName
  spn_Port :: string
  spn_Protocol :: string

datatype ServiceAffinity = AffinityUnset | AffinityNone | AffinityClientIP

record affinityState =
  as_clientIP :: string
  as_endpoint :: string
  as_lastUsed :: int

record affinityPolicy =
  ap_affinityType :: ServiceAffinity
  ap_affinityMap :: "(string, affinityState) gomap"
  ap_ttlSeconds :: int

record balancerState =
  bs_endpoints :: "string list"
  bs_index :: nat
  bs_affinity :: affinityPolicy

type_synonym LoadBalancerRR = "(ServicePortName, balancerState) gomap"

datatype lb_error = ErrMissingServiceEntry | ErrMissingEndpoints

definition zero_balancerState :: balancerState where
  "zero_balancerState =
     \<lparr>bs_endpoints = [], bs_index = 0,
      bs_affinity = \<lparr>ap_affinityType = AffinityUnset, ap_affinityMap = [], ap_ttlSeconds = 0\<rparr>\<rparr>"

text \<open>The key that the sources build: the \<open>Protocol\<close> field is left at its zero value.\<close>

definition svcPortName :: "NamespacedName \<Rightarrow> string \<Rightarrow> ServicePortName" where
  "svcPortName n port = \<lparr>spn_NamespacedName = n, spn_Port = port, spn_Protocol = []\<rparr>"

section \<open>Operations\<close>

definition NewLoadBalancerRR :: LoadBalancerRR where
  "NewLoadBalancerRR = []"

text \<open>The defaulted \<open>ttlSeconds\<close> and the affinity type are computed or passed, and not used.\<close>

definition newServiceInternal ::
  "ServicePortName \<Rightarrow> ServiceAffinity \<Rightarrow> int \<Rightarrow> LoadBalancerRR \<Rightarrow> LoadBalancerRR" where
  "newServiceInternal svcPort affinityType ttlSeconds lb =
     (let ttlSeconds = (if ttlSeconds = 0 then 10800 else ttlSeconds) in
      case map_of lb svcPort of
        None \<Rightarrow> AList.update svcPort zero_balancerState lb
      | Some _ \<Rightarrow> lb)"

definition NewService ::
  "ServicePortName \<Rightarrow> ServiceAffinity \<Rightarrow> int \<Rightarrow> LoadBalancerRR \<Rightarrow> LoadBalancerRR" where
  "NewService svcPort affinityType ttlSeconds lb = newServiceInternal svcPort affinityType ttlSeconds lb"

text \<open>
  \<open>ips.V4\<close> panics on a nil \<open>ips\<close>. The outer loop is over the addresses, the inner one over
  the ports of the service.
\<close>

definition buildPortsToEndpointsMap ::
  "Endpoint option \<Rightarrow> Service \<Rightarrow> (string, string list) gomap go" where
  "buildPortsToEndpointsMap endpoint service =
     (case GetIPs endpoint of
        None \<Rightarrow> Inl NilDereference
      | Some ips \<Rightarrow>
          Inr (fold (\<lambda>ip m. fold (\<lambda>port. map_append (pm_Name port)
                 (JoinHostPort ip (Itoa (sint (pm_Port port))))) (svc_Ports service) m)
               (ips_V4 ips) []))"

text \<open>\<open>state = newServiceInternal(k, ...); state.endpoints = eps; state.index = 0\<close>.\<close>

definition set_endpoints :: "ServicePortName \<Rightarrow> string list \<Rightarrow> LoadBalancerRR \<Rightarrow> LoadBalancerRR" where
  "set_endpoints svcPort eps lb =
     (let lb = newServiceInternal svcPort AffinityUnset 0 lb in
      case map_of lb svcPort of
        None \<Rightarrow> lb
      | Some state \<Rightarrow> AList.update svcPort (state\<lparr>bs_endpoints := eps, bs_index := 0\<rparr>) lb)"

text \<open>
  The \<open>ShuffleStrings\<close> of this file, a copy of the one of \<^verbatim>\<open>pkg/proxy/util\<close>: \<open>OnEndpointsAdd\<close>
  calls this one and \<open>OnEndpointsUpdate\<close> the other.
\<close>

definition userspace_ShuffleStrings :: "(nat \<Rightarrow> nat list) \<Rightarrow> string list \<Rightarrow> string list" where
  "userspace_ShuffleStrings perm s =
     (let shuffled = replicate (length s) []
      in fold (\<lambda>(i, j) shuffled. shuffled[j := s ! i])
           (zip [0..<length (perm (length s))] (perm (length s))) shuffled)"

lemma userspace_ShuffleStrings_eq [simp]: "userspace_ShuffleStrings = ShuffleStrings"
  by (simp add: userspace_ShuffleStrings_def ShuffleStrings_def fun_eq_iff)

definition OnEndpointsAdd ::
  "(ServicePortName \<Rightarrow> nat \<Rightarrow> nat list) \<Rightarrow> Endpoint option \<Rightarrow> Service \<Rightarrow> LoadBalancerRR
     \<Rightarrow> LoadBalancerRR go" where
  "OnEndpointsAdd rnd endpoint service lb =
     go_bind (buildPortsToEndpointsMap endpoint service) (\<lambda>portsToEndpoints.
       Inr (fold (\<lambda>(portname, newEndpoints) lb.
              let svcPort = svcPortName (svc_key service) portname in
              if map_of lb svcPort = None \<or> 0 < length newEndpoints
              then set_endpoints svcPort (userspace_ShuffleStrings (rnd svcPort) newEndpoints) lb
              else lb) portsToEndpoints lb))"

text \<open>
  \<open>slicesEquiv\<close> sorts both slices in place when their lengths agree; it returns its answer
  with the two slices as it leaves them.
\<close>

definition slicesEquiv :: "string list \<Rightarrow> string list \<Rightarrow> bool \<times> string list \<times> string list" where
  "slicesEquiv lhs rhs =
     (if length lhs \<noteq> length rhs then (False, lhs, rhs)
      else (sort lhs = sort rhs, sort lhs, sort rhs))"

definition resetService :: "ServicePortName \<Rightarrow> LoadBalancerRR \<Rightarrow> LoadBalancerRR" where
  "resetService svcPort lb =
     (case map_of lb svcPort of
        None \<Rightarrow> lb
      | Some state \<Rightarrow>
          (let state = (if 0 < length (bs_endpoints state) then state\<lparr>bs_endpoints := []\<rparr> else state);
               state = state\<lparr>bs_index := 0\<rparr>;
               state = state\<lparr>bs_affinity := (bs_affinity state)\<lparr>ap_affinityMap := []\<rparr>\<rparr>
           in AList.update svcPort state lb))"

text \<open>
  One turn of the first loop of \<open>OnEndpointsUpdate\<close>: the current endpoints are cloned before
  they are compared, the new ones are sorted by the comparison when the lengths agree.
\<close>

definition update_port ::
  "(ServicePortName \<Rightarrow> nat \<Rightarrow> nat list) \<Rightarrow> NamespacedName \<Rightarrow> string \<times> string list
     \<Rightarrow> LoadBalancerRR \<Rightarrow> LoadBalancerRR" where
  "update_port rnd n = (\<lambda>(portname, newEndpoints) lb.
     let svcPort = svcPortName n portname in
     case map_of lb svcPort of
       None \<Rightarrow> set_endpoints svcPort (ShuffleStrings (rnd svcPort) newEndpoints) lb
     | Some state \<Rightarrow>
         let curEndpoints = bs_endpoints state in
         if length curEndpoints \<noteq> length newEndpoints
         then set_endpoints svcPort (ShuffleStrings (rnd svcPort) newEndpoints) lb
         else let (equiv, _, newEndpoints) = slicesEquiv curEndpoints newEndpoints in
              if \<not> equiv then set_endpoints svcPort (ShuffleStrings (rnd svcPort) newEndpoints) lb
              else lb)"

definition OnEndpointsUpdate ::
  "(ServicePortName \<Rightarrow> nat \<Rightarrow> nat list) \<Rightarrow> Endpoint option \<Rightarrow> Endpoint option \<Rightarrow> Service
     \<Rightarrow> LoadBalancerRR \<Rightarrow> LoadBalancerRR go" where
  "OnEndpointsUpdate rnd oldEndpoints endpoints service lb =
     go_bind (buildPortsToEndpointsMap endpoints service) (\<lambda>portsToEndpoints.
     go_bind (buildPortsToEndpointsMap oldEndpoints service) (\<lambda>oldPortsToEndpoints.
       let lb = fold (update_port rnd (svc_key service)) portsToEndpoints lb;
           registeredEndpoints = map (\<lambda>(portname, _). svcPortName (svc_key service) portname) portsToEndpoints
       in Inr (fold (\<lambda>(portname, _) lb.
                 let svcPort = svcPortName (svc_key service) portname in
                 if svcPort \<notin> set registeredEndpoints then resetService svcPort lb else lb)
               oldPortsToEndpoints lb)))"

definition OnEndpointsDelete ::
  "Endpoint option \<Rightarrow> Service \<Rightarrow> LoadBalancerRR \<Rightarrow> LoadBalancerRR go" where
  "OnEndpointsDelete endpoint service lb =
     go_bind (buildPortsToEndpointsMap endpoint service) (\<lambda>portsToEndpoints.
       Inr (fold (\<lambda>(portname, _). resetService (svcPortName (svc_key service) portname))
             portsToEndpoints lb))"

definition DeleteService :: "ServicePortName \<Rightarrow> LoadBalancerRR \<Rightarrow> LoadBalancerRR" where
  "DeleteService svcPort lb = AList.delete svcPort lb"

text \<open>
  The source address and the affinity reset are not read. The index expression panics when
  the index is out of range.
\<close>

definition NextEndpoint ::
  "ServicePortName \<Rightarrow> string \<Rightarrow> bool \<Rightarrow> LoadBalancerRR \<Rightarrow> ((lb_error + string) \<times> LoadBalancerRR) go" where
  "NextEndpoint svcPort srcAddr sessionAffinityReset lb =
     (case map_of lb svcPort of
        None \<Rightarrow> Inr (Inl ErrMissingServiceEntry, lb)
      | Some state \<Rightarrow>
          if length (bs_endpoints state) = 0 then Inr (Inl ErrMissingEndpoints, lb)
          else if \<not> bs_index state < length (bs_endpoints state) then Inl IndexOutOfRange
          else let endpoint = bs_endpoints state ! bs_index state;
                   state = state\<lparr>bs_index := (bs_index state + 1) mod length (bs_endpoints state)\<rparr>
               in Inr (Inr endpoint, AList.update svcPort state lb))"

definition OnEndpointsSynced :: "LoadBalancerRR \<Rightarrow> LoadBalancerRR" where
  "OnEndpointsSynced lb = lb"

text \<open>Whole seconds since \<open>lastUsed\<close>, truncated as the conversion to int does.\<close>

definition seconds_since :: "int \<Rightarrow> int \<Rightarrow> int" where
  "seconds_since now lastUsed = sgn (now - lastUsed) * (\<bar>now - lastUsed\<bar> div 1000000000)"

definition CleanupStaleStickySessions ::
  "int \<Rightarrow> ServicePortName \<Rightarrow> LoadBalancerRR \<Rightarrow> LoadBalancerRR" where
  "CleanupStaleStickySessions now svcPort lb =
     (case map_of lb svcPort of
        None \<Rightarrow> lb
      | Some state \<Rightarrow>
          (let policy = bs_affinity state;
               kept = filter (\<lambda>(_, affinity). seconds_since now (as_lastUsed affinity) < ap_ttlSeconds policy)
                        (ap_affinityMap policy)
           in AList.update svcPort (state\<lparr>bs_affinity := policy\<lparr>ap_affinityMap := kept\<rparr>\<rparr>) lb))"

end
