(* ===== verification/RoundRobinCorrect.thy ===== *)
theory RoundRobinCorrect
  imports RoundRobin LoadBalancer
begin

text \<open>
  The round-robin balancer meets the \<open>load_balancer\<close> interface, keeps its invariant in
  every reachable state, and sets and resets endpoints per service port as the handlers
  promise. The lemmas describe each operation as a function of the state of one key, so a
  handler's effect does not depend on the order of its map loops.
\<close>

section \<open>Operations seen through one key\<close>

definition set_state :: "string list \<Rightarrow> balancerState option \<Rightarrow> balancerState option" where
  "set_state eps st =
     Some ((case st of None \<Rightarrow> zero_balancerState | Some s \<Rightarrow> s)\<lparr>bs_endpoints := eps, bs_index := 0\<rparr>)"

definition reset_state :: "balancerState option \<Rightarrow> balancerState option" where
  "reset_state st = map_option (\<lambda>s. s\<lparr>bs_endpoints := [], bs_index := 0,
     bs_affinity := (bs_affinity s)\<lparr>ap_affinityMap := []\<rparr>\<rparr>) st"

lemma map_of_newServiceInternal [gomap_simps]:
  "map_of (newServiceInternal k a t lb) k' =
     (if k' = k \<and> map_of lb k = None then Some zero_balancerState else map_of lb k')"
  by (auto simp: newServiceInternal_def split: option.split)

lemma map_of_set_endpoints [gomap_simps]:
  "map_of (set_endpoints k eps lb) k' = (if k' = k then set_state eps (map_of lb k') else map_of lb k')"
  by (auto simp: set_endpoints_def set_state_def map_of_newServiceInternal split: option.split)

lemma map_of_resetService [gomap_simps]:
  "map_of (resetService k lb) k' = (if k' = k then reset_state (map_of lb k') else map_of lb k')"
  by (auto simp: resetService_def reset_state_def split: option.split)

lemma wf_newServiceInternal: "wf_map lb \<Longrightarrow> wf_map (newServiceInternal k a t lb)"
  by (simp add: newServiceInternal_def split: option.split)

lemma wf_set_endpoints: "wf_map lb \<Longrightarrow> wf_map (set_endpoints k eps lb)"
  by (simp add: set_endpoints_def wf_newServiceInternal Let_def split: option.split)

lemma wf_resetService: "wf_map lb \<Longrightarrow> wf_map (resetService k lb)"
  by (simp add: resetService_def Let_def split: option.split)

lemma inj_svcPortName: "inj (svcPortName n)"
  by (rule injI) (simp add: svcPortName_def)

text \<open>One turn of each loop, on the state of its own key.\<close>

definition add_state ::
  "(nat \<Rightarrow> nat list) \<Rightarrow> string list \<Rightarrow> balancerState option \<Rightarrow> balancerState option" where
  "add_state perm eps st =
     (if st = None \<or> eps \<noteq> [] then set_state (ShuffleStrings perm eps) st else st)"

definition update_state ::
  "(nat \<Rightarrow> nat list) \<Rightarrow> string list \<Rightarrow> balancerState option \<Rightarrow> balancerState option" where
  "update_state perm eps st =
     (case st of
        None \<Rightarrow> set_state (ShuffleStrings perm eps) st
      | Some s \<Rightarrow>
          if length (bs_endpoints s) \<noteq> length eps then set_state (ShuffleStrings perm eps) st
          else if sort (bs_endpoints s) = sort eps then st
          else set_state (ShuffleStrings perm (sort eps)) st)"

lemma map_of_update_port [gomap_simps]:
  "map_of (update_port rnd n (p, eps) lb) k =
     (if k = svcPortName n p then update_state (rnd (svcPortName n p)) eps (map_of lb k) else map_of lb k)"
  by (auto simp: update_port_def update_state_def slicesEquiv_def gomap_simps Let_def
      split: option.split if_splits)

lemma mset_add_state:
  "perm_ok perm \<Longrightarrow> eps \<noteq> [] \<Longrightarrow>
     \<exists>s. add_state perm eps st = Some s \<and> mset (bs_endpoints s) = mset eps \<and> bs_index s = 0"
  by (auto simp: add_state_def set_state_def ShuffleStrings_permutation)

lemma mset_update_state:
  "perm_ok perm \<Longrightarrow>
     \<exists>s. update_state perm eps st = Some s \<and> mset (bs_endpoints s) = mset eps \<and>
         (st = Some s \<or> bs_index s = 0)"
  by (cases st)
     (auto simp: update_state_def set_state_def ShuffleStrings_permutation mset_sort_unique)

section \<open>Addresses by port\<close>

definition port_pairs :: "Service \<Rightarrow> string list \<Rightarrow> (string \<times> string) list" where
  "port_pairs service ips =
     concat (map (\<lambda>ip. map (\<lambda>port. (pm_Name port, JoinHostPort ip (Itoa (sint (pm_Port port)))))
       (svc_Ports service)) ips)"

lemma ports_append_all:
  "fold (\<lambda>port. map_append (pm_Name port) (JoinHostPort ip (Itoa (sint (pm_Port port))))) ports m =
     append_all (map (\<lambda>port. (pm_Name port, JoinHostPort ip (Itoa (sint (pm_Port port))))) ports) m"
  by (induction ports arbitrary: m) simp_all

lemma buildPorts_append_all:
  "buildPortsToEndpointsMap endpoint service =
     (case GetIPs endpoint of None \<Rightarrow> Inl NilDereference
      | Some ips \<Rightarrow> Inr (append_all (port_pairs service (ips_V4 ips)) []))"
  unfolding buildPortsToEndpointsMap_def port_pairs_def
  by (simp only: fold_append_all [OF ports_append_all])

text \<open>The \<open>ip:port\<close> strings of an endpoint for one port name of a service.\<close>

definition addresses :: "IPSet \<Rightarrow> Service \<Rightarrow> string \<Rightarrow> string list" where
  "addresses ips service portname =
     [JoinHostPort ip (Itoa (sint (pm_Port port))).
        ip \<leftarrow> ips_V4 ips, port \<leftarrow> svc_Ports service, pm_Name port = portname]"

lemma values_for_port_pairs: "values_for p (port_pairs service (ips_V4 ips)) = addresses ips service p"
proof -
  have "values_for p (map (\<lambda>port. (pm_Name port, f port)) ports) =
      concat (map (\<lambda>port. if pm_Name port = p then [f port] else []) ports)"
    for f :: "PortMapping \<Rightarrow> string" and ports
    by (induction ports) auto
  then show ?thesis
    by (simp only: port_pairs_def addresses_def values_for_concat map_map comp_def)
qed

lemma buildPorts_Some:
  assumes "GetIPs endpoint = Some ips"
  shows "\<exists>m. buildPortsToEndpointsMap endpoint service = Inr m \<and> wf_map m \<and>
     (\<forall>p. map_of m p = (if addresses ips service p = [] then None else Some (addresses ips service p)))"
  using assms
  by (simp add: buildPorts_append_all wf_append_all map_of_append_all_empty values_for_port_pairs)

lemma buildPorts_None: "GetIPs endpoint = None \<Longrightarrow> buildPortsToEndpointsMap endpoint service = Inl NilDereference"
  by (simp add: buildPorts_append_all)

section \<open>The handlers\<close>

lemma OnEndpointsAdd_key:
  assumes "GetIPs endpoint = Some ips"
  shows "\<exists>lb'. OnEndpointsAdd rnd endpoint service lb = Inr lb' \<and>
    (\<forall>p. map_of lb' (svcPortName (svc_key service) p) =
       (if addresses ips service p = [] then map_of lb (svcPortName (svc_key service) p)
        else add_state (rnd (svcPortName (svc_key service) p)) (addresses ips service p)
               (map_of lb (svcPortName (svc_key service) p)))) \<and>
    (\<forall>k. k \<notin> range (svcPortName (svc_key service)) \<longrightarrow> map_of lb' k = map_of lb k)"
proof -
  let ?n = "svc_key service"
  let ?f = "\<lambda>(portname, newEndpoints) lb.
     let svcPort = svcPortName ?n portname in
     if map_of lb svcPort = None \<or> 0 < length newEndpoints
     then set_endpoints svcPort (ShuffleStrings (rnd svcPort) newEndpoints) lb else lb"
  obtain m where m: "buildPortsToEndpointsMap endpoint service = Inr m" "wf_map m"
    "\<And>p. map_of m p = (if addresses ips service p = [] then None else Some (addresses ips service p))"
    using buildPorts_Some [OF assms] by blast
  have f: "map_of (?f (p, v) s) k =
      (if k = svcPortName ?n p then add_state (rnd (svcPortName ?n p)) v (map_of s k) else map_of s k)"
    for p v s k
    by (auto simp: add_state_def gomap_simps Let_def)
  have "map_of (fold ?f m lb) (svcPortName ?n p) =
      (if addresses ips service p = [] then map_of lb (svcPortName ?n p)
       else add_state (rnd (svcPortName ?n p)) (addresses ips service p) (map_of lb (svcPortName ?n p)))" for p
    by (subst fold_per_key [OF m(2) inj_svcPortName f]) (simp add: m(3))
  moreover have "map_of (fold ?f m lb) k = map_of lb k" if "k \<notin> range (svcPortName ?n)" for k
    using f that by (rule fold_other_key)
  moreover have "OnEndpointsAdd rnd endpoint service lb = Inr (fold ?f m lb)"
    by (simp only: OnEndpointsAdd_def userspace_ShuffleStrings_eq m(1) go_bind_simps)
  ultimately show ?thesis by blast
qed

lemma OnEndpointsUpdate_key:
  assumes "GetIPs old = Some old_ips" "GetIPs new = Some ips"
  shows "\<exists>lb'. OnEndpointsUpdate rnd old new service lb = Inr lb' \<and>
    (\<forall>p. map_of lb' (svcPortName (svc_key service) p) =
       (let st = map_of lb (svcPortName (svc_key service) p) in
        if addresses ips service p \<noteq> []
        then update_state (rnd (svcPortName (svc_key service) p)) (addresses ips service p) st
        else if addresses old_ips service p \<noteq> [] then reset_state st else st)) \<and>
    (\<forall>k. k \<notin> range (svcPortName (svc_key service)) \<longrightarrow> map_of lb' k = map_of lb k)"
proof -
  let ?n = "svc_key service"
  obtain m where m: "buildPortsToEndpointsMap new service = Inr m" "wf_map m"
    "\<And>p. map_of m p = (if addresses ips service p = [] then None else Some (addresses ips service p))"
    using buildPorts_Some [OF assms(2)] by blast
  obtain o' where o': "buildPortsToEndpointsMap old service = Inr o'" "wf_map o'"
    "\<And>p. map_of o' p = (if addresses old_ips service p = [] then None else Some (addresses old_ips service p))"
    using buildPorts_Some [OF assms(1)] by blast
  define reg where "reg = set (map (\<lambda>(portname, _). svcPortName ?n portname) m)"
  have reg: "svcPortName ?n p \<in> reg \<longleftrightarrow> addresses ips service p \<noteq> []" for p
  proof -
    have "svcPortName ?n p \<in> reg \<longleftrightarrow> p \<in> fst ` set m"
      using inj_svcPortName [of ?n] by (force simp: reg_def dest: injD)
    also have "\<dots> \<longleftrightarrow> map_of m p \<noteq> None" by (simp add: map_of_eq_None_iff)
    finally show ?thesis by (simp add: m(3))
  qed
  let ?g = "\<lambda>(portname, _) lb. let svcPort = svcPortName ?n portname in
     if svcPort \<notin> reg then resetService svcPort lb else lb"
  have g: "map_of (?g (p, v :: string list) s) k = (if k = svcPortName ?n p then
      (if svcPortName ?n p \<notin> reg then reset_state (map_of s k) else map_of s k) else map_of s k)" for p v s k
    by (simp add: gomap_simps Let_def)
  let ?r = "fold ?g o' (fold (update_port rnd ?n) m lb)"
  have u: "map_of (fold (update_port rnd ?n) m lb) (svcPortName ?n p) =
       (if addresses ips service p = [] then map_of lb (svcPortName ?n p)
        else update_state (rnd (svcPortName ?n p)) (addresses ips service p) (map_of lb (svcPortName ?n p)))" for p
    by (subst fold_per_key [OF m(2) inj_svcPortName map_of_update_port]) (simp add: m(3))
  have "map_of ?r (svcPortName ?n p) =
       (let st = map_of lb (svcPortName ?n p) in
        if addresses ips service p \<noteq> []
        then update_state (rnd (svcPortName ?n p)) (addresses ips service p) st
        else if addresses old_ips service p \<noteq> [] then reset_state st else st)" for p
    by (subst fold_per_key [OF o'(2) inj_svcPortName g]) (simp add: u o'(3) reg Let_def)
  moreover have "map_of ?r k = map_of lb k" if k: "k \<notin> range (svcPortName ?n)" for k
  proof -
    have "map_of (fold (update_port rnd ?n) m lb) k = map_of lb k"
      using map_of_update_port k by (rule fold_other_key)
    with fold_other_key [OF g k] show ?thesis by simp
  qed
  moreover have "OnEndpointsUpdate rnd old new service lb = Inr ?r"
    by (simp add: OnEndpointsUpdate_def m(1) o'(1) reg_def)
  ultimately show ?thesis by blast
qed

lemma OnEndpointsDelete_key:
  assumes "GetIPs endpoint = Some ips"
  shows "\<exists>lb'. OnEndpointsDelete endpoint service lb = Inr lb' \<and>
    (\<forall>p. map_of lb' (svcPortName (svc_key service) p) =
       (let st = map_of lb (svcPortName (svc_key service) p) in
        if addresses ips service p = [] then st else reset_state st)) \<and>
    (\<forall>k. k \<notin> range (svcPortName (svc_key service)) \<longrightarrow> map_of lb' k = map_of lb k)"
proof -
  let ?n = "svc_key service"
  obtain m where m: "buildPortsToEndpointsMap endpoint service = Inr m" "wf_map m"
    "\<And>p. map_of m p = (if addresses ips service p = [] then None else Some (addresses ips service p))"
    using buildPorts_Some [OF assms] by blast
  let ?f = "\<lambda>(portname, _). resetService (svcPortName ?n portname)"
  have f: "map_of (?f (p, v :: string list) s) k =
      (if k = svcPortName ?n p then reset_state (map_of s k) else map_of s k)" for p v s k
    by (simp add: gomap_simps)
  have "map_of (fold ?f m lb) (svcPortName ?n p) =
       (let st = map_of lb (svcPortName ?n p) in
        if addresses ips service p = [] then st else reset_state st)" for p
    by (subst fold_per_key [OF m(2) inj_svcPortName f]) (simp add: m(3) Let_def)
  moreover have "map_of (fold ?f m lb) k = map_of lb k" if "k \<notin> range (svcPortName ?n)" for k
    using f that by (rule fold_other_key)
  moreover have "OnEndpointsDelete endpoint service lb = Inr (fold ?f m lb)"
    by (simp add: OnEndpointsDelete_def m(1))
  ultimately show ?thesis by blast
qed

section \<open>The invariant\<close>

text \<open>
  The index of a service is in range (or zero when it has no endpoint), and its affinity map
  is empty: no operation ever stores an affinity.
\<close>

definition state_ok :: "balancerState \<Rightarrow> bool" where
  "state_ok st \<longleftrightarrow> (if bs_endpoints st = [] then bs_index st = 0 else bs_index st < length (bs_endpoints st)) \<and>
     ap_affinityMap (bs_affinity st) = []"

definition lb_inv :: "LoadBalancerRR \<Rightarrow> bool" where
  "lb_inv lb \<longleftrightarrow> (\<forall>k st. map_of lb k = Some st \<longrightarrow> state_ok st)"

lemma lb_invI: "(\<And>k st. map_of lb k = Some st \<Longrightarrow> state_ok st) \<Longrightarrow> lb_inv lb"
  by (simp add: lb_inv_def)

lemma lb_invD: "lb_inv lb \<Longrightarrow> map_of lb k = Some st \<Longrightarrow> state_ok st"
  by (simp add: lb_inv_def)

lemma state_ok_zero [simp]: "state_ok zero_balancerState"
  by (simp add: state_ok_def zero_balancerState_def)

text \<open>An operation described per key keeps the invariant when its key function does.\<close>

definition keeps_ok :: "(balancerState option \<Rightarrow> balancerState option) \<Rightarrow> bool" where
  "keeps_ok h \<longleftrightarrow> (\<forall>st s. pred_option state_ok st \<longrightarrow> h st = Some s \<longrightarrow> state_ok s)"

lemma set_state_ok:
  "set_state eps None = Some s \<Longrightarrow> state_ok s"
  "set_state eps (Some st) = Some s \<Longrightarrow> state_ok st \<Longrightarrow> state_ok s"
  by (auto simp: set_state_def state_ok_def zero_balancerState_def)

lemma keeps_ok_set: "keeps_ok (set_state eps)"
proof -
  have "state_ok s" if "pred_option state_ok st" "set_state eps st = Some s" for st s
    using that by (cases st) (auto dest: set_state_ok)
  then show ?thesis by (simp add: keeps_ok_def)
qed

lemma keeps_ok_reset: "keeps_ok reset_state"
  by (auto simp: keeps_ok_def reset_state_def state_ok_def)

lemma keeps_ok_add: "keeps_ok (add_state perm eps)"
  using keeps_ok_set by (auto simp: keeps_ok_def add_state_def split: if_splits)

lemma keeps_ok_update: "keeps_ok (update_state perm eps)"
proof -
  have "state_ok s" if "pred_option state_ok st" "update_state perm eps st = Some s" for st s
    using that by (cases st) (auto simp: update_state_def dest: set_state_ok split: if_splits)
  then show ?thesis by (simp add: keeps_ok_def)
qed

lemma pred_option_map_of: "lb_inv lb \<Longrightarrow> pred_option state_ok (map_of lb k)"
  by (cases "map_of lb k") (auto dest: lb_invD)

lemma keeps_okD: "keeps_ok h \<Longrightarrow> lb_inv lb \<Longrightarrow> h (map_of lb k) = Some s \<Longrightarrow> state_ok s"
  using pred_option_map_of by (auto simp: keeps_ok_def)

lemma newServiceInternal_inv: "lb_inv lb \<Longrightarrow> lb_inv (newServiceInternal k a t lb)"
  by (rule lb_invI) (auto simp: gomap_simps dest: lb_invD split: if_splits)

lemma DeleteService_inv: "lb_inv lb \<Longrightarrow> lb_inv (DeleteService k lb)"
  by (rule lb_invI) (auto simp: DeleteService_def dest: lb_invD split: if_splits)

text \<open>The three endpoint handlers have the same shape, so one lemma serves them.\<close>

lemma handler_inv:
  assumes "lb_inv lb"
    and "\<forall>p. map_of lb' (svcPortName n p) = h p (map_of lb (svcPortName n p))"
    and "\<forall>k. k \<notin> range (svcPortName n) \<longrightarrow> map_of lb' k = map_of lb k"
    and "\<And>p. keeps_ok (h p)"
  shows "lb_inv lb'"
proof (rule lb_invI)
  fix k st
  assume st: "map_of lb' k = Some st"
  show "state_ok st"
  proof (cases "k \<in> range (svcPortName n)")
    case True
    then obtain p where "k = svcPortName n p" by auto
    with st assms(2) have "h p (map_of lb k) = Some st" by simp
    then show ?thesis by (rule keeps_okD [OF assms(4,1)])
  next
    case False
    with st assms(1,3) show ?thesis by (auto dest: lb_invD)
  qed
qed

lemma keeps_ok_if: "keeps_ok f \<Longrightarrow> keeps_ok g \<Longrightarrow> keeps_ok (\<lambda>st. if b then f st else g st)"
  by (simp add: keeps_ok_def)

lemma keeps_ok_id: "keeps_ok (\<lambda>st. st)"
  by (auto simp: keeps_ok_def)

lemma OnEndpointsAdd_inv: "lb_inv lb \<Longrightarrow> OnEndpointsAdd rnd e service lb = Inr lb' \<Longrightarrow> lb_inv lb'"
proof (cases "GetIPs e")
  case (Some ips)
  assume "lb_inv lb" "OnEndpointsAdd rnd e service lb = Inr lb'"
  with OnEndpointsAdd_key [OF Some, of rnd service lb] show ?thesis
    by (intro handler_inv [of lb lb' "svc_key service" "\<lambda>p st. if addresses ips service p = [] then st
          else add_state (rnd (svcPortName (svc_key service) p)) (addresses ips service p) st"])
       (auto intro: keeps_ok_if keeps_ok_id keeps_ok_add)
qed (simp add: OnEndpointsAdd_def buildPorts_None)

lemma OnEndpointsUpdate_inv:
  "lb_inv lb \<Longrightarrow> OnEndpointsUpdate rnd old e service lb = Inr lb' \<Longrightarrow> lb_inv lb'"
proof (cases "GetIPs e"; cases "GetIPs old")
  fix ips old_ips
  assume some: "GetIPs e = Some ips" "GetIPs old = Some old_ips"
    and h: "lb_inv lb" "OnEndpointsUpdate rnd old e service lb = Inr lb'"
  from OnEndpointsUpdate_key [OF some(2,1), of rnd service lb] h
  show ?thesis unfolding Let_def
    by (intro handler_inv [of lb lb' "svc_key service" "\<lambda>p st. if addresses ips service p \<noteq> []
          then update_state (rnd (svcPortName (svc_key service) p)) (addresses ips service p) st
          else if addresses old_ips service p \<noteq> [] then reset_state st else st"]
          keeps_ok_if keeps_ok_id keeps_ok_update keeps_ok_reset) simp_all
qed (auto simp: OnEndpointsUpdate_def buildPorts_None go_bind_def split: sum.splits)

lemma OnEndpointsDelete_inv: "lb_inv lb \<Longrightarrow> OnEndpointsDelete e service lb = Inr lb' \<Longrightarrow> lb_inv lb'"
proof (cases "GetIPs e")
  case (Some ips)
  assume h: "lb_inv lb" "OnEndpointsDelete e service lb = Inr lb'"
  with OnEndpointsDelete_key [OF Some, of service lb] show ?thesis unfolding Let_def
    by (intro handler_inv [of lb lb' "svc_key service" "\<lambda>p st. if addresses ips service p = [] then st
          else reset_state st"])
       (auto intro: keeps_ok_if keeps_ok_id keeps_ok_reset)
qed (simp add: OnEndpointsDelete_def buildPorts_None)

lemma CleanupStaleStickySessions_id:
  assumes "lb_inv lb"
  shows "map_of (CleanupStaleStickySessions now k lb) = map_of lb"
proof (cases "map_of lb k")
  case (Some st)
  with assms have "ap_affinityMap (bs_affinity st) = []" by (auto dest: lb_invD simp: state_ok_def)
  with Some show ?thesis by (simp add: CleanupStaleStickySessions_def fun_upd_idem)
qed (simp add: CleanupStaleStickySessions_def)

text \<open>NextEndpoint in an invariant state, case by case.\<close>

definition advance :: "balancerState \<Rightarrow> balancerState" where
  "advance st = st\<lparr>bs_index := (bs_index st + 1) mod length (bs_endpoints st)\<rparr>"

lemma state_ok_advance: "state_ok st \<Longrightarrow> bs_endpoints st \<noteq> [] \<Longrightarrow> state_ok (advance st)"
  by (simp add: state_ok_def advance_def)

lemma NextEndpoint_cases:
  "map_of lb k = None \<Longrightarrow> NextEndpoint k a r lb = Inr (Inl ErrMissingServiceEntry, lb)"
  "map_of lb k = Some st \<Longrightarrow> bs_endpoints st = [] \<Longrightarrow> NextEndpoint k a r lb = Inr (Inl ErrMissingEndpoints, lb)"
  "map_of lb k = Some st \<Longrightarrow> bs_endpoints st \<noteq> [] \<Longrightarrow> state_ok st \<Longrightarrow>
     NextEndpoint k a r lb = Inr (Inr (bs_endpoints st ! bs_index st), AList.update k (advance st) lb)"
  by (simp_all add: NextEndpoint_def state_ok_def advance_def)

lemma update_inv: "lb_inv lb \<Longrightarrow> state_ok st \<Longrightarrow> lb_inv (AList.update k st lb)"
  by (rule lb_invI) (auto dest: lb_invD split: if_splits)

lemma NextEndpoint_inv:
  assumes "lb_inv lb" "NextEndpoint k a r lb = Inr (x, lb')"
  shows "lb_inv lb'"
proof (cases "map_of lb k")
  case None
  with assms show ?thesis by (simp add: NextEndpoint_cases)
next
  case (Some st)
  with assms(1) have ok: "state_ok st" by (auto dest: lb_invD)
  show ?thesis
  proof (cases "bs_endpoints st = []")
    case True
    with Some assms show ?thesis by (simp add: NextEndpoint_cases)
  next
    case False
    with Some ok assms have "lb' = AList.update k (advance st) lb" by (simp add: NextEndpoint_cases)
    with assms(1) ok False show ?thesis by (simp add: update_inv state_ok_advance)
  qed
qed

section \<open>The interface\<close>

text \<open>The queue of a service: its endpoints from the current index on, in a circle.\<close>

definition lb_view :: "LoadBalancerRR \<Rightarrow> ServicePortName \<Rightarrow> string list option" where
  "lb_view lb k = map_option (\<lambda>st. rotate (bs_index st) (bs_endpoints st)) (map_of lb k)"

lemma view_advance:
  assumes "state_ok st" "bs_endpoints st \<noteq> []"
  shows "rotate (bs_index st) (bs_endpoints st) =
           (bs_endpoints st ! bs_index st) # tl (rotate (bs_index st) (bs_endpoints st))"
    and "rotate (bs_index (advance st)) (bs_endpoints (advance st)) =
           tl (rotate (bs_index st) (bs_endpoints st)) @ [bs_endpoints st ! bs_index st]"
proof -
  let ?es = "bs_endpoints st" and ?i = "bs_index st"
  have hd: "hd (rotate ?i ?es) = ?es ! ?i"
    using assms by (simp add: hd_rotate_conv_nth state_ok_def)
  have ne: "rotate ?i ?es \<noteq> []" using assms(2) by simp
  show "rotate ?i ?es = (?es ! ?i) # tl (rotate ?i ?es)"
    using ne hd by (metis list.collapse)
  have "rotate (bs_index (advance st)) (bs_endpoints (advance st)) = rotate (Suc ?i) ?es"
    by (simp add: advance_def rotate_conv_mod [of "Suc ?i" ?es] del: rotate_Suc)
  also have "\<dots> = tl (rotate ?i ?es) @ [hd (rotate ?i ?es)]"
    using ne by (simp add: rotate1_hd_tl)
  finally show "rotate (bs_index (advance st)) (bs_endpoints (advance st)) = tl (rotate ?i ?es) @ [?es ! ?i]"
    by (simp add: hd)
qed

lemma view_update: "lb_view (AList.update k st lb) = (lb_view lb)(k \<mapsto> rotate (bs_index st) (bs_endpoints st))"
  by (simp add: lb_view_def fun_eq_iff)

interpretation rr: load_balancer NextEndpoint NewService DeleteService
  lb_view lb_inv ErrMissingServiceEntry ErrMissingEndpoints
proof unfold_locales
  fix lb k a r aff ttl
  show "lb_view lb k = None \<Longrightarrow> NextEndpoint k a r lb = Inr (Inl ErrMissingServiceEntry, lb)"
    by (simp add: lb_view_def NextEndpoint_cases)
  show "lb_view lb k = Some [] \<Longrightarrow> NextEndpoint k a r lb = Inr (Inl ErrMissingEndpoints, lb)"
    by (auto simp: lb_view_def NextEndpoint_cases)
  show "lb_inv (NewService k aff ttl lb)" if "lb_inv lb"
    using that by (simp add: NewService_def newServiceInternal_inv)
  show "lb_inv (DeleteService k lb)" if "lb_inv lb"
    using that by (rule DeleteService_inv)
  show "lb_view (DeleteService k lb) = (lb_view lb)(k := None)"
    by (simp add: lb_view_def DeleteService_def fun_eq_iff)
  show "lb_view (NewService k aff ttl lb) =
      (case lb_view lb k of None \<Rightarrow> (lb_view lb)(k \<mapsto> []) | Some _ \<Rightarrow> lb_view lb)"
    by (auto simp: lb_view_def NewService_def gomap_simps fun_eq_iff zero_balancerState_def split: option.split)
  fix e es
  assume inv: "lb_inv lb" and v: "lb_view lb k = Some (e # es)"
  from v obtain st where st: "map_of lb k = Some st" "rotate (bs_index st) (bs_endpoints st) = e # es"
    by (auto simp: lb_view_def)
  from inv st(1) have ok: "state_ok st" by (rule lb_invD)
  from st(2) have ne: "bs_endpoints st \<noteq> []" by auto
  show "\<exists>s'. NextEndpoint k a r lb = Inr (Inr e, s') \<and> lb_inv s' \<and> lb_view s' = (lb_view lb)(k \<mapsto> es @ [e])"
    using NextEndpoint_cases(3) [OF st(1) ne ok] view_advance [OF ok ne] st(2) inv ok ne
    by (simp add: update_inv state_ok_advance view_update)
qed

end
