(* ===== verification/RoundRobinProps.thy ===== *)
theory RoundRobinProps
  imports RoundRobinCorrect
begin

text \<open>
  The balancer as a state machine: one rule per method of \<open>LoadBalancerRR\<close>, every handler
  with any argument, so the reachable states are those of every sequence of calls, from any
  goroutine (each call runs under the lock). The properties of the component follow from
  the key lemmas and from the interface.
\<close>

section \<open>Steps and reachable states\<close>

inductive lb_step :: "LoadBalancerRR \<Rightarrow> LoadBalancerRR \<Rightarrow> bool" where
  new_service: "lb_step lb (NewService k aff ttl lb)"
| delete_service: "lb_step lb (DeleteService k lb)"
| endpoints_add: "OnEndpointsAdd rnd e service lb = Inr lb' \<Longrightarrow> lb_step lb lb'"
| endpoints_update: "OnEndpointsUpdate rnd old e service lb = Inr lb' \<Longrightarrow> lb_step lb lb'"
| endpoints_delete: "OnEndpointsDelete e service lb = Inr lb' \<Longrightarrow> lb_step lb lb'"
| endpoints_synced: "lb_step lb (OnEndpointsSynced lb)"
| next_endpoint: "NextEndpoint k addr reset lb = Inr (r, lb') \<Longrightarrow> lb_step lb lb'"
| cleanup: "lb_step lb (CleanupStaleStickySessions now k lb)"

inductive lb_reachable :: "LoadBalancerRR \<Rightarrow> bool" where
  start: "lb_reachable NewLoadBalancerRR"
| step: "lb_reachable lb \<Longrightarrow> lb_step lb lb' \<Longrightarrow> lb_reachable lb'"

inductive_cases lb_stepE: "lb_step lb lb'"

lemma lb_step_inv: "lb_step lb lb' \<Longrightarrow> lb_inv lb \<Longrightarrow> lb_inv lb'"
proof (induction rule: lb_step.induct)
  case (cleanup lb now k)
  then show ?case using CleanupStaleStickySessions_id [OF cleanup] by (simp add: lb_inv_def)
qed (auto simp: NewService_def OnEndpointsSynced_def
      intro: newServiceInternal_inv DeleteService_inv OnEndpointsAdd_inv OnEndpointsUpdate_inv
        OnEndpointsDelete_inv NextEndpoint_inv)

lemma lb_reachable_inv: "lb_reachable lb \<Longrightarrow> lb_inv lb"
  by (induction rule: lb_reachable.induct)
     (auto simp: NewLoadBalancerRR_def lb_inv_def intro: lb_step_inv [unfolded lb_inv_def, rule_format])

section \<open>A concrete state for the witnesses\<close>

definition demo_service :: Service where
  "demo_service = \<lparr>svc_Namespace = ''default'', svc_Name = ''web'',
     svc_Ports = [\<lparr>pm_Name = ''http'', pm_Protocol = Protocol_TCP, pm_Port = 80, pm_NodePort = 0, pm_TargetPort = 8080\<rparr>],
     svc_IPs = Some \<lparr>sip_ClusterIPs = Some \<lparr>ips_V4 = [''10.96.0.4''], ips_V6 = []\<rparr>,
                    sip_ExternalIPs = Some \<lparr>ips_V4 = [], ips_V6 = []\<rparr>\<rparr>,
     svc_Annotations = []\<rparr>"

definition demo_endpoint :: "string list \<Rightarrow> Endpoint" where
  "demo_endpoint ips = \<lparr>end_IPs = Some \<lparr>ips_V4 = ips, ips_V6 = []\<rparr>\<rparr>"

definition demo_rnd :: "ServicePortName \<Rightarrow> nat \<Rightarrow> nat list" where
  "demo_rnd k n = rev [0..<n]"

definition demo_key :: ServicePortName where
  "demo_key = svcPortName (svc_key demo_service) ''http''"

definition demo_lb :: LoadBalancerRR where
  "demo_lb = [(demo_key, zero_balancerState\<lparr>bs_endpoints := [''10.0.0.2:80'', ''10.0.0.1:80'']\<rparr>)]"

lemma demo_add:
  "OnEndpointsAdd demo_rnd (Some (demo_endpoint [''10.0.0.1'', ''10.0.0.2''])) demo_service NewLoadBalancerRR
     = Inr demo_lb"
  by code_simp

lemma demo_reachable: "lb_reachable demo_lb"
  using lb_reachable.step [OF lb_reachable.start lb_step.endpoints_add [OF demo_add]] .

lemma perm_ok_demo: "perm_ok (demo_rnd k)"
  using perm_ok_rev by (simp add: demo_rnd_def [abs_def])

section \<open>Safety\<close>

text \<open>
  C1. In every state that some sequence of calls of the balancer's methods reaches, the
  index of each service is inside its endpoint list (zero for an empty list), and
  NextEndpoint does not panic: the unchecked \<open>state.endpoints[state.index]\<close> is in range.
\<close>

theorem NextEndpoint_never_panics:
  assumes "lb_reachable lb"
  shows "(\<exists>r lb'. NextEndpoint k addr reset lb = Inr (r, lb')) \<and>
         (\<forall>st. map_of lb k = Some st \<longrightarrow>
            (if bs_endpoints st = [] then bs_index st = 0 else bs_index st < length (bs_endpoints st)))"
  using rr.next_total [OF lb_reachable_inv [OF assms]] lb_reachable_inv [OF assms]
  by (metis lb_inv_def state_ok_def)

theorem NextEndpoint_never_panics_witness:
  "\<exists>r lb'. NextEndpoint demo_key ''c'' False demo_lb = Inr (r, lb')"
  using NextEndpoint_never_panics [OF demo_reachable] by blast

section \<open>Fairness\<close>

text \<open>
  C2. Round robin: for a service with \<open>n\<close> endpoints, in any reachable state, \<open>n\<close> calls of
  NextEndpoint return each endpoint exactly once, whatever the client addresses are, and
  afterwards every service hands out its endpoints in the same order as before.
\<close>

theorem NextEndpoint_round_robin:
  assumes "lb_reachable lb" "map_of lb k = Some st" "bs_endpoints st \<noteq> []"
  shows "\<exists>es lb'. next_calls (\<lambda>k lb. NextEndpoint k addr reset lb) k (length (bs_endpoints st)) lb = Some (es, lb') \<and>
           mset es = mset (bs_endpoints st) \<and> lb_view lb' = lb_view lb"
proof -
  let ?es = "rotate (bs_index st) (bs_endpoints st)"
  have "lb_view lb k = Some ?es" "?es \<noteq> []" using assms(2,3) by (simp_all add: lb_view_def)
  from rr.next_calls_round [where addr = addr and reset = reset, OF lb_reachable_inv [OF assms(1)] this]
  show ?thesis by (auto simp: mset_rotate_eq)
qed

theorem NextEndpoint_round_robin_witness:
  "\<exists>es lb'. next_calls (\<lambda>k lb. NextEndpoint k ''c'' False lb) demo_key 2 demo_lb = Some (es, lb') \<and>
     mset es = mset [''10.0.0.2:80'', ''10.0.0.1:80''] \<and> lb_view lb' = lb_view demo_lb"
  using NextEndpoint_round_robin [OF demo_reachable, of demo_key
      "zero_balancerState\<lparr>bs_endpoints := [''10.0.0.2:80'', ''10.0.0.1:80'']\<rparr>" "''c''" False]
  by (simp add: demo_lb_def numeral_2_eq_2)

text \<open>
  C3. NextEndpoint refines a table of rotating queues: an unknown service and a service
  without endpoints give the two errors and change nothing; otherwise the head of the
  service's queue is returned and moves to its end, and no other queue changes.
\<close>

theorem NextEndpoint_refines_queue:
  assumes "lb_reachable lb" "NextEndpoint k addr reset lb = Inr (r, lb')"
  shows "case lb_view lb k of
           None \<Rightarrow> r = Inl ErrMissingServiceEntry \<and> lb' = lb
         | Some [] \<Rightarrow> r = Inl ErrMissingEndpoints \<and> lb' = lb
         | Some (e # es) \<Rightarrow> r = Inr e \<and> lb_view lb' = (lb_view lb)(k \<mapsto> es @ [e])"
  using rr.next_result [OF lb_reachable_inv [OF assms(1)] assms(2)]
  by (auto split: option.splits list.splits)

theorem NextEndpoint_refines_queue_witness:
  "lb_view demo_lb demo_key = Some [''10.0.0.2:80'', ''10.0.0.1:80''] \<and>
   (\<exists>lb'. NextEndpoint demo_key ''c'' False demo_lb = Inr (Inr ''10.0.0.2:80'', lb') \<and>
          lb_view lb' = (lb_view demo_lb)(demo_key \<mapsto> [''10.0.0.1:80'', ''10.0.0.2:80'']))"
proof -
  have v: "lb_view demo_lb demo_key = Some [''10.0.0.2:80'', ''10.0.0.1:80'']" by code_simp
  obtain r lb' where n: "NextEndpoint demo_key ''c'' False demo_lb = Inr (r, lb')"
    using rr.next_total [OF lb_reachable_inv [OF demo_reachable]] by blast
  from NextEndpoint_refines_queue [OF demo_reachable n] v n show ?thesis by auto
qed

section \<open>Endpoint changes\<close>

text \<open>
  C4. OnEndpointsUpdate, for every port name of the service: when the new object has
  addresses for the port, the service port is known afterwards and holds exactly these
  \<open>ip:port\<close> strings (as a multiset), and either nothing of its state changed or the
  round restarts at index 0; when only the old object had addresses, a known service port
  has no endpoint and index 0 afterwards; and all other service ports keep their state. The
  result is a function of the maps, so Go's iteration order plays no role.
\<close>

theorem OnEndpointsUpdate_sets_endpoints:
  assumes "GetIPs old = Some old_ips" "GetIPs new = Some ips" "\<And>k. perm_ok (rnd k)"
  shows "\<exists>lb'. OnEndpointsUpdate rnd old new service lb = Inr lb' \<and>
    (\<forall>p. let k = svcPortName (svc_key service) p in
       if addresses ips service p \<noteq> []
       then \<exists>st. map_of lb' k = Some st \<and> mset (bs_endpoints st) = mset (addresses ips service p) \<and>
                 (map_of lb k = Some st \<or> bs_index st = 0)
       else if addresses old_ips service p \<noteq> []
       then \<forall>st. map_of lb' k = Some st \<longrightarrow> bs_endpoints st = [] \<and> bs_index st = 0
       else map_of lb' k = map_of lb k) \<and>
    (\<forall>k. k \<notin> range (svcPortName (svc_key service)) \<longrightarrow> map_of lb' k = map_of lb k)"
proof -
  obtain lb' where lb': "OnEndpointsUpdate rnd old new service lb = Inr lb'"
    "\<And>p. map_of lb' (svcPortName (svc_key service) p) =
       (let st = map_of lb (svcPortName (svc_key service) p) in
        if addresses ips service p \<noteq> []
        then update_state (rnd (svcPortName (svc_key service) p)) (addresses ips service p) st
        else if addresses old_ips service p \<noteq> [] then reset_state st else st)"
    "\<And>k. k \<notin> range (svcPortName (svc_key service)) \<Longrightarrow> map_of lb' k = map_of lb k"
    using OnEndpointsUpdate_key [OF assms(1,2), of rnd service lb] by blast
  show ?thesis
    using lb' mset_update_state [OF assms(3)] by (auto simp: Let_def reset_state_def)
qed

theorem OnEndpointsUpdate_sets_endpoints_witness:
  "\<exists>lb' st. OnEndpointsUpdate demo_rnd (Some (demo_endpoint [''10.0.0.1''])) (Some (demo_endpoint [''10.0.0.9'']))
       demo_service demo_lb = Inr lb' \<and>
     map_of lb' demo_key = Some st \<and> mset (bs_endpoints st) = mset [''10.0.0.9:80'']"
proof -
  have a: "addresses \<lparr>ips_V4 = [''10.0.0.9''], ips_V6 = []\<rparr> demo_service ''http'' = [''10.0.0.9:80'']"
    by code_simp
  obtain lb' where "OnEndpointsUpdate demo_rnd (Some (demo_endpoint [''10.0.0.1''])) (Some (demo_endpoint [''10.0.0.9'']))
      demo_service demo_lb = Inr lb'"
    "\<exists>st. map_of lb' demo_key = Some st \<and>
       mset (bs_endpoints st) = mset (addresses \<lparr>ips_V4 = [''10.0.0.9''], ips_V6 = []\<rparr> demo_service ''http'')"
    using OnEndpointsUpdate_sets_endpoints [of "Some (demo_endpoint [''10.0.0.1''])" "\<lparr>ips_V4 = [''10.0.0.1''], ips_V6 = []\<rparr>"
      "Some (demo_endpoint [''10.0.0.9''])" "\<lparr>ips_V4 = [''10.0.0.9''], ips_V6 = []\<rparr>" demo_rnd demo_service demo_lb,
      OF _ _ perm_ok_demo] a
    by (auto simp: GetIPs_def demo_endpoint_def demo_key_def Let_def dest!: spec [of _ "''http''"])
  with a show ?thesis by auto
qed

text \<open>
  C5. An update that brings the same addresses in another order is no change: the state of
  every service port, its rotation included, is what it was.
\<close>

theorem OnEndpointsUpdate_same_addresses:
  assumes "GetIPs old = Some old_ips" "GetIPs new = Some ips"
    and "\<And>p. addresses ips service p \<noteq> [] \<Longrightarrow>
           \<exists>st. map_of lb (svcPortName (svc_key service) p) = Some st \<and>
                mset (bs_endpoints st) = mset (addresses ips service p)"
    and "\<And>p. addresses ips service p = [] \<Longrightarrow> addresses old_ips service p = []"
  shows "\<exists>lb'. OnEndpointsUpdate rnd old new service lb = Inr lb' \<and> map_of lb' = map_of lb"
proof -
  obtain lb' where lb': "OnEndpointsUpdate rnd old new service lb = Inr lb'"
    "\<And>p. map_of lb' (svcPortName (svc_key service) p) =
       (let st = map_of lb (svcPortName (svc_key service) p) in
        if addresses ips service p \<noteq> []
        then update_state (rnd (svcPortName (svc_key service) p)) (addresses ips service p) st
        else if addresses old_ips service p \<noteq> [] then reset_state st else st)"
    "\<And>k. k \<notin> range (svcPortName (svc_key service)) \<Longrightarrow> map_of lb' k = map_of lb k"
    using OnEndpointsUpdate_key [OF assms(1,2), of rnd service lb] by blast
  have same: "update_state perm eps (Some st) = Some st" if "mset (bs_endpoints st) = mset eps" for perm eps st
    using that mset_eq_length [OF that] by (simp add: update_state_def mset_sort_unique)
  have "map_of lb' k = map_of lb k" for k
  proof (cases "k \<in> range (svcPortName (svc_key service))")
    case True
    then obtain p where k: "k = svcPortName (svc_key service) p" by auto
    show ?thesis
    proof (cases "addresses ips service p = []")
      case True
      with lb'(2) [of p] assms(4) [OF True] k show ?thesis by simp
    next
      case False
      from assms(3) [OF this] obtain st where "map_of lb k = Some st"
        "mset (bs_endpoints st) = mset (addresses ips service p)" using k by auto
      with lb'(2) [of p] False k show ?thesis by (simp add: same)
    qed
  next
    case False
    then show ?thesis by (rule lb'(3))
  qed
  with lb'(1) show ?thesis by blast
qed

theorem OnEndpointsUpdate_same_addresses_witness:
  "\<exists>lb'. OnEndpointsUpdate demo_rnd (Some (demo_endpoint [''10.0.0.1'', ''10.0.0.2'']))
      (Some (demo_endpoint [''10.0.0.1'', ''10.0.0.2''])) demo_service demo_lb = Inr lb' \<and> map_of lb' = map_of demo_lb"
proof (rule OnEndpointsUpdate_same_addresses)
  let ?ips = "\<lparr>ips_V4 = [''10.0.0.1'', ''10.0.0.2''], ips_V6 = []\<rparr> :: IPSet"
  show "GetIPs (Some (demo_endpoint [''10.0.0.1'', ''10.0.0.2''])) = Some ?ips"
    and "GetIPs (Some (demo_endpoint [''10.0.0.1'', ''10.0.0.2''])) = Some ?ips"
    by (simp_all add: GetIPs_def demo_endpoint_def)
  have a: "addresses ?ips demo_service ''http'' = [''10.0.0.1:80'', ''10.0.0.2:80'']" by code_simp
  fix p
  assume "addresses ?ips demo_service p \<noteq> []"
  then have "p = ''http''" by (auto simp: addresses_def demo_service_def split: if_splits)
  with a show "\<exists>st. map_of demo_lb (svcPortName (svc_key demo_service) p) = Some st \<and>
      mset (bs_endpoints st) = mset (addresses ?ips demo_service p)"
    by (simp add: demo_lb_def demo_key_def)
qed

text \<open>
  C6. OnEndpointsAdd sets, for every port name with addresses, exactly these addresses and
  restarts the round, OnEndpointsDelete empties these service ports without forgetting them;
  both leave every other service port alone.
\<close>

theorem OnEndpoints_add_delete:
  assumes "GetIPs endpoint = Some ips" "\<And>k. perm_ok (rnd k)"
  shows "(\<exists>lb'. OnEndpointsAdd rnd endpoint service lb = Inr lb' \<and>
            (\<forall>p. addresses ips service p \<noteq> [] \<longrightarrow>
               (\<exists>st. map_of lb' (svcPortName (svc_key service) p) = Some st \<and>
                  mset (bs_endpoints st) = mset (addresses ips service p) \<and> bs_index st = 0)) \<and>
            (\<forall>k. (\<forall>p. k = svcPortName (svc_key service) p \<longrightarrow> addresses ips service p = []) \<longrightarrow>
               map_of lb' k = map_of lb k)) \<and>
         (\<exists>lb'. OnEndpointsDelete endpoint service lb = Inr lb' \<and>
            (\<forall>p. addresses ips service p \<noteq> [] \<longrightarrow>
               map_of lb' (svcPortName (svc_key service) p) =
                 reset_state (map_of lb (svcPortName (svc_key service) p))) \<and>
            (\<forall>k. (\<forall>p. k = svcPortName (svc_key service) p \<longrightarrow> addresses ips service p = []) \<longrightarrow>
               map_of lb' k = map_of lb k))" (is "?add \<and> ?delete")
proof
  obtain lb' where lb': "OnEndpointsAdd rnd endpoint service lb = Inr lb'"
    "\<And>p. map_of lb' (svcPortName (svc_key service) p) =
       (if addresses ips service p = [] then map_of lb (svcPortName (svc_key service) p)
        else add_state (rnd (svcPortName (svc_key service) p)) (addresses ips service p)
               (map_of lb (svcPortName (svc_key service) p)))"
    "\<And>k. k \<notin> range (svcPortName (svc_key service)) \<Longrightarrow> map_of lb' k = map_of lb k"
    using OnEndpointsAdd_key [OF assms(1), of rnd service lb] by blast
  have "map_of lb' k = map_of lb k"
    if "\<forall>p. k = svcPortName (svc_key service) p \<longrightarrow> addresses ips service p = []" for k
    using that lb'(2,3) by (cases "k \<in> range (svcPortName (svc_key service))") auto
  with lb'(1,2) mset_add_state [OF assms(2)] show ?add by auto
next
  obtain lb' where lb': "OnEndpointsDelete endpoint service lb = Inr lb'"
    "\<And>p. map_of lb' (svcPortName (svc_key service) p) =
       (let st = map_of lb (svcPortName (svc_key service) p) in
        if addresses ips service p = [] then st else reset_state st)"
    "\<And>k. k \<notin> range (svcPortName (svc_key service)) \<Longrightarrow> map_of lb' k = map_of lb k"
    using OnEndpointsDelete_key [OF assms(1), of service lb] by blast
  have "map_of lb' k = map_of lb k"
    if "\<forall>p. k = svcPortName (svc_key service) p \<longrightarrow> addresses ips service p = []" for k
    using that lb'(2,3) by (cases "k \<in> range (svcPortName (svc_key service))") (auto simp: Let_def)
  with lb'(1,2) show ?delete by (auto simp: Let_def)
qed

theorem OnEndpoints_add_delete_witness:
  "\<exists>lb'. OnEndpointsDelete (Some (demo_endpoint [''10.0.0.1''])) demo_service demo_lb = Inr lb'"
  using OnEndpoints_add_delete [of "Some (demo_endpoint [''10.0.0.1''])" "\<lparr>ips_V4 = [''10.0.0.1''], ips_V6 = []\<rparr>" demo_rnd,
    OF _ perm_ok_demo, of demo_service demo_lb]
  by (auto simp: GetIPs_def demo_endpoint_def)

section \<open>Session affinity\<close>

text \<open>
  C7. Session affinity is not implemented: in every reachable state all affinity maps are
  empty, so CleanupStaleStickySessions changes no entry at any time, and the answer of
  NextEndpoint does not depend on the client address or on the reset flag.
\<close>

theorem affinity_never_recorded:
  assumes "lb_reachable lb"
  shows "map_of (CleanupStaleStickySessions now k lb) = map_of lb \<and>
         (\<forall>k st. map_of lb k = Some st \<longrightarrow> ap_affinityMap (bs_affinity st) = []) \<and>
         NextEndpoint k addr reset lb = NextEndpoint k addr' reset' lb"
  using lb_reachable_inv [OF assms] CleanupStaleStickySessions_id [OF lb_reachable_inv [OF assms]]
  by (auto simp: lb_inv_def state_ok_def NextEndpoint_def)

theorem affinity_never_recorded_witness:
  "map_of (CleanupStaleStickySessions 7 demo_key demo_lb) = map_of demo_lb"
  using affinity_never_recorded [OF demo_reachable] by blast

end
