(* ===== verification/Sockets.thy ===== *)
theory Sockets
  imports LoadBalancer RoundRobinProps
begin

text \<open>
  \<^verbatim>\<open>pkg/proxy/userspace/utils.go\<close> and \<^verbatim>\<open>pkg/proxy/userspace/proxysocket.go\<close>: the listen
  addresses of a service, the dialing of a backend, and the accept loops of the TCP and UDP
  proxy sockets. The network is a record of operations on a state \<open>'w\<close> of the outside
  world; an error of the network is its text, as \<open>err.Error()\<close> gives it. Reading whether
  the service is still alive reads the world too, since another goroutine may clear the
  flag while the loop blocks. A loop that never returns is \<open>None\<close>.
\<close>

section \<open>Listen addresses\<close>

definition allAvailableInterfaces :: string where
  "allAvailableInterfaces = []"

text \<open>
  Nil pointers on the way to \<open>ClusterIPs.V4[0]\<close> or \<open>ExternalIPs.V4\<close> panic, and so does an
  empty list of cluster addresses.
\<close>

definition getListenIPPortMap :: "Service \<Rightarrow> int32 \<Rightarrow> int32 \<Rightarrow> (string, int32) gomap go" where
  "getListenIPPortMap service listenPort nodePort =
     (case svc_IPs service of
        None \<Rightarrow> Inl NilDereference
      | Some serviceIP \<Rightarrow>
     (case sip_ClusterIPs serviceIP of
        None \<Rightarrow> Inl NilDereference
      | Some clusterIPs \<Rightarrow>
     (case ips_V4 clusterIPs of
        [] \<Rightarrow> Inl IndexOutOfRange
      | ip0 # _ \<Rightarrow>
          let listenIPPortMap = AList.update ip0 listenPort [] in
     (case sip_ExternalIPs serviceIP of
        None \<Rightarrow> Inl NilDereference
      | Some externalIPs \<Rightarrow>
          let listenIPPortMap =
                fold (\<lambda>ip m. AList.update ip listenPort m) (ips_V4 externalIPs) listenIPPortMap
          in Inr (if nodePort \<noteq> 0 then AList.update allAvailableInterfaces nodePort listenIPPortMap
                  else listenIPPortMap)))))"

section \<open>Dialing a backend\<close>

definition isTooManyFDsError :: "string \<Rightarrow> bool" where
  "isTooManyFDsError err = Contains err ''too many open files''"

definition isClosedError :: "string \<Rightarrow> bool" where
  "isClosedError err = HasSuffix err ''use of closed network connection''"

text \<open>The dial timeouts in milliseconds.\<close>

definition endpointDialTimeout :: "nat list" where
  "endpointDialTimeout = [250, 500, 1000, 2000]"

record ServicePortPortalName =
  sppn_NamespacedName :: NamespacedName
  sppn_Port :: string
  sppn_PortalIPName :: string

datatype 'e connect_error = NoEndpoint 'e | FailedToConnect

type_synonym ('w, 'c) dialer = "string \<Rightarrow> string \<Rightarrow> nat \<Rightarrow> 'w \<Rightarrow> (string + 'c) \<times> 'w"

text \<open>
  The body of the loop of tryConnect, over the timeouts that are left. \<open>next_ep\<close> is the
  NextEndpoint of the load balancer that the proxier holds, on a state \<open>'s\<close> of its own choice.
  The code holds the lock of the balancer inside NextEndpoint only. With NextEndpoint of the
  round-robin balancer and its state for \<open>'s\<close> the loop runs while no other goroutine uses the
  balancer; with \<open>shared_next\<close> of the theory \<open>SharedBalancer\<close>, whose state carries a schedule
  of the calls of others, it runs beside other goroutines.
\<close>

fun tryConnect_loop ::
  "(ServicePortName \<Rightarrow> string \<Rightarrow> bool \<Rightarrow> 's \<Rightarrow> (('e + string) \<times> 's) go) \<Rightarrow> ('w, 'c) dialer \<Rightarrow>
   ServicePortPortalName \<Rightarrow> string \<Rightarrow> string \<Rightarrow> nat list \<Rightarrow> bool \<Rightarrow> 's \<times> 'w \<Rightarrow>
   (('e connect_error + 'c) \<times> 's \<times> 'w) go" where
  "tryConnect_loop next_ep dial service srcAddr protocol [] sessionAffinityReset (s, w) =
     Inr (Inl FailedToConnect, s, w)"
| "tryConnect_loop next_ep dial service srcAddr protocol (dialTimeout # ts) sessionAffinityReset (s, w) =
     (case next_ep (svcPortName (sppn_NamespacedName service) (sppn_Port service)) srcAddr sessionAffinityReset s of
        Inl p \<Rightarrow> Inl p
      | Inr (Inl err, s) \<Rightarrow> Inr (Inl (NoEndpoint err), s, w)
      | Inr (Inr endpoint, s) \<Rightarrow>
          (case dial protocol endpoint dialTimeout w of
             (Inl err, w) \<Rightarrow>
               if isTooManyFDsError err then Inl (Panicked err)
               else tryConnect_loop next_ep dial service srcAddr protocol ts True (s, w)
           | (Inr outConn, w) \<Rightarrow> Inr (Inr outConn, s, w)))"

definition tryConnect ::
  "(ServicePortName \<Rightarrow> string \<Rightarrow> bool \<Rightarrow> 's \<Rightarrow> (('e + string) \<times> 's) go) \<Rightarrow> ('w, 'c) dialer \<Rightarrow>
   ServicePortPortalName \<Rightarrow> string \<Rightarrow> string \<Rightarrow> 's \<times> 'w \<Rightarrow> (('e connect_error + 'c) \<times> 's \<times> 'w) go" where
  "tryConnect next_ep dial service srcAddr protocol sw =
     tryConnect_loop next_ep dial service srcAddr protocol endpointDialTimeout False sw"

section \<open>The TCP loop\<close>

record ('w, 'c) net_ops =
  no_alive :: "'w \<Rightarrow> bool"
  no_accept :: "'w \<Rightarrow> (string + 'c) \<times> 'w"
  no_remote :: "'c \<Rightarrow> string"
  no_dial :: "('w, 'c) dialer"
  no_close :: "'c \<Rightarrow> 'w \<Rightarrow> 'w"
  no_spawn :: "'c \<Rightarrow> 'c \<Rightarrow> 'w \<Rightarrow> 'w"

text \<open>
  One turn of the accept loop: what it does, and whether the loop goes on. \<open>no_spawn\<close>
  starts the goroutine \<open>proxyTCP(in, out)\<close>.
\<close>

definition tcp_turn ::
  "(ServicePortName \<Rightarrow> string \<Rightarrow> bool \<Rightarrow> 's \<Rightarrow> (('e + string) \<times> 's) go) \<Rightarrow> ('w, 'c) net_ops \<Rightarrow>
   ServicePortPortalName \<Rightarrow> 's \<times> 'w \<Rightarrow> (loop_ctl \<times> 's \<times> 'w) go" where
  "tcp_turn next_ep net service = (\<lambda>(s, w).
     if \<not> no_alive net w then Inr (Return, s, w)
     else (case no_accept net w of
        (Inl err, w) \<Rightarrow>
          if isTooManyFDsError err then Inl (Panicked (''Accept failed: '' @ err))
          else if isClosedError err then Inr (Return, s, w)
          else if \<not> no_alive net w then Inr (Return, s, w)
          else Inr (Again, s, w)
      | (Inr inConn, w) \<Rightarrow>
          (case tryConnect next_ep (no_dial net) service (no_remote net inConn) ''tcp'' (s, w) of
             Inl p \<Rightarrow> Inl p
           | Inr (Inl err, s, w) \<Rightarrow> Inr (Again, s, no_close net inConn w)
           | Inr (Inr outConn, s, w) \<Rightarrow> Inr (Again, s, no_spawn net inConn outConn w))))"

definition tcp_ProxyLoop ::
  "(ServicePortName \<Rightarrow> string \<Rightarrow> bool \<Rightarrow> 's \<Rightarrow> (('e + string) \<times> 's) go) \<Rightarrow> ('w, 'c) net_ops \<Rightarrow>
   ServicePortPortalName \<Rightarrow> 's \<times> 'w \<Rightarrow> ('s \<times> 'w) go option" where
  "tcp_ProxyLoop next_ep net service sw = go_loop (tcp_turn next_ep net service) sw"

section \<open>The UDP loop\<close>

text \<open>
  \<open>activeClients\<close> is a pointer: \<open>None\<close> is nil, and locking its mutex then panics. The table
  maps the text of a client address to the connection to its backend. A network error is
  its text with its \<open>Temporary()\<close> answer.
\<close>

type_synonym 'c clientCache = "(string, 'c) gomap"

record ('w, 'c) udp_ops =
  uo_alive :: "'w \<Rightarrow> bool"
  uo_read :: "'w \<Rightarrow> ((string \<times> bool) + (string \<times> string)) \<times> 'w"
  uo_dial :: "('w, 'c) dialer"
  uo_set_deadline :: "'c \<Rightarrow> 'w \<Rightarrow> string option \<times> 'w"
  uo_write :: "'c \<Rightarrow> string \<Rightarrow> 'w \<Rightarrow> string option \<times> 'w"
  uo_spawn :: "string \<Rightarrow> 'c \<Rightarrow> 'w \<Rightarrow> 'w"

datatype 'e udp_error = ConnectFailed "'e connect_error" | SetDeadlineFailed string

definition getBackendConn ::
  "(ServicePortName \<Rightarrow> string \<Rightarrow> bool \<Rightarrow> 's \<Rightarrow> (('e + string) \<times> 's) go) \<Rightarrow> ('w, 'c) udp_ops \<Rightarrow>
   ServicePortPortalName \<Rightarrow> string \<Rightarrow> 'c clientCache option \<Rightarrow> 's \<times> 'w \<Rightarrow>
   (('e udp_error + 'c) \<times> 'c clientCache option \<times> 's \<times> 'w) go" where
  "getBackendConn next_ep net service cliAddr activeClients = (\<lambda>(s, w).
     case activeClients of
       None \<Rightarrow> Inl NilDereference
     | Some clients \<Rightarrow>
         (case map_of clients cliAddr of
            Some svrConn \<Rightarrow> Inr (Inr svrConn, activeClients, s, w)
          | None \<Rightarrow>
              (case tryConnect next_ep (uo_dial net) service cliAddr ''udp'' (s, w) of
                 Inl p \<Rightarrow> Inl p
               | Inr (Inl err, s, w) \<Rightarrow> Inr (Inl (ConnectFailed err), activeClients, s, w)
               | Inr (Inr svrConn, s, w) \<Rightarrow>
                   (case uo_set_deadline net svrConn w of
                      (Some err, w) \<Rightarrow> Inr (Inl (SetDeadlineFailed err), activeClients, s, w)
                    | (None, w) \<Rightarrow>
                        Inr (Inr svrConn, Some (AList.update cliAddr svrConn clients), s,
                             uo_spawn net cliAddr svrConn w)))))"

definition udp_turn ::
  "(ServicePortName \<Rightarrow> string \<Rightarrow> bool \<Rightarrow> 's \<Rightarrow> (('e + string) \<times> 's) go) \<Rightarrow> ('w, 'c) udp_ops \<Rightarrow>
   ServicePortPortalName \<Rightarrow> 'c clientCache option \<times> 's \<times> 'w \<Rightarrow>
   (loop_ctl \<times> 'c clientCache option \<times> 's \<times> 'w) go" where
  "udp_turn next_ep net service = (\<lambda>(clients, s, w).
     if \<not> uo_alive net w then Inr (Return, clients, s, w)
     else (case uo_read net w of
        (Inl (err, temporary), w) \<Rightarrow> Inr (if temporary then Again else Return, clients, s, w)
      | (Inr (buffer, cliAddr), w) \<Rightarrow>
          (case getBackendConn next_ep net service cliAddr clients (s, w) of
             Inl p \<Rightarrow> Inl p
           | Inr (Inl err, clients, s, w) \<Rightarrow> Inr (Again, clients, s, w)
           | Inr (Inr svrConn, clients, s, w) \<Rightarrow>
               (case uo_write net svrConn buffer w of
                  (Some err, w) \<Rightarrow> Inr (Again, clients, s, w)
                | (None, w) \<Rightarrow> Inr (Again, clients, s, snd (uo_set_deadline net svrConn w))))))"

definition udp_ProxyLoop ::
  "(ServicePortName \<Rightarrow> string \<Rightarrow> bool \<Rightarrow> 's \<Rightarrow> (('e + string) \<times> 's) go) \<Rightarrow> ('w, 'c) udp_ops \<Rightarrow>
   ServicePortPortalName \<Rightarrow> 'c clientCache option \<times> 's \<times> 'w \<Rightarrow>
   ('c clientCache option \<times> 's \<times> 'w) go option" where
  "udp_ProxyLoop next_ep net service st = go_loop (udp_turn next_ep net service) st"

text \<open>
  proxyClient, the goroutine of one UDP client: it copies answers back until an operation
  fails, and then removes the client from the table. One turn of its loop, with the reply
  it writes to the client; the end of the loop is \<open>Return\<close>.
\<close>

record ('w, 'c) reply_ops =
  ro_read :: "'c \<Rightarrow> 'w \<Rightarrow> (string + string) \<times> 'w"
  ro_set_deadline :: "'c \<Rightarrow> 'w \<Rightarrow> string option \<times> 'w"
  ro_write_to :: "string \<Rightarrow> string \<Rightarrow> 'w \<Rightarrow> string option \<times> 'w"
  ro_close :: "'c \<Rightarrow> 'w \<Rightarrow> 'w"

definition proxyClient_turn :: "('w, 'c) reply_ops \<Rightarrow> string \<Rightarrow> 'c \<Rightarrow> 'w \<Rightarrow> loop_ctl \<times> 'w" where
  "proxyClient_turn net cliAddr svrConn w =
     (case ro_read net svrConn w of
        (Inl err, w) \<Rightarrow> (Return, w)
      | (Inr buffer, w) \<Rightarrow>
          (case ro_set_deadline net svrConn w of
             (Some err, w) \<Rightarrow> (Return, w)
           | (None, w) \<Rightarrow>
               (case ro_write_to net buffer cliAddr w of
                  (Some err, w) \<Rightarrow> (Return, w)
                | (None, w) \<Rightarrow> (Again, w))))"

text \<open>
  The whole goroutine. The table of clients at the end of the loop, \<open>clients\<close>, is shared with
  the UDP loop; the deferred close runs last.
\<close>

definition proxyClient ::
  "('w, 'c) reply_ops \<Rightarrow> string \<Rightarrow> 'c \<Rightarrow> 'c clientCache \<Rightarrow> 'w \<Rightarrow> ('c clientCache \<times> 'w) go option" where
  "proxyClient net cliAddr svrConn clients w =
     map_option (map_sum id (\<lambda>w. (AList.delete cliAddr clients, ro_close net svrConn w)))
       (go_loop (\<lambda>w. Inr (proxyClient_turn net cliAddr svrConn w)) w)"

section \<open>Opening a listener\<close>

datatype proxySocket = TcpSocket nat int | UdpSocket nat int

datatype socket_error = ListenFailed string | UnknownProtocol

text \<open>
  The three calls into package net: \<open>net.Listen("tcp", addr)\<close>, \<open>net.ResolveUDPAddr\<close> and
  \<open>net.ListenUDP\<close>. A listener is known by a number.
\<close>

record 'w listen_ops =
  lo_listen_tcp :: "string \<Rightarrow> 'w \<Rightarrow> (string + nat) \<times> 'w"
  lo_resolve_udp :: "string \<Rightarrow> 'w \<Rightarrow> (string + string) \<times> 'w"
  lo_listen_udp :: "string \<Rightarrow> 'w \<Rightarrow> (string + nat) \<times> 'w"

definition newProxySocket ::
  "'w listen_ops \<Rightarrow> Protocol \<Rightarrow> IP \<Rightarrow> int \<Rightarrow> 'w \<Rightarrow> (socket_error + proxySocket) \<times> 'w" where
  "newProxySocket net protocol ip port w =
     (let host = (if ip \<noteq> [] then IP_String ip else []) in
      case protocol of
        Protocol_TCP \<Rightarrow>
          (case lo_listen_tcp net (JoinHostPort host (Itoa port)) w of
             (Inl err, w) \<Rightarrow> (Inl (ListenFailed err), w)
           | (Inr listener, w) \<Rightarrow> (Inr (TcpSocket listener port), w))
      | Protocol_UDP \<Rightarrow>
          (case lo_resolve_udp net (JoinHostPort host (Itoa port)) w of
             (Inl err, w) \<Rightarrow> (Inl (ListenFailed err), w)
           | (Inr addr, w) \<Rightarrow>
               (case lo_listen_udp net addr w of
                  (Inl err, w) \<Rightarrow> (Inl (ListenFailed err), w)
                | (Inr conn, w) \<Rightarrow> (Inr (UdpSocket conn port), w)))
      | Protocol_other n \<Rightarrow> (Inl UnknownProtocol, w))"

definition ListenPort :: "proxySocket \<Rightarrow> int" where
  "ListenPort sock = (case sock of TcpSocket _ port \<Rightarrow> port | UdpSocket _ port \<Rightarrow> port)"

end
