(* ===== verification/SocketsProps.thy ===== *)
theory SocketsProps
  imports Sockets
begin

text \<open>
  Correctness of the proxy sockets: the listen addresses of a service, the dialing of the
  backends in queue order (proved once for every load balancer that meets the interface and
  carried to the round-robin one), and the end of the accept loops.
\<close>

section \<open>Listen addresses\<close>

lemma map_of_fold_update:
  "map_of (fold (\<lambda>ip m. AList.update ip v m) ips m) k = (if k \<in> set ips then Some v else map_of m k)"
  by (induction ips arbitrary: m) auto

lemma wf_fold_update: "wf_map m \<Longrightarrow> wf_map (fold (\<lambda>ip m. AList.update ip v m) ips m)"
  by (rule fold_invariant [where I = wf_map]) (auto intro: wf_map_update)

text \<open>A service whose listen addresses can be read.\<close>

definition has_listen_ips :: "Service \<Rightarrow> bool" where
  "has_listen_ips service \<longleftrightarrow>
     (\<exists>ips ip0 r r6 ext. svc_IPs service = Some ips \<and>
        sip_ClusterIPs ips = Some \<lparr>ips_V4 = ip0 # r, ips_V6 = r6\<rparr> \<and> sip_ExternalIPs ips = Some ext)"

definition listen_ips :: "Service \<Rightarrow> string list" where
  "listen_ips service =
     (case svc_IPs service of
        None \<Rightarrow> []
      | Some ips \<Rightarrow>
          (case sip_ClusterIPs ips of None \<Rightarrow> [] | Some c \<Rightarrow> take 1 (ips_V4 c)) @
          (case sip_ExternalIPs ips of None \<Rightarrow> [] | Some e \<Rightarrow> ips_V4 e))"

lemma getListenIPPortMap_Inr:
  assumes "has_listen_ips service"
  shows "\<exists>m. getListenIPPortMap service listenPort nodePort = Inr m \<and> wf_map m \<and>
    (\<forall>ip. map_of m ip =
       (if ip = allAvailableInterfaces \<and> nodePort \<noteq> 0 then Some nodePort
        else if ip \<in> set (listen_ips service) then Some listenPort else None))"
proof -
  obtain ips ip0 r r6 ext where s: "svc_IPs service = Some ips"
    "sip_ClusterIPs ips = Some \<lparr>ips_V4 = ip0 # r, ips_V6 = r6\<rparr>" "sip_ExternalIPs ips = Some ext"
    using assms unfolding has_listen_ips_def by blast
  let ?m = "fold (\<lambda>ip m. AList.update ip listenPort m) (ips_V4 ext) (AList.update ip0 listenPort [])"
  have "wf_map ?m" by (intro wf_fold_update wf_map_update) simp
  then have "wf_map (if nodePort \<noteq> 0 then AList.update allAvailableInterfaces nodePort ?m else ?m)"
    by (simp del: update.simps)
  moreover have "getListenIPPortMap service listenPort nodePort =
      Inr (if nodePort \<noteq> 0 then AList.update allAvailableInterfaces nodePort ?m else ?m)"
    by (simp add: getListenIPPortMap_def s)
  moreover have "listen_ips service = ip0 # ips_V4 ext" by (simp add: listen_ips_def s)
  ultimately show ?thesis by (auto simp: map_of_fold_update simp del: update.simps)
qed

lemma getListenIPPortMap_panics:
  assumes "\<not> has_listen_ips service"
  shows "\<exists>p. getListenIPPortMap service listenPort nodePort = Inl p"
proof (cases "svc_IPs service")
  case (Some ips)
  show ?thesis
  proof (cases "sip_ClusterIPs ips")
    case c: (Some c)
    show ?thesis
    proof (cases "ips_V4 c")
      case (Cons ip0 r)
      then have "c = \<lparr>ips_V4 = ip0 # r, ips_V6 = ips_V6 c\<rparr>" by simp
      with assms Some c have "sip_ExternalIPs ips = None"
        unfolding has_listen_ips_def by (metis not_None_eq)
      with Some c Cons show ?thesis by (simp add: getListenIPPortMap_def)
    qed (use Some c in \<open>simp add: getListenIPPortMap_def\<close>)
  qed (use Some in \<open>simp add: getListenIPPortMap_def\<close>)
qed (simp add: getListenIPPortMap_def)

text \<open>
  C37. The listen addresses of a service port: the first cluster address and every
  external IPv4 address with the service port, and the empty address (all interfaces) with
  the node port when there is one; nothing else. The call panics exactly when the service
  has no IP object, no cluster or external address object, or no IPv4 cluster address.
\<close>

theorem getListenIPPortMap_addresses:
  "(has_listen_ips service \<longrightarrow>
      (\<exists>m. getListenIPPortMap service listenPort nodePort = Inr m \<and> wf_map m \<and>
         (\<forall>ip. map_of m ip =
            (if ip = allAvailableInterfaces \<and> nodePort \<noteq> 0 then Some nodePort
             else if ip \<in> set (listen_ips service) then Some listenPort else None)))) \<and>
   (\<not> has_listen_ips service \<longrightarrow> (\<exists>p. getListenIPPortMap service listenPort nodePort = Inl p))"
  using getListenIPPortMap_Inr getListenIPPortMap_panics by blast

lemma demo_service_listens: "has_listen_ips demo_service"
  by (auto simp: has_listen_ips_def demo_service_def)

theorem getListenIPPortMap_addresses_witness:
  "\<exists>m. getListenIPPortMap demo_service 80 30080 = Inr m \<and> map_of m [] = Some 30080 \<and>
       map_of m ''10.96.0.4'' = Some 80"
  using getListenIPPortMap_addresses [of demo_service 80 30080] demo_service_listens
  by (auto simp: allAvailableInterfaces_def listen_ips_def demo_service_def)

section \<open>Dialing in queue order\<close>

text \<open>
  The specification of tryConnect on a queue of endpoints: dial the head with the next
  timeout, move it to the end, and stop at the first connection.
\<close>

fun dial_queue ::
  "('w, 'c) dialer \<Rightarrow> string \<Rightarrow> nat list \<Rightarrow> string list \<Rightarrow> 'w \<Rightarrow> ('c option \<times> string list \<times> 'w) go" where
  "dial_queue dial protocol [] es w = Inr (None, es, w)"
| "dial_queue dial protocol (t # ts) es w =
     (case dial protocol (hd es) t w of
        (Inr c, w) \<Rightarrow> Inr (Some c, rotate1 es, w)
      | (Inl err, w) \<Rightarrow>
          if isTooManyFDsError err then Inl (Panicked err)
          else dial_queue dial protocol ts (rotate1 es) w)"

locale proxy_balancer =
  load_balancer next_ep new_service delete_service view inv e_service e_endpoints
  for next_ep :: "ServicePortName \<Rightarrow> string \<Rightarrow> bool \<Rightarrow> 's \<Rightarrow> (('e + string) \<times> 's) go"
    and new_service :: "ServicePortName \<Rightarrow> 'a \<Rightarrow> int \<Rightarrow> 's \<Rightarrow> 's"
    and delete_service :: "ServicePortName \<Rightarrow> 's \<Rightarrow> 's"
    and view :: "'s \<Rightarrow> ServicePortName \<Rightarrow> string list option"
    and inv :: "'s \<Rightarrow> bool"
    and e_service :: 'e
    and e_endpoints :: 'e
begin

lemma tryConnect_loop_queue:
  assumes "inv s" "view s (svcPortName (sppn_NamespacedName service) (sppn_Port service)) = Some es" "es \<noteq> []"
  shows "case dial_queue dial protocol ts es w of
      Inl p \<Rightarrow> tryConnect_loop next_ep dial service srcAddr protocol ts reset (s, w) = Inl p
    | Inr (c, es', w') \<Rightarrow> \<exists>s'.
        tryConnect_loop next_ep dial service srcAddr protocol ts reset (s, w) =
          Inr (case c of None \<Rightarrow> Inl FailedToConnect | Some c \<Rightarrow> Inr c, s', w') \<and> inv s' \<and>
        view s' = (view s)(svcPortName (sppn_NamespacedName service) (sppn_Port service) \<mapsto> es')"
  using assms
proof (induction ts arbitrary: s es w reset)
  case Nil
  then show ?case by (auto simp: fun_upd_idem)
next
  case (Cons t ts)
  let ?k = "svcPortName (sppn_NamespacedName service) (sppn_Port service)"
  from Cons.prems(3) obtain e r where es: "es = e # r" by (cases es) auto
  with Cons.prems obtain s1 where s1: "next_ep ?k srcAddr reset s = Inr (Inr e, s1)" "inv s1"
    "view s1 = (view s)(?k \<mapsto> r @ [e])" using next_some [of s ?k e r srcAddr reset] by auto
  obtain d w1 where d: "dial protocol e t w = (d, w1)" by fastforce
  show ?case
  proof (cases d)
    case (Inr c)
    with s1 d show ?thesis by (simp add: es)
  next
    case (Inl err)
    show ?thesis
    proof (cases "isTooManyFDsError err")
      case True
      with Inl s1 d show ?thesis by (simp add: es)
    next
      case False
      have v: "view s1 ?k = Some (r @ [e])" by (simp add: s1(3))
      have upd: "(view s1)(?k \<mapsto> zs) = (view s)(?k \<mapsto> zs)" for zs
        by (simp add: s1(3))
      note IH = Cons.IH [where w = w1 and reset = True, OF s1(2) v, unfolded upd]
      from IH Inl False s1(1) d show ?thesis
        by (simp add: es del: fun_upd_apply split: sum.splits prod.splits)
    qed
  qed
qed

text \<open>Without a service entry or without endpoints nothing is dialed.\<close>

lemma tryConnect_no_endpoint:
  assumes "view s (svcPortName (sppn_NamespacedName service) (sppn_Port service)) = None \<or>
           view s (svcPortName (sppn_NamespacedName service) (sppn_Port service)) = Some []"
  shows "\<exists>err. tryConnect next_ep dial service srcAddr protocol (s, w) = Inr (Inl (NoEndpoint err), s, w)"
  using assms next_unknown next_empty by (auto simp: tryConnect_def endpointDialTimeout_def)

end

interpretation rrp: proxy_balancer NextEndpoint NewService DeleteService
  lb_view lb_inv ErrMissingServiceEntry ErrMissingEndpoints
  by unfold_locales

text \<open>
  C18. tryConnect over the round-robin balancer, in any reachable state: it is dial_queue on
  the service's queue with the four timeouts 250 ms, 500 ms, 1 s, 2 s, so it makes at most
  four attempts, at consecutive endpoints of the queue, stops at the first connection, and
  leaves the queue rotated by the attempts it made; a service without endpoints is an error
  without an attempt. This is tryConnect alone: no other goroutine calls the balancer between
  two of its attempts (with such calls see \<open>SharedBalancer\<close>).
\<close>

theorem tryConnect_dials_queue:
  assumes "lb_reachable lb"
    and "lb_view lb (svcPortName (sppn_NamespacedName service) (sppn_Port service)) = Some es"
  shows "(es = [] \<longrightarrow> (\<exists>err. tryConnect NextEndpoint dial service srcAddr protocol (lb, w) =
            Inr (Inl (NoEndpoint err), lb, w))) \<and>
    (es \<noteq> [] \<longrightarrow> (case dial_queue dial protocol [250, 500, 1000, 2000] es w of
      Inl p \<Rightarrow> tryConnect NextEndpoint dial service srcAddr protocol (lb, w) = Inl p
    | Inr (c, es', w') \<Rightarrow> \<exists>lb'.
        tryConnect NextEndpoint dial service srcAddr protocol (lb, w) =
          Inr (case c of None \<Rightarrow> Inl FailedToConnect | Some c \<Rightarrow> Inr c, lb', w') \<and>
        lb_view lb' = (lb_view lb)(svcPortName (sppn_NamespacedName service) (sppn_Port service) \<mapsto> es')))"
proof (intro conjI impI)
  assume "es = []"
  with assms(2) show "\<exists>err. tryConnect NextEndpoint dial service srcAddr protocol (lb, w) =
      Inr (Inl (NoEndpoint err), lb, w)"
    by (intro rrp.tryConnect_no_endpoint) simp
next
  assume "es \<noteq> []"
  from rrp.tryConnect_loop_queue [where dial = dial and protocol = protocol and w = w and srcAddr = srcAddr
      and ts = "[250, 500, 1000, 2000]" and reset = False, OF lb_reachable_inv [OF assms(1)] assms(2) this]
  show "case dial_queue dial protocol [250, 500, 1000, 2000] es w of
      Inl p \<Rightarrow> tryConnect NextEndpoint dial service srcAddr protocol (lb, w) = Inl p
    | Inr (c, es', w') \<Rightarrow> \<exists>lb'.
        tryConnect NextEndpoint dial service srcAddr protocol (lb, w) =
          Inr (case c of None \<Rightarrow> Inl FailedToConnect | Some c \<Rightarrow> Inr c, lb', w') \<and>
        lb_view lb' = (lb_view lb)(svcPortName (sppn_NamespacedName service) (sppn_Port service) \<mapsto> es')"
    unfolding tryConnect_def endpointDialTimeout_def
    by (auto simp only: split: sum.splits prod.splits)
qed

definition demo_portal :: ServicePortPortalName where
  "demo_portal = \<lparr>sppn_NamespacedName = svc_key demo_service, sppn_Port = ''http'', sppn_PortalIPName = ''10.96.0.4''\<rparr>"

text \<open>A dialer for the witnesses: the world counts the attempts, one backend refuses.\<close>

definition demo_dial :: "(nat, string) dialer" where
  "demo_dial protocol endpoint t w =
     (if endpoint = ''10.0.0.1:80'' then Inr endpoint else Inl ''connection refused'', Suc w)"

lemma demo_view: "lb_view demo_lb (svcPortName (sppn_NamespacedName demo_portal) (sppn_Port demo_portal)) =
    Some [''10.0.0.2:80'', ''10.0.0.1:80'']"
  by code_simp

theorem tryConnect_dials_queue_witness:
  "\<exists>lb'. tryConnect NextEndpoint demo_dial demo_portal ''c'' ''tcp'' (demo_lb, 0) = Inr (Inr ''10.0.0.1:80'', lb', 2)"
proof -
  have "dial_queue demo_dial ''tcp'' [250, 500, 1000, 2000] [''10.0.0.2:80'', ''10.0.0.1:80''] 0 =
      Inr (Some ''10.0.0.1:80'', [''10.0.0.2:80'', ''10.0.0.1:80''], 2)"
    by code_simp
  with tryConnect_dials_queue [OF demo_reachable demo_view, of demo_dial "''c''" "''tcp''" 0]
  show ?thesis by auto
qed

section \<open>The accept loops\<close>

text \<open>
  C20. The TCP loop ends when the service port is closed: after any number of turns, if the
  alive flag is off, or Accept fails with a closed-listener error, the loop returns, without
  a panic and without another call of the load balancer.
\<close>

theorem tcp_ProxyLoop_stops:
  assumes "turns (tcp_turn next_ep net service) n sw = Some (s, w)"
    and "\<not> no_alive net w \<or>
         (\<exists>err w1. no_accept net w = (Inl err, w1) \<and> isClosedError err \<and> \<not> isTooManyFDsError err)"
  shows "\<exists>w'. tcp_ProxyLoop next_ep net service sw = Some (Inr (s, w'))"
proof -
  have "\<exists>w'. tcp_turn next_ep net service (s, w) = Inr (Return, s, w')"
    using assms(2) by (auto simp: tcp_turn_def)
  with assms(1) show ?thesis by (auto simp: tcp_ProxyLoop_def dest: go_loop_stops(1))
qed

definition demo_net :: "(nat, string) net_ops" where
  "demo_net = \<lparr>no_alive = (\<lambda>_. True),
     no_accept = (\<lambda>w. if w = 0 then (Inr ''client'', 1) else (Inl ''accept tcp: use of closed network connection'', w)),
     no_remote = id, no_dial = demo_dial, no_close = (\<lambda>_ w. w), no_spawn = (\<lambda>_ _ w. w)\<rparr>"

theorem tcp_ProxyLoop_stops_witness:
  "\<exists>lb w'. tcp_ProxyLoop NextEndpoint demo_net demo_portal (demo_lb, 0) = Some (Inr (lb, w'))"
proof -
  have "case turns (tcp_turn NextEndpoint demo_net demo_portal) 1 (demo_lb, 0) of
      None \<Rightarrow> False | Some (s, w) \<Rightarrow> w \<noteq> 0"
    by code_simp
  then obtain s w where t: "turns (tcp_turn NextEndpoint demo_net demo_portal) 1 (demo_lb, 0) = Some (s, w)"
    and w: "w \<noteq> 0" by (auto split: option.splits)
  have "isClosedError ''accept tcp: use of closed network connection''"
    and "\<not> isTooManyFDsError ''accept tcp: use of closed network connection''" by code_simp+
  then show ?thesis
    using tcp_ProxyLoop_stops [OF t] w by (auto simp: demo_net_def)
qed

text \<open>
  A known UDP client keeps its backend: once getBackendConn has returned a connection
  for a client, every later call for the same client returns the same connection, whatever
  happened to the balancer and the network, without dialing and without a new goroutine.
\<close>

lemma getBackendConn_sticky:
  assumes "getBackendConn next_ep net service cliAddr clients sw = Inr (Inr conn, clients', sw')"
  shows "getBackendConn next_ep net service cliAddr clients' (s, w) = Inr (Inr conn, clients', s, w)"
  using assms
  by (cases sw)
     (auto simp: getBackendConn_def split: option.splits sum.splits prod.splits)

text \<open>
  A UDP loop whose client table is nil serves nobody: the first datagram that is read makes
  it panic, and if it returns it has not called the balancer.
\<close>

lemma udp_ProxyLoop_nil_clients:
  "(uo_alive net w \<longrightarrow> uo_read net w = (Inr (buffer, cliAddr), w1) \<longrightarrow>
      udp_ProxyLoop next_ep net service (None, s, w) = Some (Inl NilDereference)) \<and>
   (udp_ProxyLoop next_ep net service (None, s, w) = Some (Inr (clients, s', w')) \<longrightarrow>
      clients = None \<and> s' = s)"
proof (intro conjI impI)
  assume "uo_alive net w" "uo_read net w = (Inr (buffer, cliAddr), w1)"
  then have "udp_turn next_ep net service (None, s, w) = Inl NilDereference"
    by (simp add: udp_turn_def getBackendConn_def)
  then show "udp_ProxyLoop next_ep net service (None, s, w) = Some (Inl NilDereference)"
    unfolding udp_ProxyLoop_def by (subst go_loop.simps) simp
next
  have turn: "fst (snd t) = None \<and> fst (snd (snd t)) = s"
    if "udp_turn next_ep net service (None, s, w) = Inr t" for t w
    using that by (auto simp: udp_turn_def getBackendConn_def split: sum.splits prod.splits if_splits)
  have turns: "fst t = None \<and> fst (snd t) = s"
    if "turns (udp_turn next_ep net service) n (None, s, w) = Some t" for n t w
    using that
  proof (induction n arbitrary: w)
    case (Suc n)
    then obtain u where u: "udp_turn next_ep net service (None, s, w) = Inr (Again, u)"
      "turns (udp_turn next_ep net service) n u = Some t"
      by (auto split: sum.splits loop_ctl.splits prod.splits)
    with turn [OF u(1)] obtain w1 where "u = (None, s, w1)" by (cases u) auto
    with u(2) Suc.IH show ?case by simp
  qed auto
  assume "udp_ProxyLoop next_ep net service (None, s, w) = Some (Inr (clients, s', w'))"
  from go_loop_Some [OF this [unfolded udp_ProxyLoop_def]] obtain n t where
    "turns (udp_turn next_ep net service) n (None, s, w) = Some t"
    "udp_turn next_ep net service t = Inr (Return, clients, s', w')" by auto
  with turns [of n w t] obtain w1 where "udp_turn next_ep net service (None, s, w1) = Inr (Return, clients, s', w')"
    by (cases t) auto
  then show "clients = None" "s' = s" using turn by fastforce+
qed

end
