(* ===== verification/Netsh.thy ===== *)
theory Netsh
  imports GoStd
begin

text \<open>
  \<^verbatim>\<open>pkg/proxy/userspace/netsh.go\<close>: the runner that executes \<open>netsh\<close>. The executor
  \<open>k8s.io/utils/exec\<close> is the parameter \<open>run\<close>: it takes the arguments and the state \<open>'w\<close> of
  the machine, and gives the combined output, the error if any, and the next state; the
  environment variable INTERFACE_TO_ADD_SERVICE_IP is the parameter \<open>env\<close> (empty when it
  is not set). EnsureIPAddress polls without a bound until the address shows up: its
  model is a partial function whose \<open>None\<close> means that the call does not return. Sleeping is
  left out.
\<close>

section \<open>Model\<close>

datatype exec_error =
    ExitError (exited: bool) (exit_status: int)
  | OtherExecError string

datatype netsh_error =
    PortProxyCheckFailed exec_error string
  | PortProxyDeleteFailed exec_error string
  | AddAddressFailed exec_error string
  | DeleteAddressFailed exec_error string

text \<open>\<open>runner.exec.Command("netsh", args...).CombinedOutput()\<close>.\<close>

type_synonym 'w runner = "string list \<Rightarrow> 'w \<Rightarrow> (string \<times> exec_error option) \<times> 'w"

definition exit_nonzero :: "exec_error \<Rightarrow> bool" where
  "exit_nonzero err = (case err of ExitError ex st \<Rightarrow> ex \<and> st \<noteq> 0 | _ \<Rightarrow> False)"

definition exit_zero :: "exec_error \<Rightarrow> bool" where
  "exit_zero err = (case err of ExitError ex st \<Rightarrow> ex \<and> st = 0 | _ \<Rightarrow> False)"

definition EnsurePortProxyRule ::
  "'w runner \<Rightarrow> string list \<Rightarrow> 'w \<Rightarrow> (bool \<times> netsh_error option) \<times> 'w" where
  "EnsurePortProxyRule run args w =
     (case run args w of ((out, err), w) \<Rightarrow>
        ((case err of
            None \<Rightarrow> (True, None)
          | Some e \<Rightarrow> if exit_nonzero e then (False, None)
                      else (False, Some (PortProxyCheckFailed e out))), w))"

definition DeletePortProxyRule ::
  "'w runner \<Rightarrow> string list \<Rightarrow> 'w \<Rightarrow> netsh_error option \<times> 'w" where
  "DeletePortProxyRule run args w =
     (case run args w of ((out, err), w) \<Rightarrow>
        ((case err of
            None \<Rightarrow> None
          | Some e \<Rightarrow> if exit_zero e then None else Some (PortProxyDeleteFailed e out)), w))"

definition GetInterfaceToAddIP :: "string \<Rightarrow> string" where
  "GetInterfaceToAddIP env = (if 0 < length env then env else ''vEthernet (HNS Internal NIC)'')"

text \<open>The part of a line after its first colon, without white space at its ends.\<close>

definition getIP :: "string \<Rightarrow> string" where
  "getIP showAddress =
     (let list = SplitN2 CHR '':'' showAddress in
      if length list \<noteq> 2 then [] else TrimSpace (list ! 1))"

definition line_shows :: "string \<Rightarrow> string \<Rightarrow> bool" where
  "line_shows ipToCheck line \<longleftrightarrow> Contains line ''IP'' \<and> getIP line = ipToCheck"

definition checkIPExists ::
  "'w runner \<Rightarrow> string \<Rightarrow> string list \<Rightarrow> 'w \<Rightarrow> (bool \<times> exec_error option) \<times> 'w" where
  "checkIPExists run ipToCheck args w =
     (case run args w of ((ipAddress, err), w) \<Rightarrow>
        ((case err of
            Some e \<Rightarrow> (False, Some e)
          | None \<Rightarrow> (list_ex (line_shows ipToCheck) (Split CHR 0x0A ipAddress), None)), w))"

definition argsShowAddress :: "string \<Rightarrow> string list" where
  "argsShowAddress env =
     [''interface'', ''ipv4'', ''show'', ''address'', ''name='' @ GetInterfaceToAddIP env]"

text \<open>The \<open>for\<close> loop without condition: poll until the address is listed.\<close>

partial_function (option) wait_for_ip :: "'w runner \<Rightarrow> string \<Rightarrow> string list \<Rightarrow> 'w \<Rightarrow> 'w option" where
  "wait_for_ip run ipToCheck args w =
     (if fst (fst (checkIPExists run ipToCheck args w))
      then Some (snd (checkIPExists run ipToCheck args w))
      else wait_for_ip run ipToCheck args (snd (checkIPExists run ipToCheck args w)))"

definition EnsureIPAddress ::
  "'w runner \<Rightarrow> string \<Rightarrow> string list \<Rightarrow> IP \<Rightarrow> 'w \<Rightarrow> ((bool \<times> netsh_error option) \<times> 'w) option" where
  "EnsureIPAddress run env args ip w =
     (let ipToCheck = IP_String ip in
      case checkIPExists run ipToCheck (argsShowAddress env) w of ((exists, _), w) \<Rightarrow>
        if exists then Some ((True, None), w)
        else (case run args w of ((out, err), w) \<Rightarrow>
          case err of
            None \<Rightarrow> map_option (\<lambda>w. ((True, None), w)) (wait_for_ip run ipToCheck (argsShowAddress env) w)
          | Some e \<Rightarrow> Some (if exit_nonzero e then (False, None) else (False, Some (AddAddressFailed e out)), w)))"

definition DeleteIPAddress ::
  "'w runner \<Rightarrow> string list \<Rightarrow> 'w \<Rightarrow> netsh_error option \<times> 'w" where
  "DeleteIPAddress run args w =
     (case run args w of ((out, err), w) \<Rightarrow>
        ((case err of
            None \<Rightarrow> None
          | Some e \<Rightarrow> if exit_zero e then None else Some (DeleteAddressFailed e out)), w))"

definition Restore :: "string list \<Rightarrow> netsh_error option" where
  "Restore args = None"

section \<open>Reading an address line\<close>

lemma dropWhile_spaces: "list_all is_space sp \<Longrightarrow> dropWhile is_space (sp @ xs) = dropWhile is_space xs"
  by (induction sp) auto

lemma TrimSpace_trim:
  assumes "list_all is_space l" "list_all is_space r" "ip = [] \<or> \<not> is_space (hd ip) \<and> \<not> is_space (last ip)"
  shows "TrimSpace (l @ ip @ r) = ip"
proof (cases "ip = []")
  case True
  have "dropWhile is_space (l @ r) = []"
    using assms(1,2) by (simp only: dropWhile_eq_Nil_conv set_append) (auto simp: list_all_iff)
  then show ?thesis by (simp only: True TrimSpace_def append_Nil rev.simps dropWhile.simps)
next
  case False
  then have h: "dropWhile is_space (ip @ r) = ip @ r" using assms(3) by (cases ip) auto
  have "dropWhile is_space (rev r @ rev ip) = dropWhile is_space (rev ip)"
    using assms(2) by (intro dropWhile_spaces) (auto simp: list_all_iff)
  also have "\<dots> = rev ip" using False assms(3) by (cases ip rule: rev_cases) auto
  finally show ?thesis using assms(1) by (simp add: TrimSpace_def dropWhile_spaces h)
qed

lemma SplitN2_append: "c \<notin> set pre \<Longrightarrow> SplitN2 c (pre @ c # rest) = [pre, rest]"
  by (simp add: SplitN2_def index_byte_append)

text \<open>
  \<open>getIP\<close> reads back the address that netsh prints: for a label without a colon, any
  white space around the address (the carriage return that ends the lines of Windows
  included) and an address that neither starts nor ends with white space; the address may
  hold colons.
\<close>

lemma getIP_reads_address:
  assumes "CHR '':'' \<notin> set label" "list_all is_space l" "list_all is_space r"
    and "ip = [] \<or> \<not> is_space (hd ip) \<and> \<not> is_space (last ip)"
  shows "getIP (label @ '':'' @ l @ ip @ r) = ip"
  using assms by (simp add: getIP_def SplitN2_append TrimSpace_trim)

theorem getIP_reads_address_witness:
  "getIP (''    IP Address'' @ '':'' @ ''      '' @ ''10.96.0.4'' @ [CHR 0x0D]) = ''10.96.0.4''"
  by (rule getIP_reads_address) (simp_all add: is_space_def)

section \<open>Polling\<close>

text \<open>The state of the machine after \<open>n\<close> polls, and the answer of the next one.\<close>

fun polls :: "'w runner \<Rightarrow> string \<Rightarrow> string list \<Rightarrow> nat \<Rightarrow> 'w \<Rightarrow> 'w" where
  "polls run ip args 0 w = w"
| "polls run ip args (Suc n) w = polls run ip args n (snd (checkIPExists run ip args w))"

definition sees :: "'w runner \<Rightarrow> string \<Rightarrow> string list \<Rightarrow> 'w \<Rightarrow> bool" where
  "sees run ip args w = fst (fst (checkIPExists run ip args w))"

lemma wait_for_ip_Some:
  "sees run ip args (polls run ip args n w) \<Longrightarrow> \<exists>w'. wait_for_ip run ip args w = Some w'"
proof (induction n arbitrary: w)
  case 0
  then show ?case by (subst wait_for_ip.simps) (simp add: sees_def)
next
  case (Suc n)
  then show ?case by (subst wait_for_ip.simps) (auto simp: sees_def)
qed

lemma wait_for_ip_polls:
  assumes "wait_for_ip run ip args w = Some w'"
  shows "\<exists>n. sees run ip args (polls run ip args n w) \<and> w' = polls run ip args (Suc n) w"
proof (rule wait_for_ip.raw_induct
    [where P = "\<lambda>run ip args w w'. \<exists>n. sees run ip args (polls run ip args n w) \<and> w' = polls run ip args (Suc n) w",
     OF _ assms])
  fix f run ip args w w'
  assume IH: "\<And>run ip args w w'. f run ip args w = Some w' \<Longrightarrow>
      \<exists>n. sees run ip args (polls run ip args n w) \<and> w' = polls run ip args (Suc n) w"
    and eq: "(if fst (fst (checkIPExists run ip args w)) then Some (snd (checkIPExists run ip args w))
      else f run ip args (snd (checkIPExists run ip args w))) = Some w'"
  show "\<exists>n. sees run ip args (polls run ip args n w) \<and> w' = polls run ip args (Suc n) w"
  proof (cases "sees run ip args w")
    case True
    with eq show ?thesis by (intro exI [of _ 0]) (simp add: sees_def)
  next
    case False
    with eq have "f run ip args (snd (checkIPExists run ip args w)) = Some w'" by (simp add: sees_def)
    from IH [OF this] obtain n where
      "sees run ip args (polls run ip args n (snd (checkIPExists run ip args w)))"
      "w' = polls run ip args (Suc n) (snd (checkIPExists run ip args w))" by blast
    then show ?thesis by (intro exI [of _ "Suc n"]) simp
  qed
qed

text \<open>
  C38. EnsureIPAddress, outcome by outcome, when the first look does not list the address:
  if the add command succeeds, the call returns exactly when some later poll lists the
  address, and then with success; if netsh exits with a non-zero status the call returns
  false and no error; any other failure is returned as an error.
\<close>

theorem EnsureIPAddress_outcomes:
  assumes "checkIPExists run (IP_String ip) (argsShowAddress env) w = ((False, e0), w1)"
    and "run args w1 = ((out, err), w2)"
  shows "case err of
      None \<Rightarrow>
        (\<exists>r. EnsureIPAddress run env args ip w = Some r) =
          (\<exists>n. sees run (IP_String ip) (argsShowAddress env)
                 (polls run (IP_String ip) (argsShowAddress env) n w2)) \<and>
        (\<forall>r. EnsureIPAddress run env args ip w = Some r \<longrightarrow> fst r = (True, None))
    | Some e \<Rightarrow> EnsureIPAddress run env args ip w =
        Some (if exit_nonzero e then (False, None) else (False, Some (AddAddressFailed e out)), w2)"
proof (cases err)
  case None
  then have "EnsureIPAddress run env args ip w =
      map_option (\<lambda>w. ((True, None), w)) (wait_for_ip run (IP_String ip) (argsShowAddress env) w2)"
    using assms by (simp add: EnsureIPAddress_def)
  with None wait_for_ip_Some wait_for_ip_polls show ?thesis by fastforce
next
  case (Some e)
  with assms show ?thesis by (simp add: EnsureIPAddress_def)
qed

text \<open>
  A machine for the witness: the state counts the commands that ran; the address is listed
  from the fourth command on.
\<close>

definition demo_run :: "nat runner" where
  "demo_run args w =
     ((if 3 \<le> w then ''IP Address: 10.0.0.1'' else ''no address'', None), Suc w)"

theorem EnsureIPAddress_outcomes_witness:
  "\<exists>r. EnsureIPAddress demo_run [] [''interface''] [10, 0, 0, 1] 0 = Some r \<and> fst r = (True, None)"
proof -
  have c: "checkIPExists demo_run (IP_String [10, 0, 0, 1]) (argsShowAddress []) 0 = ((False, None), 1)"
    by code_simp
  have r: "demo_run [''interface''] 1 = ((''no address'', None), 2)"
    by (simp add: demo_run_def)
  have "sees demo_run (IP_String [10, 0, 0, 1]) (argsShowAddress [])
      (polls demo_run (IP_String [10, 0, 0, 1]) (argsShowAddress []) 1 2)"
    by code_simp
  then have "\<exists>r. EnsureIPAddress demo_run [] [''interface''] [10, 0, 0, 1] 0 = Some r"
    using EnsureIPAddress_outcomes [OF c r] unfolding option.case by blast
  then show ?thesis
    using EnsureIPAddress_outcomes [OF c r] unfolding option.case by blast
qed

text \<open>An address that is already listed is not added again, and the answer is true.\<close>

lemma EnsureIPAddress_existing:
  "checkIPExists run (IP_String ip) (argsShowAddress env) w = ((True, e0), w1) \<Longrightarrow>
     EnsureIPAddress run env args ip w = Some ((True, None), w1)"
  by (simp add: EnsureIPAddress_def)

lemma checkIPExists_error: "run args w = ((out, Some e), w') \<Longrightarrow> checkIPExists run ip args w = ((False, Some e), w')"
  by (simp add: checkIPExists_def)

end
