(* ===== verification/UserProxier.thy ===== *)
theory UserProxier
  imports SocketsProps Netsh
begin

text \<open>
  \<^verbatim>\<open>pkg/proxy/userspace/proxier.go\<close>: the userspace proxier. A \<open>*serviceInfo\<close> is shared by
  the service map and by the goroutine that serves it, so the infos live in a heap, the
  list \<open>px_infos\<close>, and a pointer is an index in it. \<open>px_loops\<close> lists the goroutines that
  were started (\<open>sock.ProxyLoop\<close> with the name and the info), in order; what they do is
  modelled in Sockets. The outside world is a state \<open>'w\<close>; its operations come in a record.
  The order in which a \<open>range\<close> visits the listen addresses is the parameter \<open>pe_range\<close>.
  A handler that does not return, because netsh never lists an address it accepted, is
  \<open>None\<close>. A listener, a connection: a number. Left out are logging, the counter
  \<open>numProxyLoops\<close> of running goroutines, which no code reads, and the field \<open>netsh\<close>, whose
  commands are the operation \<open>pe_run\<close> of the outside world.
\<close>

section \<open>State\<close>

record portal =
  po_ip :: string
  po_port :: int32
  po_isExternal :: bool

record serviceInfo =
  si_isAlive :: bool
  si_portal :: portal
  si_protocol :: Protocol
  si_socket :: proxySocket
  si_timeout :: int
  si_activeClients :: "nat clientCache option"
  si_sessionAffinityType :: ServiceAffinity

record Proxier =
  px_loadBalancer :: LoadBalancerRR
  px_serviceMap :: "(ServicePortPortalName, nat) gomap"
  px_infos :: "serviceInfo list"
  px_loops :: "(ServicePortPortalName \<times> nat) list"
  px_syncPeriod :: int
  px_udpIdleTimeout :: int
  px_hostIP :: IP

datatype proxier_error =
    CouldNotParseIP string
  | NetshFailed netsh_error
  | SocketFailed socket_error
  | CloseFailed string

text \<open>
  \<open>netutils.ParseIPSloppy\<close> (nil, the empty list, when the text is no address), the netsh
  executor and its environment variable, the listeners of package net, \<open>Close\<close> of a
  socket, the order of a \<open>range\<close>, and the random source of the balancer.
\<close>

record 'w proxier_env =
  pe_parse_ip :: "string \<Rightarrow> IP"
  pe_run :: "'w runner"
  pe_interface :: string
  pe_listen :: "'w listen_ops"
  pe_close :: "proxySocket \<Rightarrow> 'w \<Rightarrow> string option \<times> 'w"
  pe_range :: "(string, int32) gomap \<Rightarrow> (string, int32) gomap"
  pe_rnd :: "ServicePortName \<Rightarrow> nat \<Rightarrow> nat list"

definition createProxier :: "LoadBalancerRR \<Rightarrow> IP \<Rightarrow> IP \<Rightarrow> int \<Rightarrow> int \<Rightarrow> Proxier" where
  "createProxier loadBalancer listenIP hostIP syncPeriod udpIdleTimeout =
     \<lparr>px_loadBalancer = loadBalancer, px_serviceMap = [], px_infos = [], px_loops = [],
      px_syncPeriod = syncPeriod, px_udpIdleTimeout = udpIdleTimeout, px_hostIP = hostIP\<rparr>"

text \<open>\<open>chooseHost\<close> is the answer of \<open>utilnet.ChooseHostInterface()\<close>.\<close>

definition NewProxier :: "string + IP \<Rightarrow> LoadBalancerRR \<Rightarrow> IP \<Rightarrow> int \<Rightarrow> int \<Rightarrow> string + Proxier" where
  "NewProxier chooseHost loadBalancer listenIP syncPeriod udpIdleTimeout =
     (case chooseHost of
        Inl err \<Rightarrow> Inl err
      | Inr hostIP \<Rightarrow> Inr (createProxier loadBalancer listenIP hostIP syncPeriod udpIdleTimeout))"

section \<open>Infos and their map\<close>

definition GetServiceInfo :: "ServicePortPortalName \<Rightarrow> Proxier \<Rightarrow> nat option" where
  "GetServiceInfo service px = map_of (px_serviceMap px) service"

definition setServiceInfo :: "ServicePortPortalName \<Rightarrow> nat \<Rightarrow> Proxier \<Rightarrow> Proxier" where
  "setServiceInfo service info px = px\<lparr>px_serviceMap := AList.update service info (px_serviceMap px)\<rparr>"

definition setAlive :: "bool \<Rightarrow> nat \<Rightarrow> Proxier \<Rightarrow> Proxier" where
  "setAlive b info px =
     px\<lparr>px_infos := (px_infos px)[info := (px_infos px ! info)\<lparr>si_isAlive := b\<rparr>]\<rparr>"

definition sameConfig :: "serviceInfo \<Rightarrow> int32 \<Rightarrow> bool" where
  "sameConfig info listenPort \<longleftrightarrow> po_port (si_portal info) = listenPort"

definition netshIPv4AddressAddArgs :: "'w proxier_env \<Rightarrow> IP \<Rightarrow> string list" where
  "netshIPv4AddressAddArgs env destIP =
     [''interface'', ''ipv4'', ''add'', ''address'',
      ''name='' @ GetInterfaceToAddIP (pe_interface env), ''address='' @ IP_String destIP]"

definition netshIPv4AddressDeleteArgs :: "'w proxier_env \<Rightarrow> IP \<Rightarrow> string list" where
  "netshIPv4AddressDeleteArgs env destIP =
     [''interface'', ''ipv4'', ''delete'', ''address'',
      ''name='' @ GetInterfaceToAddIP (pe_interface env), ''address='' @ IP_String destIP]"

section \<open>Opening a portal\<close>

text \<open>The first part of addServicePortPortal: the address of the listener, nil for all interfaces.\<close>

definition portal_address ::
  "'w proxier_env \<Rightarrow> string \<Rightarrow> 'w \<Rightarrow> ((proxier_error + IP) \<times> 'w) option" where
  "portal_address env listenIP w =
     (if listenIP \<noteq> allAvailableInterfaces
      then let serviceIP = pe_parse_ip env listenIP in
        if serviceIP = [] then Some (Inl (CouldNotParseIP listenIP), w)
        else (case EnsureIPAddress (pe_run env) (pe_interface env)
                     (netshIPv4AddressAddArgs env serviceIP) serviceIP w of
            None \<Rightarrow> None
          | Some ((_, Some err), w) \<Rightarrow> Some (Inl (NetshFailed err), w)
          | Some ((existed, None), w) \<Rightarrow> Some (Inr serviceIP, w))
      else Some (Inr [], w))"

definition new_info :: "Protocol \<Rightarrow> string \<Rightarrow> int32 \<Rightarrow> int \<Rightarrow> proxySocket \<Rightarrow> serviceInfo" where
  "new_info protocol listenIP port timeout sock =
     \<lparr>si_isAlive = True, si_portal = \<lparr>po_ip = listenIP, po_port = port, po_isExternal = False\<rparr>,
      si_protocol = protocol, si_socket = sock, si_timeout = timeout, si_activeClients = None,
      si_sessionAffinityType = AffinityNone\<rparr>"

definition start_portal :: "ServicePortPortalName \<Rightarrow> serviceInfo \<Rightarrow> Proxier \<Rightarrow> Proxier" where
  "start_portal name si px =
     (let a = length (px_infos px);
          px = setServiceInfo name a (px\<lparr>px_infos := px_infos px @ [si]\<rparr>)
      in px\<lparr>px_loops := px_loops px @ [(name, a)]\<rparr>)"

definition addServicePortPortal ::
  "'w proxier_env \<Rightarrow> ServicePortPortalName \<Rightarrow> Protocol \<Rightarrow> string \<Rightarrow> int32 \<Rightarrow> int \<Rightarrow>
   Proxier \<times> 'w \<Rightarrow> ((proxier_error + nat) \<times> Proxier \<times> 'w) option" where
  "addServicePortPortal env name protocol listenIP port timeout = (\<lambda>(px, w).
     case portal_address env listenIP w of
       None \<Rightarrow> None
     | Some (Inl err, w) \<Rightarrow> Some (Inl err, px, w)
     | Some (Inr serviceIP, w) \<Rightarrow>
         (case newProxySocket (pe_listen env) protocol serviceIP (sint port) w of
            (Inl err, w) \<Rightarrow> Some (Inl (SocketFailed err), px, w)
          | (Inr sock, w) \<Rightarrow>
              Some (Inr (length (px_infos px)),
                    start_portal name (new_info protocol listenIP port timeout sock) px, w)))"

section \<open>Closing a portal\<close>

definition stopProxyInternal ::
  "'w proxier_env \<Rightarrow> ServicePortPortalName \<Rightarrow> nat \<Rightarrow> Proxier \<times> 'w \<Rightarrow> string option \<times> Proxier \<times> 'w" where
  "stopProxyInternal env service info = (\<lambda>(px, w).
     let px = px\<lparr>px_serviceMap := AList.delete service (px_serviceMap px)\<rparr>;
         px = setAlive False info px
     in case pe_close env (si_socket (px_infos px ! info)) w of (err, w) \<Rightarrow> (err, px, w))"

definition stopProxy ::
  "'w proxier_env \<Rightarrow> ServicePortPortalName \<Rightarrow> nat \<Rightarrow> Proxier \<times> 'w \<Rightarrow> string option \<times> Proxier \<times> 'w" where
  "stopProxy env service info pxw = stopProxyInternal env service info pxw"

definition closeServicePortPortal ::
  "'w proxier_env \<Rightarrow> ServicePortPortalName \<Rightarrow> nat \<Rightarrow> Proxier \<times> 'w
     \<Rightarrow> proxier_error option \<times> Proxier \<times> 'w" where
  "closeServicePortPortal env name info pxw =
     (case stopProxy env name info pxw of
        (Some err, px, w) \<Rightarrow> (Some (CloseFailed err), px, w)
      | (None, px, w) \<Rightarrow>
          let ip = po_ip (si_portal (px_infos px ! info)) in
          if ip \<noteq> allAvailableInterfaces
          then (case DeleteIPAddress (pe_run env) (netshIPv4AddressDeleteArgs env (pe_parse_ip env ip)) w of
                  (Some err, w) \<Rightarrow> (Some (NetshFailed err), px, w)
                | (None, w) \<Rightarrow> (None, px, w))
          else (None, px, w))"

section \<open>Merging a service\<close>

definition portal_name :: "NamespacedName \<Rightarrow> string \<Rightarrow> string \<Rightarrow> ServicePortPortalName" where
  "portal_name svcName port listenIP =
     \<lparr>sppn_NamespacedName = svcName, sppn_Port = port, sppn_PortalIPName = listenIP\<rparr>"

text \<open>The body of the inner loop of mergeService: one listen address of one service port.\<close>

definition merge_listen ::
  "'w proxier_env \<Rightarrow> NamespacedName \<Rightarrow> PortMapping \<Rightarrow> string \<times> int32 \<Rightarrow>
   (ServicePortPortalName, bool) gomap \<times> Proxier \<times> 'w \<Rightarrow>
   ((ServicePortPortalName, bool) gomap \<times> Proxier \<times> 'w) go option" where
  "merge_listen env svcName servicePort = (\<lambda>(listenIP, listenPort) (existingPortPortals, px, w).
     let name = portal_name svcName (pm_Name servicePort) listenIP;
         existingPortPortals = AList.update name True existingPortPortals
     in if (case GetServiceInfo name px of
              None \<Rightarrow> False | Some info \<Rightarrow> sameConfig (px_infos px ! info) listenPort)
        then Some (Inr (existingPortPortals, px, w))
        else (case addServicePortPortal env name (pm_Protocol servicePort) listenIP listenPort
                     (px_udpIdleTimeout px) (px, w) of
                None \<Rightarrow> None
              | Some (_, px, w) \<Rightarrow> Some (Inr (existingPortPortals, px, w))))"

definition merge_port ::
  "'w proxier_env \<Rightarrow> Service \<Rightarrow> PortMapping \<Rightarrow>
   (ServicePortPortalName, bool) gomap \<times> Proxier \<times> 'w \<Rightarrow>
   ((ServicePortPortalName, bool) gomap \<times> Proxier \<times> 'w) go option" where
  "merge_port env service servicePort st =
     (case getListenIPPortMap service (pm_Port servicePort) (pm_NodePort servicePort) of
        Inl p \<Rightarrow> Some (Inl p)
      | Inr listenIPPortMap \<Rightarrow>
          ogo_bind (ogo_fold (merge_listen env (svc_key service) servicePort)
                      (pe_range env listenIPPortMap) st)
            (\<lambda>(existingPortPortals, px, w). Some (Inr (existingPortPortals,
               if 0 < length listenIPPortMap
               then px\<lparr>px_loadBalancer := NewService (svcPortName (svc_key service) (pm_Name servicePort))
                                            AffinityNone 0 (px_loadBalancer px)\<rparr>
               else px, w))))"

definition mergeService ::
  "'w proxier_env \<Rightarrow> Service option \<Rightarrow> Proxier \<times> 'w \<Rightarrow>
   ((ServicePortPortalName, bool) gomap \<times> Proxier \<times> 'w) go option" where
  "mergeService env service = (\<lambda>(px, w).
     case service of
       None \<Rightarrow> Some (Inr ([], px, w))
     | Some service \<Rightarrow> ogo_fold (merge_port env service) (svc_Ports service) ([], px, w))"

section \<open>Unmerging a service\<close>

definition unmerge_listen ::
  "'w proxier_env \<Rightarrow> NamespacedName \<Rightarrow> (ServicePortPortalName, bool) gomap \<Rightarrow> PortMapping \<Rightarrow>
   string \<times> int32 \<Rightarrow> Proxier \<times> 'w \<Rightarrow> Proxier \<times> 'w" where
  "unmerge_listen env svcName existingPortPortals servicePort = (\<lambda>(listenIP, _) (px, w).
     let name = portal_name svcName (pm_Name servicePort) listenIP in
     if map_of existingPortPortals name = Some True then (px, w)
     else (case GetServiceInfo name px of
             None \<Rightarrow> (px, w)
           | Some info \<Rightarrow> snd (closeServicePortPortal env name info (px, w))))"

definition unmerge_port ::
  "'w proxier_env \<Rightarrow> Service \<Rightarrow> (ServicePortPortalName, bool) gomap \<Rightarrow> (ServicePortName, bool) gomap \<Rightarrow>
   PortMapping \<Rightarrow> Proxier \<times> 'w \<Rightarrow> (Proxier \<times> 'w) go" where
  "unmerge_port env service existingPortPortals servicePortNameMap servicePort pxw =
     (case getListenIPPortMap service (pm_Port servicePort) (pm_NodePort servicePort) of
        Inl p \<Rightarrow> Inl p
      | Inr listenIPPortMap \<Rightarrow>
          (case fold (unmerge_listen env (svc_key service) existingPortPortals servicePort)
                  (pe_range env listenIPPortMap) pxw of (px, w) \<Rightarrow>
             let serviceName = svcPortName (svc_key service) (pm_Name servicePort) in
             Inr (if map_of servicePortNameMap serviceName \<noteq> Some True
                  then px\<lparr>px_loadBalancer := RoundRobin.DeleteService serviceName (px_loadBalancer px)\<rparr>
                  else px, w)))"

definition unmergeService ::
  "'w proxier_env \<Rightarrow> Service option \<Rightarrow> (ServicePortPortalName, bool) gomap \<Rightarrow>
   Proxier \<times> 'w \<Rightarrow> (Proxier \<times> 'w) go" where
  "unmergeService env service existingPortPortals pxw =
     (case service of
        None \<Rightarrow> Inr pxw
      | Some service \<Rightarrow>
          let servicePortNameMap = fold (\<lambda>(name, _).
                AList.update (svcPortName (svc_key service) (sppn_Port name)) True) existingPortPortals []
          in go_fold (unmerge_port env service existingPortPortals servicePortNameMap)
               (svc_Ports service) pxw)"

section \<open>Handlers\<close>

definition OnServiceAdd ::
  "'w proxier_env \<Rightarrow> Service option \<Rightarrow> Proxier \<times> 'w \<Rightarrow> (Proxier \<times> 'w) go option" where
  "OnServiceAdd env service pxw =
     ogo_bind (mergeService env service pxw) (\<lambda>(_, pxw). Some (Inr pxw))"

definition OnServiceUpdate ::
  "'w proxier_env \<Rightarrow> Service option \<Rightarrow> Service option \<Rightarrow> Proxier \<times> 'w \<Rightarrow> (Proxier \<times> 'w) go option" where
  "OnServiceUpdate env oldService service pxw =
     ogo_bind (mergeService env service pxw) (\<lambda>(existingPortPortals, pxw).
       Some (unmergeService env oldService existingPortPortals pxw))"

definition OnServiceDelete ::
  "'w proxier_env \<Rightarrow> Service option \<Rightarrow> Proxier \<times> 'w \<Rightarrow> (Proxier \<times> 'w) go" where
  "OnServiceDelete env service pxw = unmergeService env service [] pxw"

definition with_balancer :: "(LoadBalancerRR \<Rightarrow> LoadBalancerRR go) \<Rightarrow> Proxier \<Rightarrow> Proxier go" where
  "with_balancer f px =
     go_bind (f (px_loadBalancer px)) (\<lambda>lb. Inr (px\<lparr>px_loadBalancer := lb\<rparr>))"

definition Proxier_OnEndpointsAdd ::
  "'w proxier_env \<Rightarrow> Endpoint option \<Rightarrow> Service \<Rightarrow> Proxier \<Rightarrow> Proxier go" where
  "Proxier_OnEndpointsAdd env endpoint service = with_balancer (OnEndpointsAdd (pe_rnd env) endpoint service)"

definition Proxier_OnEndpointsUpdate ::
  "'w proxier_env \<Rightarrow> Endpoint option \<Rightarrow> Endpoint option \<Rightarrow> Service \<Rightarrow> Proxier \<Rightarrow> Proxier go" where
  "Proxier_OnEndpointsUpdate env oldEndpoints endpoints service =
     with_balancer (OnEndpointsUpdate (pe_rnd env) oldEndpoints endpoints service)"

definition Proxier_OnEndpointsDelete :: "Endpoint option \<Rightarrow> Service \<Rightarrow> Proxier \<Rightarrow> Proxier go" where
  "Proxier_OnEndpointsDelete endpoint service = with_balancer (OnEndpointsDelete endpoint service)"

definition Proxier_OnEndpointsSynced :: "Proxier \<Rightarrow> Proxier" where
  "Proxier_OnEndpointsSynced px = px\<lparr>px_loadBalancer := OnEndpointsSynced (px_loadBalancer px)\<rparr>"

text \<open>The names are visited in the order \<open>names\<close>, a rearrangement of the keys of the map.\<close>

definition cleanup_name ::
  "int \<Rightarrow> ServicePortPortalName \<Rightarrow> (ServicePortName, bool) gomap \<times> LoadBalancerRR \<Rightarrow>
   (ServicePortName, bool) gomap \<times> LoadBalancerRR" where
  "cleanup_name now name = (\<lambda>(servicePortNameMap, lb).
     let servicePortName = svcPortName (sppn_NamespacedName name) (sppn_Port name) in
     if map_of servicePortNameMap servicePortName \<noteq> Some True
     then (AList.update servicePortName True servicePortNameMap,
           CleanupStaleStickySessions now servicePortName lb)
     else (servicePortNameMap, lb))"

definition cleanupStaleStickySessions :: "int \<Rightarrow> ServicePortPortalName list \<Rightarrow> Proxier \<Rightarrow> Proxier" where
  "cleanupStaleStickySessions now names px =
     px\<lparr>px_loadBalancer := snd (fold (cleanup_name now) names ([], px_loadBalancer px))\<rparr>"

end
