(* ===== verification/UserProxierCorrect.thy ===== *)
theory UserProxierCorrect
  imports UserProxier
begin

text \<open>
  The handlers of the userspace proxier in terms of three small steps: a portal is opened, a
  mapped portal is closed, the balancer is called. The well-formedness of the proxier and
  the fate of the infos are lemmas about the small steps; that every handler is a sequence
  of small steps carries them to the code.
\<close>

section \<open>Small steps\<close>

text \<open>The proxier after a portal was closed, whatever the errors of the socket and of netsh.\<close>

definition closed :: "ServicePortPortalName \<Rightarrow> nat \<Rightarrow> Proxier \<Rightarrow> Proxier" where
  "closed name a px = setAlive False a (px\<lparr>px_serviceMap := AList.delete name (px_serviceMap px)\<rparr>)"

inductive px_micro :: "Proxier \<Rightarrow> Proxier \<Rightarrow> bool" where
  open_portal: "ListenPort sock = sint port \<Longrightarrow>
     px_micro px (start_portal name (new_info protocol (sppn_PortalIPName name) port timeout sock) px)"
| close_portal: "map_of (px_serviceMap px) name = Some a \<Longrightarrow> px_micro px (closed name a px)"
| call_balancer: "lb_step (px_loadBalancer px) lb \<Longrightarrow> px_micro px (px\<lparr>px_loadBalancer := lb\<rparr>)"

inductive_cases px_microE: "px_micro px px'"

lemma start_portal_simps [simp]:
  "px_serviceMap (start_portal name si px) = AList.update name (length (px_infos px)) (px_serviceMap px)"
  "px_infos (start_portal name si px) = px_infos px @ [si]"
  "px_loadBalancer (start_portal name si px) = px_loadBalancer px"
  "px_loops (start_portal name si px) = px_loops px @ [(name, length (px_infos px))]"
  "px_udpIdleTimeout (start_portal name si px) = px_udpIdleTimeout px"
  by (simp_all add: start_portal_def setServiceInfo_def Let_def)

lemma closed_simps [simp]:
  "px_serviceMap (closed name a px) = AList.delete name (px_serviceMap px)"
  "px_infos (closed name a px) = (px_infos px)[a := (px_infos px ! a)\<lparr>si_isAlive := False\<rparr>]"
  "px_loadBalancer (closed name a px) = px_loadBalancer px"
  "px_loops (closed name a px) = px_loops px"
  "px_udpIdleTimeout (closed name a px) = px_udpIdleTimeout px"
  by (simp_all add: closed_def setAlive_def)

lemma new_info_simps [simp]:
  "si_isAlive (new_info protocol ip port t sock)"
  "si_portal (new_info protocol ip port t sock) = \<lparr>po_ip = ip, po_port = port, po_isExternal = False\<rparr>"
  "si_activeClients (new_info protocol ip port t sock) = None"
  "si_socket (new_info protocol ip port t sock) = sock"
  "si_protocol (new_info protocol ip port t sock) = protocol"
  by (simp_all add: new_info_def)

section \<open>Well-formedness\<close>

text \<open>The info a name is mapped to.\<close>

definition portals :: "Proxier \<Rightarrow> ServicePortPortalName \<Rightarrow> serviceInfo option" where
  "portals px name = map_option (nth (px_infos px)) (map_of (px_serviceMap px) name)"

definition info_ok :: "serviceInfo \<Rightarrow> bool" where
  "info_ok si \<longleftrightarrow> si_activeClients si = None \<and> ListenPort (si_socket si) = sint (po_port (si_portal si))"

definition mapped_ok :: "ServicePortPortalName \<Rightarrow> serviceInfo \<Rightarrow> bool" where
  "mapped_ok name si \<longleftrightarrow> si_isAlive si \<and> po_ip (si_portal si) = sppn_PortalIPName name"

definition px_inv :: "Proxier \<Rightarrow> bool" where
  "px_inv px \<longleftrightarrow>
     lb_reachable (px_loadBalancer px) \<and>
     wf_map (px_serviceMap px) \<and>
     (\<forall>name a. map_of (px_serviceMap px) name = Some a \<longrightarrow>
        a < length (px_infos px) \<and> mapped_ok name (px_infos px ! a)) \<and>
     (\<forall>name name' a. map_of (px_serviceMap px) name = Some a \<longrightarrow>
        map_of (px_serviceMap px) name' = Some a \<longrightarrow> name = name') \<and>
     (\<forall>si \<in> set (px_infos px). info_ok si) \<and>
     map snd (px_loops px) = [0..<length (px_infos px)]"

lemma px_invD:
  assumes "px_inv px"
  shows "map_of (px_serviceMap px) name = Some a \<Longrightarrow> a < length (px_infos px)"
    and "map_of (px_serviceMap px) name = Some a \<Longrightarrow> mapped_ok name (px_infos px ! a)"
    and "map_of (px_serviceMap px) name = Some a \<Longrightarrow> map_of (px_serviceMap px) name' = Some a \<Longrightarrow> name = name'"
    and "lb_reachable (px_loadBalancer px)"
    and "a < length (px_infos px) \<Longrightarrow> info_ok (px_infos px ! a)"
  using assms unfolding px_inv_def by blast+ (use assms in \<open>simp add: px_inv_def\<close>)

lemma px_inv_start: "px_inv (createProxier NewLoadBalancerRR listenIP hostIP syncPeriod idle)"
  by (simp add: px_inv_def createProxier_def lb_reachable.start)

lemma portals_start: "px_inv px \<Longrightarrow> portals (start_portal name si px) = (portals px)(name \<mapsto> si)"
  by (rule ext) (auto simp: portals_def nth_append dest: px_invD(1) intro!: option.map_cong0)

lemma portals_closed:
  assumes "px_inv px" "map_of (px_serviceMap px) name = Some a"
  shows "portals (closed name a px) = (portals px)(name := None)"
proof
  fix n
  show "portals (closed name a px) n = ((portals px)(name := None)) n"
  proof (cases "map_of (px_serviceMap px) n")
    case (Some b)
    show ?thesis
    proof (cases "n = name")
      case False
      with Some px_invD(3) [OF assms(1) Some, of name] assms(2) have "a \<noteq> b" by auto
      with False Some show ?thesis by (simp add: portals_def)
    qed (simp add: portals_def)
  qed (simp add: portals_def)
qed

lemma px_inv_open:
  assumes inv: "px_inv px" and "ListenPort sock = sint port"
  shows "px_inv (start_portal name (new_info protocol (sppn_PortalIPName name) port timeout sock) px)"
  unfolding px_inv_def
proof (intro conjI allI impI)
  let ?px = "start_portal name (new_info protocol (sppn_PortalIPName name) port timeout sock) px"
  show "lb_reachable (px_loadBalancer ?px)" using px_invD(4) [OF inv] by simp
  show "wf_map (px_serviceMap ?px)" using inv by (simp add: px_inv_def)
  show "\<forall>si\<in>set (px_infos ?px). info_ok si" "map snd (px_loops ?px) = [0..<length (px_infos ?px)]"
    using inv assms(2) by (auto simp: px_inv_def info_ok_def)
  fix n n' a
  assume n: "map_of (px_serviceMap ?px) n = Some a"
  show "a < length (px_infos ?px)" using n px_invD(1) [OF inv] by (fastforce split: if_splits)
  show "mapped_ok n (px_infos ?px ! a)"
    using n px_invD(1) [OF inv, of n a] px_invD(2) [OF inv, of n a]
    by (auto simp: mapped_ok_def nth_append split: if_splits)
  assume n': "map_of (px_serviceMap ?px) n' = Some a"
  show "n = n'" using n n' px_invD(1,3) [OF inv] by (fastforce split: if_splits)
qed

lemma px_inv_close:
  assumes inv: "px_inv px" and m: "map_of (px_serviceMap px) name = Some a"
  shows "px_inv (closed name a px)"
  unfolding px_inv_def
proof (intro conjI allI impI)
  let ?px = "closed name a px"
  show "lb_reachable (px_loadBalancer ?px)" using px_invD(4) [OF inv] by simp
  show "wf_map (px_serviceMap ?px)" using inv by (simp add: px_inv_def)
  have "info_ok ((px_infos px ! a)\<lparr>si_isAlive := False\<rparr>)"
    using px_invD(5) [OF inv px_invD(1) [OF inv m]] by (simp add: info_ok_def)
  then show "\<forall>si\<in>set (px_infos ?px). info_ok si"
    using inv by (auto simp: px_inv_def dest!: set_update_subset_insert [THEN subsetD])
  show "map snd (px_loops ?px) = [0..<length (px_infos ?px)]" using inv by (simp add: px_inv_def)
  fix n n' b
  assume n: "map_of (px_serviceMap ?px) n = Some b"
  then have n1: "n \<noteq> name" "map_of (px_serviceMap px) n = Some b" by (auto split: if_splits)
  then have "b \<noteq> a" using px_invD(3) [OF inv, of n b name] m by auto
  then show "b < length (px_infos ?px)" "mapped_ok n (px_infos ?px ! b)"
    using px_invD(1,2) [OF inv n1(2)] by simp_all
  assume "map_of (px_serviceMap ?px) n' = Some b"
  then show "n = n'" using n1 px_invD(3) [OF inv] by (auto split: if_splits)
qed

lemma px_micro_inv: "px_micro px px' \<Longrightarrow> px_inv px \<Longrightarrow> px_inv px'"
proof (induction rule: px_micro.induct)
  case (call_balancer px lb)
  then have "lb_reachable lb" by (auto dest: px_invD(4) intro: lb_reachable.step)
  with call_balancer.prems show ?case by (simp add: px_inv_def)
qed (simp_all add: px_inv_open px_inv_close)

lemma px_micros_inv: "px_micro\<^sup>*\<^sup>* px px' \<Longrightarrow> px_inv px \<Longrightarrow> px_inv px'"
  by (induction rule: rtranclp_induct) (auto intro: px_micro_inv)

section \<open>Infos without a name\<close>

text \<open>An info that is alive and that no name leads to.\<close>

definition orphan :: "nat \<Rightarrow> Proxier \<Rightarrow> bool" where
  "orphan a px \<longleftrightarrow> a < length (px_infos px) \<and> si_isAlive (px_infos px ! a) \<and>
     a \<notin> ran (map_of (px_serviceMap px))"

lemma px_micro_orphan:
  assumes "px_micro px px'" "px_inv px" "orphan a px"
  shows "orphan a px'"
  using assms(1)
proof cases
  case (open_portal sock port name protocol timeout)
  with assms(3) show ?thesis by (auto simp: orphan_def nth_append ran_def split: if_splits)
next
  case (close_portal name b)
  with assms(3) have "b \<noteq> a" by (auto simp: orphan_def ran_def)
  with close_portal assms(3) show ?thesis by (auto simp: orphan_def ran_def split: if_splits)
next
  case (call_balancer lb)
  with assms(3) show ?thesis by (simp add: orphan_def)
qed

lemma px_micros_orphan: "px_micro\<^sup>*\<^sup>* px px' \<Longrightarrow> px_inv px \<Longrightarrow> orphan a px \<Longrightarrow> orphan a px'"
proof (induction rule: rtranclp_induct)
  case (step y z)
  then show ?case using px_micros_inv px_micro_orphan by blast
qed

lemma px_micros_length: "px_micro\<^sup>*\<^sup>* px px' \<Longrightarrow> length (px_infos px) \<le> length (px_infos px')"
  by (induction rule: rtranclp_induct) (auto elim!: px_microE)

section \<open>Every handler is a sequence of small steps\<close>

lemma newProxySocket_port: "newProxySocket net protocol ip port w = (Inr sock, w') \<Longrightarrow> ListenPort sock = port"
  by (auto simp: newProxySocket_def ListenPort_def Let_def
      split: Protocol.splits sum.splits prod.splits if_splits)

lemma addServicePortPortal_cases:
  assumes "addServicePortPortal env name protocol listenIP port timeout (px, w) = Some (r, px', w')"
  obtains (failed) err where "r = Inl err" "px' = px"
    | (opened) sock where "r = Inr (length (px_infos px))" "ListenPort sock = sint port"
        "px' = start_portal name (new_info protocol listenIP port timeout sock) px"
proof (cases "portal_address env listenIP w")
  case None
  with assms show ?thesis by (simp add: addServicePortPortal_def)
next
  case (Some q)
  obtain a w1 where q: "q = (a, w1)" by fastforce
  show ?thesis
  proof (cases a)
    case (Inl err)
    with Some q assms show ?thesis by (intro failed) (auto simp: addServicePortPortal_def)
  next
    case (Inr ip)
    obtain so w2 where so: "newProxySocket (pe_listen env) protocol ip (sint port) w1 = (so, w2)" by fastforce
    show ?thesis
    proof (cases so)
      case (Inl err)
      with Some q Inr so assms show ?thesis by (intro failed) (auto simp: addServicePortPortal_def)
    next
      case (Inr sock)
      with Some q \<open>a = Inr ip\<close> so assms show ?thesis
        by (intro opened [of sock]) (auto simp: addServicePortPortal_def dest: newProxySocket_port)
    qed
  qed
qed

lemma close_px:
  "\<exists>err w'. closeServicePortPortal env name a (px, w) = (err, closed name a px, w')"
  by (auto simp: closeServicePortPortal_def stopProxy_def stopProxyInternal_def closed_def Let_def
      split: prod.splits option.splits)

lemma merge_listen_cases:
  assumes "merge_listen env svcName p (ip, port) (ex, px, w) = Some (Inr (ex', px', w'))"
  shows "ex' = AList.update (portal_name svcName (pm_Name p) ip) True ex"
    and "px' = px \<or> (\<exists>sock. ListenPort sock = sint port \<and>
           px' = start_portal (portal_name svcName (pm_Name p) ip)
                   (new_info (pm_Protocol p) ip port (px_udpIdleTimeout px) sock) px \<and>
           (\<forall>a. map_of (px_serviceMap px) (portal_name svcName (pm_Name p) ip) = Some a \<longrightarrow>
                po_port (si_portal (px_infos px ! a)) \<noteq> port))"
  using assms
  by (auto simp: merge_listen_def GetServiceInfo_def sameConfig_def Let_def
      split: if_splits option.splits prod.splits elim!: addServicePortPortal_cases)

lemma merge_listen_micro:
  assumes "merge_listen env svcName p ipport (ex, px, w) = Some (Inr (ex', px', w'))"
  shows "px_micro\<^sup>*\<^sup>* px px'"
proof (cases ipport)
  case (Pair ip port)
  have [simp]: "sppn_PortalIPName (portal_name svcName (pm_Name p) ip) = ip"
    by (simp add: portal_name_def)
  from merge_listen_cases(2) [OF assms [unfolded Pair]] show ?thesis
    using open_portal [where name = "portal_name svcName (pm_Name p) ip" and port = port and px = px] by auto
qed

lemma NewService_micro: "px_micro px (px\<lparr>px_loadBalancer := NewService k aff t (px_loadBalancer px)\<rparr>)"
  by (intro call_balancer lb_step.new_service)

lemma ogo_fold_micro:
  assumes "ogo_fold f xs (ex, px, w) = Some (Inr (ex', px', w'))"
    and "\<And>x ex px w ex' px' w'. f x (ex, px, w) = Some (Inr (ex', px', w')) \<Longrightarrow> px_micro\<^sup>*\<^sup>* px px'"
  shows "px_micro\<^sup>*\<^sup>* px px'"
proof -
  have "px_micro\<^sup>*\<^sup>* px (fst (snd (ex', px', w')))"
    using assms(1)
    by (rule ogo_fold_invariant [where I = "\<lambda>t. px_micro\<^sup>*\<^sup>* px (fst (snd t))"])
       (auto intro: rtranclp_trans dest: assms(2))
  then show ?thesis by simp
qed

lemma merge_port_fold:
  assumes "merge_port env service p (ex, px, w) = Some (Inr (ex', px', w'))"
  obtains m px1 where "getListenIPPortMap service (pm_Port p) (pm_NodePort p) = Inr m"
    "ogo_fold (merge_listen env (svc_key service) p) (pe_range env m) (ex, px, w) = Some (Inr (ex', px1, w'))"
    "px' = px1 \<or> px' = px1\<lparr>px_loadBalancer := NewService (svcPortName (svc_key service) (pm_Name p))
                              AffinityNone 0 (px_loadBalancer px1)\<rparr>"
  using assms by (auto simp: merge_port_def ogo_bind_eq_Inr split: sum.splits if_splits)

lemma merge_port_micro:
  assumes "merge_port env service p (ex, px, w) = Some (Inr (ex', px', w'))"
  shows "px_micro\<^sup>*\<^sup>* px px'"
  using assms
proof (cases rule: merge_port_fold)
  case (1 m px1)
  have "px_micro\<^sup>*\<^sup>* px px1" by (rule ogo_fold_micro [OF 1(2) merge_listen_micro])
  with 1(3) show ?thesis using NewService_micro by (auto intro: rtranclp.rtrancl_into_rtrancl)
qed

lemma mergeService_micro:
  assumes "mergeService env service (px, w) = Some (Inr (ex, px', w'))"
  shows "px_micro\<^sup>*\<^sup>* px px'"
proof (cases service)
  case None
  with assms show ?thesis by (simp add: mergeService_def)
next
  case (Some s)
  with assms have "ogo_fold (merge_port env s) (svc_Ports s) ([], px, w) = Some (Inr (ex, px', w'))"
    by (simp add: mergeService_def)
  then show ?thesis by (rule ogo_fold_micro) (rule merge_port_micro)
qed

lemma unmerge_listen_cases:
  obtains (kept) w' where "unmerge_listen env svcName ex p ipport (px, w) = (px, w')"
      "map_of ex (portal_name svcName (pm_Name p) (fst ipport)) = Some True \<or>
       map_of (px_serviceMap px) (portal_name svcName (pm_Name p) (fst ipport)) = None"
    | (stopped) a w' where "map_of (px_serviceMap px) (portal_name svcName (pm_Name p) (fst ipport)) = Some a"
      "map_of ex (portal_name svcName (pm_Name p) (fst ipport)) \<noteq> Some True"
      "unmerge_listen env svcName ex p ipport (px, w) =
         (closed (portal_name svcName (pm_Name p) (fst ipport)) a px, w')"
proof (cases ipport)
  case (Pair ip port)
  let ?n = "portal_name svcName (pm_Name p) ip"
  show ?thesis
  proof (cases "map_of (px_serviceMap px) ?n")
    case None
    with Pair show ?thesis by (intro kept [of w]) (auto simp: unmerge_listen_def GetServiceInfo_def Let_def)
  next
    case (Some a)
    obtain err w1 where c: "closeServicePortPortal env ?n a (px, w) = (err, closed ?n a px, w1)"
      using close_px [of env ?n a px w] by blast
    show ?thesis
    proof (cases "map_of ex ?n = Some True")
      case True
      with Pair show ?thesis by (intro kept [of w]) (auto simp: unmerge_listen_def GetServiceInfo_def Let_def)
    next
      case False
      with Pair Some c show ?thesis
        by (intro stopped [of a w1]) (auto simp: unmerge_listen_def GetServiceInfo_def Let_def)
    qed
  qed
qed

lemma unmerge_listen_micro: "px_micro\<^sup>*\<^sup>* px (fst (unmerge_listen env svcName ex p ipport (px, w)))"
  by (rule unmerge_listen_cases [of env svcName ex p ipport px w]) (auto intro: close_portal)

lemma unmerge_fold_micro: "px_micro\<^sup>*\<^sup>* px (fst (fold (unmerge_listen env svcName ex p) xs (px, w)))"
  by (rule fold_invariant [where I = "\<lambda>t. px_micro\<^sup>*\<^sup>* px (fst t)"])
     (auto intro: rtranclp_trans unmerge_listen_micro simp: split_paired_all)

lemma unmerge_port_fold:
  assumes "unmerge_port env service ex nm p (px, w) = Inr (px', w')"
  obtains m px1 where "getListenIPPortMap service (pm_Port p) (pm_NodePort p) = Inr m"
    "fold (unmerge_listen env (svc_key service) ex p) (pe_range env m) (px, w) = (px1, w')"
    "px' = px1 \<or> px' = px1\<lparr>px_loadBalancer := RoundRobin.DeleteService (svcPortName (svc_key service) (pm_Name p))
                              (px_loadBalancer px1)\<rparr>"
  using assms by (auto simp: unmerge_port_def Let_def split: sum.splits prod.splits if_splits)

lemma unmerge_port_micro:
  assumes "unmerge_port env service ex nm p (px, w) = Inr (px', w')"
  shows "px_micro\<^sup>*\<^sup>* px px'"
  using assms
proof (cases rule: unmerge_port_fold)
  case (1 m px1)
  have "px_micro\<^sup>*\<^sup>* px px1"
    using unmerge_fold_micro [of px env "svc_key service" ex p "pe_range env m" w] 1(2) by simp
  with 1(3) show ?thesis
    using call_balancer [OF lb_step.delete_service] by (auto intro: rtranclp.rtrancl_into_rtrancl)
qed

lemma unmergeService_micro:
  assumes "unmergeService env service ex (px, w) = Inr (px', w')"
  shows "px_micro\<^sup>*\<^sup>* px px'"
proof (cases service)
  case None
  with assms show ?thesis by (simp add: unmergeService_def)
next
  case (Some s)
  with assms obtain nm where "go_fold (unmerge_port env s ex nm) (svc_Ports s) (px, w) = Inr (px', w')"
    by (auto simp: unmergeService_def Let_def)
  then have "px_micro\<^sup>*\<^sup>* px (fst (px', w'))"
    by (rule go_fold_invariant [where I = "\<lambda>t. px_micro\<^sup>*\<^sup>* px (fst t)"])
       (auto intro: rtranclp_trans dest: unmerge_port_micro)
  then show ?thesis by simp
qed

end
