(* ===== verification/UserProxierProps.thy ===== *)
theory UserProxierProps
  imports UserProxierCorrect
begin

text \<open>
  The userspace proxier as a state machine, and what its handlers do to the portals: which
  names a service opens, which ones it closes, and what happens to the goroutines and
  listeners behind them.
\<close>

section \<open>Steps and reachable states\<close>

text \<open>
  Every handler with any argument; the calls of NextEndpoint by the goroutines that serve
  the portals; and a change of the outside world.
\<close>

inductive px_step :: "'w proxier_env \<Rightarrow> Proxier \<times> 'w \<Rightarrow> Proxier \<times> 'w \<Rightarrow> bool" for env where
  service_add: "OnServiceAdd env service pxw = Some (Inr pxw') \<Longrightarrow> px_step env pxw pxw'"
| service_update: "OnServiceUpdate env old service pxw = Some (Inr pxw') \<Longrightarrow> px_step env pxw pxw'"
| service_delete: "OnServiceDelete env service pxw = Inr pxw' \<Longrightarrow> px_step env pxw pxw'"
| endpoints_add: "Proxier_OnEndpointsAdd env e service px = Inr px' \<Longrightarrow> px_step env (px, w) (px', w)"
| endpoints_update: "Proxier_OnEndpointsUpdate env old e service px = Inr px' \<Longrightarrow> px_step env (px, w) (px', w)"
| endpoints_delete: "Proxier_OnEndpointsDelete e service px = Inr px' \<Longrightarrow> px_step env (px, w) (px', w)"
| endpoints_synced: "px_step env (px, w) (Proxier_OnEndpointsSynced px, w)"
| cleanup: "px_step env (px, w) (cleanupStaleStickySessions now names px, w)"
| next_endpoint: "NextEndpoint k addr reset (px_loadBalancer px) = Inr (r, lb) \<Longrightarrow>
    px_step env (px, w) (px\<lparr>px_loadBalancer := lb\<rparr>, w)"
| world: "px_step env (px, w) (px, w')"

inductive px_reachable :: "'w proxier_env \<Rightarrow> Proxier \<times> 'w \<Rightarrow> bool" for env where
  start: "NewProxier (Inr hostIP) NewLoadBalancerRR listenIP syncPeriod idle = Inr px \<Longrightarrow> px_reachable env (px, w)"
| step: "px_reachable env pxw \<Longrightarrow> px_step env pxw pxw' \<Longrightarrow> px_reachable env pxw'"

lemma cleanup_micro: "px_micro\<^sup>*\<^sup>* px (cleanupStaleStickySessions now names px)"
proof -
  have more: "lb_step\<^sup>*\<^sup>* x (CleanupStaleStickySessions now k y)" if "lb_step\<^sup>*\<^sup>* x y" for x y k
    by (rule rtranclp.rtrancl_into_rtrancl [OF that]) (rule lb_step.cleanup)
  have lb: "lb_step\<^sup>*\<^sup>* (px_loadBalancer px) (snd (fold (cleanup_name now) names ([], px_loadBalancer px)))"
    by (rule fold_invariant [where I = "\<lambda>t. lb_step\<^sup>*\<^sup>* (px_loadBalancer px) (snd t)"])
       (auto simp: cleanup_name_def Let_def intro: more)
  have "px_micro\<^sup>*\<^sup>* px (px\<lparr>px_loadBalancer := lb\<rparr>)" if "lb_step\<^sup>*\<^sup>* (px_loadBalancer px) lb" for lb
    using that
  proof (induction rule: rtranclp_induct)
    case (step y z)
    from call_balancer [of "px\<lparr>px_loadBalancer := y\<rparr>" z] step(2)
    have "px_micro (px\<lparr>px_loadBalancer := y\<rparr>) (px\<lparr>px_loadBalancer := z\<rparr>)" by simp
    with step(3) show ?case by (rule rtranclp.rtrancl_into_rtrancl)
  qed simp
  with lb show ?thesis by (simp add: cleanupStaleStickySessions_def)
qed

lemma with_balancer_micro:
  assumes "with_balancer f px = Inr px'" "\<And>lb. f (px_loadBalancer px) = Inr lb \<Longrightarrow> lb_step (px_loadBalancer px) lb"
  shows "px_micro\<^sup>*\<^sup>* px px'"
  using assms by (auto simp: with_balancer_def go_bind_eq_Inr intro: call_balancer)

lemma px_step_micro: "px_step env pxw pxw' \<Longrightarrow> px_micro\<^sup>*\<^sup>* (fst pxw) (fst pxw')"
proof (induction rule: px_step.induct)
  case (service_add service pxw pxw')
  then show ?case
    by (cases pxw; cases pxw') (auto simp: OnServiceAdd_def ogo_bind_eq_Inr dest: mergeService_micro)
next
  case (service_update old service pxw pxw')
  then show ?case
    by (cases pxw; cases pxw')
       (auto simp: OnServiceUpdate_def ogo_bind_eq_Inr
          dest!: mergeService_micro unmergeService_micro intro: rtranclp_trans)
next
  case (service_delete service pxw pxw')
  then show ?case
    by (cases pxw; cases pxw') (auto simp: OnServiceDelete_def dest: unmergeService_micro)
next
  case (endpoints_synced px w)
  then show ?case by (auto simp: Proxier_OnEndpointsSynced_def intro: call_balancer lb_step.endpoints_synced)
next
  case (next_endpoint k addr reset px r lb w)
  then show ?case by (auto intro: call_balancer lb_step.next_endpoint)
qed (auto simp: Proxier_OnEndpointsAdd_def Proxier_OnEndpointsUpdate_def Proxier_OnEndpointsDelete_def
      intro: cleanup_micro with_balancer_micro lb_step.intros)

lemma px_steps_micro: "(px_step env)\<^sup>*\<^sup>* pxw pxw' \<Longrightarrow> px_micro\<^sup>*\<^sup>* (fst pxw) (fst pxw')"
  by (induction rule: rtranclp_induct) (auto intro: rtranclp_trans px_step_micro)

lemma px_reachable_inv: "px_reachable env pxw \<Longrightarrow> px_inv (fst pxw)"
proof (induction rule: px_reachable.induct)
  case (start hostIP listenIP syncPeriod idle px w)
  then show ?case using px_inv_start by (auto simp: NewProxier_def)
qed (auto intro: px_micros_inv px_step_micro)

section \<open>The names of a service\<close>

text \<open>The port that the code listens on for an address of a service port.\<close>

definition listen_port :: "Service \<Rightarrow> PortMapping \<Rightarrow> string \<Rightarrow> int32 option" where
  "listen_port service p ip =
     (if ip = allAvailableInterfaces \<and> pm_NodePort p \<noteq> 0 then Some (pm_NodePort p)
      else if ip \<in> set (listen_ips service) then Some (pm_Port p) else None)"

definition portal_names :: "Service \<Rightarrow> ServicePortPortalName set" where
  "portal_names service =
     {portal_name (svc_key service) (pm_Name p) ip |p ip. p \<in> set (svc_Ports service) \<and> listen_port service p ip \<noteq> None}"

definition range_ok :: "'w proxier_env \<Rightarrow> bool" where
  "range_ok env \<longleftrightarrow> (\<forall>m. mset (pe_range env m) = mset m)"

lemma portal_name_simps [simp]:
  "sppn_NamespacedName (portal_name n p ip) = n"
  "sppn_Port (portal_name n p ip) = p"
  "sppn_PortalIPName (portal_name n p ip) = ip"
  "portal_name n p ip = portal_name n' p' ip' \<longleftrightarrow> n = n' \<and> p = p' \<and> ip = ip'"
  by (auto simp: portal_name_def)

lemma getListenIPPortMap_range:
  assumes "range_ok env" "getListenIPPortMap service (pm_Port p) (pm_NodePort p) = Inr m"
  shows "(ip, port) \<in> set (pe_range env m) \<longleftrightarrow> listen_port service p ip = Some port"
proof -
  have "has_listen_ips service"
    using getListenIPPortMap_panics [of service "pm_Port p" "pm_NodePort p"] assms(2) by auto
  from getListenIPPortMap_Inr [OF this, of "pm_Port p" "pm_NodePort p"] obtain m' where
    m': "getListenIPPortMap service (pm_Port p) (pm_NodePort p) = Inr m'" "wf_map m'"
    and "\<forall>ip. map_of m' ip = (if ip = allAvailableInterfaces \<and> pm_NodePort p \<noteq> 0 then Some (pm_NodePort p)
       else if ip \<in> set (listen_ips service) then Some (pm_Port p) else None)" by blast
  then have lp: "map_of m' ip = listen_port service p ip" by (simp add: listen_port_def)
  from m'(1) assms(2) have eq: "m' = m" by simp
  have "set (pe_range env m) = set m" using assms(1) unfolding range_ok_def by (metis set_mset_mset)
  then show ?thesis using wf_map_set_iff [OF m'(2), of ip port] lp by (simp only: eq)
qed

lemma range_in_names:
  assumes "range_ok env" "getListenIPPortMap service (pm_Port p) (pm_NodePort p) = Inr m"
    and "(ip, port) \<in> set (pe_range env m)" "p \<in> set (svc_Ports service)"
  shows "portal_name (svc_key service) (pm_Name p) ip \<in> portal_names service"
  using assms getListenIPPortMap_range [OF assms(1,2)] by (fastforce simp: portal_names_def)

section \<open>The loop over ports and listen addresses\<close>

text \<open>
  mergeService and unmergeService are the same double loop with different bodies: over the
  ports of the service, and for each port over its listen addresses, with a last action for
  the port.
\<close>

definition port_turn ::
  "'w proxier_env \<Rightarrow> Service \<Rightarrow> (PortMapping \<Rightarrow> string \<times> int32 \<Rightarrow> 's \<Rightarrow> 's go option) \<Rightarrow>
   (PortMapping \<Rightarrow> (string, int32) gomap \<Rightarrow> 's \<Rightarrow> 's) \<Rightarrow> PortMapping \<Rightarrow> 's \<Rightarrow> 's go option" where
  "port_turn env service inner fin p s =
     (case getListenIPPortMap service (pm_Port p) (pm_NodePort p) of
        Inl e \<Rightarrow> Some (Inl e)
      | Inr m \<Rightarrow> ogo_bind (ogo_fold (inner p) (pe_range env m) s) (\<lambda>t. Some (Inr (fin p m t))))"

definition merge_fin ::
  "Service \<Rightarrow> PortMapping \<Rightarrow> (string, int32) gomap \<Rightarrow> (ServicePortPortalName, bool) gomap \<times> Proxier \<times> 'w \<Rightarrow>
   (ServicePortPortalName, bool) gomap \<times> Proxier \<times> 'w" where
  "merge_fin service p m = (\<lambda>(ex, px, w). (ex,
     if 0 < length m
     then px\<lparr>px_loadBalancer := NewService (svcPortName (svc_key service) (pm_Name p)) AffinityNone 0 (px_loadBalancer px)\<rparr>
     else px, w))"

definition unmerge_fin ::
  "Service \<Rightarrow> (ServicePortName, bool) gomap \<Rightarrow> PortMapping \<Rightarrow> (string, int32) gomap \<Rightarrow> Proxier \<times> 'w \<Rightarrow> Proxier \<times> 'w" where
  "unmerge_fin service nm p m = (\<lambda>(px, w).
     (let serviceName = svcPortName (svc_key service) (pm_Name p) in
      (if map_of nm serviceName \<noteq> Some True
       then px\<lparr>px_loadBalancer := RoundRobin.DeleteService serviceName (px_loadBalancer px)\<rparr> else px, w)))"

lemma mergeService_loop:
  "mergeService env (Some service) (px, w) =
     ogo_fold (port_turn env service (merge_listen env (svc_key service)) (merge_fin service))
       (svc_Ports service) ([], px, w)"
proof -
  have "merge_port env service = port_turn env service (merge_listen env (svc_key service)) (merge_fin service)"
    by (intro ext) (simp add: merge_port_def port_turn_def merge_fin_def case_prod_unfold cong: sum.case_cong)
  then show ?thesis by (simp add: mergeService_def)
qed

lemma ogo_fold_fold: "ogo_fold (\<lambda>x s. Some (Inr (f x s))) xs s = Some (Inr (fold f xs s))"
  by (induction xs arbitrary: s) auto

lemma ogo_fold_go: "ogo_fold (\<lambda>x s. Some (f x s)) xs s = Some (go_fold f xs s)"
proof (induction xs arbitrary: s)
  case (Cons x xs)
  then show ?case by (cases "f x s") simp_all
qed simp

lemma unmergeService_loop:
  obtains nm where "Some (unmergeService env (Some service) ex pxw) =
     ogo_fold (port_turn env service (\<lambda>p x s. Some (Inr (unmerge_listen env (svc_key service) ex p x s)))
       (unmerge_fin service nm)) (svc_Ports service) pxw"
proof -
  have "(\<lambda>p s. Some (unmerge_port env service ex nm p s)) =
      port_turn env service (\<lambda>p x s. Some (Inr (unmerge_listen env (svc_key service) ex p x s))) (unmerge_fin service nm)"
    for nm
    by (intro ext)
       (auto simp: unmerge_port_def port_turn_def unmerge_fin_def ogo_fold_fold Let_def split: sum.split prod.split)
  then show ?thesis by (intro that) (simp add: unmergeService_def Let_def flip: ogo_fold_go)
qed

lemma port_turn_Inr:
  assumes "port_turn env service inner fin p s = Some (Inr t)"
  obtains m u where "getListenIPPortMap service (pm_Port p) (pm_NodePort p) = Inr m"
    "ogo_fold (inner p) (pe_range env m) s = Some (Inr u)" "t = fin p m u"
  using assms by (auto simp: port_turn_def ogo_bind_eq_Inr split: sum.splits)

lemma port_turn_keeps:
  assumes "range_ok env" "p \<in> set (svc_Ports service)" "port_turn env service inner fin p s = Some (Inr t)" "I s"
    and "\<And>p ip port s t. p \<in> set (svc_Ports service) \<Longrightarrow> listen_port service p ip = Some port \<Longrightarrow>
      I s \<Longrightarrow> inner p (ip, port) s = Some (Inr t) \<Longrightarrow> I t"
    and "\<And>p m s. I s \<Longrightarrow> I (fin p m s)"
  shows "I t"
  using assms(3)
proof (cases rule: port_turn_Inr)
  case (1 m u)
  have "I u"
    using 1(2) assms(4)
    by (rule ogo_fold_invariant)
       (use getListenIPPortMap_range [OF assms(1) 1(1)] assms(2) in \<open>auto intro: assms(5)\<close>)
  with 1(3) show ?thesis by (simp add: assms(6))
qed

lemma port_loop_invariant:
  assumes "range_ok env" "ogo_fold (port_turn env service inner fin) (svc_Ports service) s = Some (Inr t)" "I s"
    and "\<And>p ip port s t. p \<in> set (svc_Ports service) \<Longrightarrow> listen_port service p ip = Some port \<Longrightarrow>
      I s \<Longrightarrow> inner p (ip, port) s = Some (Inr t) \<Longrightarrow> I t"
    and "\<And>p m s. I s \<Longrightarrow> I (fin p m s)"
  shows "I t"
  using assms(2,3) proof (rule ogo_fold_invariant)
  fix p s t
  assume "p \<in> set (svc_Ports service)" "I s" "port_turn env service inner fin p s = Some (Inr t)"
  from port_turn_keeps [of env p service inner fin s t I, OF assms(1) this(1,3,2)] assms(4,5)
  show "I t" by blast
qed

text \<open>What one turn establishes and every turn keeps.\<close>

lemma port_loop_establishes:
  assumes "range_ok env" "ogo_fold (port_turn env service inner fin) (svc_Ports service) s = Some (Inr t)"
    and q: "q \<in> set (svc_Ports service)" "listen_port service q ip0 = Some port0" and "J s"
    and J: "\<And>p ip port s t. p \<in> set (svc_Ports service) \<Longrightarrow> listen_port service p ip = Some port \<Longrightarrow>
      J s \<Longrightarrow> inner p (ip, port) s = Some (Inr t) \<Longrightarrow> J t" "\<And>p m s. J s \<Longrightarrow> J (fin p m s)"
    and est: "\<And>s t. J s \<Longrightarrow> inner q (ip0, port0) s = Some (Inr t) \<Longrightarrow> I t"
    and keep: "\<And>p ip port s t. p \<in> set (svc_Ports service) \<Longrightarrow> listen_port service p ip = Some port \<Longrightarrow>
      J s \<Longrightarrow> I s \<Longrightarrow> inner p (ip, port) s = Some (Inr t) \<Longrightarrow> I t" "\<And>p m s. I s \<Longrightarrow> I (fin p m s)"
  shows "I t"
  using assms(2) q(1) assms(5)
proof (rule ogo_fold_establishes)
  fix s t
  assume s: "J s" "port_turn env service inner fin q s = Some (Inr t)"
  from s(2) show "I t"
  proof (cases rule: port_turn_Inr)
    case (1 m u)
    note range = getListenIPPortMap_range [OF assms(1) 1(1)]
    have "I u"
      using 1(2) range [of ip0 port0, THEN iffD2, OF q(2)] s(1)
      by (rule ogo_fold_establishes)
         (use range q(1) est in \<open>auto intro: J(1) keep(1)\<close>)
    with 1(3) show ?thesis by (simp add: keep(2))
  qed
next
  fix p s t
  assume p: "p \<in> set (svc_Ports service)" "J s" "I s" "port_turn env service inner fin p s = Some (Inr t)"
  have "J t \<and> I t"
    using assms(1) p(1,4)
    by (rule port_turn_keeps [where I = "\<lambda>s. J s \<and> I s"]) (use p(2,3) J keep in blast)+
  then show "I t" ..
next
  fix p s t
  assume "p \<in> set (svc_Ports service)" "J s" "port_turn env service inner fin p s = Some (Inr t)"
  from port_turn_keeps [of env p service inner fin s t J, OF assms(1) this(1,3,2)] J
  show "J t" by blast
qed

lemma port_loop_returns:
  assumes "range_ok env" "has_listen_ips service"
    and inner: "\<And>p ip port s. p \<in> set (svc_Ports service) \<Longrightarrow> listen_port service p ip = Some port \<Longrightarrow>
      \<exists>t. inner p (ip, port) s = Some (Inr t)"
  shows "\<exists>t. ogo_fold (port_turn env service inner fin) (svc_Ports service) s = Some (Inr t)"
proof -
  have "\<exists>t. port_turn env service inner fin p s = Some (Inr t)" if p: "p \<in> set (svc_Ports service)" for p s
  proof -
    obtain m where m: "getListenIPPortMap service (pm_Port p) (pm_NodePort p) = Inr m"
      using getListenIPPortMap_Inr [OF assms(2)] by blast
    have "\<exists>u. ogo_fold (inner p) (pe_range env m) s = Some (Inr u) \<and> True"
      by (rule ogo_fold_returns [where I = "\<lambda>_. True"])
         (use getListenIPPortMap_range [OF assms(1) m] p inner in \<open>auto\<close>)
    then show ?thesis using m by (auto simp: port_turn_def)
  qed
  then have "\<exists>t. ogo_fold (port_turn env service inner fin) (svc_Ports service) s = Some (Inr t) \<and> True"
    by (intro ogo_fold_returns [where I = "\<lambda>_. True"]) auto
  then show ?thesis by simp
qed

end
