(* ===== verification/UserPortals.thy ===== *)
theory UserPortals
  imports UserProxierProps
begin

text \<open>
  The properties of the userspace proxier: the invariant of its reachable states, what
  merging and unmerging a service does to every portal, the round trip of adding and
  deleting a service, the fate of a portal whose port changes, and UDP portals.
\<close>

section \<open>What merging does to one name\<close>

lemma portals_balancer [simp]: "portals (px\<lparr>px_loadBalancer := lb\<rparr>) = portals px"
  by (simp add: portals_def fun_eq_iff)

text \<open>An info that the code opens for a listen address of the service.\<close>

definition opened :: "Service \<Rightarrow> int \<Rightarrow> ServicePortPortalName \<Rightarrow> serviceInfo \<Rightarrow> bool" where
  "opened service idle name si \<longleftrightarrow>
     (\<exists>p ip port sock. p \<in> set (svc_Ports service) \<and> listen_port service p ip = Some port \<and>
        name = portal_name (svc_key service) (pm_Name p) ip \<and>
        si = new_info (pm_Protocol p) ip port idle sock)"

text \<open>A portal that is as it was, or opened for the service.\<close>

definition kept_or_opened :: "Service \<Rightarrow> Proxier \<Rightarrow> ServicePortPortalName \<Rightarrow> serviceInfo option \<Rightarrow> bool" where
  "kept_or_opened service px name po \<longleftrightarrow>
     po = portals px name \<or> (\<exists>si. po = Some si \<and> opened service (px_udpIdleTimeout px) name si)"

lemma merge_listen_portals:
  assumes "merge_listen env svcName p (ip, port) (ex, px, w) = Some (Inr (ex', px', w'))" "px_inv px"
  shows "px_inv px' \<and> px_udpIdleTimeout px' = px_udpIdleTimeout px \<and>
    (px' = px \<or> (\<exists>sock. portals px' = (portals px)(portal_name svcName (pm_Name p) ip \<mapsto>
       new_info (pm_Protocol p) ip port (px_udpIdleTimeout px) sock)))"
  using merge_listen_cases(2) [OF assms(1)] px_micros_inv [OF merge_listen_micro [OF assms(1)] assms(2)]
    portals_start [OF assms(2)] by auto

lemma mergeService_portals:
  assumes "range_ok env" "px_inv px" "mergeService env (Some service) (px, w) = Some (Inr (ex', px', w'))"
  shows "px_inv px' \<and> (\<forall>name. kept_or_opened service px name (portals px' name))"
proof -
  let ?I = "\<lambda>(ex, px1, w). px_inv px1 \<and> px_udpIdleTimeout px1 = px_udpIdleTimeout px \<and>
    (\<forall>name. kept_or_opened service px name (portals px1 name))"
  have "?I (ex', px', w')"
    using assms(1,3) [unfolded mergeService_loop]
  proof (rule port_loop_invariant)
    fix p ip port and s t :: "(ServicePortPortalName, bool) gomap \<times> Proxier \<times> _"
    assume p: "p \<in> set (svc_Ports service)" "listen_port service p ip = Some port" and I: "?I s"
      and m: "merge_listen env (svc_key service) p (ip, port) s = Some (Inr t)"
    obtain ex1 px1 w1 ex2 px2 w2 where st: "s = (ex1, px1, w1)" "t = (ex2, px2, w2)" by (metis prod.collapse)
    from I have i: "px_inv px1" "px_udpIdleTimeout px1 = px_udpIdleTimeout px" by (auto simp: st)
    have new: "kept_or_opened service px (portal_name (svc_key service) (pm_Name p) ip)
        (Some (new_info (pm_Protocol p) ip port (px_udpIdleTimeout px) sock))" for sock
      using p unfolding kept_or_opened_def opened_def by blast
    from merge_listen_portals [OF m [unfolded st] i(1)] I new i(2) show "?I t"
      by (auto simp: st)
  next
    fix p m and s :: "(ServicePortPortalName, bool) gomap \<times> Proxier \<times> _"
    assume "?I s"
    then show "?I (merge_fin service p m s)"
      using px_micro_inv [OF NewService_micro] by (auto simp: merge_fin_def)
  qed (use assms(2) in \<open>simp add: kept_or_opened_def\<close>)
  then show ?thesis by simp
qed

lemma mergeService_names:
  assumes "range_ok env" "mergeService env (Some service) (px, w) = Some (Inr (ex', px', w'))"
  shows "map_of ex' name = (if name \<in> portal_names service then Some True else None)"
proof -
  have step: "fst t = AList.update (portal_name (svc_key service) (pm_Name p) ip) True (fst s)"
    if "merge_listen env (svc_key service) p (ip, port) s = Some (Inr t)"
    for p ip port and s t :: "(ServicePortPortalName, bool) gomap \<times> Proxier \<times> _"
    using that merge_listen_cases(1) by (cases s; cases t) auto
  let ?I = "\<lambda>s :: (ServicePortPortalName, bool) gomap \<times> Proxier \<times> _.
    (\<forall>name b. map_of (fst s) name = Some b \<longrightarrow> b \<and> name \<in> portal_names service)"
  have name: "portal_name (svc_key service) (pm_Name p) ip \<in> portal_names service"
    if "p \<in> set (svc_Ports service)" "listen_port service p ip = Some port" for p ip port
    using that by (auto simp: portal_names_def)
  have "?I (ex', px', w')"
    using assms [unfolded mergeService_loop]
    by (rule port_loop_invariant) (auto simp: step merge_fin_def name case_prod_unfold split: if_splits)
  moreover have "map_of ex' name = Some True" if "name \<in> portal_names service"
  proof -
    from that obtain p ip port where p: "p \<in> set (svc_Ports service)" "listen_port service p ip = Some port"
      "name = portal_name (svc_key service) (pm_Name p) ip" by (auto simp: portal_names_def)
    have "map_of (fst (ex', px', w')) name = Some True"
      by (rule port_loop_establishes [where J = "\<lambda>_. True", OF assms(1) assms(2) [unfolded mergeService_loop] p(1,2)])
         (auto simp: step p(3) merge_fin_def)
    then show ?thesis by simp
  qed
  ultimately show ?thesis by (cases "map_of ex' name") auto
qed

text \<open>
  C8. Merging a service: the call answers with exactly the names of the service, one for
  each port and listen address; and it leaves each portal as it was, or opens it for a port
  of the service at an address it listens on. The proxier stays well-formed, whatever netsh
  and the network answer.
\<close>

theorem mergeService_opens:
  assumes "range_ok env" "px_reachable env (px, w)"
    and "mergeService env (Some service) (px, w) = Some (Inr (ex', px', w'))"
  shows "px_inv px' \<and>
    (\<forall>name. map_of ex' name = (if name \<in> portal_names service then Some True else None)) \<and>
    (\<forall>name. portals px' name = portals px name \<or>
       (\<exists>si. portals px' name = Some si \<and> opened service (px_udpIdleTimeout px) name si))"
proof -
  have "px_inv px" using px_reachable_inv [OF assms(2)] by simp
  from mergeService_portals [OF assms(1) this assms(3)] mergeService_names [OF assms(1,3)]
  show ?thesis by (simp add: kept_or_opened_def)
qed

text \<open>A world for the witnesses: netsh lists the address at once, every listener opens.\<close>

definition demo_penv :: "unit proxier_env" where
  "demo_penv = \<lparr>pe_parse_ip = (\<lambda>s. if s = ''10.96.0.4'' then [10, 96, 0, 4] else []),
     pe_run = (\<lambda>args w. ((''IP Address: 10.96.0.4'', None), w)), pe_interface = [],
     pe_listen = \<lparr>lo_listen_tcp = (\<lambda>a w. (Inr 5, w)), lo_resolve_udp = (\<lambda>a w. (Inr a, w)),
                  lo_listen_udp = (\<lambda>a w. (Inr 6, w))\<rparr>,
     pe_close = (\<lambda>s w. (None, w)), pe_range = id, pe_rnd = demo_rnd\<rparr>"

definition demo_px0 :: Proxier where
  "demo_px0 = createProxier NewLoadBalancerRR [] [] 20 20"

definition demo_px :: Proxier where
  "demo_px = \<lparr>px_loadBalancer = NewService demo_key AffinityNone 0 NewLoadBalancerRR,
     px_serviceMap = [(portal_name (svc_key demo_service) ''http'' ''10.96.0.4'', 0)],
     px_infos = [new_info Protocol_TCP ''10.96.0.4'' 80 20 (TcpSocket 5 80)],
     px_loops = [(portal_name (svc_key demo_service) ''http'' ''10.96.0.4'', 0)],
     px_syncPeriod = 20, px_udpIdleTimeout = 20, px_hostIP = []\<rparr>"

lemma demo_range_ok: "range_ok demo_penv"
  by (simp add: range_ok_def demo_penv_def)

lemma demo_px0_reachable: "px_reachable env (demo_px0, w)"
  by (rule px_reachable.start [of "[]" "[]" 20 20]) (simp add: NewProxier_def demo_px0_def)

lemma demo_merge:
  "mergeService demo_penv (Some demo_service) (demo_px0, ()) =
     Some (Inr ([(portal_name (svc_key demo_service) ''http'' ''10.96.0.4'', True)], demo_px, ()))"
  by code_simp

lemma demo_px_reachable: "px_reachable demo_penv (demo_px, ())"
  by (rule px_reachable.step [OF demo_px0_reachable px_step.service_add [where service = "Some demo_service"]])
     (simp add: OnServiceAdd_def demo_merge)

theorem mergeService_opens_witness:
  "px_inv demo_px \<and>
   portal_name (svc_key demo_service) ''http'' ''10.96.0.4'' \<in> portal_names demo_service \<and>
   portal_name (svc_key demo_service) ''https'' ''10.96.0.4'' \<notin> portal_names demo_service"
proof -
  note * = mergeService_opens [OF demo_range_ok demo_px0_reachable demo_merge]
  from * have "map_of [(portal_name (svc_key demo_service) ''http'' ''10.96.0.4'', True)] name =
      (if name \<in> portal_names demo_service then Some True else None)" for name by blast
  from this [of "portal_name (svc_key demo_service) ''http'' ''10.96.0.4''"]
    this [of "portal_name (svc_key demo_service) ''https'' ''10.96.0.4''"] *
  show ?thesis by (simp split: if_splits)
qed

section \<open>Every address is served\<close>

text \<open>
  The outside world lets every portal of the service open: its addresses can be parsed and
  brought up, and the listeners bind.
\<close>

definition env_works :: "'w proxier_env \<Rightarrow> Service \<Rightarrow> bool" where
  "env_works env service \<longleftrightarrow>
     (\<forall>p \<in> set (svc_Ports service). \<forall>ip port. listen_port service p ip = Some port \<longrightarrow>
        (\<forall>w. \<exists>addr w1 sock w2. portal_address env ip w = Some (Inr addr, w1) \<and>
           newProxySocket (pe_listen env) (pm_Protocol p) addr (sint port) w1 = (Inr sock, w2)))"

lemma merge_listen_works:
  assumes "env_works env service" "p \<in> set (svc_Ports service)" "listen_port service p ip = Some port"
  shows "\<exists>ex' px' w' si. merge_listen env (svc_key service) p (ip, port) (ex, px, w) = Some (Inr (ex', px', w')) \<and>
    portals px' (portal_name (svc_key service) (pm_Name p) ip) = Some si \<and> po_port (si_portal si) = port"
proof -
  let ?n = "portal_name (svc_key service) (pm_Name p) ip"
  from assms obtain addr w1 sock w2 where a: "portal_address env ip w = Some (Inr addr, w1)"
    "newProxySocket (pe_listen env) (pm_Protocol p) addr (sint port) w1 = (Inr sock, w2)"
    unfolding env_works_def by blast
  show ?thesis
  proof (cases "\<exists>a. map_of (px_serviceMap px) ?n = Some a \<and> po_port (si_portal (px_infos px ! a)) = port")
    case True
    then show ?thesis by (auto simp: merge_listen_def GetServiceInfo_def sameConfig_def Let_def portals_def)
  next
    case False
    with a show ?thesis
      by (auto simp: merge_listen_def GetServiceInfo_def sameConfig_def Let_def portals_def
          addServicePortPortal_def split: option.split)
  qed
qed

text \<open>
  C9. When the world lets the portals open and the ports of the service have different
  names, merging the service returns, and afterwards every port of the service is served at
  every address it listens on: the name leads to a live info with that address and port,
  also when another port was served before.
\<close>

theorem mergeService_listens:
  assumes "range_ok env" "px_reachable env (px, w)" "has_listen_ips service"
    and "distinct (map pm_Name (svc_Ports service))" "env_works env service"
  shows "\<exists>ex' px' w'. mergeService env (Some service) (px, w) = Some (Inr (ex', px', w')) \<and>
    (\<forall>p \<in> set (svc_Ports service). \<forall>ip port. listen_port service p ip = Some port \<longrightarrow>
       (\<exists>si. portals px' (portal_name (svc_key service) (pm_Name p) ip) = Some si \<and>
          si_isAlive si \<and> po_ip (si_portal si) = ip \<and> po_port (si_portal si) = port))"
proof -
  let ?J = "\<lambda>s :: (ServicePortPortalName, bool) gomap \<times> Proxier \<times> _. px_inv (fst (snd s))"
  let ?loop = "ogo_fold (port_turn env service (merge_listen env (svc_key service)) (merge_fin service))
      (svc_Ports service) ([], px, w)"
  have "\<exists>t. ?loop = Some (Inr t)"
    using assms(1,3)
  proof (rule port_loop_returns)
    fix p ip port and s :: "(ServicePortPortalName, bool) gomap \<times> Proxier \<times> _"
    assume "p \<in> set (svc_Ports service)" "listen_port service p ip = Some port"
    from merge_listen_works [OF assms(5) this] show "\<exists>t. merge_listen env (svc_key service) p (ip, port) s = Some (Inr t)"
      by (cases s) blast
  qed
  then obtain ex' px' w' where loop: "?loop = Some (Inr (ex', px', w'))" by (metis prod.collapse)
  have inv: "px_inv px" using px_reachable_inv [OF assms(2)] by simp
  have J: "?J t" if "?J s" "merge_listen env (svc_key service) p (ip, port) s = Some (Inr t)" for p ip port s t
    using that merge_listen_portals by (cases s; cases t) fastforce
  have Jf: "?J (merge_fin service p m s)" if "?J s" for p m s
    using that px_micro_inv [OF NewService_micro] by (cases s) (auto simp: merge_fin_def)
  have "\<exists>si. portals px' (portal_name (svc_key service) (pm_Name q) ip0) = Some si \<and> po_port (si_portal si) = port0"
    if q: "q \<in> set (svc_Ports service)" "listen_port service q ip0 = Some port0" for q ip0 port0
  proof -
    let ?I = "\<lambda>s :: (ServicePortPortalName, bool) gomap \<times> Proxier \<times> _.
      \<exists>si. portals (fst (snd s)) (portal_name (svc_key service) (pm_Name q) ip0) = Some si \<and> po_port (si_portal si) = port0"
    have "?I (ex', px', w')"
      using assms(1) loop q
    proof (rule port_loop_establishes [where J = ?J])
      fix s t :: "(ServicePortPortalName, bool) gomap \<times> Proxier \<times> _"
      assume "merge_listen env (svc_key service) q (ip0, port0) s = Some (Inr t)"
      moreover obtain ex1 px1 w1 where "s = (ex1, px1, w1)" by (metis prod.collapse)
      ultimately show "?I t" using merge_listen_works [OF assms(5) q, of ex1 px1 w1] by auto
    next
      fix p ip port and s t :: "(ServicePortPortalName, bool) gomap \<times> Proxier \<times> _"
      assume p: "p \<in> set (svc_Ports service)" "listen_port service p ip = Some port" "?J s" "?I s"
        and m: "merge_listen env (svc_key service) p (ip, port) s = Some (Inr t)"
      have "p = q" if "pm_Name p = pm_Name q"
        using that p(1) q(1) assms(4) by (metis distinct_map inj_onD)
      moreover from this have "port = port0" if "pm_Name p = pm_Name q" "ip = ip0" using that p(2) q(2) by simp
      ultimately show "?I t"
        using merge_listen_portals [of env "svc_key service" p ip port] p(3,4) m
        by (cases s; cases t) fastforce
    next
      fix p m and s :: "(ServicePortPortalName, bool) gomap \<times> Proxier \<times> _"
      assume "?I s"
      then show "?I (merge_fin service p m s)" by (cases s) (auto simp: merge_fin_def)
    qed (use inv J Jf in auto)
    then show ?thesis by simp
  qed
  moreover have "px_inv px'"
    using mergeService_portals [OF assms(1) inv, of service w ex' px' w'] loop by (simp add: mergeService_loop)
  ultimately show ?thesis
    using px_invD(2) loop by (fastforce simp: mergeService_loop portals_def mapped_ok_def)
qed

lemma demo_env_works: "env_works demo_penv demo_service"
  unfolding env_works_def
proof (intro ballI allI impI)
  fix p ip port and w :: unit
  assume p: "p \<in> set (svc_Ports demo_service)" "listen_port demo_service p ip = Some port"
  then have "ip = ''10.96.0.4''" "pm_Protocol p = Protocol_TCP"
    by (auto simp: demo_service_def listen_port_def listen_ips_def split: if_splits)
  moreover have "portal_address demo_penv ''10.96.0.4'' () = Some (Inr [10, 96, 0, 4], ())" by code_simp
  ultimately show "\<exists>addr w1 sock w2. portal_address demo_penv ip w = Some (Inr addr, w1) \<and>
      newProxySocket (pe_listen demo_penv) (pm_Protocol p) addr (sint port) w1 = (Inr sock, w2)"
    by (simp add: newProxySocket_def demo_penv_def Let_def)
qed

theorem mergeService_listens_witness:
  "\<exists>ex' px' w' si. mergeService demo_penv (Some demo_service) (demo_px0, ()) = Some (Inr (ex', px', w')) \<and>
     portals px' (portal_name (svc_key demo_service) ''http'' ''10.96.0.4'') = Some si \<and>
     po_port (si_portal si) = 80"
proof -
  let ?p = "hd (svc_Ports demo_service)"
  have p: "?p \<in> set (svc_Ports demo_service)" "pm_Name ?p = ''http''"
    "listen_port demo_service ?p ''10.96.0.4'' = Some 80" "distinct (map pm_Name (svc_Ports demo_service))"
    by (simp_all add: demo_service_def listen_port_def listen_ips_def)
  from mergeService_listens [OF demo_range_ok demo_px0_reachable demo_service_listens p(4) demo_env_works] p(1,3)
  show ?thesis unfolding p(2) [symmetric] by blast
qed

section \<open>Unmerging\<close>

lemma unmerge_listen_portals:
  assumes "px_inv px" "unmerge_listen env svcName ex p (ip, port) (px, w) = (px', w')"
  shows "px_inv px' \<and> px_micro\<^sup>*\<^sup>* px px' \<and>
    portals px' = (if map_of ex (portal_name svcName (pm_Name p) ip) = Some True then portals px
       else (portals px)(portal_name svcName (pm_Name p) ip := None)) \<and>
    map_of (px_serviceMap px') = (if map_of ex (portal_name svcName (pm_Name p) ip) = Some True then map_of (px_serviceMap px)
       else (map_of (px_serviceMap px))(portal_name svcName (pm_Name p) ip := None)) \<and>
    length (px_infos px') = length (px_infos px) \<and>
    (\<forall>a. map_of (px_serviceMap px) (portal_name svcName (pm_Name p) ip) \<noteq> Some a \<or>
       map_of ex (portal_name svcName (pm_Name p) ip) = Some True \<longrightarrow> px_infos px' ! a = px_infos px ! a) \<and>
    (\<forall>a. map_of (px_serviceMap px) (portal_name svcName (pm_Name p) ip) = Some a \<longrightarrow>
       map_of ex (portal_name svcName (pm_Name p) ip) \<noteq> Some True \<longrightarrow> \<not> si_isAlive (px_infos px' ! a))"
  using px_micros_inv [OF unmerge_listen_micro assms(1), of env svcName ex p "(ip, port)" w]
    unmerge_listen_micro [of px env svcName ex p "(ip, port)" w] px_invD(1) [OF assms(1)]
  by (cases rule: unmerge_listen_cases [of env svcName ex p "(ip, port)" px w])
     (auto simp: assms(2) portals_closed [OF assms(1)] portals_def fun_eq_iff)

text \<open>The names that unmerging closes.\<close>

definition closes :: "Service \<Rightarrow> (ServicePortPortalName, bool) gomap \<Rightarrow> ServicePortPortalName \<Rightarrow> bool" where
  "closes service ex name \<longleftrightarrow> name \<in> portal_names service \<and> map_of ex name \<noteq> Some True"

lemma px_micro_dead:
  "px_micro px px' \<Longrightarrow> a < length (px_infos px) \<Longrightarrow> \<not> si_isAlive (px_infos px ! a) \<Longrightarrow>
     a < length (px_infos px') \<and> \<not> si_isAlive (px_infos px' ! a)"
proof (induction rule: px_micro.induct)
  case (close_portal px name b)
  then show ?case by (cases "b = a") auto
qed (auto simp: nth_append)

lemma px_micros_dead:
  assumes "px_micro\<^sup>*\<^sup>* px px'" "a < length (px_infos px)" "\<not> si_isAlive (px_infos px ! a)"
  shows "a < length (px_infos px') \<and> \<not> si_isAlive (px_infos px' ! a)"
  using assms by (induction rule: rtranclp_induct) (auto dest: px_micro_dead)

text \<open>The state of an unmerging that started in \<open>px\<close>.\<close>

definition unmerging :: "Service \<Rightarrow> (ServicePortPortalName, bool) gomap \<Rightarrow> Proxier \<Rightarrow> Proxier \<Rightarrow> bool" where
  "unmerging service ex px px1 \<longleftrightarrow>
     px_inv px1 \<and> px_micro\<^sup>*\<^sup>* px px1 \<and>
     (\<forall>name. portals px1 name = portals px name \<or> closes service ex name \<and> portals px1 name = None) \<and>
     length (px_infos px1) = length (px_infos px) \<and>
     map_of (px_serviceMap px1) \<subseteq>\<^sub>m map_of (px_serviceMap px) \<and>
     (\<forall>a. (\<forall>name. closes service ex name \<longrightarrow> map_of (px_serviceMap px) name \<noteq> Some a) \<longrightarrow>
        px_infos px1 ! a = px_infos px ! a) \<and>
     (\<forall>name a. map_of (px_serviceMap px) name = Some a \<longrightarrow>
        map_of (px_serviceMap px1) name = Some a \<or> a < length (px_infos px) \<and> \<not> si_isAlive (px_infos px1 ! a))"

lemma unmerging_listen:
  assumes "unmerging service ex px px1" "p \<in> set (svc_Ports service)" "listen_port service p ip = Some port"
    and "unmerge_listen env (svc_key service) ex p (ip, port) (px1, w) = (px2, w2)"
  shows "unmerging service ex px px2"
proof -
  let ?n = "portal_name (svc_key service) (pm_Name p) ip"
  from assms(1) have I: "px_inv px1" "px_micro\<^sup>*\<^sup>* px px1"
    and P: "\<And>name. portals px1 name = portals px name \<or> closes service ex name \<and> portals px1 name = None"
    and D: "\<And>name a. map_of (px_serviceMap px) name = Some a \<Longrightarrow>
        map_of (px_serviceMap px1) name = Some a \<or> a < length (px_infos px) \<and> \<not> si_isAlive (px_infos px1 ! a)"
    and L: "length (px_infos px1) = length (px_infos px)"
    and M: "map_of (px_serviceMap px1) \<subseteq>\<^sub>m map_of (px_serviceMap px)"
    and K: "\<And>a. (\<And>name. closes service ex name \<Longrightarrow> map_of (px_serviceMap px) name \<noteq> Some a) \<Longrightarrow>
        px_infos px1 ! a = px_infos px ! a"
    unfolding unmerging_def by blast+
  note U = unmerge_listen_portals [OF I(1) assms(4)]
  have n: "?n \<in> portal_names service" using assms(2,3) by (auto simp: portal_names_def)
  show ?thesis
    unfolding unmerging_def
  proof (intro conjI allI impI)
    show "px_inv px2" using U by blast
    show "px_micro\<^sup>*\<^sup>* px px2" using I(2) U by (blast intro: rtranclp_trans)
    show "length (px_infos px2) = length (px_infos px)" using U L by simp
    show "map_of (px_serviceMap px2) \<subseteq>\<^sub>m map_of (px_serviceMap px)"
      using U M by (auto simp: map_le_def dom_def split: if_splits)
    show "px_infos px2 ! a = px_infos px ! a"
      if a: "\<forall>name. closes service ex name \<longrightarrow> map_of (px_serviceMap px) name \<noteq> Some a" for a
    proof -
      have "map_of (px_serviceMap px1) ?n \<noteq> Some a \<or> map_of ex ?n = Some True"
        using a M n by (metis closes_def map_le_def domI)
      then have "px_infos px2 ! a = px_infos px1 ! a" using U by blast
      with a K show ?thesis by simp
    qed
    fix name
    show "portals px2 name = portals px name \<or> closes service ex name \<and> portals px2 name = None"
      using P [of name] U n by (auto simp: closes_def split: if_splits)
    fix a
    assume a: "map_of (px_serviceMap px) name = Some a"
    show "map_of (px_serviceMap px2) name = Some a \<or> a < length (px_infos px) \<and> \<not> si_isAlive (px_infos px2 ! a)"
    proof (cases "map_of (px_serviceMap px1) name = Some a")
      case True
      have "a < length (px_infos px)" using px_invD(1) [OF I(1) True] L by simp
      with True U show ?thesis by (cases "name = ?n") (auto split: if_splits)
    next
      case False
      with D [OF a] have d: "a < length (px_infos px)" "\<not> si_isAlive (px_infos px1 ! a)" by auto
      with U L have "\<not> si_isAlive (px_infos px2 ! a)" by (metis px_micros_dead)
      with d show ?thesis by simp
    qed
  qed
qed

lemma unmerging_delete:
  assumes "unmerging service ex px px1"
  shows "unmerging service ex px (px1\<lparr>px_loadBalancer := RoundRobin.DeleteService k (px_loadBalancer px1)\<rparr>)"
proof -
  have m: "px_micro px1 (px1\<lparr>px_loadBalancer := RoundRobin.DeleteService k (px_loadBalancer px1)\<rparr>)"
    by (intro call_balancer lb_step.delete_service)
  from assms have i: "px_micro\<^sup>*\<^sup>* px px1" "px_inv px1" by (auto simp: unmerging_def)
  from rtranclp.rtrancl_into_rtrancl [OF i(1) m] px_micro_inv [OF m i(2)] assms
  show ?thesis by (simp add: unmerging_def)
qed

lemma unmergeService_portals:
  assumes "range_ok env" "px_inv px" "unmergeService env (Some service) ex (px, w) = Inr (px', w')"
  shows "unmerging service ex px px' \<and> (\<forall>name. closes service ex name \<longrightarrow> portals px' name = None)"
proof -
  obtain nm where "Some (unmergeService env (Some service) ex (px, w)) =
     ogo_fold (port_turn env service (\<lambda>p x s. Some (Inr (unmerge_listen env (svc_key service) ex p x s)))
       (unmerge_fin service nm)) (svc_Ports service) (px, w)"
    by (rule unmergeService_loop)
  then have loop: "ogo_fold (port_turn env service (\<lambda>p x s. Some (Inr (unmerge_listen env (svc_key service) ex p x s)))
       (unmerge_fin service nm)) (svc_Ports service) (px, w) = Some (Inr (px', w'))"
    by (simp add: assms(3))
  let ?J = "\<lambda>s :: Proxier \<times> _. unmerging service ex px (fst s)"
  have start: "?J (px, w)" using assms(2) by (simp add: unmerging_def)
  have J: "?J t" if "p \<in> set (svc_Ports service)" "listen_port service p ip = Some port" "?J s"
      "Some (Inr (unmerge_listen env (svc_key service) ex p (ip, port) s)) = (Some (Inr t) :: _ go option)" for p ip port s t
    using that unmerging_listen by (cases s; cases t) auto
  have fin_P: "portals (fst (unmerge_fin service nm p m s)) = portals (fst s)"
    for p m and s :: "Proxier \<times> 'a"
    by (cases s) (simp add: unmerge_fin_def Let_def)
  have Jf: "?J (unmerge_fin service nm p m s)" if "?J s" for p m and s :: "Proxier \<times> 'a"
    using that unmerging_delete by (cases s) (auto simp: unmerge_fin_def Let_def)
  have "?J (px', w')"
    using assms(1) loop start by (rule port_loop_invariant) (use J Jf in auto)
  moreover have "portals px' name = None" if "closes service ex name" for name
  proof -
    from that obtain q ip port where q: "q \<in> set (svc_Ports service)" "listen_port service q ip = Some port"
      and name: "name = portal_name (svc_key service) (pm_Name q) ip" "map_of ex name \<noteq> Some True"
      by (auto simp: closes_def portal_names_def)
    have inv: "px_inv (fst s)" if "?J s" for s :: "Proxier \<times> 'a" using that by (simp add: unmerging_def)
    have turn: "portals (fst t) = (if map_of ex (portal_name (svc_key service) (pm_Name p) ip) = Some True then portals (fst s)
       else (portals (fst s))(portal_name (svc_key service) (pm_Name p) ip := None))"
      if "?J s" "unmerge_listen env (svc_key service) ex p (ip, port) s = t" for p ip port and s t :: "Proxier \<times> 'a"
      using unmerge_listen_portals [OF inv [OF that(1)], of env "svc_key service" ex p ip port "snd s" "fst t" "snd t"] that(2)
      by simp
    have "portals (fst (px', w')) name = None"
      using assms(1) loop q start
      by (rule port_loop_establishes [where J = ?J and I = "\<lambda>s. portals (fst s) name = None"])
         (use J Jf turn name in \<open>auto simp: fin_P\<close>)
    then show ?thesis by simp
  qed
  ultimately show ?thesis by simp
qed


section \<open>Closed listeners\<close>

text \<open>
  An observation of the outside world that tells which sockets \<open>Close\<close> was called for, in
  order: a call of \<open>Close\<close> appends its socket, whether it succeeds or not, and running netsh
  leaves the observation alone.
\<close>

definition close_log :: "'w proxier_env \<Rightarrow> ('w \<Rightarrow> proxySocket list) \<Rightarrow> bool" where
  "close_log env obs \<longleftrightarrow>
     (\<forall>sock w. obs (snd (pe_close env sock w)) = obs w @ [sock]) \<and>
     (\<forall>args w. obs (snd (pe_run env args w)) = obs w)"

lemma close_logged:
  assumes "close_log env obs" "closeServicePortPortal env name a (px, w) = (err, px', w')"
  shows "px' = closed name a px \<and> obs w' = obs w @ [si_socket (px_infos px ! a)]"
proof -
  have sock: "si_socket (px_infos (closed name a px) ! a) = si_socket (px_infos px ! a)"
    by (cases "a < length (px_infos px)") (simp_all add: list_update_beyond)
  obtain err1 w1 where c: "pe_close env (si_socket (px_infos px ! a)) w = (err1, w1)" by fastforce
  then have stop: "stopProxy env name a (px, w) = (err1, closed name a px, w1)"
    using sock by (simp add: stopProxy_def stopProxyInternal_def closed_def)
  have "obs w1 = obs w @ [si_socket (px_infos px ! a)]"
    using assms(1) c unfolding close_log_def by (metis snd_conv)
  moreover have "obs (snd (DeleteIPAddress (pe_run env) args w1)) = obs w1" for args
    using assms(1) by (simp add: close_log_def DeleteIPAddress_def split: prod.split) (metis snd_conv)
  ultimately show ?thesis
    using assms(2) stop
    by (cases err1) (auto simp: closeServicePortPortal_def Let_def split: if_splits option.splits prod.splits, (metis snd_conv)+)
qed

text \<open>
  The sockets that an unmerging has closed: those of the infos that lost their name, each
  once.
\<close>

definition closing :: "('w \<Rightarrow> proxySocket list) \<Rightarrow> Proxier \<Rightarrow> 'w \<Rightarrow> Proxier \<times> 'w \<Rightarrow> bool" where
  "closing obs px w = (\<lambda>(px1, w1).
     map si_socket (px_infos px1) = map si_socket (px_infos px) \<and>
     (\<exists>as. obs w1 = obs w @ map (\<lambda>a. si_socket (px_infos px ! a)) as \<and> distinct as \<and>
        set as = ran (map_of (px_serviceMap px)) - ran (map_of (px_serviceMap px1))))"

lemma ran_delete:
  assumes "px_inv px" "map_of (px_serviceMap px) name = Some a"
  shows "ran ((map_of (px_serviceMap px))(name := None)) = ran (map_of (px_serviceMap px)) - {a}"
proof (intro set_eqI iffI)
  fix b assume "b \<in> ran ((map_of (px_serviceMap px))(name := None))"
  then obtain n where "map_of (px_serviceMap px) n = Some b" "n \<noteq> name" by (auto simp: ran_def split: if_splits)
  with px_invD(3) [OF assms(1) assms(2), of n] show "b \<in> ran (map_of (px_serviceMap px)) - {a}" by (auto simp: ran_def)
next
  fix b assume "b \<in> ran (map_of (px_serviceMap px)) - {a}"
  then obtain n where "map_of (px_serviceMap px) n = Some b" "b \<noteq> a" by (auto simp: ran_def)
  with assms(2) show "b \<in> ran ((map_of (px_serviceMap px))(name := None))" by (auto simp: ran_def intro!: exI [of _ n])
qed

lemma closing_listen:
  assumes "close_log env obs" "px_inv px" "px_inv px1" "map_of (px_serviceMap px1) \<subseteq>\<^sub>m map_of (px_serviceMap px)"
    and "closing obs px w (px1, w1)"
  shows "closing obs px w (unmerge_listen env svcName ex p (ip, port) (px1, w1))"
proof -
  let ?n = "portal_name svcName (pm_Name p) ip"
  show ?thesis
  proof (cases "map_of ex ?n = Some True \<or> map_of (px_serviceMap px1) ?n = None")
    case True
    with assms(5) show ?thesis by (auto simp: unmerge_listen_def GetServiceInfo_def Let_def)
  next
    case False
    then obtain a where a: "map_of (px_serviceMap px1) ?n = Some a" and ex: "map_of ex ?n \<noteq> Some True" by auto
    obtain err px2 w2 where c: "closeServicePortPortal env ?n a (px1, w1) = (err, px2, w2)"
      by (metis prod.collapse)
    from close_logged [OF assms(1) c] have px2: "px2 = closed ?n a px1"
      and w2: "obs w2 = obs w1 @ [si_socket (px_infos px1 ! a)]" by auto
    from assms(5) obtain as where as: "obs w1 = obs w @ map (\<lambda>a. si_socket (px_infos px ! a)) as" "distinct as"
        "set as = ran (map_of (px_serviceMap px)) - ran (map_of (px_serviceMap px1))"
      and socks: "map si_socket (px_infos px1) = map si_socket (px_infos px)"
      by (auto simp: closing_def)
    have "a < length (px_infos px1)" using px_invD(1) [OF assms(3) a] .
    with socks have sock: "si_socket (px_infos px1 ! a) = si_socket (px_infos px ! a)"
      by (metis length_map nth_map)
    have "map si_socket (px_infos px2) = map si_socket (px_infos px1)"
      using \<open>a < length (px_infos px1)\<close> by (simp add: px2 map_update list_update_same_conv)
    moreover have "a \<in> ran (map_of (px_serviceMap px1))" "a \<in> ran (map_of (px_serviceMap px))"
      using a assms(4) by (auto simp: ran_def map_le_def dom_def intro!: exI [of _ ?n])
    moreover have "ran (map_of (px_serviceMap px2)) = ran (map_of (px_serviceMap px1)) - {a}"
      using ran_delete [OF assms(3) a] by (simp add: px2 delete_conv')
    ultimately have "distinct (as @ [a])" "map si_socket (px_infos px2) = map si_socket (px_infos px)"
      "set (as @ [a]) = ran (map_of (px_serviceMap px)) - ran (map_of (px_serviceMap px2))"
      using as(2,3) socks by auto
    moreover have "obs w2 = obs w @ map (\<lambda>a. si_socket (px_infos px ! a)) (as @ [a])"
      by (simp add: w2 as(1) sock)
    ultimately have "closing obs px w (px2, w2)" unfolding closing_def by blast
    with c a ex show ?thesis by (simp add: unmerge_listen_def GetServiceInfo_def Let_def)
  qed
qed

lemma unmergeService_closing:
  assumes "range_ok env" "px_inv px" "unmergeService env (Some service) ex (px, w) = Inr (px', w')"
    and "close_log env obs"
  shows "closing obs px w (px', w')"
proof -
  obtain nm where "Some (unmergeService env (Some service) ex (px, w)) =
     ogo_fold (port_turn env service (\<lambda>p x s. Some (Inr (unmerge_listen env (svc_key service) ex p x s)))
       (unmerge_fin service nm)) (svc_Ports service) (px, w)"
    by (rule unmergeService_loop)
  then have loop: "ogo_fold (port_turn env service (\<lambda>p x s. Some (Inr (unmerge_listen env (svc_key service) ex p x s)))
       (unmerge_fin service nm)) (svc_Ports service) (px, w) = Some (Inr (px', w'))"
    by (simp add: assms(3))
  let ?I = "\<lambda>s. unmerging service ex px (fst s) \<and> closing obs px w s"
  have "?I (px', w')"
    using assms(1) loop
  proof (rule port_loop_invariant)
    show "?I (px, w)" using assms(2) by (simp add: unmerging_def closing_def)
    fix p ip port and s t :: "Proxier \<times> 'a"
    assume p: "p \<in> set (svc_Ports service)" "listen_port service p ip = Some port" and I: "?I s"
      and t: "Some (Inr (unmerge_listen env (svc_key service) ex p (ip, port) s)) = (Some (Inr t) :: _ go option)"
    obtain px1 w1 where s: "s = (px1, w1)" by fastforce
    have "unmerging service ex px (fst t)"
      using unmerging_listen [of service ex px px1 p ip port env w1 "fst t" "snd t"] p I t by (simp add: s)
    moreover have "px_inv px1" "map_of (px_serviceMap px1) \<subseteq>\<^sub>m map_of (px_serviceMap px)"
      using I by (simp_all add: s unmerging_def)
    with closing_listen [OF assms(4,2)] I t have "closing obs px w t" by (auto simp: s)
    ultimately show "?I t" by blast
  next
    fix p m and s :: "Proxier \<times> 'a"
    assume "?I s"
    then show "?I (unmerge_fin service nm p m s)"
      using unmerging_delete by (cases s) (auto simp: unmerge_fin_def Let_def closing_def)
  qed
  then show ?thesis by simp
qed

text \<open>Unmerging takes the infos of the closed names, and of no others, out of the map.\<close>

lemma unmerging_map:
  assumes "unmerging service ex px px'" "\<And>name. closes service ex name \<Longrightarrow> portals px' name = None"
  shows "map_of (px_serviceMap px') name = (if closes service ex name then None else map_of (px_serviceMap px) name)"
proof (cases "closes service ex name")
  case True
  with assms(2) show ?thesis by (simp add: portals_def)
next
  case False
  with assms(1) have "portals px' name = portals px name" "map_of (px_serviceMap px') \<subseteq>\<^sub>m map_of (px_serviceMap px)"
    by (auto simp: unmerging_def)
  with False show ?thesis
    by (cases "map_of (px_serviceMap px') name") (auto simp: portals_def map_le_def dom_def)
qed

lemma unmergeService_close_calls:
  assumes "range_ok env" "px_inv px" "unmergeService env (Some service) ex (px, w) = Inr (px', w')"
    and "close_log env obs"
  shows "\<exists>as. obs w' = obs w @ map (\<lambda>a. si_socket (px_infos px ! a)) as \<and> distinct as \<and>
    set as = {a. \<exists>name. closes service ex name \<and> map_of (px_serviceMap px) name = Some a}"
proof -
  from unmergeService_closing [OF assms] obtain as where
    as: "obs w' = obs w @ map (\<lambda>a. si_socket (px_infos px ! a)) as" "distinct as"
      "set as = ran (map_of (px_serviceMap px)) - ran (map_of (px_serviceMap px'))"
    by (auto simp: closing_def)
  have m: "map_of (px_serviceMap px') name = (if closes service ex name then None else map_of (px_serviceMap px) name)"
    for name using unmergeService_portals [OF assms(1-3)] by (intro unmerging_map) auto
  have "set as = {a. \<exists>name. closes service ex name \<and> map_of (px_serviceMap px) name = Some a}"
    unfolding as(3)
  proof (intro set_eqI iffI)
    fix a assume "a \<in> ran (map_of (px_serviceMap px)) - ran (map_of (px_serviceMap px'))"
    then show "a \<in> {a. \<exists>name. closes service ex name \<and> map_of (px_serviceMap px) name = Some a}"
      by (simp add: ran_def m) metis
  next
    fix a assume "a \<in> {a. \<exists>name. closes service ex name \<and> map_of (px_serviceMap px) name = Some a}"
    then obtain name where n: "closes service ex name" "map_of (px_serviceMap px) name = Some a" by blast
    then have "map_of (px_serviceMap px') k \<noteq> Some a" for k
      using px_invD(3) [OF assms(2) n(2), of k] by (auto simp: m)
    with n(2) show "a \<in> ran (map_of (px_serviceMap px)) - ran (map_of (px_serviceMap px'))" by (auto simp: ran_def)
  qed
  with as(1,2) show ?thesis by blast
qed

text \<open>
  C10. Unmerging a service closes exactly the portals of its names that are not in the given
  set: those names lead nowhere afterwards, and the infos they led to are no longer alive,
  even when closing the socket or removing the address fails; every other name leads to the
  same info as before, in the same state. For any observation of the calls of \<open>Close\<close>
  (\<open>close_log\<close>): the sockets of those infos are closed, each once, and no others.
\<close>

theorem unmergeService_closes:
  assumes "range_ok env" "px_reachable env (px, w)"
    and "unmergeService env (Some service) ex (px, w) = Inr (px', w')"
  shows "px_inv px' \<and>
    (\<forall>name. portals px' name =
       (if name \<in> portal_names service \<and> map_of ex name \<noteq> Some True then None else portals px name)) \<and>
    (\<forall>name a. name \<in> portal_names service \<longrightarrow> map_of ex name \<noteq> Some True \<longrightarrow>
       map_of (px_serviceMap px) name = Some a \<longrightarrow> \<not> si_isAlive (px_infos px' ! a)) \<and>
    (\<forall>obs. close_log env obs \<longrightarrow>
       (\<exists>as. obs w' = obs w @ map (\<lambda>a. si_socket (px_infos px ! a)) as \<and> distinct as \<and>
          set as = {a. \<exists>name. name \<in> portal_names service \<and> map_of ex name \<noteq> Some True \<and>
            map_of (px_serviceMap px) name = Some a}))"
proof -
  have inv: "px_inv px" using px_reachable_inv [OF assms(2)] by simp
  note U = unmergeService_portals [OF assms(1) inv assms(3)]
  then have none: "map_of (px_serviceMap px') name = None" if "closes service ex name" for name
    using that by (simp add: portals_def)
  show ?thesis
  proof (intro conjI allI impI)
    show "px_inv px'" using U by (simp add: unmerging_def)
    show "\<exists>as. obs w' = obs w @ map (\<lambda>a. si_socket (px_infos px ! a)) as \<and> distinct as \<and>
        set as = {a. \<exists>name. name \<in> portal_names service \<and> map_of ex name \<noteq> Some True \<and>
          map_of (px_serviceMap px) name = Some a}" if "close_log env obs" for obs
      using unmergeService_close_calls [OF assms(1) inv assms(3) that] by (simp add: closes_def conj_assoc)
    fix name
    have "portals px' name = portals px name \<or> closes service ex name \<and> portals px' name = None"
      using U by (simp add: unmerging_def)
    with U show "portals px' name =
        (if name \<in> portal_names service \<and> map_of ex name \<noteq> Some True then None else portals px name)"
      by (auto simp: closes_def)
    fix a
    assume "name \<in> portal_names service" "map_of ex name \<noteq> Some True" "map_of (px_serviceMap px) name = Some a"
    then show "\<not> si_isAlive (px_infos px' ! a)"
      using U none [of name] by (force simp: unmerging_def closes_def)
  qed
qed

text \<open>A world that remembers the sockets that were closed.\<close>

definition demo_lenv :: "proxySocket list proxier_env" where
  "demo_lenv = \<lparr>pe_parse_ip = (\<lambda>s. if s = ''10.96.0.4'' then [10, 96, 0, 4] else []),
     pe_run = (\<lambda>args w. ((''IP Address: 10.96.0.4'', None), w)), pe_interface = [],
     pe_listen = \<lparr>lo_listen_tcp = (\<lambda>a w. (Inr 5, w)), lo_resolve_udp = (\<lambda>a w. (Inr a, w)),
                  lo_listen_udp = (\<lambda>a w. (Inr 6, w))\<rparr>,
     pe_close = (\<lambda>s w. (None, w @ [s])), pe_range = id, pe_rnd = demo_rnd\<rparr>"

lemma demo_lenv_range_ok: "range_ok demo_lenv"
  by (simp add: range_ok_def demo_lenv_def)

lemma demo_lenv_log: "close_log demo_lenv (\<lambda>w. w)"
  by (simp add: close_log_def demo_lenv_def)

lemma demo_lenv_add: "OnServiceAdd demo_lenv (Some demo_service) (demo_px0, []) = Some (Inr (demo_px, []))"
  by code_simp

lemma demo_lenv_reachable: "px_reachable demo_lenv (demo_px, [])"
  by (rule px_reachable.step [OF demo_px0_reachable]) (rule px_step.service_add [OF demo_lenv_add])

theorem unmergeService_closes_witness:
  "\<exists>px'. unmergeService demo_lenv (Some demo_service) [] (demo_px, []) = Inr (px', [TcpSocket 5 80]) \<and>
     portals px' (portal_name (svc_key demo_service) ''http'' ''10.96.0.4'') = None \<and>
     \<not> si_isAlive (px_infos px' ! 0)"
proof -
  let ?n = "portal_name (svc_key demo_service) ''http'' ''10.96.0.4''"
  have "case unmergeService demo_lenv (Some demo_service) [] (demo_px, []) of Inl _ \<Rightarrow> False | Inr _ \<Rightarrow> True"
    by code_simp
  then obtain px' w' where u: "unmergeService demo_lenv (Some demo_service) [] (demo_px, []) = Inr (px', w')"
    by (auto split: sum.splits)
  have n: "?n \<in> portal_names demo_service"
    by (auto simp: portal_names_def demo_service_def listen_port_def listen_ips_def)
  have m: "map_of (px_serviceMap demo_px) name = (if name = ?n then Some 0 else None)" for name
    by (simp add: demo_px_def)
  note U = unmergeService_closes [OF demo_lenv_range_ok demo_lenv_reachable u]
  from U demo_lenv_log obtain as where "w' = [] @ map (\<lambda>a. si_socket (px_infos demo_px ! a)) as" "distinct as"
    "set as = {a. \<exists>name. name \<in> portal_names demo_service \<and> map_of [] name \<noteq> Some True \<and>
       map_of (px_serviceMap demo_px) name = Some a}" by blast
  moreover from this n m have "set as = {0}" by auto
  with \<open>distinct as\<close> have "as = [0]" by (cases as) (auto simp: insert_eq_iff dest!: subset_singletonD)
  ultimately have "w' = [TcpSocket 5 80]" by (simp add: demo_px_def new_info_def)
  with U u n m show ?thesis by (auto split: if_splits)
qed

section \<open>Adding and deleting a service\<close>

text \<open>
  A merge of a service none of whose names is in use: the names of the service that are
  mapped lead to the ports the service asks for, and every new info has a name.
\<close>

definition merging_fresh :: "Service \<Rightarrow> Proxier \<Rightarrow> Proxier \<Rightarrow> bool" where
  "merging_fresh service px px1 \<longleftrightarrow>
     px_inv px1 \<and> length (px_infos px) \<le> length (px_infos px1) \<and>
     (\<forall>a < length (px_infos px). px_infos px1 ! a = px_infos px ! a) \<and>
     (\<forall>name. name \<notin> portal_names service \<longrightarrow> map_of (px_serviceMap px1) name = map_of (px_serviceMap px) name) \<and>
     (\<forall>p ip port a. p \<in> set (svc_Ports service) \<longrightarrow> listen_port service p ip = Some port \<longrightarrow>
        map_of (px_serviceMap px1) (portal_name (svc_key service) (pm_Name p) ip) = Some a \<longrightarrow>
        po_port (si_portal (px_infos px1 ! a)) = port \<and> length (px_infos px) \<le> a) \<and>
     (\<forall>a < length (px_infos px1). length (px_infos px) \<le> a \<longrightarrow>
        (\<exists>name \<in> portal_names service. map_of (px_serviceMap px1) name = Some a))"

lemma merging_fresh_listen:
  assumes F: "merging_fresh service px px1" and p: "p \<in> set (svc_Ports service)" "listen_port service p ip = Some port"
    and dist: "distinct (map pm_Name (svc_Ports service))"
    and m: "merge_listen env (svc_key service) p (ip, port) (ex, px1, w) = Some (Inr (ex', px2, w'))"
  shows "merging_fresh service px px2"
proof -
  let ?n = "portal_name (svc_key service) (pm_Name p) ip"
  have n: "?n \<in> portal_names service" using p by (auto simp: portal_names_def)
  have inv: "px_inv px1" using F by (simp add: merging_fresh_def)
  have free: "map_of (px_serviceMap px1) ?n = None"
    if "\<forall>a. map_of (px_serviceMap px1) ?n = Some a \<longrightarrow> po_port (si_portal (px_infos px1 ! a)) \<noteq> port"
    using that F p by (auto simp: merging_fresh_def)
  have same: "q = p" if "q \<in> set (svc_Ports service)" "pm_Name q = pm_Name p" for q
    using that p(1) dist by (metis distinct_map inj_onD)
  from merge_listen_cases(2) [OF m] show ?thesis
  proof (elim disjE exE conjE)
    fix sock
    let ?si = "new_info (pm_Protocol p) ip port (px_udpIdleTimeout px1) sock"
    assume px2: "px2 = start_portal ?n ?si px1"
      and "\<forall>a. map_of (px_serviceMap px1) ?n = Some a \<longrightarrow> po_port (si_portal (px_infos px1 ! a)) \<noteq> port"
    note free = free [OF this(2)]
    have "px_inv px2" using merge_listen_portals [OF m inv] by blast
    moreover have "\<exists>name \<in> portal_names service. map_of (px_serviceMap px2) name = Some a"
      if a: "a < length (px_infos px2)" "length (px_infos px) \<le> a" for a
    proof (cases "a < length (px_infos px1)")
      case True
      then obtain name where "name \<in> portal_names service" "map_of (px_serviceMap px1) name = Some a"
        using F a(2) by (auto simp: merging_fresh_def)
      moreover from this free have "name \<noteq> ?n" by auto
      ultimately show ?thesis by (auto simp: px2)
    next
      case False
      with a have "a = length (px_infos px1)" by (simp add: px2)
      then show ?thesis using n by (auto simp: px2)
    qed
    moreover have "po_port (si_portal (px_infos px2 ! a)) = port' \<and> length (px_infos px) \<le> a"
      if "q \<in> set (svc_Ports service)" "listen_port service q ip' = Some port'"
        "map_of (px_serviceMap px2) (portal_name (svc_key service) (pm_Name q) ip') = Some a" for q ip' port' a
    proof (cases "portal_name (svc_key service) (pm_Name q) ip' = ?n")
      case True
      with same [OF that(1)] that p F show ?thesis by (auto simp: px2 nth_append merging_fresh_def)
    next
      case False
      with that(3) have "map_of (px_serviceMap px1) (portal_name (svc_key service) (pm_Name q) ip') = Some a"
        by (simp add: px2 del: portal_name_simps)
      with that(1,2) F px_invD(1) [OF inv this] show ?thesis by (auto simp: px2 nth_append merging_fresh_def)
    qed
    ultimately show ?thesis
      using F n unfolding merging_fresh_def by (auto simp: px2 nth_append)
  qed (use F in simp)
qed

end
