(* ===== verification/UserLifecycle.thy ===== *)
theory UserLifecycle
  imports UserPortals
begin

text \<open>
  Histories of the userspace proxier: a service that is added and deleted, a service whose
  port changes, and a portal of a UDP port.
\<close>

section \<open>Adding and deleting\<close>

lemma mergeService_fresh:
  assumes "range_ok env" "px_inv px" "\<forall>name \<in> portal_names service. portals px name = None"
    and "distinct (map pm_Name (svc_Ports service))"
    and "mergeService env (Some service) (px, w) = Some (Inr (ex', px', w'))"
  shows "merging_fresh service px px'"
proof -
  let ?I = "\<lambda>s :: (ServicePortPortalName, bool) gomap \<times> Proxier \<times> 'a. merging_fresh service px (fst (snd s))"
  have "map_of (px_serviceMap px) (portal_name (svc_key service) (pm_Name p) ip) = None"
    if "p \<in> set (svc_Ports service)" "listen_port service p ip = Some port" for p ip port
  proof -
    from that have "portal_name (svc_key service) (pm_Name p) ip \<in> portal_names service"
      by (auto simp: portal_names_def)
    with assms(3) show ?thesis by (auto simp: portals_def)
  qed
  then have start: "?I ([], px, w)"
    using assms(2) by (auto simp: merging_fresh_def)
  have "?I (ex', px', w')"
    using assms(1) assms(5) [unfolded mergeService_loop] start
  proof (rule port_loop_invariant)
    fix p ip port and s t :: "(ServicePortPortalName, bool) gomap \<times> Proxier \<times> 'a"
    assume "p \<in> set (svc_Ports service)" "listen_port service p ip = Some port" "?I s"
      "merge_listen env (svc_key service) p (ip, port) s = Some (Inr t)"
    then show "?I t" using merging_fresh_listen [OF _ _ _ assms(4)] by (cases s; cases t) auto
  next
    fix p m and s :: "(ServicePortPortalName, bool) gomap \<times> Proxier \<times> 'a"
    assume "?I s"
    then show "?I (merge_fin service p m s)"
      using px_micro_inv [OF NewService_micro] by (cases s) (auto simp: merging_fresh_def merge_fin_def)
  qed
  then show ?thesis by simp
qed

text \<open>
  C11. Adding a service and deleting it again leaves no trace, in any reachable state in
  which none of the names of the service is in use and when the ports of the service have
  different names: every name leads to what it led to before, and the live infos are exactly
  the old ones. For any observation of the calls of \<open>Close\<close> (\<open>close_log\<close>), the deletion closes
  the socket of every info that the addition made, each once, and no other. This holds
  whatever fails in between, and whatever the outside world does between the two calls.
\<close>

theorem add_delete_service:
  assumes "range_ok env" "px_reachable env (px, w)"
    and "\<forall>name \<in> portal_names service. portals px name = None"
    and "distinct (map pm_Name (svc_Ports service))"
    and "OnServiceAdd env (Some service) (px, w) = Some (Inr (px1, w1))"
    and "OnServiceDelete env (Some service) (px1, w2) = Inr (px2, w3)"
  shows "portals px2 = portals px \<and> length (px_infos px) \<le> length (px_infos px2) \<and>
    (\<forall>a < length (px_infos px2). si_isAlive (px_infos px2 ! a) \<longleftrightarrow>
       a < length (px_infos px) \<and> si_isAlive (px_infos px ! a)) \<and>
    (\<forall>obs. close_log env obs \<longrightarrow>
       (\<exists>as. obs w3 = obs w2 @ map (\<lambda>a. si_socket (px_infos px1 ! a)) as \<and> distinct as \<and>
          set as = {length (px_infos px)..<length (px_infos px1)}))"
proof -
  have inv: "px_inv px" using px_reachable_inv [OF assms(2)] by simp
  obtain ex where m: "mergeService env (Some service) (px, w) = Some (Inr (ex, px1, w1))"
    using assms(5) by (auto simp: OnServiceAdd_def ogo_bind_eq_Inr)
  note F = mergeService_fresh [OF assms(1) inv assms(3,4) m]
  then have inv1: "px_inv px1" by (simp add: merging_fresh_def)
  have closes: "closes service [] name \<longleftrightarrow> name \<in> portal_names service" for name by (simp add: closes_def)
  from unmergeService_portals [OF assms(1) inv1 assms(6) [unfolded OnServiceDelete_def]]
  have U: "unmerging service [] px1 px2" and none: "\<And>name. name \<in> portal_names service \<Longrightarrow> portals px2 name = None"
    by (simp_all add: closes)
  have len: "length (px_infos px2) = length (px_infos px1)" using U by (simp add: unmerging_def)
  have portals: "portals px2 name = portals px name" for name
  proof (cases "name \<in> portal_names service")
    case True
    with none assms(3) show ?thesis by simp
  next
    case False
    then have "portals px2 name = portals px1 name" using U by (auto simp: unmerging_def closes)
    also have "\<dots> = portals px name"
      using F False px_invD(1) [OF inv]
      by (cases "map_of (px_serviceMap px) name") (auto simp: merging_fresh_def portals_def)
    finally show ?thesis .
  qed
  have old: "px_infos px2 ! a = px_infos px ! a" if "a < length (px_infos px)" for a
  proof -
    have "map_of (px_serviceMap px1) name \<noteq> Some a" if n: "name \<in> portal_names service" for name
    proof -
      from n obtain p ip port where "p \<in> set (svc_Ports service)" "listen_port service p ip = Some port"
        "name = portal_name (svc_key service) (pm_Name p) ip" by (auto simp: portal_names_def)
      then show ?thesis using F \<open>a < length (px_infos px)\<close> by (fastforce simp: merging_fresh_def)
    qed
    then have "px_infos px2 ! a = px_infos px1 ! a" using U by (auto simp: unmerging_def closes)
    with F that show ?thesis by (simp add: merging_fresh_def)
  qed
  have new: "\<not> si_isAlive (px_infos px2 ! a)"
    if a: "a < length (px_infos px2)" "\<not> a < length (px_infos px)" for a
  proof -
    from a F len obtain name where n: "name \<in> portal_names service" "map_of (px_serviceMap px1) name = Some a"
      by (auto simp: merging_fresh_def not_less)
    from none [OF n(1)] have "map_of (px_serviceMap px2) name = None" by (simp add: portals_def)
    with n(2) U show ?thesis by (force simp: unmerging_def)
  qed
  have "si_isAlive (px_infos px2 ! a) \<longleftrightarrow> a < length (px_infos px) \<and> si_isAlive (px_infos px ! a)"
    if "a < length (px_infos px2)" for a
    using old [of a] new [OF that] by (cases "a < length (px_infos px)") simp_all
  moreover have "length (px_infos px) \<le> length (px_infos px2)" using F len by (simp add: merging_fresh_def)
  moreover have "{a. \<exists>name. closes service [] name \<and> map_of (px_serviceMap px1) name = Some a} =
      {length (px_infos px)..<length (px_infos px1)}"
  proof (intro subset_antisym subsetI)
    fix a assume "a \<in> {a. \<exists>name. closes service [] name \<and> map_of (px_serviceMap px1) name = Some a}"
    then obtain name where n: "name \<in> portal_names service" "map_of (px_serviceMap px1) name = Some a"
      by (auto simp: closes)
    from n(1) obtain p ip port where "p \<in> set (svc_Ports service)" "listen_port service p ip = Some port"
      "name = portal_name (svc_key service) (pm_Name p) ip" by (auto simp: portal_names_def)
    with n(2) F have "length (px_infos px) \<le> a" by (fastforce simp: merging_fresh_def)
    with px_invD(1) [OF inv1 n(2)] show "a \<in> {length (px_infos px)..<length (px_infos px1)}" by simp
  next
    fix a assume "a \<in> {length (px_infos px)..<length (px_infos px1)}"
    with F show "a \<in> {a. \<exists>name. closes service [] name \<and> map_of (px_serviceMap px1) name = Some a}"
      by (auto simp: merging_fresh_def closes)
  qed
  note close_calls = unmergeService_close_calls [OF assms(1) inv1 assms(6) [unfolded OnServiceDelete_def], unfolded this]
  ultimately show ?thesis using portals close_calls by blast
qed

theorem add_delete_service_witness:
  "\<exists>px2. OnServiceDelete demo_lenv (Some demo_service) (demo_px, []) = Inr (px2, [TcpSocket 5 80]) \<and>
     portals px2 = portals demo_px0 \<and> \<not> si_isAlive (px_infos px2 ! 0) \<and> length (px_infos px2) = 1"
proof -
  have "case OnServiceDelete demo_lenv (Some demo_service) (demo_px, []) of
      Inl _ \<Rightarrow> False | Inr (px, _) \<Rightarrow> length (px_infos px) = 1" by code_simp
  then obtain px2 w3 where d: "OnServiceDelete demo_lenv (Some demo_service) (demo_px, []) = Inr (px2, w3)"
    and len: "length (px_infos px2) = 1" by (auto split: sum.splits)
  have "\<forall>name \<in> portal_names demo_service. portals demo_px0 name = None"
    and "distinct (map pm_Name (svc_Ports demo_service))"
    by (simp_all add: demo_px0_def createProxier_def portals_def demo_service_def)
  note U = add_delete_service [OF demo_lenv_range_ok demo_px0_reachable this demo_lenv_add d]
  from U demo_lenv_log obtain as where "w3 = [] @ map (\<lambda>a. si_socket (px_infos demo_px ! a)) as" "distinct as"
    "set as = {length (px_infos demo_px0)..<length (px_infos demo_px)}" by blast
  moreover from this have "set as = {0}" by (auto simp: demo_px0_def createProxier_def demo_px_def)
  with \<open>distinct as\<close> have "as = [0]" by (cases as) (auto simp: insert_eq_iff dest!: subset_singletonD)
  ultimately have "w3 = [TcpSocket 5 80]" by (simp add: demo_px_def new_info_def)
  with U d len show ?thesis by (auto simp: demo_px0_def createProxier_def)
qed

section \<open>A port that changes\<close>

text \<open>No step gives an info a second name.\<close>

lemma px_micros_name:
  assumes "px_micro\<^sup>*\<^sup>* px px'" "a < length (px_infos px)"
    and "\<forall>n. map_of (px_serviceMap px) n = Some a \<longrightarrow> n = name"
  shows "a < length (px_infos px') \<and> (\<forall>n. map_of (px_serviceMap px') n = Some a \<longrightarrow> n = name)"
  using assms
proof (induction rule: rtranclp_induct)
  case (step y z)
  from step(2) step(3) [OF step(4,5)] show ?case by cases (auto split: if_splits)
qed simp

text \<open>Merging opens portals and never closes one.\<close>

lemma mergeService_keeps_alive:
  assumes "range_ok env" "px_inv px" "mergeService env (Some service) (px, w) = Some (Inr (ex', px', w'))"
    and "a < length (px_infos px)"
  shows "px_infos px' ! a = px_infos px ! a \<and> a < length (px_infos px')"
proof -
  let ?I = "\<lambda>s :: (ServicePortPortalName, bool) gomap \<times> Proxier \<times> 'a.
    px_infos (fst (snd s)) ! a = px_infos px ! a \<and> a < length (px_infos (fst (snd s)))"
  have "?I (ex', px', w')"
    using assms(1) assms(3) [unfolded mergeService_loop]
  proof (rule port_loop_invariant)
    fix p ip port and s t :: "(ServicePortPortalName, bool) gomap \<times> Proxier \<times> 'a"
    assume "?I s" "merge_listen env (svc_key service) p (ip, port) s = Some (Inr t)"
    then show "?I t" using merge_listen_cases(2) by (cases s; cases t) (fastforce simp: nth_append)
  next
    fix p m and s :: "(ServicePortPortalName, bool) gomap \<times> Proxier \<times> 'a"
    assume "?I s"
    then show "?I (merge_fin service p m s)" by (cases s) (auto simp: merge_fin_def)
  qed (use assms(4) in simp)
  then show ?thesis by simp
qed

text \<open>
  C13. When an update leads a name to another info (as it does when the port of the service
  changes), the info it led to before is lost: it stays alive, no name leads to it, and no
  later step of the proxier changes that, so its listener is never closed.
\<close>

theorem OnServiceUpdate_leaks:
  assumes "range_ok env" "px_reachable env (px, w)" "map_of (px_serviceMap px) name = Some a"
    and "OnServiceUpdate env old (Some service) (px, w) = Some (Inr (px1, w1))"
    and "map_of (px_serviceMap px1) name = Some b" "b \<noteq> a"
    and "(px_step env)\<^sup>*\<^sup>* (px1, w1) (px2, w2)"
  shows "si_isAlive (px_infos px2 ! a) \<and> a \<notin> ran (map_of (px_serviceMap px2))"
proof -
  have inv: "px_inv px" using px_reachable_inv [OF assms(2)] by simp
  from assms(4) obtain ex pxm wm where m: "mergeService env (Some service) (px, w) = Some (Inr (ex, pxm, wm))"
    and u: "unmergeService env old ex (pxm, wm) = Inr (px1, w1)"
    by (auto simp: OnServiceUpdate_def ogo_bind_eq_Inr)
  have invm: "px_inv pxm" using px_micros_inv [OF mergeService_micro [OF m] inv] .
  have inv1: "px_inv px1" using px_micros_inv [OF unmergeService_micro [OF u] invm] .
  have alive: "si_isAlive (px_infos pxm ! a)" "a < length (px_infos pxm)"
    using mergeService_keeps_alive [OF assms(1) inv m px_invD(1) [OF inv assms(3)]] px_invD(2) [OF inv assms(3)]
    by (auto simp: mapped_ok_def)
  have keep: "map_of (px_serviceMap px1) n = Some c \<Longrightarrow> map_of (px_serviceMap pxm) n = Some c" for n c
  proof (cases old)
    case (Some s)
    assume "map_of (px_serviceMap px1) n = Some c"
    moreover have "map_of (px_serviceMap px1) \<subseteq>\<^sub>m map_of (px_serviceMap pxm)"
      using unmergeService_portals [OF assms(1) invm u [unfolded Some]] by (simp add: unmerging_def)
    ultimately show ?thesis by (metis domI map_le_def)
  qed (use u in \<open>simp add: unmergeService_def\<close>)
  have "\<not> (\<exists>n. map_of (px_serviceMap pxm) n = Some a)"
    using px_micros_name [OF mergeService_micro [OF m] px_invD(1) [OF inv assms(3)], of name]
      px_invD(3) [OF inv _ assms(3)] keep [OF assms(5)] assms(6) by auto
  then have "orphan a pxm" using alive by (auto simp: orphan_def ran_def)
  then have "orphan a px1" using px_micros_orphan [OF unmergeService_micro [OF u] invm] by blast
  then have "orphan a px2" using px_micros_orphan px_steps_micro [OF assms(7)] inv1 by fastforce
  then show ?thesis by (simp add: orphan_def)
qed

definition demo_service2 :: Service where
  "demo_service2 = demo_service\<lparr>svc_Ports := map (\<lambda>p. p\<lparr>pm_Port := 81\<rparr>) (svc_Ports demo_service)\<rparr>"

theorem OnServiceUpdate_leaks_witness:
  "\<exists>px1. OnServiceUpdate demo_penv (Some demo_service) (Some demo_service2) (demo_px, ()) = Some (Inr (px1, ())) \<and>
     si_isAlive (px_infos px1 ! 0) \<and> 0 \<notin> ran (map_of (px_serviceMap px1))"
proof -
  let ?n = "portal_name (svc_key demo_service) ''http'' ''10.96.0.4''"
  have "case OnServiceUpdate demo_penv (Some demo_service) (Some demo_service2) (demo_px, ()) of
      Some (Inr (px1, _)) \<Rightarrow> map_of (px_serviceMap px1) ?n = Some 1 | _ \<Rightarrow> False" by code_simp
  then obtain px1 where u: "OnServiceUpdate demo_penv (Some demo_service) (Some demo_service2) (demo_px, ()) =
      Some (Inr (px1, ()))" and m: "map_of (px_serviceMap px1) ?n = Some 1"
    by (auto split: option.splits sum.splits)
  have "map_of (px_serviceMap demo_px) ?n = Some 0" by (simp add: demo_px_def)
  from OnServiceUpdate_leaks [OF demo_range_ok demo_px_reachable this u m _ rtranclp.rtrancl_refl] u
  show ?thesis by auto
qed

section \<open>The reachable states\<close>

text \<open>
  C12. In every reachable state of the proxier a mapped name leads to a live info for its
  own address, no two names share an info, every info has exactly one goroutine, started
  under its index, its socket listens on the port of its portal, and the balancer is in a
  reachable state, so that the goroutines can call it without a panic.
\<close>

theorem Proxier_invariant:
  assumes "px_reachable env (px, w)"
  shows "(\<forall>name a. map_of (px_serviceMap px) name = Some a \<longrightarrow> a < length (px_infos px) \<and>
        si_isAlive (px_infos px ! a) \<and> po_ip (si_portal (px_infos px ! a)) = sppn_PortalIPName name) \<and>
    inj_on (map_of (px_serviceMap px)) (dom (map_of (px_serviceMap px))) \<and>
    map snd (px_loops px) = [0..<length (px_infos px)] \<and>
    (\<forall>si \<in> set (px_infos px). ListenPort (si_socket si) = sint (po_port (si_portal si))) \<and>
    lb_reachable (px_loadBalancer px)"
proof -
  have "px_inv px" using px_reachable_inv [OF assms] by simp
  then show ?thesis unfolding px_inv_def mapped_ok_def info_ok_def
    by (auto simp: inj_on_def dom_def)
qed

theorem Proxier_invariant_witness:
  "si_isAlive (px_infos demo_px ! 0) \<and> lb_reachable (px_loadBalancer demo_px)"
  using Proxier_invariant [OF demo_px_reachable] by (simp add: demo_px_def)

text \<open>
  C14. No UDP portal can serve a client: in every reachable state the client table of every
  info is nil, so the UDP loop of a portal panics at the first datagram it reads, and if it
  returns, it never asked the balancer for an endpoint.
\<close>

theorem udp_portal_panics:
  assumes "px_reachable env (px, w)" "a < length (px_infos px)"
  shows "si_activeClients (px_infos px ! a) = None \<and>
    (uo_alive net v \<longrightarrow> uo_read net v = (Inr (buffer, cliAddr), v1) \<longrightarrow>
      udp_ProxyLoop next_ep net service (si_activeClients (px_infos px ! a), s, v) = Some (Inl NilDereference)) \<and>
    (udp_ProxyLoop next_ep net service (si_activeClients (px_infos px ! a), s, v) = Some (Inr (clients, s', v')) \<longrightarrow>
      s' = s)"
proof -
  have "px_inv px" using px_reachable_inv [OF assms(1)] by simp
  from px_invD(5) [OF this assms(2)] have none: "si_activeClients (px_infos px ! a) = None" by (simp add: info_ok_def)
  show ?thesis
    using udp_ProxyLoop_nil_clients [of net v buffer cliAddr v1 next_ep service s clients s' v'] by (simp add: none)
qed

definition demo_udp_nat :: "(nat, nat) udp_ops" where
  "demo_udp_nat = \<lparr>uo_alive = (\<lambda>_. True), uo_read = (\<lambda>w. (Inr (''hello'', ''c:1''), w)),
     uo_dial = (\<lambda>p e t w. (Inr 1, w)), uo_set_deadline = (\<lambda>_ w. (None, w)),
     uo_write = (\<lambda>_ _ w. (None, w)), uo_spawn = (\<lambda>_ _ w. w)\<rparr>"

theorem udp_portal_panics_witness:
  "udp_ProxyLoop NextEndpoint demo_udp_nat demo_portal (si_activeClients (px_infos demo_px ! 0), demo_lb, 0) =
     Some (Inl NilDereference)"
proof -
  have "0 < length (px_infos demo_px)" by (simp add: demo_px_def)
  note panics = udp_portal_panics [OF demo_px_reachable this]
  have "uo_alive demo_udp_nat 0" "uo_read demo_udp_nat 0 = (Inr (''hello'', ''c:1''), 0)"
    by (simp_all add: demo_udp_nat_def)
  with panics [of demo_udp_nat 0 "''hello''" "''c:1''" 0 NextEndpoint demo_portal demo_lb None demo_lb 0] show ?thesis
    by auto
qed

end
