(* ===== verification/UserSink.thy ===== *)
theory UserSink
  imports UserLifecycle
begin

text \<open>
  \<^verbatim>\<open>pkg/proxy/userspace/sink.go\<close>: the backend that receives the calls of KPNG. It caches
  the service and one endpoint object per namespaced name and calls the proxier. The
  \<open>*ServiceEndpoint\<close> pointers live in the map only; services that KPNG delivers are not nil.
  The whole state is the cache, the proxier and the outside world.
\<close>

section \<open>Model\<close>

record ServiceEndpoint =
  se_Service :: Service
  se_Endpoint :: "Endpoint option"

type_synonym Backend = "(NamespacedName, ServiceEndpoint) gomap"

definition NewBackend :: Backend where
  "NewBackend = []"

definition CreateNamespacedName :: "Service \<Rightarrow> NamespacedName" where
  "CreateNamespacedName service = \<lparr>nn_Namespace = svc_Namespace service, nn_Name = svc_Name service\<rparr>"

definition CreateNamespacedNameString :: "string \<Rightarrow> string \<Rightarrow> NamespacedName" where
  "CreateNamespacedNameString serviceName namespaceName =
     \<lparr>nn_Namespace = namespaceName, nn_Name = serviceName\<rparr>"

definition AddService :: "Service \<Rightarrow> Backend \<Rightarrow> Backend" where
  "AddService service b =
     (let namespaceNamed = CreateNamespacedName service in
      case map_of b namespaceNamed of
        None \<Rightarrow> AList.update namespaceNamed \<lparr>se_Service = service, se_Endpoint = None\<rparr> b
      | Some se \<Rightarrow> AList.update namespaceNamed (se\<lparr>se_Service := service\<rparr>) b)"

definition AddEndpoint :: "Service \<Rightarrow> Endpoint option \<Rightarrow> Backend \<Rightarrow> Backend" where
  "AddEndpoint service endpoint b =
     (let namespaceNamed = CreateNamespacedName service in
      case map_of b namespaceNamed of
        Some se \<Rightarrow> if se_Endpoint se = None then AList.update namespaceNamed (se\<lparr>se_Endpoint := endpoint\<rparr>) b else b
      | None \<Rightarrow> AList.update namespaceNamed \<lparr>se_Service = service, se_Endpoint = endpoint\<rparr> b)"

definition GetService :: "string \<Rightarrow> string \<Rightarrow> Backend \<Rightarrow> ServiceEndpoint option" where
  "GetService name namespace b = map_of b (CreateNamespacedNameString name namespace)"

definition GetEndpoint :: "Service \<Rightarrow> Endpoint option \<Rightarrow> Backend \<Rightarrow> Backend go" where
  "GetEndpoint service endpoint b =
     (let namespaceNamed = CreateNamespacedName service in
      case map_of b namespaceNamed of
        None \<Rightarrow> Inl NilDereference
      | Some se \<Rightarrow> Inr (AList.update namespaceNamed (se\<lparr>se_Endpoint := endpoint\<rparr>) b))"

text \<open>
  Setup; the address 0.0.0.0 and the two periods (nanoseconds) are the constants of the
  source. The process ends when no host interface can be chosen.
\<close>

definition Setup :: "string + IP \<Rightarrow> string + Proxier" where
  "Setup chooseHost = NewProxier chooseHost NewLoadBalancerRR [0, 0, 0, 0] 20000000000 20000000000"

definition Sink_Reset :: "'s \<Rightarrow> 's" where
  "Sink_Reset s = s"

definition Sync :: "'s \<Rightarrow> 's" where
  "Sync s = s"

definition SetService ::
  "'w proxier_env \<Rightarrow> Service \<Rightarrow> Backend \<times> Proxier \<times> 'w \<Rightarrow> (Backend \<times> Proxier \<times> 'w) go option" where
  "SetService env svc = (\<lambda>(b, pxw).
     ogo_bind
       (case GetService (svc_Name svc) (svc_Namespace svc) b of
          Some cacheSvcEndpoint \<Rightarrow> OnServiceUpdate env (Some (se_Service cacheSvcEndpoint)) (Some svc) pxw
        | None \<Rightarrow> OnServiceAdd env (Some svc) pxw)
       (\<lambda>pxw. Some (Inr (AddService svc b, pxw))))"

definition Sink_DeleteService ::
  "'w proxier_env \<Rightarrow> string \<Rightarrow> string \<Rightarrow> Backend \<times> Proxier \<times> 'w \<Rightarrow> (Backend \<times> Proxier \<times> 'w) go" where
  "Sink_DeleteService env namespace name = (\<lambda>(b, pxw).
     case GetService name namespace b of
       None \<Rightarrow> Inr (b, pxw)
     | Some oldSvc \<Rightarrow>
         go_bind (OnServiceDelete env (Some (se_Service oldSvc)) pxw) (\<lambda>pxw.
           Inr (AList.delete (CreateNamespacedNameString name namespace) b, pxw)))"

text \<open>
  The key of the endpoint is not read. For an unknown service the argument
  \<open>cacheSvcEndpoint.Service\<close> dereferences a nil pointer.
\<close>

definition SetEndpoint ::
  "'w proxier_env \<Rightarrow> string \<Rightarrow> string \<Rightarrow> string \<Rightarrow> Endpoint option \<Rightarrow>
   Backend \<times> Proxier \<times> 'w \<Rightarrow> (Backend \<times> Proxier \<times> 'w) go" where
  "SetEndpoint env namespace serviceName key endpoint = (\<lambda>(b, px, w).
     case GetService serviceName namespace b of
       None \<Rightarrow> Inl NilDereference
     | Some cacheSvcEndpoint \<Rightarrow>
         go_bind
           (if se_Endpoint cacheSvcEndpoint = None
            then Proxier_OnEndpointsAdd env endpoint (se_Service cacheSvcEndpoint) px
            else Proxier_OnEndpointsUpdate env (se_Endpoint cacheSvcEndpoint) endpoint (se_Service cacheSvcEndpoint) px)
           (\<lambda>px. Inr (AddEndpoint (se_Service cacheSvcEndpoint) endpoint b, px, w)))"

definition DeleteEndpoint ::
  "string \<Rightarrow> string \<Rightarrow> string \<Rightarrow> Backend \<times> Proxier \<times> 'w \<Rightarrow> (Backend \<times> Proxier \<times> 'w) go" where
  "DeleteEndpoint namespace serviceName key = (\<lambda>(b, px, w).
     case GetService serviceName namespace b of
       None \<Rightarrow> Inr (b, px, w)
     | Some cacheSvcEndpoint \<Rightarrow>
         go_bind (Proxier_OnEndpointsDelete (se_Endpoint cacheSvcEndpoint) (se_Service cacheSvcEndpoint) px)
           (\<lambda>px. Inr (b, px, w)))"

section \<open>The cache\<close>

lemma CreateNamespacedName_key: "CreateNamespacedName service = svc_key service"
  by (simp add: CreateNamespacedName_def svc_key_def)

lemma map_of_AddService:
  "map_of (AddService service b) k =
     (if k = svc_key service
      then Some \<lparr>se_Service = service, se_Endpoint = (case map_of b k of None \<Rightarrow> None | Some se \<Rightarrow> se_Endpoint se)\<rparr>
      else map_of b k)"
  by (auto simp: AddService_def CreateNamespacedName_key Let_def split: option.split)

lemma map_of_AddEndpoint:
  "map_of (AddEndpoint service endpoint b) k =
     (if k = svc_key service
      then (case map_of b k of
              None \<Rightarrow> Some \<lparr>se_Service = service, se_Endpoint = endpoint\<rparr>
            | Some se \<Rightarrow> Some (if se_Endpoint se = None then se\<lparr>se_Endpoint := endpoint\<rparr> else se))
      else map_of b k)"
  by (auto simp: AddEndpoint_def CreateNamespacedName_key Let_def split: option.split)

text \<open>A cache entry is under the name of its service.\<close>

definition cache_ok :: "Backend \<Rightarrow> bool" where
  "cache_ok b \<longleftrightarrow> (\<forall>k se. map_of b k = Some se \<longrightarrow> svc_key (se_Service se) = k)"

section \<open>Steps and reachable states\<close>

inductive sink_step ::
  "'w proxier_env \<Rightarrow> Backend \<times> Proxier \<times> 'w \<Rightarrow> Backend \<times> Proxier \<times> 'w \<Rightarrow> bool" for env where
  set_service: "SetService env svc st = Some (Inr st') \<Longrightarrow> sink_step env st st'"
| delete_service: "Sink_DeleteService env ns name st = Inr st' \<Longrightarrow> sink_step env st st'"
| set_endpoint: "SetEndpoint env ns name key e st = Inr st' \<Longrightarrow> sink_step env st st'"
| delete_endpoint: "DeleteEndpoint ns name key st = Inr st' \<Longrightarrow> sink_step env st st'"
| sync: "sink_step env st (Sync st)"
| reset: "sink_step env st (Sink_Reset st)"
| background: "px_step env pxw pxw' \<Longrightarrow> sink_step env (b, pxw) (b, pxw')"

inductive sink_reachable :: "'w proxier_env \<Rightarrow> Backend \<times> Proxier \<times> 'w \<Rightarrow> bool" for env where
  start: "Setup (Inr hostIP) = Inr px \<Longrightarrow> sink_reachable env (NewBackend, px, w)"
| step: "sink_reachable env st \<Longrightarrow> sink_step env st st' \<Longrightarrow> sink_reachable env st'"

lemma with_balancer_fields:
  "with_balancer f px = Inr px' \<Longrightarrow> px_serviceMap px' = px_serviceMap px \<and> px_infos px' = px_infos px \<and> px_loops px' = px_loops px"
  by (auto simp: with_balancer_def go_bind_eq_Inr)

lemma cache_ok_AddService: "cache_ok b \<Longrightarrow> cache_ok (AddService service b)"
  by (simp add: cache_ok_def map_of_AddService)

lemma cache_ok_AddEndpoint: "cache_ok b \<Longrightarrow> cache_ok (AddEndpoint service endpoint b)"
  by (auto simp: cache_ok_def map_of_AddEndpoint split: option.splits)

lemma sink_step_cache:
  assumes "sink_step env st st'" "cache_ok (fst st)"
  shows "cache_ok (fst st') \<and> (px_step env)\<^sup>*\<^sup>* (snd st) (snd st')"
  using assms
proof (induction rule: sink_step.induct)
  case (set_service svc st st')
  then show ?case
    by (cases st; cases st')
       (auto simp: SetService_def ogo_bind_eq_Inr cache_ok_AddService split: option.splits
          intro: px_step.service_add px_step.service_update)
next
  case (delete_service ns name st st')
  then show ?case
    by (cases st; cases st')
       (auto simp: Sink_DeleteService_def go_bind_eq_Inr cache_ok_def split: option.splits
          intro: px_step.service_delete)
next
  case (set_endpoint ns name key e st st')
  then show ?case
    by (cases st; cases st')
       (auto simp: SetEndpoint_def go_bind_eq_Inr cache_ok_AddEndpoint split: option.splits if_splits
          intro: px_step.endpoints_add px_step.endpoints_update)
next
  case (delete_endpoint ns name key st st')
  then show ?case
    by (cases st; cases st')
       (auto simp: DeleteEndpoint_def go_bind_eq_Inr split: option.splits intro: px_step.endpoints_delete)
qed (auto simp: Sync_def Sink_Reset_def)

lemma sink_step_proxier: "sink_step env st st' \<Longrightarrow> cache_ok (fst st) \<Longrightarrow> px_reachable env (snd st) \<Longrightarrow> px_reachable env (snd st')"
proof -
  assume "sink_step env st st'" "cache_ok (fst st)" and r: "px_reachable env (snd st)"
  then have "(px_step env)\<^sup>*\<^sup>* (snd st) (snd st')" using sink_step_cache by blast
  then show "px_reachable env (snd st')" using r
    by (induction rule: rtranclp_induct) (auto intro: px_reachable.step)
qed

lemma sink_reachable_ok: "sink_reachable env st \<Longrightarrow> cache_ok (fst st) \<and> px_reachable env (snd st)"
proof (induction rule: sink_reachable.induct)
  case (start hostIP px w)
  have "px_reachable env (px, w)"
    by (rule px_reachable.start) (use start in \<open>simp only: Setup_def\<close>)
  then show ?case by (simp add: NewBackend_def cache_ok_def)
next
  case (step st st')
  then show ?case using sink_step_cache sink_step_proxier by blast
qed

section \<open>Properties\<close>

text \<open>The addresses that the balancer of a state holds for a service port.\<close>

definition served :: "Proxier \<Rightarrow> Service \<Rightarrow> string \<Rightarrow> string list" where
  "served px service p =
     (case map_of (px_loadBalancer px) (svcPortName (svc_key service) p) of
        None \<Rightarrow> []
      | Some state \<Rightarrow> bs_endpoints state)"

lemma addresses_of_port:
  "ips_V4 ips \<noteq> [] \<Longrightarrow> p \<in> pm_Name ` set (svc_Ports service) \<Longrightarrow> addresses ips service p \<noteq> []"
  by (cases "ips_V4 ips") (auto simp: addresses_def)

text \<open>
  The cache of the sink is a map of services by namespaced name: after SetService the
  name of the service leads to that service with the endpoint object that was cached before,
  after DeleteService it leads nowhere, no other name changes, and deleting a service that
  is not cached changes nothing at all.
\<close>

lemma sink_caches_services:
  "(SetService env svc (b, pxw) = Some (Inr (b', pxw')) \<longrightarrow>
      GetService (svc_Name svc) (svc_Namespace svc) b' =
        Some \<lparr>se_Service = svc, se_Endpoint =
          (case GetService (svc_Name svc) (svc_Namespace svc) b of None \<Rightarrow> None | Some se \<Rightarrow> se_Endpoint se)\<rparr> \<and>
      (\<forall>n ns. (ns, n) \<noteq> (svc_Namespace svc, svc_Name svc) \<longrightarrow> GetService n ns b' = GetService n ns b)) \<and>
   (Sink_DeleteService env namespace name (b, pxw) = Inr (b', pxw') \<longrightarrow>
      GetService name namespace b' = None \<and>
      (\<forall>n ns. (ns, n) \<noteq> (namespace, name) \<longrightarrow> GetService n ns b' = GetService n ns b) \<and>
      (GetService name namespace b = None \<longrightarrow> b' = b \<and> pxw' = pxw))"
proof (intro conjI impI)
  assume "SetService env svc (b, pxw) = Some (Inr (b', pxw'))"
  then have b': "b' = AddService svc b" by (auto simp: SetService_def ogo_bind_eq_Inr)
  show "GetService (svc_Name svc) (svc_Namespace svc) b' =
        Some \<lparr>se_Service = svc, se_Endpoint =
          (case GetService (svc_Name svc) (svc_Namespace svc) b of None \<Rightarrow> None | Some se \<Rightarrow> se_Endpoint se)\<rparr>"
    by (simp add: b' GetService_def CreateNamespacedNameString_def map_of_AddService svc_key_def)
  show "\<forall>n ns. (ns, n) \<noteq> (svc_Namespace svc, svc_Name svc) \<longrightarrow> GetService n ns b' = GetService n ns b"
    by (simp add: b' GetService_def CreateNamespacedNameString_def map_of_AddService svc_key_def)
next
  assume "Sink_DeleteService env namespace name (b, pxw) = Inr (b', pxw')"
  then have b': "b' = b \<and> pxw' = pxw \<and> GetService name namespace b = None \<or>
      b' = AList.delete (CreateNamespacedNameString name namespace) b \<and> GetService name namespace b \<noteq> None"
    by (auto simp: Sink_DeleteService_def go_bind_eq_Inr split: option.splits)
  then show "GetService name namespace b' = None" by (auto simp: GetService_def)
  show "\<forall>n ns. (ns, n) \<noteq> (namespace, name) \<longrightarrow> GetService n ns b' = GetService n ns b"
    using b' by (auto simp: GetService_def CreateNamespacedNameString_def)
  assume "GetService name namespace b = None"
  with b' show "b' = b" "pxw' = pxw" by auto
qed

definition demo_backend :: Backend where
  "demo_backend = [(svc_key demo_service, \<lparr>se_Service = demo_service, se_Endpoint = None\<rparr>)]"

lemma demo_SetService:
  "SetService demo_penv demo_service (NewBackend, demo_px0, ()) = Some (Inr (demo_backend, demo_px, ()))"
proof -
  have "AddService demo_service [] = demo_backend" by code_simp
  then show ?thesis
    by (simp add: SetService_def NewBackend_def GetService_def OnServiceAdd_def demo_merge)
qed

theorem sink_caches_services_witness:
  "GetService ''web'' ''default'' demo_backend = Some \<lparr>se_Service = demo_service, se_Endpoint = None\<rparr>"
proof -
  have n: "svc_Name demo_service = ''web''" "svc_Namespace demo_service = ''default''"
    by (simp_all add: demo_service_def)
  have "GetService ''web'' ''default'' NewBackend = None" by (simp add: GetService_def NewBackend_def)
  with sink_caches_services [of demo_penv demo_service NewBackend "(demo_px0, ())" demo_backend "(demo_px, ())" "[]" "[]"]
    demo_SetService show ?thesis unfolding n by simp
qed

text \<open>
  C17. When the endpoint calls fail: SetEndpoint panics for a service that is not cached, and
  DeleteEndpoint is then a no-op; DeleteEndpoint panics for a cached service without a
  cached endpoint object with addresses; and SetEndpoint returns for a cached service when
  the new object, and the cached one if there is one, have an address object.
\<close>

theorem sink_endpoint_errors:
  "(GetService name namespace b = None \<longrightarrow>
      SetEndpoint env namespace name key endpoint (b, px, w) = Inl NilDereference \<and>
      DeleteEndpoint namespace name key (b, px, w) = Inr (b, px, w)) \<and>
   (GetService name namespace b = Some se \<longrightarrow> GetIPs (se_Endpoint se) = None \<longrightarrow>
      DeleteEndpoint namespace name key (b, px, w) = Inl NilDereference) \<and>
   (GetService name namespace b = Some se \<longrightarrow> GetIPs endpoint \<noteq> None \<longrightarrow>
      se_Endpoint se = None \<or> GetIPs (se_Endpoint se) \<noteq> None \<longrightarrow>
      (\<exists>st'. SetEndpoint env namespace name key endpoint (b, px, w) = Inr st'))"
proof (intro conjI impI)
  assume "GetService name namespace b = Some se" "GetIPs endpoint \<noteq> None"
    and old: "se_Endpoint se = None \<or> GetIPs (se_Endpoint se) \<noteq> None"
  then obtain ips where se: "GetService name namespace b = Some se" and ips: "GetIPs endpoint = Some ips" by blast
  show "\<exists>st'. SetEndpoint env namespace name key endpoint (b, px, w) = Inr st'"
  proof (cases "se_Endpoint se = None")
    case True
    with se OnEndpointsAdd_key [OF ips, of "pe_rnd env" "se_Service se" "px_loadBalancer px"] show ?thesis
      by (auto simp: SetEndpoint_def Proxier_OnEndpointsAdd_def with_balancer_def)
  next
    case False
    with old obtain old_ips where "GetIPs (se_Endpoint se) = Some old_ips" by blast
    from OnEndpointsUpdate_key [OF this ips, of "pe_rnd env" "se_Service se" "px_loadBalancer px"] se False show ?thesis
      by (auto simp: SetEndpoint_def Proxier_OnEndpointsUpdate_def with_balancer_def)
  qed
qed (auto simp: SetEndpoint_def DeleteEndpoint_def Proxier_OnEndpointsDelete_def with_balancer_def
       OnEndpointsDelete_def buildPorts_None)

theorem sink_endpoint_errors_witness:
  "SetEndpoint demo_penv ''default'' ''db'' ''k'' (Some (demo_endpoint [''10.0.0.1''])) (demo_backend, demo_px, ()) =
     Inl NilDereference \<and>
   DeleteEndpoint ''default'' ''web'' ''k'' (demo_backend, demo_px, ()) = Inl NilDereference"
proof -
  have "GetService ''db'' ''default'' demo_backend = None"
    "GetService ''web'' ''default'' demo_backend = Some \<lparr>se_Service = demo_service, se_Endpoint = None\<rparr>"
    by code_simp+
  then show ?thesis
    using sink_endpoint_errors [of "''db''" "''default''" demo_backend demo_penv "''k''"
        "Some (demo_endpoint [''10.0.0.1''])" demo_px "()"]
      sink_endpoint_errors [of "''web''" "''default''" demo_backend demo_penv "''k''" None demo_px "()"
        "\<lparr>se_Service = demo_service, se_Endpoint = None\<rparr>"]
    by (simp add: GetIPs_def)
qed

section \<open>The last endpoint object\<close>

text \<open>A call of SetEndpoint for a cached service; \<open>c\<close> is the object that is cached after it.\<close>

lemma SetEndpoint_served:
  assumes "GetService name namespace b = Some se" "cache_ok b" "\<And>k. perm_ok (pe_rnd env k)"
    and "GetIPs e = Some ips"
    and "c = (if se_Endpoint se = None then e else se_Endpoint se)"
    and "GetIPs c = Some ips0" "addresses ips0 (se_Service se) p \<noteq> []"
  shows "\<exists>b1 px1. SetEndpoint env namespace name key e (b, px, w) = Inr (b1, px1, w) \<and>
    cache_ok b1 \<and> GetService name namespace b1 = Some (se\<lparr>se_Endpoint := c\<rparr>) \<and>
    mset (served px1 (se_Service se) p) = mset (addresses ips (se_Service se) p)"
proof -
  let ?s = "se_Service se" and ?b = "AddEndpoint (se_Service se) e b"
  let ?k = "svcPortName (svc_key ?s) p"
  have "CreateNamespacedNameString name namespace = svc_key ?s"
    using assms(1,2) by (simp add: GetService_def cache_ok_def)
  with assms(1,5) have se: "GetService name namespace ?b = Some (se\<lparr>se_Endpoint := c\<rparr>)"
    by (auto simp: GetService_def map_of_AddEndpoint)
  have "\<exists>px1. SetEndpoint env namespace name key e (b, px, w) = Inr (?b, px1, w) \<and>
      mset (served px1 ?s p) = mset (addresses ips ?s p)"
  proof (cases "se_Endpoint se = None")
    case True
    with assms(4-7) have ne: "addresses ips ?s p \<noteq> []" by simp
    from OnEndpointsAdd_key [OF assms(4), of "pe_rnd env" ?s "px_loadBalancer px"] ne obtain lb where
      "OnEndpointsAdd (pe_rnd env) e ?s (px_loadBalancer px) = Inr lb"
      "map_of lb ?k = add_state (pe_rnd env ?k) (addresses ips ?s p) (map_of (px_loadBalancer px) ?k)" by auto
    with True assms(1) mset_add_state [OF assms(3) ne, of ?k "map_of (px_loadBalancer px) ?k"] show ?thesis
      by (auto simp: SetEndpoint_def Proxier_OnEndpointsAdd_def with_balancer_def served_def)
  next
    case False
    with assms(5,6) have old: "GetIPs (se_Endpoint se) = Some ips0" by simp
    from OnEndpointsUpdate_key [OF old assms(4), of "pe_rnd env" ?s "px_loadBalancer px"] assms(7) obtain lb where
      "OnEndpointsUpdate (pe_rnd env) (se_Endpoint se) e ?s (px_loadBalancer px) = Inr lb"
      "map_of lb ?k = (if addresses ips ?s p \<noteq> []
         then update_state (pe_rnd env ?k) (addresses ips ?s p) (map_of (px_loadBalancer px) ?k)
         else reset_state (map_of (px_loadBalancer px) ?k))" by (auto simp: Let_def)
    with False assms(1) mset_update_state [OF assms(3), of ?k "addresses ips ?s p" "map_of (px_loadBalancer px) ?k"]
    show ?thesis
      by (auto simp: SetEndpoint_def Proxier_OnEndpointsUpdate_def with_balancer_def served_def reset_state_def
          split: option.split)
  qed
  with se cache_ok_AddEndpoint [OF assms(2)] show ?thesis by blast
qed

text \<open>Calls of SetEndpoint one after the other, each with its key and its object.\<close>

definition set_endpoints_of ::
  "'w proxier_env \<Rightarrow> string \<Rightarrow> string \<Rightarrow> (string \<times> Endpoint option) list \<Rightarrow>
   Backend \<times> Proxier \<times> 'w \<Rightarrow> (Backend \<times> Proxier \<times> 'w) go" where
  "set_endpoints_of env namespace name = go_fold (\<lambda>(key, e). SetEndpoint env namespace name key e)"

lemma set_endpoints_served:
  assumes "calls \<noteq> []" "GetService name namespace b = Some se" "cache_ok b" "\<And>k. perm_ok (pe_rnd env k)"
    and "list_all (\<lambda>(key, e). GetIPs e \<noteq> None) calls"
    and "c = (if se_Endpoint se = None then snd (hd calls) else se_Endpoint se)"
    and "GetIPs c = Some ips0" "addresses ips0 (se_Service se) p \<noteq> []"
    and "GetIPs (snd (last calls)) = Some ips"
  shows "\<exists>b1 px1. set_endpoints_of env namespace name calls (b, px, w) = Inr (b1, px1, w) \<and>
    GetService name namespace b1 = Some (se\<lparr>se_Endpoint := c\<rparr>) \<and>
    mset (served px1 (se_Service se) p) = mset (addresses ips (se_Service se) p)"
  using assms
proof (induction calls arbitrary: b px se)
  case (Cons x calls)
  obtain key e where x: "x = (key, e)" by fastforce
  from Cons.prems(5) x obtain ips1 where ips1: "GetIPs e = Some ips1" by auto
  have c: "c = (if se_Endpoint se = None then e else se_Endpoint se)" using Cons.prems(6) by (simp add: x)
  from SetEndpoint_served [OF Cons.prems(2,3,4) ips1 c Cons.prems(7,8), of key px w] obtain b1 px1 where
    1: "SetEndpoint env namespace name key e (b, px, w) = Inr (b1, px1, w)" "cache_ok b1"
      "GetService name namespace b1 = Some (se\<lparr>se_Endpoint := c\<rparr>)"
      "mset (served px1 (se_Service se) p) = mset (addresses ips1 (se_Service se) p)" by blast
  show ?case
  proof (cases "calls = []")
    case True
    with 1 ips1 Cons.prems(9) show ?thesis by (simp add: x set_endpoints_of_def)
  next
    case False
    have "c \<noteq> None" using Cons.prems(7) by (cases c) (simp_all add: GetIPs_def)
    with False Cons.prems 1 have "\<exists>b2 px2. set_endpoints_of env namespace name calls (b1, px1, w) = Inr (b2, px2, w) \<and>
        GetService name namespace b2 = Some (se\<lparr>se_Endpoint := c\<rparr>\<lparr>se_Endpoint := c\<rparr>) \<and>
        mset (served px2 (se_Service (se\<lparr>se_Endpoint := c\<rparr>)) p) =
          mset (addresses ips (se_Service (se\<lparr>se_Endpoint := c\<rparr>)) p)"
      by (intro Cons.IH) auto
    with 1 show ?thesis by (auto simp: x set_endpoints_of_def)
  qed
qed simp

lemma DeleteEndpoint_served:
  assumes "GetService name namespace b = Some se" "GetIPs (se_Endpoint se) = Some ips0"
    and "addresses ips0 (se_Service se) p \<noteq> []"
  shows "\<exists>px1. DeleteEndpoint namespace name key (b, px, w) = Inr (b, px1, w) \<and> served px1 (se_Service se) p = []"
proof -
  from OnEndpointsDelete_key [OF assms(2), of "se_Service se" "px_loadBalancer px"] assms(3) obtain lb where
    "OnEndpointsDelete (se_Endpoint se) (se_Service se) (px_loadBalancer px) = Inr lb"
    "map_of lb (svcPortName (svc_key (se_Service se)) p) =
       reset_state (map_of (px_loadBalancer px) (svcPortName (svc_key (se_Service se)) p))"
    by (auto simp: Let_def)
  with assms(1) show ?thesis
    by (auto simp: DeleteEndpoint_def Proxier_OnEndpointsDelete_def with_balancer_def served_def reset_state_def
        split: option.split)
qed

text \<open>
  C15. The sink knows one endpoint object per service: the keys are not used. Any calls of
  SetEndpoint for a cached service, at least one, with any keys and with objects that have an
  address object, return, and then a port of the service serves the addresses of the object
  set last alone (no address at all, when that object has no IPv4 address). A call of
  DeleteEndpoint with any key whatever then returns too and leaves the port with no endpoint,
  although no more than one of the endpoints was deleted. The cache keeps its entries under
  the names of their services, as in every reachable state (\<open>sink_reachable_ok\<close>), and the
  random source gives permutations. The hypothesis on the
  object that the cache keeps, which is the one cached before and else the first of the
  calls, is that it has an IPv4 address.
\<close>

theorem sink_one_endpoint:
  assumes "GetService name namespace b = Some se" "cache_ok b" "\<And>k. perm_ok (pe_rnd env k)"
    and "calls \<noteq> []" "list_all (\<lambda>(key, e). GetIPs e \<noteq> None) calls"
    and "GetIPs (if se_Endpoint se = None then snd (hd calls) else se_Endpoint se) = Some ips0" "ips_V4 ips0 \<noteq> []"
    and "GetIPs (snd (last calls)) = Some ips"
    and "p \<in> pm_Name ` set (svc_Ports (se_Service se))"
  shows "\<exists>b1 px1 px2.
    set_endpoints_of env namespace name calls (b, px, w) = Inr (b1, px1, w) \<and>
    mset (served px1 (se_Service se) p) = mset (addresses ips (se_Service se) p) \<and>
    DeleteEndpoint namespace name key (b1, px1, w) = Inr (b1, px2, w) \<and>
    served px2 (se_Service se) p = []"
proof -
  let ?c = "if se_Endpoint se = None then snd (hd calls) else se_Endpoint se"
  have ne: "addresses ips0 (se_Service se) p \<noteq> []" using assms(7,9) by (rule addresses_of_port)
  from set_endpoints_served [OF assms(4,1,2,3,5) refl assms(6) ne assms(8), of px w] obtain b1 px1 where
    1: "set_endpoints_of env namespace name calls (b, px, w) = Inr (b1, px1, w)"
      "GetService name namespace b1 = Some (se\<lparr>se_Endpoint := ?c\<rparr>)"
      "mset (served px1 (se_Service se) p) = mset (addresses ips (se_Service se) p)" by blast
  have "\<exists>px2. DeleteEndpoint namespace name key (b1, px1, w) = Inr (b1, px2, w) \<and>
      served px2 (se_Service (se\<lparr>se_Endpoint := ?c\<rparr>)) p = []"
    by (rule DeleteEndpoint_served [OF 1(2), of ips0]) (use assms(6) ne in simp_all)
  with 1 show ?thesis by auto
qed

text \<open>Two endpoints are set, a third key is deleted.\<close>

theorem sink_one_endpoint_witness:
  "\<exists>b1 px1 px2.
    set_endpoints_of demo_penv ''default'' ''web''
      [(''a'', Some (demo_endpoint [''10.0.0.1''])), (''b'', Some (demo_endpoint [''10.0.0.2'']))]
      (demo_backend, demo_px, ()) = Inr (b1, px1, ()) \<and>
    served px1 demo_service ''http'' = [''10.0.0.2:80''] \<and>
    DeleteEndpoint ''default'' ''web'' ''c'' (b1, px1, ()) = Inr (b1, px2, ()) \<and>
    served px2 demo_service ''http'' = []"
proof -
  let ?calls = "[(''a'', Some (demo_endpoint [''10.0.0.1''])), (''b'', Some (demo_endpoint [''10.0.0.2'']))]"
  let ?se = "\<lparr>se_Service = demo_service, se_Endpoint = None\<rparr>"
  have 1: "GetService ''web'' ''default'' demo_backend = Some ?se" by code_simp
  have 2: "cache_ok demo_backend" by (simp add: cache_ok_def demo_backend_def)
  have 3: "perm_ok (pe_rnd demo_penv k)" for k using perm_ok_demo by (simp add: demo_penv_def)
  have 4: "list_all (\<lambda>(key, e). GetIPs e \<noteq> None) ?calls" by (simp add: GetIPs_def demo_endpoint_def)
  have 5: "GetIPs (if se_Endpoint ?se = None then snd (hd ?calls) else se_Endpoint ?se) =
      Some \<lparr>ips_V4 = [''10.0.0.1''], ips_V6 = []\<rparr>"
    "GetIPs (snd (last ?calls)) = Some \<lparr>ips_V4 = [''10.0.0.2''], ips_V6 = []\<rparr>"
    by (simp_all add: GetIPs_def demo_endpoint_def)
  have 6: "''http'' \<in> pm_Name ` set (svc_Ports (se_Service ?se))" by (simp add: demo_service_def)
  have 7: "addresses \<lparr>ips_V4 = [''10.0.0.2''], ips_V6 = []\<rparr> demo_service ''http'' = [''10.0.0.2:80'']"
    by code_simp
  from sink_one_endpoint [OF 1 2 3 _ 4 5(1) _ 5(2) 6, of demo_px "()" "''c''"] show ?thesis
    by (simp add: 7)
qed

end
