(* ===== verification/UserPath.thy ===== *)
theory UserPath
  imports UserSink
begin

text \<open>
  The path of a client's connection through the userspace backend: the endpoint object that the
  sink received last (\<^verbatim>\<open>sink.go\<close>) is what the balancer hands out (\<^verbatim>\<open>roundrobin.go\<close>) and what the
  proxy socket dials (\<^verbatim>\<open>utils.go\<close>), for as many connections as come.
\<close>

section \<open>What is dialed\<close>

lemma mset_rotate1 [simp]: "mset (rotate1 es) = mset es"
  by (cases es) simp_all



section \<open>The balancer serves an endpoint object\<close>






section \<open>From the sink to the backend\<close>







end
