(* ===== verification/SharedBalancer.thy ===== *)
theory SharedBalancer
  imports SocketsProps
begin

text \<open>
  tryConnect beside other goroutines. \<^verbatim>\<open>NextEndpoint\<close> (\<^verbatim>\<open>roundrobin.go\<close>) holds the lock of the
  balancer for one call only, so between two attempts of \<^verbatim>\<open>tryConnect\<close> (\<^verbatim>\<open>utils.go\<close>) the
  goroutines of the other portals, of the same service port too, may rotate the queue. Here the
  state of the balancer carries a schedule: the calls of NextEndpoint that others make before
  each call of this tryConnect. The endpoints of the service are not changed meanwhile.
\<close>

section \<open>The shared balancer\<close>

type_synonym next_call = "ServicePortName \<times> string \<times> bool"

text \<open>Calls that other goroutines make one after the other; their results are theirs.\<close>

definition other_calls ::
  "(ServicePortName \<Rightarrow> string \<Rightarrow> bool \<Rightarrow> 's \<Rightarrow> (('e + string) \<times> 's) go) \<Rightarrow> next_call list \<Rightarrow> 's \<Rightarrow> 's go" where
  "other_calls next_ep = go_fold (\<lambda>(k, addr, reset) s. go_bind (next_ep k addr reset s) (\<lambda>(r, s). Inr s))"

text \<open>
  One call of this goroutine: before it, the calls at the head of the schedule are made. An
  exhausted schedule means that the others are silent.
\<close>

definition shared_next ::
  "(ServicePortName \<Rightarrow> string \<Rightarrow> bool \<Rightarrow> 's \<Rightarrow> (('e + string) \<times> 's) go) \<Rightarrow>
   ServicePortName \<Rightarrow> string \<Rightarrow> bool \<Rightarrow> 's \<times> next_call list list \<Rightarrow>
   (('e + string) \<times> 's \<times> next_call list list) go" where
  "shared_next next_ep k addr reset = (\<lambda>(s, others).
     let (calls, others) = (case others of [] \<Rightarrow> ([], []) | calls # others \<Rightarrow> (calls, others)) in
     go_bind (other_calls next_ep calls s) (\<lambda>s.
       go_bind (next_ep k addr reset s) (\<lambda>(r, s). Inr (r, s, others))))"

text \<open>The calls of a schedule for one service port.\<close>

definition interfering :: "ServicePortName \<Rightarrow> next_call list list \<Rightarrow> nat" where
  "interfering k others = length (filter (\<lambda>c. fst c = k) (concat others))"

text \<open>How many of the next \<open>n\<close> endpoints that a queue hands out are dead.\<close>

definition dead_draws :: "(string \<Rightarrow> bool) \<Rightarrow> nat \<Rightarrow> string list \<Rightarrow> nat" where
  "dead_draws dead n es = length (filter (\<lambda>i. dead (hd (rotate i es))) [0..<n])"

lemma dead_draws_skip:
  "dead_draws dead n (rotate (Suc a) es) + (if dead (hd (rotate a es)) then 1 else 0)
     \<le> dead_draws dead (Suc a + n) es"
proof -
  have "[0..<Suc a + n] = [0..<Suc a] @ [Suc a..<Suc a + n]" by (rule upt_add_eq_append) simp
  also have "\<dots> = [0..<a] @ [a] @ map (\<lambda>i. i + Suc a) [0..<n]"
    unfolding map_add_upt by (simp add: add.commute)
  finally have "[0..<Suc a + n] = [0..<a] @ [a] @ map (\<lambda>i. i + Suc a) [0..<n]" .
  then show ?thesis
    by (simp add: dead_draws_def filter_map comp_def rotate_rotate del: rotate_Suc upt_Suc)
qed

context proxy_balancer begin

lemma other_calls_rotate:
  assumes "inv s" "view s k = Some es" "es \<noteq> []"
  shows "\<exists>s'. other_calls next_ep calls s = Inr s' \<and> inv s' \<and>
    view s' k = Some (rotate (length (filter (\<lambda>c. fst c = k) calls)) es)"
  using assms
proof (induction calls arbitrary: s es)
  case Nil
  then show ?case by (simp add: other_calls_def)
next
  case (Cons c calls)
  obtain k' addr reset where c: "c = (k', addr, reset)" by (cases c)
  from next_total [OF Cons.prems(1)] obtain r s1 where
    s1: "next_ep k' addr reset s = Inr (r, s1)" "inv s1" by blast
  have "view s1 k = Some (rotate (if k' = k then 1 else 0) es)"
  proof (cases "k' = k")
    case True
    from Cons.prems(3) obtain e es' where "es = e # es'" by (cases es) auto
    with True next_result [OF Cons.prems(1) s1(1)] Cons.prems(2) show ?thesis by auto
  next
    case False
    with next_frame [OF Cons.prems(1) s1(1)] Cons.prems(2) show ?thesis by auto
  qed
  from Cons.IH [OF s1(2) this] Cons.prems(3) s1(1) show ?case
    by (auto simp: c other_calls_def rotate_rotate simp del: rotate_Suc split: if_splits)
qed

text \<open>A call of the shared balancer gives the head of the rotated queue.\<close>

lemma shared_next_result:
  assumes "inv s" "view s k = Some es" "es \<noteq> []"
  shows "\<exists>a s' others'. shared_next next_ep k addr reset (s, others) = Inr (Inr (hd (rotate a es)), s', others') \<and>
    inv s' \<and> view s' k = Some (rotate (Suc a) es) \<and> interfering k others = a + interfering k others'"
proof -
  obtain calls others' where c: "(calls, others') = (case others of [] \<Rightarrow> ([], []) | calls # others \<Rightarrow> (calls, others))"
    by (cases others) auto
  let ?a = "length (filter (\<lambda>c. fst c = k) calls)"
  from other_calls_rotate [OF assms, of calls] obtain s1 where
    s1: "other_calls next_ep calls s = Inr s1" "inv s1" "view s1 k = Some (rotate ?a es)" by blast
  from assms(3) obtain e r where q: "rotate ?a es = e # r" by (cases "rotate ?a es") auto
  from next_some [OF s1(2), of k e r addr reset] s1(3) q obtain s2 where
    s2: "next_ep k addr reset s1 = Inr (Inr e, s2)" "inv s2" "view s2 k = Some (r @ [e])" by auto
  have "interfering k others = ?a + interfering k others'"
    using c by (cases others) (simp_all add: interfering_def)
  moreover have "shared_next next_ep k addr reset (s, others) = Inr (Inr e, s2, others')"
    using s1(1) s2(1) by (simp add: shared_next_def c [symmetric])
  ultimately show ?thesis using s2 q by (intro exI [of _ ?a]) auto
qed

lemma shared_tryConnect_loop:
  assumes "inv s" "view s (svcPortName (sppn_NamespacedName service) (sppn_Port service)) = Some es" "es \<noteq> []"
    and "dead_draws dead (length ts + interfering (svcPortName (sppn_NamespacedName service) (sppn_Port service)) others) es
           < length ts"
    and dial: "\<And>e t w. e \<in> set es \<Longrightarrow> \<not> dead e \<Longrightarrow> \<exists>c w'. dial protocol e t w = (Inr c, w')"
    and fds: "\<And>e t w err w'. dial protocol e t w = (Inl err, w') \<Longrightarrow> \<not> isTooManyFDsError err"
  shows "\<exists>c s' w'. tryConnect_loop (shared_next next_ep) dial service srcAddr protocol ts reset ((s, others), w) =
    Inr (Inr c, s', w')"
  using assms(1-5)
proof (induction ts arbitrary: s es others w reset)
  case Nil
  then show ?case by simp
next
  case (Cons t ts)
  let ?k = "svcPortName (sppn_NamespacedName service) (sppn_Port service)"
  from shared_next_result [OF Cons.prems(1-3), of srcAddr reset others] obtain a s1 others1 where
    s1: "shared_next next_ep ?k srcAddr reset (s, others) = Inr (Inr (hd (rotate a es)), s1, others1)" "inv s1"
      "view s1 ?k = Some (rotate (Suc a) es)" "interfering ?k others = a + interfering ?k others1" by blast
  obtain d w1 where d: "dial protocol (hd (rotate a es)) t w = (d, w1)" by fastforce
  show ?case
  proof (cases d)
    case (Inr c)
    with s1(1) d show ?thesis by simp
  next
    case (Inl err)
    have "hd (rotate a es) \<in> set es" using Cons.prems(3) by (metis hd_in_set rotate_is_Nil_conv set_rotate)
    with Cons.prems(5) [of "hd (rotate a es)" t w] d Inl have "dead (hd (rotate a es))" by auto
    with dead_draws_skip [of dead "length ts + interfering ?k others1" a es] Cons.prems(4) s1(4)
    have "dead_draws dead (length ts + interfering ?k others1) (rotate (Suc a) es) < length ts"
      by (simp add: add.commute add.left_commute del: rotate_Suc)
    with Cons.prems(3,5) s1(2,3)
    have "\<exists>c s' w'. tryConnect_loop (shared_next next_ep) dial service srcAddr protocol ts True ((s1, others1), w1) =
        Inr (Inr c, s', w')"
      by (intro Cons.IH [of s1 "rotate (Suc a) es"]) (simp_all del: rotate_Suc)
    with fds Inl s1(1) d show ?thesis by auto
  qed
qed

end

section \<open>Finding a working backend\<close>

text \<open>
  C19. tryConnect finds a working backend, also while other goroutines use the balancer: in any
  reachable state, let others make any calls of NextEndpoint between the attempts, \<open>m\<close> of
  them for the service port of this call. If fewer than four of the next \<open>4 + m\<close> endpoints
  that the queue hands out are dead, every endpoint that is not dead can always be
  dialed, and no dial runs out of file descriptors, then the result is a connection, from
  every state of the world. Without interference (\<open>m = 0\<close>): one of the next four
  endpoints is enough. The bound cannot be dropped (\<open>interference_can_fail\<close> below), and
  the endpoints of the service are not set anew meanwhile.
\<close>

theorem tryConnect_succeeds:
  assumes "lb_reachable lb"
    and "k = svcPortName (sppn_NamespacedName service) (sppn_Port service)"
    and "lb_view lb k = Some es" "es \<noteq> []"
    and "dead_draws dead (4 + interfering k others) es < 4"
    and "\<And>e t w. e \<in> set es \<Longrightarrow> \<not> dead e \<Longrightarrow> \<exists>c w'. dial protocol e t w = (Inr c, w')"
    and "\<And>e t w err w'. dial protocol e t w = (Inl err, w') \<Longrightarrow> \<not> isTooManyFDsError err"
  shows "\<exists>c st w'. tryConnect (shared_next NextEndpoint) dial service srcAddr protocol ((lb, others), w) = Inr (Inr c, st, w')"
proof -
  have draws: "dead_draws dead (length endpointDialTimeout + interfering k others) es < length endpointDialTimeout"
    using assms(5) by (simp add: endpointDialTimeout_def numeral_eq_Suc)
  from rrp.shared_tryConnect_loop [where dial = dial and protocol = protocol and dead = dead and others = others
      and ts = endpointDialTimeout and reset = False and w = w and srcAddr = srcAddr and service = service,
      OF lb_reachable_inv [OF assms(1)] assms(3) [unfolded assms(2)] assms(4) draws [unfolded assms(2)] assms(6,7)]
  show ?thesis by (simp add: tryConnect_def)
qed

text \<open>
  Another goroutine draws the working endpoint between the first two attempts: the dead one
  is dialed twice, and the third attempt connects.
\<close>

definition demo_call :: next_call where
  "demo_call = (svcPortName (sppn_NamespacedName demo_portal) (sppn_Port demo_portal), ''other'', False)"

lemma demo_dial_descriptors: "demo_dial protocol e t w = (Inl err, w') \<Longrightarrow> \<not> isTooManyFDsError err"
proof -
  assume "demo_dial protocol e t w = (Inl err, w')"
  then have "err = ''connection refused''" by (simp add: demo_dial_def split: if_splits)
  moreover have "\<not> isTooManyFDsError ''connection refused''" by code_simp
  ultimately show ?thesis by simp
qed

theorem tryConnect_succeeds_witness:
  "\<exists>c st w'. tryConnect (shared_next NextEndpoint) demo_dial demo_portal ''c'' ''tcp'' ((demo_lb, [[], [demo_call]]), 5) =
     Inr (Inr c, st, w')"
proof (rule tryConnect_succeeds [OF demo_reachable refl demo_view, of "\<lambda>e. e \<noteq> ''10.0.0.1:80''"])
  show "dead_draws (\<lambda>e. e \<noteq> ''10.0.0.1:80'')
      (4 + interfering (svcPortName (sppn_NamespacedName demo_portal) (sppn_Port demo_portal)) [[], [demo_call]])
      [''10.0.0.2:80'', ''10.0.0.1:80''] < 4"
    by code_simp
  show "\<exists>c w'. demo_dial ''tcp'' e t w = (Inr c, w')" if "\<not> e \<noteq> ''10.0.0.1:80''" for e t w
    using that by (simp add: demo_dial_def)
qed (simp_all add: demo_dial_descriptors)

text \<open>
  The bound is sharp: two endpoints, one of them dead, and one call of another goroutine between
  any two attempts. All four attempts draw the dead endpoint, and the client is refused although
  a backend works.
\<close>

lemma interference_can_fail:
  "dead_draws (\<lambda>e. e \<noteq> ''10.0.0.1:80'') (4 + 3) [''10.0.0.2:80'', ''10.0.0.1:80''] = 4 \<and>
   (case tryConnect (shared_next NextEndpoint) demo_dial demo_portal ''c'' ''tcp''
      ((demo_lb, [[], [demo_call], [demo_call], [demo_call]]), 0) of
      Inr (Inl FailedToConnect, st, w) \<Rightarrow> w = 4
    | _ \<Rightarrow> False)"
  by (rule conjI; code_simp)

end
