(* ===== verification/ProxyTypes.thy ===== *)
theory ProxyTypes
  imports Localnet ProxyUtil
begin

text \<open>
  \<^verbatim>\<open>pkg/proxy/types.go\<close> and \<^verbatim>\<open>pkg/proxy/endpoints.go\<close>: the names of service ports, the
  interface of an endpoint and its base implementation, and the interface between the
  caches and the constructor of endpoints that a proxier injects (\<open>makeEndpointFunc\<close>).
  \<open>parse_ip\<close> stands for \<open>netutils.ParseIPSloppy\<close>.
\<close>

section \<open>Names\<close>

record SvcPortName =
  psp_NamespacedName :: NamespacedName
  psp_Port :: string
  psp_Protocol :: Protocol

definition fmtPortName :: "string \<Rightarrow> string" where
  "fmtPortName inp = (if inp = [] then [] else CHR '':'' # inp)"

text \<open>\<open>NamespacedName.String()\<close> of k8s.io/apimachinery joins the two parts with a slash.\<close>

definition NamespacedName_String :: "NamespacedName \<Rightarrow> string" where
  "NamespacedName_String n = nn_Namespace n @ ''/'' @ nn_Name n"

definition SvcPortName_String :: "SvcPortName \<Rightarrow> string" where
  "SvcPortName_String spn = NamespacedName_String (psp_NamespacedName spn) @ fmtPortName (psp_Port spn)"

section \<open>Endpoints\<close>

record BaseEndpointInfo =
  be_Endpoint :: string
  be_IsLocal :: bool
  be_ZoneHints :: "string list"
  be_Ready :: bool
  be_Serving :: bool
  be_Terminating :: bool
  be_NodeName :: string
  be_Zone :: string

definition BaseEndpointInfo_String :: "BaseEndpointInfo \<Rightarrow> string" where
  "BaseEndpointInfo_String info = be_Endpoint info"

definition BaseEndpointInfo_IP :: "(string \<Rightarrow> IP) \<Rightarrow> BaseEndpointInfo \<Rightarrow> string" where
  "BaseEndpointInfo_IP parse_ip info = IPPart parse_ip (be_Endpoint info)"

definition BaseEndpointInfo_Port :: "BaseEndpointInfo \<Rightarrow> int \<times> port_error option" where
  "BaseEndpointInfo_Port info = PortPart (be_Endpoint info)"

text \<open>The other endpoint is given by what its String and GetIsLocal methods return.\<close>

definition BaseEndpointInfo_Equal :: "BaseEndpointInfo \<Rightarrow> string \<times> bool \<Rightarrow> bool" where
  "BaseEndpointInfo_Equal info other \<longleftrightarrow>
     BaseEndpointInfo_String info = fst other \<and> be_IsLocal info = snd other"

definition newBaseEndpointInfo ::
  "string \<Rightarrow> string \<Rightarrow> string \<Rightarrow> int \<Rightarrow> bool \<Rightarrow> bool \<Rightarrow> bool \<Rightarrow> bool \<Rightarrow> string list \<Rightarrow> BaseEndpointInfo" where
  "newBaseEndpointInfo ip nodeName zone port isLocal ready serving terminating zoneHints =
     \<lparr>be_Endpoint = JoinHostPort ip (Itoa port), be_IsLocal = isLocal, be_ZoneHints = zoneHints,
      be_Ready = ready, be_Serving = serving, be_Terminating = terminating,
      be_NodeName = nodeName, be_Zone = zone\<rparr>"

lemma newBaseEndpointInfo_simps [simp]:
  "be_Endpoint (newBaseEndpointInfo ip nodeName zone port isLocal ready serving terminating zh) = JoinHostPort ip (Itoa port)"
  "be_IsLocal (newBaseEndpointInfo ip nodeName zone port isLocal ready serving terminating zh) = isLocal"
  by (simp_all add: newBaseEndpointInfo_def)

section \<open>The interface of an endpoint\<close>

text \<open>
  The methods of the Go interface \<open>Endpoint\<close> that the caches call, and the injected
  constructor.
\<close>

record 'e endpoint_ops =
  eo_String :: "'e \<Rightarrow> string"
  eo_GetIsLocal :: "'e \<Rightarrow> bool"
  eo_make :: "BaseEndpointInfo \<Rightarrow> 'e"

text \<open>
  What the caches rely on: the constructed endpoint shows the endpoint string and the
  locality of the base endpoint, for the base endpoints that are \<open>good\<close> for the provider.
\<close>

locale endpoint_provider =
  fixes ops :: "'e endpoint_ops" and good :: "BaseEndpointInfo \<Rightarrow> bool"
  assumes make_String: "good b \<Longrightarrow> eo_String ops (eo_make ops b) = be_Endpoint b"
    and make_IsLocal: "good b \<Longrightarrow> eo_GetIsLocal ops (eo_make ops b) = be_IsLocal b"

text \<open>\<open>standardEndpointInfo\<close>, the default of the cache: the base endpoint itself.\<close>

definition standardEndpointInfo :: "BaseEndpointInfo \<Rightarrow> BaseEndpointInfo" where
  "standardEndpointInfo ep = ep"

definition standard_ops :: "BaseEndpointInfo endpoint_ops" where
  "standard_ops = \<lparr>eo_String = BaseEndpointInfo_String, eo_GetIsLocal = be_IsLocal, eo_make = standardEndpointInfo\<rparr>"

interpretation standard: endpoint_provider standard_ops "\<lambda>_. True"
  by unfold_locales (simp_all add: standard_ops_def BaseEndpointInfo_String_def standardEndpointInfo_def)

end
