(* ===== verification/UserNames.thy ===== *)
theory UserNames
  imports UserProxier ProxyTypes
begin

text \<open>
  The small methods of \<^verbatim>\<open>pkg/proxy/userspace/proxier.go\<close> and \<^verbatim>\<open>utils.go\<close>: the text of a portal
  name, which tells portal names apart, the alive flag of a service info, and the
  classification of timeouts.
\<close>

definition ServicePortPortalName_String :: "ServicePortPortalName \<Rightarrow> string" where
  "ServicePortPortalName_String spn =
     NamespacedName_String (sppn_NamespacedName spn) @ '':'' @ sppn_Port spn @ '':'' @ sppn_PortalIPName spn"

definition isAlive :: "nat \<Rightarrow> Proxier \<Rightarrow> bool" where
  "isAlive info px = si_isAlive (px_infos px ! info)"

lemma isAlive_setAlive:
  "i < length (px_infos px) \<Longrightarrow> isAlive j (setAlive b i px) = (if j = i then b else isAlive j px)"
  by (simp add: isAlive_def setAlive_def nth_list_update)

text \<open>
  An error of the network: its text, and what its \<open>Timeout()\<close> answers when it is a
  \<open>net.Error\<close>.
\<close>

record net_error =
  ne_text :: string
  ne_Timeout :: "bool option"

definition logTimeout :: "net_error \<Rightarrow> bool" where
  "logTimeout err = (case ne_Timeout err of None \<Rightarrow> False | Some timeout \<Rightarrow> timeout)"

text \<open>
  Namespaces, names and port names of Kubernetes have no slash and no colon; the address of a
  portal may have colons.
\<close>

definition portal_name_ok :: "ServicePortPortalName \<Rightarrow> bool" where
  "portal_name_ok spn \<longleftrightarrow>
     CHR ''/'' \<notin> set (nn_Namespace (sppn_NamespacedName spn)) \<and>
     CHR '':'' \<notin> set (nn_Name (sppn_NamespacedName spn)) \<and> CHR '':'' \<notin> set (sppn_Port spn)"

lemma split_at_first:
  assumes "xs @ c # ys = xs' @ c # ys'" and "c \<notin> set xs" and "c \<notin> set xs'"
  shows "xs = xs' \<and> ys = ys'"
  using assms
proof (induction xs arbitrary: xs')
  case Nil
  then show ?case by (cases xs') auto
next
  case (Cons x xs)
  then show ?case by (cases xs') auto
qed

lemma ServicePortPortalName_String_inj:
  assumes "ServicePortPortalName_String a = ServicePortPortalName_String b"
    and "portal_name_ok a" and "portal_name_ok b"
  shows "a = b"
proof -
  have "nn_Namespace (sppn_NamespacedName a) @ CHR ''/'' # nn_Name (sppn_NamespacedName a) @ CHR '':'' # sppn_Port a @ CHR '':'' # sppn_PortalIPName a =
      nn_Namespace (sppn_NamespacedName b) @ CHR ''/'' # nn_Name (sppn_NamespacedName b) @ CHR '':'' # sppn_Port b @ CHR '':'' # sppn_PortalIPName b"
    using assms(1) by (simp add: ServicePortPortalName_String_def NamespacedName_String_def)
  from split_at_first [OF this] assms(2,3)
  have ns: "nn_Namespace (sppn_NamespacedName a) = nn_Namespace (sppn_NamespacedName b)"
    and r1: "nn_Name (sppn_NamespacedName a) @ CHR '':'' # sppn_Port a @ CHR '':'' # sppn_PortalIPName a =
      nn_Name (sppn_NamespacedName b) @ CHR '':'' # sppn_Port b @ CHR '':'' # sppn_PortalIPName b"
    by (simp_all add: portal_name_ok_def)
  from split_at_first [OF r1] assms(2,3)
  have nm: "nn_Name (sppn_NamespacedName a) = nn_Name (sppn_NamespacedName b)"
    and r2: "sppn_Port a @ CHR '':'' # sppn_PortalIPName a = sppn_Port b @ CHR '':'' # sppn_PortalIPName b"
    by (simp_all add: portal_name_ok_def)
  from split_at_first [OF r2] assms(2,3) have "sppn_Port a = sppn_Port b" "sppn_PortalIPName a = sppn_PortalIPName b"
    by (simp_all add: portal_name_ok_def)
  with ns nm show ?thesis by (simp add: ServicePortPortalName.equality NamespacedName.equality)
qed

end
