(* ===== verification/ProxyTCP.thy ===== *)
theory ProxyTCP
  imports Prelude "HOL-Library.Sublist"
begin

text \<open>
  \<open>proxyTCP\<close> and \<open>copyBytes\<close> of \<^verbatim>\<open>pkg/proxy/userspace/utils.go\<close>: the goroutine that the
  accept loop starts for a client, and the two goroutines it starts to copy the bytes of each
  direction. Their interleaving is a step relation on the shared state: the wait group, the
  two connections and the bytes on the way. \<open>io.Copy\<close> is its loop of reads and writes; the
  peers of the two connections take the steps of the environment. A goroutine of
  \<open>copyBytes\<close> is known by its destination.
\<close>

section \<open>The shared state\<close>

datatype conn = InConn | OutConn

fun other :: "conn \<Rightarrow> conn" where
  "other InConn = OutConn"
| "other OutConn = InConn"

lemma other_other [simp]: "other (other d) = d"
  by (cases d) simp_all

lemma all_conn: "(\<forall>c. P c) \<longleftrightarrow> P InConn \<and> P OutConn"
  by (metis conn.exhaust)

datatype main_pc = MainAdd | MainGoFrom | MainGoTo | MainWait | MainReturned

datatype copy_pc = NotStarted | Copying | ClosingDest | ClosingSrc | CallingDone | Finished

text \<open>The places of a goroutine in the order in which it passes them.\<close>

fun copy_rank :: "copy_pc \<Rightarrow> nat" where
  "copy_rank NotStarted = 0" | "copy_rank Copying = 1" | "copy_rank ClosingDest = 2"
| "copy_rank ClosingSrc = 3" | "copy_rank CallingDone = 4" | "copy_rank Finished = 5"

lemma copy_rank_inj: "copy_rank p = copy_rank q \<Longrightarrow> p = q"
  by (cases p; cases q) simp_all

instantiation copy_pc :: linorder
begin

definition less_eq_copy_pc :: "copy_pc \<Rightarrow> copy_pc \<Rightarrow> bool" where
  "less_eq_copy_pc p q \<longleftrightarrow> copy_rank p \<le> copy_rank q"

definition less_copy_pc :: "copy_pc \<Rightarrow> copy_pc \<Rightarrow> bool" where
  "less_copy_pc p q \<longleftrightarrow> copy_rank p < copy_rank q"

instance
  by standard (auto simp: less_eq_copy_pc_def less_copy_pc_def dest: copy_rank_inj)

end

lemmas copy_order = less_eq_copy_pc_def less_copy_pc_def

text \<open>
  \<open>tp_buf d\<close> holds the bytes that the goroutine has read and not yet written, \<open>tp_incoming c\<close>
  those that have arrived at the connection and were not read. The histories \<open>tp_sent\<close> (what
  the peer of a connection sent) and \<open>tp_written\<close> (what was written to a connection) and
  the mark \<open>tp_clean\<close> of a copy that ended at the end of the stream are not part of the
  program. A connection ends in order (\<open>tp_eof\<close>) or it fails (\<open>tp_broken\<close>), and a peer that
  does not read (\<open>tp_takes\<close> is false) blocks a write.
\<close>

record tcp_proxy =
  tp_main :: main_pc
  tp_pc :: "conn \<Rightarrow> copy_pc"
  tp_wg :: int
  tp_closed :: "conn \<Rightarrow> bool"
  tp_buf :: "conn \<Rightarrow> string"
  tp_incoming :: "conn \<Rightarrow> string"
  tp_eof :: "conn \<Rightarrow> bool"
  tp_broken :: "conn \<Rightarrow> bool"
  tp_takes :: "conn \<Rightarrow> bool"
  tp_sent :: "conn \<Rightarrow> string"
  tp_written :: "conn \<Rightarrow> string"
  tp_clean :: "conn \<Rightarrow> bool"

definition proxyTCP_start :: tcp_proxy where
  "proxyTCP_start =
     \<lparr>tp_main = MainAdd, tp_pc = (\<lambda>_. NotStarted), tp_wg = 0, tp_closed = (\<lambda>_. False),
      tp_buf = (\<lambda>_. []), tp_incoming = (\<lambda>_. []), tp_eof = (\<lambda>_. False), tp_broken = (\<lambda>_. False),
      tp_takes = (\<lambda>_. True), tp_sent = (\<lambda>_. []), tp_written = (\<lambda>_. []), tp_clean = (\<lambda>_. False)\<rparr>"

section \<open>The steps\<close>

text \<open>The body of \<open>proxyTCP\<close>; \<open>Wait\<close> returns when the counter is zero.\<close>

inductive proxyTCP_step :: "tcp_proxy \<Rightarrow> tcp_proxy \<Rightarrow> bool" where
  wg_add: "tp_main s = MainAdd \<Longrightarrow>
     proxyTCP_step s (s\<lparr>tp_wg := tp_wg s + 2, tp_main := MainGoFrom\<rparr>)"
| go_from_backend: "tp_main s = MainGoFrom \<Longrightarrow>
     proxyTCP_step s (s\<lparr>tp_pc := (tp_pc s)(InConn := Copying), tp_main := MainGoTo\<rparr>)"
| go_to_backend: "tp_main s = MainGoTo \<Longrightarrow>
     proxyTCP_step s (s\<lparr>tp_pc := (tp_pc s)(OutConn := Copying), tp_main := MainWait\<rparr>)"
| wg_wait: "tp_main s = MainWait \<Longrightarrow> tp_wg s = 0 \<Longrightarrow>
     proxyTCP_step s (s\<lparr>tp_main := MainReturned\<rparr>)"

text \<open>
  The body of \<open>copyBytes\<close> with destination \<open>d\<close>: the turns of \<open>io.Copy\<close> and its three ways to
  end, the two calls of \<open>Close\<close>, whose errors are ignored, and the deferred \<open>Done\<close>.
\<close>

inductive copyBytes_step :: "conn \<Rightarrow> tcp_proxy \<Rightarrow> tcp_proxy \<Rightarrow> bool" for d where
  copy_read: "tp_pc s d = Copying \<Longrightarrow> tp_buf s d = [] \<Longrightarrow>
     \<not> tp_closed s (other d) \<Longrightarrow> tp_incoming s (other d) = bs @ rest \<Longrightarrow> bs \<noteq> [] \<Longrightarrow>
     copyBytes_step d s (s\<lparr>tp_buf := (tp_buf s)(d := bs), tp_incoming := (tp_incoming s)(other d := rest)\<rparr>)"
| copy_write: "tp_pc s d = Copying \<Longrightarrow> tp_buf s d = bs @ later \<Longrightarrow> bs \<noteq> [] \<Longrightarrow>
     \<not> tp_closed s d \<Longrightarrow> \<not> tp_broken s d \<Longrightarrow> tp_takes s d \<Longrightarrow>
     copyBytes_step d s (s\<lparr>tp_buf := (tp_buf s)(d := later), tp_written := (tp_written s)(d := tp_written s d @ bs)\<rparr>)"
| copy_write_fails: "tp_pc s d = Copying \<Longrightarrow> tp_buf s d \<noteq> [] \<Longrightarrow> tp_closed s d \<or> tp_broken s d \<Longrightarrow>
     copyBytes_step d s (s\<lparr>tp_pc := (tp_pc s)(d := ClosingDest)\<rparr>)"
| copy_read_fails: "tp_pc s d = Copying \<Longrightarrow> tp_buf s d = [] \<Longrightarrow> tp_closed s (other d) \<or> tp_broken s (other d) \<Longrightarrow>
     copyBytes_step d s (s\<lparr>tp_pc := (tp_pc s)(d := ClosingDest)\<rparr>)"
| copy_eof: "tp_pc s d = Copying \<Longrightarrow> tp_buf s d = [] \<Longrightarrow> \<not> tp_closed s (other d) \<Longrightarrow>
     tp_eof s (other d) \<Longrightarrow> tp_incoming s (other d) = [] \<Longrightarrow>
     copyBytes_step d s (s\<lparr>tp_pc := (tp_pc s)(d := ClosingDest), tp_clean := (tp_clean s)(d := True)\<rparr>)"
| dest_close: "tp_pc s d = ClosingDest \<Longrightarrow>
     copyBytes_step d s (s\<lparr>tp_closed := (tp_closed s)(d := True), tp_pc := (tp_pc s)(d := ClosingSrc)\<rparr>)"
| src_close: "tp_pc s d = ClosingSrc \<Longrightarrow>
     copyBytes_step d s (s\<lparr>tp_closed := (tp_closed s)(other d := True), tp_pc := (tp_pc s)(d := CallingDone)\<rparr>)"
| wg_done: "tp_pc s d = CallingDone \<Longrightarrow>
     copyBytes_step d s (s\<lparr>tp_wg := tp_wg s - 1, tp_pc := (tp_pc s)(d := Finished)\<rparr>)"

text \<open>The peers: bytes arrive, a stream ends, a connection fails, a peer starts or stops reading.\<close>

inductive peer_step :: "tcp_proxy \<Rightarrow> tcp_proxy \<Rightarrow> bool" where
  arrives: "\<not> tp_eof s c \<Longrightarrow>
     peer_step s (s\<lparr>tp_incoming := (tp_incoming s)(c := tp_incoming s c @ bs),
                    tp_sent := (tp_sent s)(c := tp_sent s c @ bs)\<rparr>)"
| ends: "peer_step s (s\<lparr>tp_eof := (tp_eof s)(c := True)\<rparr>)"
| fails: "peer_step s (s\<lparr>tp_broken := (tp_broken s)(c := True)\<rparr>)"
| takes: "peer_step s (s\<lparr>tp_takes := (tp_takes s)(c := b)\<rparr>)"

text \<open>A step of the program.\<close>

definition own_step :: "tcp_proxy \<Rightarrow> tcp_proxy \<Rightarrow> bool" where
  "own_step s t \<longleftrightarrow> proxyTCP_step s t \<or> copyBytes_step InConn s t \<or> copyBytes_step OutConn s t"

inductive proxy_reachable :: "tcp_proxy \<Rightarrow> bool" where
  start: "proxy_reachable proxyTCP_start"
| own: "proxy_reachable s \<Longrightarrow> own_step s t \<Longrightarrow> proxy_reachable t"
| peer: "proxy_reachable s \<Longrightarrow> peer_step s t \<Longrightarrow> proxy_reachable t"

section \<open>The invariant\<close>

definition unfinished :: "tcp_proxy \<Rightarrow> int" where
  "unfinished s = (if tp_pc s InConn = Finished then 0 else 1) + (if tp_pc s OutConn = Finished then 0 else 1)"

text \<open>Which goroutines the caller has started, and the counter of the wait group.\<close>

definition main_inv :: "tcp_proxy \<Rightarrow> bool" where
  "main_inv s \<longleftrightarrow> tp_wg s = (if tp_main s = MainAdd then 0 else unfinished s) \<and>
     (tp_pc s InConn = NotStarted \<longleftrightarrow> tp_main s \<in> {MainAdd, MainGoFrom}) \<and>
     (tp_pc s OutConn = NotStarted \<longleftrightarrow> tp_main s \<in> {MainAdd, MainGoFrom, MainGoTo}) \<and>
     (tp_main s = MainReturned \<longrightarrow> tp_pc s InConn = Finished \<and> tp_pc s OutConn = Finished)"

text \<open>One direction: what is closed, and where the bytes are.\<close>

definition copy_inv :: "tcp_proxy \<Rightarrow> conn \<Rightarrow> bool" where
  "copy_inv s d \<longleftrightarrow>
     (ClosingDest < tp_pc s d \<longrightarrow> tp_closed s d) \<and>
     (ClosingSrc < tp_pc s d \<longrightarrow> tp_closed s (other d)) \<and>
     (tp_closed s d \<longrightarrow> ClosingDest < tp_pc s d \<or> ClosingSrc < tp_pc s (other d)) \<and>
     tp_sent s (other d) = tp_written s d @ tp_buf s d @ tp_incoming s (other d) \<and>
     (tp_clean s d \<longrightarrow> tp_buf s d = [] \<and> tp_incoming s (other d) = [] \<and> tp_eof s (other d))"

definition proxy_inv :: "tcp_proxy \<Rightarrow> bool" where
  "proxy_inv s \<longleftrightarrow> main_inv s \<and> copy_inv s InConn \<and> copy_inv s OutConn"

lemma main_inv_proxyTCP_step: "proxyTCP_step s t \<Longrightarrow> main_inv s \<Longrightarrow> main_inv t"
  by (induction rule: proxyTCP_step.induct) (auto simp: main_inv_def unfinished_def split: if_splits)

lemma main_inv_copyBytes_step: "copyBytes_step d s t \<Longrightarrow> main_inv s \<Longrightarrow> main_inv t"
  by (induction rule: copyBytes_step.induct; cases d) (auto simp: main_inv_def unfinished_def split: if_splits)

lemma main_inv_peer_step: "peer_step s t \<Longrightarrow> main_inv s \<Longrightarrow> main_inv t"
  by (induction rule: peer_step.induct) (auto simp: main_inv_def unfinished_def)

lemma copy_inv_proxyTCP_step: "proxyTCP_step s t \<Longrightarrow> main_inv s \<Longrightarrow> copy_inv s d \<Longrightarrow> copy_inv t d"
  by (induction rule: proxyTCP_step.induct; cases d) (auto simp: main_inv_def copy_inv_def copy_order)

lemma copy_inv_copyBytes_step:
  "copyBytes_step d s t \<Longrightarrow> copy_inv s InConn \<and> copy_inv s OutConn \<Longrightarrow> copy_inv t InConn \<and> copy_inv t OutConn"
  by (induction rule: copyBytes_step.induct; cases d) (auto simp: copy_inv_def copy_order)

lemma copy_inv_peer_step: "peer_step s t \<Longrightarrow> copy_inv s d \<Longrightarrow> copy_inv t d"
  by (induction rule: peer_step.induct; cases d) (auto simp: copy_inv_def)

lemma proxy_inv_own_step: "own_step s t \<Longrightarrow> proxy_inv s \<Longrightarrow> proxy_inv t"
  unfolding own_step_def proxy_inv_def
  by (meson copy_inv_copyBytes_step copy_inv_proxyTCP_step main_inv_copyBytes_step main_inv_proxyTCP_step)

lemma proxy_reachable_inv: "proxy_reachable s \<Longrightarrow> proxy_inv s"
proof (induction rule: proxy_reachable.induct)
  case start
  show ?case by (simp add: proxy_inv_def proxyTCP_start_def main_inv_def copy_inv_def copy_order)
next
  case (own s t)
  then show ?case by (blast intro: proxy_inv_own_step)
next
  case (peer s t)
  then show ?case
    unfolding proxy_inv_def by (meson copy_inv_peer_step main_inv_peer_step)
qed

text \<open>No step takes a goroutine back.\<close>

lemma own_step_advances:
  assumes "own_step s t" and "proxy_inv s"
  shows "tp_pc s d \<le> tp_pc t d"
proof -
  have "copyBytes_step e s t \<Longrightarrow> tp_pc s d \<le> tp_pc t d" for e
    by (induction rule: copyBytes_step.induct) (auto simp: copy_order)
  moreover have "proxyTCP_step s t \<Longrightarrow> main_inv s \<Longrightarrow> tp_pc s d \<le> tp_pc t d"
    by (induction rule: proxyTCP_step.induct) (auto simp: main_inv_def copy_order)
  ultimately show ?thesis using assms by (auto simp: own_step_def proxy_inv_def)
qed

text \<open>
  C21. The TCP copier, in every state that its interleavings with the two peers can reach: the
  wait group counts the goroutines that have not finished and never goes negative (which
  would panic), so that \<open>proxyTCP\<close> returns only when both have finished, with both connections
  closed. What was written to a connection is a prefix of what the peer of the other one
  sent, whatever failed, and all of it when the copy ended at the end of the stream.
\<close>

theorem proxyTCP_safe:
  assumes "proxy_reachable s"
  shows "0 \<le> tp_wg s \<and> (tp_main s \<noteq> MainAdd \<longrightarrow> tp_wg s = unfinished s) \<and>
    (tp_main s = MainReturned \<longrightarrow> (\<forall>c. tp_pc s c = Finished \<and> tp_closed s c)) \<and>
    (\<forall>d. prefix (tp_written s d) (tp_sent s (other d))) \<and>
    (\<forall>d. tp_clean s d \<longrightarrow> tp_written s d = tp_sent s (other d))"
  using proxy_reachable_inv [OF assms]
  by (auto simp: proxy_inv_def main_inv_def copy_inv_def unfinished_def all_conn copy_order)

section \<open>Returning\<close>

fun main_cost :: "main_pc \<Rightarrow> nat" where
  "main_cost MainAdd = 4" | "main_cost MainGoFrom = 3" | "main_cost MainGoTo = 2"
| "main_cost MainWait = 1" | "main_cost MainReturned = 0"

fun copy_cost :: "copy_pc \<Rightarrow> nat" where
  "copy_cost NotStarted = 4" | "copy_cost Copying = 4" | "copy_cost ClosingDest = 3"
| "copy_cost ClosingSrc = 2" | "copy_cost CallingDone = 1" | "copy_cost Finished = 0"

text \<open>The steps left: a byte that has arrived is read and then written.\<close>

definition proxy_cost :: "tcp_proxy \<Rightarrow> nat" where
  "proxy_cost s = main_cost (tp_main s) + copy_cost (tp_pc s InConn) + copy_cost (tp_pc s OutConn) +
     2 * length (tp_incoming s InConn) + 2 * length (tp_incoming s OutConn) +
     length (tp_buf s InConn) + length (tp_buf s OutConn)"

text \<open>
  A goroutine that waits for its peers: in \<open>Read\<close> on a connection that is open and silent, or
  in \<open>Write\<close> to a peer that does not read.
\<close>

definition starved :: "tcp_proxy \<Rightarrow> conn \<Rightarrow> bool" where
  "starved s d \<longleftrightarrow> tp_pc s d = Copying \<and>
     (if tp_buf s d = []
      then \<not> tp_closed s (other d) \<and> tp_incoming s (other d) = [] \<and> \<not> tp_eof s (other d) \<and> \<not> tp_broken s (other d)
      else \<not> tp_closed s d \<and> \<not> tp_takes s d \<and> \<not> tp_broken s d)"

lemma own_step_cost:
  assumes "own_step s t" and "proxy_inv s"
  shows "proxy_cost t < proxy_cost s"
proof -
  have "copyBytes_step d s t \<Longrightarrow> proxy_cost t < proxy_cost s" for d
    by (induction rule: copyBytes_step.induct; cases d) (auto simp: proxy_cost_def)
  moreover have "proxyTCP_step s t \<Longrightarrow> proxy_inv s \<Longrightarrow> proxy_cost t < proxy_cost s"
    by (induction rule: proxyTCP_step.induct) (auto simp: proxy_cost_def proxy_inv_def main_inv_def)
  ultimately show ?thesis using assms by (auto simp: own_step_def)
qed

lemma copyBytes_enabled:
  assumes "tp_pc s d \<notin> {NotStarted, Finished}" and "\<not> starved s d"
  shows "\<exists>t. copyBytes_step d s t"
proof (cases "tp_pc s d = Copying")
  case True
  show ?thesis
  proof (cases "tp_buf s d")
    case Nil
    consider "tp_closed s (other d) \<or> tp_broken s (other d)"
      | "\<not> tp_closed s (other d)" "tp_incoming s (other d) = []" "tp_eof s (other d)"
      | b bs where "\<not> tp_closed s (other d)" "tp_incoming s (other d) = b # bs"
      using assms(2) True Nil by (cases "tp_incoming s (other d)") (auto simp: starved_def)
    then show ?thesis
    proof cases
      case 1 with True Nil show ?thesis by (blast intro: copy_read_fails)
    next
      case 2 with True Nil show ?thesis by (blast intro: copy_eof)
    next
      case 3 with copy_read [of s d "b # bs" "[]"] True Nil show ?thesis by auto
    qed
  next
    case (Cons b bs)
    with copy_write_fails [of s d] copy_write [of s d "b # bs" "[]"] True assms(2) show ?thesis
      by (auto simp: starved_def)
  qed
next
  case False
  with assms(1) consider "tp_pc s d = ClosingDest" | "tp_pc s d = ClosingSrc" | "tp_pc s d = CallingDone"
    by (cases "tp_pc s d") auto
  then show ?thesis by cases (meson dest_close src_close wg_done)+
qed

lemma proxyTCP_enabled:
  assumes "proxy_inv s" and "tp_main s \<noteq> MainReturned" and "\<not> (starved s InConn \<and> starved s OutConn)"
  shows "\<exists>t. own_step s t"
proof (cases "\<exists>t. proxyTCP_step s t")
  case True
  then show ?thesis by (auto simp: own_step_def)
next
  case False
  then have main: "tp_main s = MainWait" and wg: "tp_wg s \<noteq> 0"
    using assms(2) by (cases "tp_main s"; blast intro: proxyTCP_step.intros)+
  have started: "tp_pc s d \<noteq> NotStarted" for d
    using assms(1) main by (cases d) (auto simp: proxy_inv_def main_inv_def)
  have running: "\<exists>d. tp_pc s d \<noteq> Finished"
    using assms(1) main wg by (auto simp: proxy_inv_def main_inv_def unfinished_def split: if_splits)
  have "\<exists>d. tp_pc s d \<noteq> Finished \<and> \<not> starved s d"
  proof (rule ccontr)
    assume none: "\<nexists>d. tp_pc s d \<noteq> Finished \<and> \<not> starved s d"
    from running obtain d where d: "starved s d" using none by blast
    then have "\<not> (tp_closed s d \<and> tp_closed s (other d))" by (auto simp: starved_def split: if_splits)
    then have "tp_pc s (other d) \<noteq> Finished"
      using assms(1) by (cases d) (auto simp: proxy_inv_def copy_inv_def copy_order)
    with none have "starved s (other d)" by blast
    with d assms(3) show False by (cases d) auto
  qed
  then obtain d where "\<exists>t. copyBytes_step d s t" using started copyBytes_enabled by fastforce
  then show ?thesis by (cases d) (auto simp: own_step_def)
qed

text \<open>The program does not touch the ends of the streams.\<close>

lemma own_step_ends:
  "own_step s t \<Longrightarrow> tp_eof t = tp_eof s \<and> tp_broken t = tp_broken s \<and> tp_takes t = tp_takes s"
  by (auto simp: own_step_def elim!: proxyTCP_step.cases copyBytes_step.cases)

lemma own_run:
  assumes "proxy_inv s"
  shows "\<exists>t. own_step\<^sup>*\<^sup>* s t \<and> proxy_inv t \<and> (tp_main t = MainReturned \<or> (starved t InConn \<and> starved t OutConn))"
  using assms
proof (induction "proxy_cost s" arbitrary: s rule: less_induct)
  case less
  show ?case
  proof (cases "tp_main s = MainReturned \<or> (starved s InConn \<and> starved s OutConn)")
    case True
    with less.prems show ?thesis by blast
  next
    case False
    with proxyTCP_enabled [OF less.prems] obtain u where u: "own_step s u" by blast
    with less.hyps [of u] own_step_cost [OF u less.prems] proxy_inv_own_step [OF u less.prems] show ?thesis
      by (meson converse_rtranclp_into_rtranclp)
  qed
qed

lemma own_run_ends: "own_step\<^sup>*\<^sup>* s t \<Longrightarrow> tp_eof t = tp_eof s \<and> tp_broken t = tp_broken s \<and> tp_takes t = tp_takes s"
  by (induction rule: rtranclp_induct) (auto dest: own_step_ends)

text \<open>One direction that comes to its end: its source ended or failed, and its destination reads.\<close>

definition direction_ends :: "tcp_proxy \<Rightarrow> conn \<Rightarrow> bool" where
  "direction_ends s d \<longleftrightarrow> (tp_eof s (other d) \<or> tp_broken s (other d)) \<and> (tp_takes s d \<or> tp_broken s d)"

lemma own_run_returns:
  assumes "proxy_inv s" and "direction_ends s d"
  shows "\<exists>t. own_step\<^sup>*\<^sup>* s t \<and> tp_main t = MainReturned"
proof -
  obtain t where t: "own_step\<^sup>*\<^sup>* s t" "tp_main t = MainReturned \<or> (starved t InConn \<and> starved t OutConn)"
    using own_run [OF assms(1)] by blast
  from own_run_ends [OF t(1)] assms(2) have "\<not> starved t d" by (auto simp: direction_ends_def starved_def)
  with t show ?thesis by (cases d) auto
qed

text \<open>
  C22. \<open>proxyTCP\<close> is never stuck by itself: every step it takes decreases \<open>proxy_cost\<close> (at
  most twelve steps of control and two for each byte on the way), and it has a step until it
  returns or until both goroutines wait for their peers, in a read of a silent connection
  or in a write to a peer that does not read. When one direction comes to its end, it
  runs to its return without any further step of a peer.
\<close>

theorem proxyTCP_returns:
  assumes "proxy_reachable s"
  shows "(\<forall>t. own_step s t \<longrightarrow> proxy_cost t < proxy_cost s) \<and>
    (tp_main s \<noteq> MainReturned \<and> \<not> (starved s InConn \<and> starved s OutConn) \<longrightarrow> (\<exists>t. own_step s t)) \<and>
    (direction_ends s d \<longrightarrow> (\<exists>t. own_step\<^sup>*\<^sup>* s t \<and> tp_main t = MainReturned))"
proof (intro conjI impI allI)
  have inv: "proxy_inv s" using assms by (rule proxy_reachable_inv)
  show "proxy_cost t < proxy_cost s" if "own_step s t" for t using own_step_cost [OF that inv] .
  show "\<exists>t. own_step s t" if "tp_main s \<noteq> MainReturned \<and> \<not> (starved s InConn \<and> starved s OutConn)"
    using proxyTCP_enabled [OF inv] that by blast
  show "\<exists>t. own_step\<^sup>*\<^sup>* s t \<and> tp_main t = MainReturned" if "direction_ends s d"
    using own_run_returns [OF inv that] .
qed

text \<open>A client that sent a request and ended its stream.\<close>

definition demo_client :: tcp_proxy where
  "demo_client = proxyTCP_start\<lparr>tp_incoming := (tp_incoming proxyTCP_start)(InConn := ''GET''),
     tp_sent := (tp_sent proxyTCP_start)(InConn := ''GET''),
     tp_eof := (tp_eof proxyTCP_start)(InConn := True)\<rparr>"

lemma demo_client_reachable: "proxy_reachable demo_client"
proof -
  have "peer_step proxyTCP_start (proxyTCP_start\<lparr>
      tp_incoming := (tp_incoming proxyTCP_start)(InConn := tp_incoming proxyTCP_start InConn @ ''GET''),
      tp_sent := (tp_sent proxyTCP_start)(InConn := tp_sent proxyTCP_start InConn @ ''GET'')\<rparr>)"
    by (rule arrives) (simp add: proxyTCP_start_def)
  from peer [OF peer [OF start this] ends [where c = InConn]] show ?thesis
    by (simp add: demo_client_def proxyTCP_start_def)
qed

lemma demo_client_ends: "direction_ends demo_client OutConn"
  by (simp add: direction_ends_def demo_client_def proxyTCP_start_def)

theorem proxyTCP_returns_witness:
  "\<exists>t. own_step\<^sup>*\<^sup>* demo_client t \<and> tp_main t = MainReturned"
  using proxyTCP_returns [OF demo_client_reachable, of OutConn] demo_client_ends by blast

lemma own_run_reachable: "own_step\<^sup>*\<^sup>* s t \<Longrightarrow> proxy_reachable s \<Longrightarrow> proxy_reachable t"
  by (induction rule: rtranclp_induct) (blast intro: own)+

theorem proxyTCP_safe_witness:
  "\<exists>t. own_step\<^sup>*\<^sup>* demo_client t \<and> tp_closed t InConn \<and> tp_closed t OutConn \<and> tp_wg t = 0"
proof -
  obtain t where t: "own_step\<^sup>*\<^sup>* demo_client t" and m: "tp_main t = MainReturned"
    using own_run_returns [OF proxy_reachable_inv [OF demo_client_reachable] demo_client_ends] by blast
  from proxyTCP_safe [OF own_run_reachable [OF t demo_client_reachable]] m
  have "tp_closed t InConn" "tp_closed t OutConn" "tp_wg t = 0" by (simp_all add: unfinished_def)
  with t show ?thesis by blast
qed

end
