(* ===== verification/CmdLine.thy ===== *)
theory CmdLine
  imports UserSink
begin

text \<open>
  \<^verbatim>\<open>main.go\<close> and \<^verbatim>\<open>cmd/*.go\<close>: the command line. The libraries are parameters: \<open>cobra\<close>, which
  parses the flags and runs the chosen command, the job \<open>api2local\<close> of KPNG, which feeds a
  sink, and the wrappers \<open>filterreset\<close> and \<open>decoder\<close> around a backend. Every call acts on
  the world \<open>'w\<close>, may panic, and may not return; an error is its text.
\<close>

section \<open>The commands\<close>

type_synonym 'w action = "'w \<Rightarrow> (string option \<times> 'w) go option"

record 'w Command =
  cm_Use :: string
  cm_Short :: string
  cm_RunE :: "'w action"

datatype any_backend = Winkernel | Userspace Backend

record ('sink, 'job, 'w) cli_env =
  ce_wrap :: "any_backend \<Rightarrow> 'sink"
  ce_New :: "'sink \<Rightarrow> 'w \<Rightarrow> 'job \<times> 'w"
  ce_BindFlags :: "'job \<Rightarrow> 'w \<Rightarrow> 'job \<times> 'w"
  ce_set_Server :: "string \<Rightarrow> 'job \<Rightarrow> 'job"
  ce_Run :: "'job \<Rightarrow> 'w action"
  ce_server :: "'w \<Rightarrow> string"
  ce_StringVar :: "string \<Rightarrow> string \<Rightarrow> 'w \<Rightarrow> 'w"
  ce_cobra :: "'w Command list \<Rightarrow> 'w action"

text \<open>The backend of the first command is made with the command, that of the second when it runs.\<close>

definition WinkernelCommand :: "('sink, 'job, 'w) cli_env \<Rightarrow> ('sink \<Rightarrow> 'w action) \<Rightarrow> 'w Command" where
  "WinkernelCommand env run =
     (let backend = Winkernel
      in \<lparr>cm_Use = ''winkernel'', cm_Short = ''Windows Kernel Mode'', cm_RunE = run (ce_wrap env backend)\<rparr>)"

definition UserspaceCommand :: "('sink, 'job, 'w) cli_env \<Rightarrow> ('sink \<Rightarrow> 'w action) \<Rightarrow> 'w Command" where
  "UserspaceCommand env run =
     \<lparr>cm_Use = ''userspace'', cm_Short = ''WARNING - WIP - Windows Userspace Mode'',
      cm_RunE = (\<lambda>w. let backend = NewBackend in run (ce_wrap env (Userspace backend)) w)\<rparr>"

definition LocalCmds :: "('sink, 'job, 'w) cli_env \<Rightarrow> ('sink \<Rightarrow> 'w action) \<Rightarrow> 'w Command list" where
  "LocalCmds env run = [WinkernelCommand env run, UserspaceCommand env run]"

text \<open>\<open>init\<close> of the package: the flag \<open>server\<close> and its default.\<close>

definition init_flags :: "('sink, 'job, 'w) cli_env \<Rightarrow> 'w \<Rightarrow> 'w" where
  "init_flags env w = ce_StringVar env ''server'' ''127.0.0.1:12090'' w"

text \<open>
  The function that \<open>Execute\<close> gives to the commands. Its named result \<open>err\<close> is never
  assigned.
\<close>

definition run_job :: "('sink, 'job, 'w) cli_env \<Rightarrow> 'sink \<Rightarrow> 'w action" where
  "run_job env sink w =
     (let (job, w) = ce_New env sink w;
          (job, w) = ce_BindFlags env job w;
          job = ce_set_Server env (ce_server env w) job
      in ogo_bind (ce_Run env job w) (\<lambda>(_, w). Some (Inr (None, w))))"

definition Execute :: "('sink, 'job, 'w) cli_env \<Rightarrow> 'w action" where
  "Execute env w = ce_cobra env (LocalCmds env (run_job env)) w"

definition main :: "('sink, 'job, 'w) cli_env \<Rightarrow> 'w \<Rightarrow> 'w go option" where
  "main env w = ogo_bind (Execute env w) (\<lambda>(_, w). Some (Inr w))"

section \<open>What the commands report\<close>

text \<open>
  What \<open>cobra\<close> documents: the command that the arguments name is run, and its error is
  returned.
\<close>

definition cobra_dispatches :: "('sink, 'job, 'w) cli_env \<Rightarrow> ('w \<Rightarrow> string) \<Rightarrow> bool" where
  "cobra_dispatches env named \<longleftrightarrow>
     (\<forall>cmds c w. distinct (map cm_Use cmds) \<longrightarrow> c \<in> set cmds \<longrightarrow> cm_Use c = named w \<longrightarrow> ce_cobra env cmds w = cm_RunE c w)"

lemma LocalCmds_names: "map cm_Use (LocalCmds env run) = [''winkernel'', ''userspace'']"
  by (simp add: LocalCmds_def WinkernelCommand_def UserspaceCommand_def)

lemma run_job_no_error: "run_job env sink w = Some (Inr (err, w')) \<Longrightarrow> err = None"
  by (auto simp: run_job_def Let_def ogo_bind_eq_Inr split: prod.splits)

text \<open>
  Each command feeds the sink of its own backend, with the server that the flag names; and
  whatever error the job ends with, the command reports none.
\<close>

theorem Execute_hides_errors:
  assumes "cobra_dispatches env named" and "named w \<in> {''winkernel'', ''userspace''}"
  shows "Execute env w = run_job env (ce_wrap env (if named w = ''winkernel'' then Winkernel else Userspace NewBackend)) w"
    and "Execute env w = Some (Inr (err, w')) \<Longrightarrow> err = None"
proof -
  let ?cmds = "LocalCmds env (run_job env)"
  let ?c = "if named w = ''winkernel'' then WinkernelCommand env (run_job env) else UserspaceCommand env (run_job env)"
  have "distinct (map cm_Use ?cmds)" by (simp add: LocalCmds_names)
  moreover have "?c \<in> set ?cmds" "cm_Use ?c = named w"
    using assms(2) by (auto simp: LocalCmds_def WinkernelCommand_def UserspaceCommand_def)
  ultimately have "Execute env w = cm_RunE ?c w"
    using assms(1) unfolding cobra_dispatches_def Execute_def by blast
  then show e: "Execute env w = run_job env (ce_wrap env (if named w = ''winkernel'' then Winkernel else Userspace NewBackend)) w"
    by (simp add: WinkernelCommand_def UserspaceCommand_def Let_def)
  show "err = None" if "Execute env w = Some (Inr (err, w'))"
    using that unfolding e by (rule run_job_no_error)
qed

text \<open>A job that fails at once, chosen by the first argument.\<close>

definition demo_cli :: "(any_backend, string, string) cli_env" where
  "demo_cli = \<lparr>ce_wrap = (\<lambda>b. b), ce_New = (\<lambda>b w. ([], w)), ce_BindFlags = (\<lambda>j w. (j, w)), ce_set_Server = (\<lambda>s j. s),
     ce_Run = (\<lambda>j w. Some (Inr (Some ''connection refused'', w))), ce_server = (\<lambda>w. ''127.0.0.1:12090''),
     ce_StringVar = (\<lambda>n d w. w),
     ce_cobra = (\<lambda>cmds w. case List.find (\<lambda>c. cm_Use c = w) cmds of
        None \<Rightarrow> Some (Inr (Some ''unknown command'', w)) | Some c \<Rightarrow> cm_RunE c w)\<rparr>"

lemma demo_cli_dispatches: "cobra_dispatches demo_cli (\<lambda>w. w)"
proof -
  have "distinct (map cm_Use cmds) \<Longrightarrow> c \<in> set cmds \<Longrightarrow> cm_Use c = w \<Longrightarrow> List.find (\<lambda>c. cm_Use c = w) cmds = Some c"
    for cmds :: "string Command list" and c w
    by (induction cmds) auto
  then show ?thesis by (simp add: cobra_dispatches_def demo_cli_def)
qed

theorem Execute_hides_errors_witness:
  "Execute demo_cli ''userspace'' = Some (Inr (None, ''userspace''))"
  using Execute_hides_errors(1) [OF demo_cli_dispatches, of "''userspace''"]
  by (simp add: run_job_def demo_cli_def)

end
