(* ===== verification/SliceCache.thy ===== *)
theory SliceCache
  imports ProxyTypes
begin

text \<open>
  \<^verbatim>\<open>pkg/proxy/endpointslicecache.go\<close>: the cache of endpoint slices, with the slices that a
  proxier has applied and those that are pending, per service and slice name. The pointers
  to trackers and slice infos live in the maps only. \<open>reflect.DeepEqual\<close> is equality of the
  structures (a nil and an empty address list are the same list here). \<open>sort.Sort\<close> leaves
  the order of equal elements open: the sorted lists of ports and of endpoints are the
  parameters \<open>sort_ports\<close> and \<open>sort_endpoints\<close>; the endpoints of a service port have
  different strings, so that their sorted list is unique. Every method that changes the
  cache holds its lock.
\<close>

section \<open>Slices of the API and of the cache\<close>

record EndpointPort =
  dp_Name :: "string option"
  dp_Protocol :: "string option"
  dp_Port :: "int32 option"
  dp_AppProtocol :: "string option"

record SliceEndpoint =
  de_Addresses :: "string list"
  de_Ready :: "bool option"
  de_Serving :: "bool option"
  de_Terminating :: "bool option"
  de_NodeName :: "string option"
  de_Zone :: "string option"

record EndpointSlice =
  es_Namespace :: string
  es_Name :: string
  es_Labels :: "(string, string) gomap"
  es_Ports :: "EndpointPort list"
  es_Endpoints :: "SliceEndpoint list"

record endpointInfo =
  ei_Addresses :: "string list"
  ei_NodeName :: "string option"
  ei_Zone :: "string option"
  ei_ZoneHints :: "string list"
  ei_Ready :: bool
  ei_Serving :: bool
  ei_Terminating :: bool

record endpointSliceInfo =
  esi_Ports :: "EndpointPort list"
  esi_Endpoints :: "endpointInfo list"
  esi_Remove :: bool

type_synonym endpointSliceInfoByName = "(string, endpointSliceInfo) gomap"

record endpointSliceTracker =
  et_applied :: endpointSliceInfoByName
  et_pending :: endpointSliceInfoByName

record EndpointSliceCache =
  esc_trackerByServiceMap :: "(NamespacedName, endpointSliceTracker) gomap"
  esc_hostname :: string
  esc_ipFamily :: IPFamily

text \<open>
  The parameters: the two sorts, \<open>utilnet.IsIPv6String\<close>, and the injected endpoints.
\<close>

record 'e slice_env =
  sv_sort_ports :: "EndpointPort list \<Rightarrow> EndpointPort list"
  sv_sort_endpoints :: "endpointInfo list \<Rightarrow> endpointInfo list"
  sv_is_ipv6 :: "string \<Rightarrow> bool"
  sv_ops :: "'e endpoint_ops"

definition NewEndpointSliceCache :: "string \<Rightarrow> IPFamily \<Rightarrow> EndpointSliceCache" where
  "NewEndpointSliceCache hostname ipFamily =
     \<lparr>esc_trackerByServiceMap = [], esc_hostname = hostname, esc_ipFamily = ipFamily\<rparr>"

definition newEndpointSliceTracker :: endpointSliceTracker where
  "newEndpointSliceTracker = \<lparr>et_applied = [], et_pending = []\<rparr>"

definition slice_endpoint :: "SliceEndpoint \<Rightarrow> endpointInfo" where
  "slice_endpoint endpoint =
     \<lparr>ei_Addresses = de_Addresses endpoint, ei_NodeName = de_NodeName endpoint, ei_Zone = de_Zone endpoint,
      ei_ZoneHints = [],
      ei_Ready = (de_Ready endpoint = None \<or> de_Ready endpoint = Some True),
      ei_Serving = (de_Serving endpoint = None \<or> de_Serving endpoint = Some True),
      ei_Terminating = (de_Terminating endpoint = Some True)\<rparr>"

text \<open>
  \<open>byPort.Less\<close> dereferences the port numbers: sorting two or more ports compares each of
  them, so a nil port number panics.
\<close>

definition newEndpointSliceInfo :: "'e slice_env \<Rightarrow> EndpointSlice \<Rightarrow> bool \<Rightarrow> endpointSliceInfo go" where
  "newEndpointSliceInfo env endpointSlice remove =
     (if 2 \<le> length (es_Ports endpointSlice) \<and> (\<exists>p \<in> set (es_Ports endpointSlice). dp_Port p = None)
      then Inl NilDereference
      else Inr \<lparr>esi_Ports = sv_sort_ports env (es_Ports endpointSlice),
                esi_Endpoints = (if remove then []
                  else sv_sort_endpoints env (map slice_endpoint (es_Endpoints endpointSlice))),
                esi_Remove = remove\<rparr>)"

section \<open>Keys and changes\<close>

datatype slice_error = NoServiceLabel | MissingNames

definition LabelServiceName :: string where
  "LabelServiceName = ''kubernetes.io/service-name''"

definition endpointSliceCacheKeys :: "EndpointSlice \<Rightarrow> NamespacedName \<times> string \<times> slice_error option" where
  "endpointSliceCacheKeys endpointSlice =
     (let label = map_of (es_Labels endpointSlice) LabelServiceName;
          serviceName = (case label of None \<Rightarrow> [] | Some s \<Rightarrow> s);
          err = (if label = None \<or> serviceName = [] then Some NoServiceLabel
                 else if es_Namespace endpointSlice = [] \<or> es_Name endpointSlice = [] then Some MissingNames
                 else None)
      in (\<lparr>nn_Namespace = es_Namespace endpointSlice, nn_Name = serviceName\<rparr>, es_Name endpointSlice, err))"

definition esInfoChanged :: "EndpointSliceCache \<Rightarrow> NamespacedName \<Rightarrow> string \<Rightarrow> endpointSliceInfo \<Rightarrow> bool" where
  "esInfoChanged cache serviceKey sliceKey esInfo =
     (let known = (case map_of (esc_trackerByServiceMap cache) serviceKey of
             None \<Rightarrow> None
           | Some tracker \<Rightarrow>
               (case map_of (et_pending tracker) sliceKey of
                  Some pendingInfo \<Rightarrow> Some pendingInfo
                | None \<Rightarrow> map_of (et_applied tracker) sliceKey))
      in case known of
           Some info \<Rightarrow> esInfo \<noteq> info
         | None \<Rightarrow> if esi_Remove esInfo then False else True)"

definition updatePending ::
  "'e slice_env \<Rightarrow> EndpointSlice \<Rightarrow> bool \<Rightarrow> EndpointSliceCache \<Rightarrow> (bool \<times> EndpointSliceCache) go" where
  "updatePending env endpointSlice remove cache =
     (case endpointSliceCacheKeys endpointSlice of
        (_, _, Some err) \<Rightarrow> Inr (False, cache)
      | (serviceKey, sliceKey, None) \<Rightarrow>
          go_bind (newEndpointSliceInfo env endpointSlice remove) (\<lambda>esInfo.
            let m = esc_trackerByServiceMap cache;
                m = (if map_of m serviceKey = None then AList.update serviceKey newEndpointSliceTracker m else m);
                cache = cache\<lparr>esc_trackerByServiceMap := m\<rparr>;
                changed = esInfoChanged cache serviceKey sliceKey esInfo
            in case map_of m serviceKey of
                 None \<Rightarrow> Inl NilDereference
               | Some tracker \<Rightarrow>
                   Inr (changed,
                     if changed
                     then cache\<lparr>esc_trackerByServiceMap := AList.update serviceKey
                            (tracker\<lparr>et_pending := AList.update sliceKey esInfo (et_pending tracker)\<rparr>) m\<rparr>
                     else cache)))"

section \<open>Endpoints of a set of slices\<close>

definition isLocal :: "EndpointSliceCache \<Rightarrow> string \<Rightarrow> bool" where
  "isLocal cache hostname \<longleftrightarrow> 0 < length (esc_hostname cache) \<and> hostname = esc_hostname cache"

text \<open>The body of the loop of addEndpoints; a key is in the set when its lookup succeeds.\<close>

definition add_endpoint ::
  "'e slice_env \<Rightarrow> EndpointSliceCache \<Rightarrow> int \<Rightarrow> endpointInfo \<Rightarrow> (string, 'e) gomap \<Rightarrow> (string, 'e) gomap" where
  "add_endpoint env cache portNum endpoint endpointSet =
     (case ei_Addresses endpoint of
        [] \<Rightarrow> endpointSet
      | address # _ \<Rightarrow>
          if (esc_ipFamily cache = IPv6Protocol) \<noteq> sv_is_ipv6 env address then endpointSet
          else
            let (isLocal, nodeName) = (case ei_NodeName endpoint of
                    None \<Rightarrow> (False, []) | Some n \<Rightarrow> (isLocal cache n, n));
                zone = (case ei_Zone endpoint of None \<Rightarrow> [] | Some z \<Rightarrow> z);
                info = newBaseEndpointInfo address nodeName zone portNum isLocal
                  (ei_Ready endpoint) (ei_Serving endpoint) (ei_Terminating endpoint) (ei_ZoneHints endpoint)
            in if map_of endpointSet (BaseEndpointInfo_String info) = None \<or> isLocal
               then AList.update (BaseEndpointInfo_String info) (eo_make (sv_ops env) info) endpointSet
               else endpointSet)"

definition addEndpoints ::
  "'e slice_env \<Rightarrow> EndpointSliceCache \<Rightarrow> int \<Rightarrow> endpointInfo list \<Rightarrow> (string, 'e) gomap \<Rightarrow> (string, 'e) gomap" where
  "addEndpoints env cache portNum endpoints endpointSet =
     fold (add_endpoint env cache portNum) endpoints endpointSet"

type_synonym 'e spToEndpointMap = "(SvcPortName, (string, 'e) gomap) gomap"

definition add_port ::
  "'e slice_env \<Rightarrow> EndpointSliceCache \<Rightarrow> NamespacedName \<Rightarrow> endpointInfo list \<Rightarrow> EndpointPort \<Rightarrow>
   'e spToEndpointMap \<Rightarrow> 'e spToEndpointMap" where
  "add_port env cache serviceNN endpoints port m =
     (case dp_Name port of
        None \<Rightarrow> m
      | Some name \<Rightarrow>
          (case dp_Port port of
             None \<Rightarrow> m
           | Some p \<Rightarrow>
               if p = 0 then m
               else let svcPortName = \<lparr>psp_NamespacedName = serviceNN, psp_Port = name, psp_Protocol = Protocol_TCP\<rparr> in
                    AList.update svcPortName
                      (addEndpoints env cache (sint p) endpoints
                         (case map_of m svcPortName of None \<Rightarrow> [] | Some s \<Rightarrow> s)) m))"

definition endpointInfoByServicePort ::
  "'e slice_env \<Rightarrow> EndpointSliceCache \<Rightarrow> NamespacedName \<Rightarrow> endpointSliceInfoByName \<Rightarrow> 'e spToEndpointMap" where
  "endpointInfoByServicePort env cache serviceNN sliceInfoByName =
     fold (\<lambda>(_, sliceInfo). fold (add_port env cache serviceNN (esi_Endpoints sliceInfo)) (esi_Ports sliceInfo))
       sliceInfoByName []"

definition endpointsMapFromEndpointInfo :: "'e slice_env \<Rightarrow> 'e spToEndpointMap \<Rightarrow> (SvcPortName, 'e list) gomap" where
  "endpointsMapFromEndpointInfo env endpointInfoBySP =
     fold (\<lambda>(svcPortName, endpointSet) endpointsMap.
         if 0 < length endpointSet
         then AList.update svcPortName (sort_key (eo_String (sv_ops env)) (map snd endpointSet)) endpointsMap
         else endpointsMap)
       endpointInfoBySP []"

definition formatEndpointsList :: "'e slice_env \<Rightarrow> 'e list \<Rightarrow> string list" where
  "formatEndpointsList env endpoints = map (eo_String (sv_ops env)) endpoints"

definition getEndpointsMap ::
  "'e slice_env \<Rightarrow> EndpointSliceCache \<Rightarrow> NamespacedName \<Rightarrow> endpointSliceInfoByName \<Rightarrow> (SvcPortName, 'e list) gomap" where
  "getEndpointsMap env cache serviceNN sliceInfoByName =
     endpointsMapFromEndpointInfo env (endpointInfoByServicePort env cache serviceNN sliceInfoByName)"

section \<open>Checking out the changes\<close>

record 'e endpointsChange =
  ec_previous :: "(SvcPortName, 'e list) gomap"
  ec_current :: "(SvcPortName, 'e list) gomap"

text \<open>The inner loop: every pending slice moves to the applied ones, and no longer pends.\<close>

definition apply_slice :: "string \<times> endpointSliceInfo \<Rightarrow> endpointSliceInfoByName \<Rightarrow> endpointSliceInfoByName" where
  "apply_slice = (\<lambda>(name, sliceInfo) applied.
     if esi_Remove sliceInfo then AList.delete name applied else AList.update name sliceInfo applied)"

definition checkout_tracker ::
  "'e slice_env \<Rightarrow> EndpointSliceCache \<Rightarrow> NamespacedName \<times> endpointSliceTracker \<Rightarrow>
   'e endpointsChange list \<times> endpointSliceTracker" where
  "checkout_tracker env cache = (\<lambda>(serviceNN, esTracker).
     if length (et_pending esTracker) = 0 then ([], esTracker)
     else let applied = fold apply_slice (et_pending esTracker) (et_applied esTracker);
              change = \<lparr>ec_previous = getEndpointsMap env cache serviceNN (et_applied esTracker),
                        ec_current = getEndpointsMap env cache serviceNN applied\<rparr>
          in ([change], \<lparr>et_applied = applied, et_pending = []\<rparr>))"

definition checkoutChanges ::
  "'e slice_env \<Rightarrow> EndpointSliceCache \<Rightarrow> 'e endpointsChange list \<times> EndpointSliceCache" where
  "checkoutChanges env cache =
     (concat (map (fst \<circ> checkout_tracker env cache) (esc_trackerByServiceMap cache)),
      cache\<lparr>esc_trackerByServiceMap :=
        map (\<lambda>(nn, t). (nn, snd (checkout_tracker env cache (nn, t)))) (esc_trackerByServiceMap cache)\<rparr>)"

end
