(* ===== verification/SliceCacheProps.thy ===== *)
theory SliceCacheProps
  imports SliceCache
begin

text \<open>
  The slice cache refines a map from slices to the content KPNG wants and a map from slices to
  the content that was applied, in every state that receiving slices and checking out changes
  can reach.
\<close>

section \<open>What is wanted and what is applied\<close>

definition wanted_slice :: "endpointSliceTracker \<Rightarrow> string \<Rightarrow> endpointSliceInfo option" where
  "wanted_slice t name =
     (case map_of (et_pending t) name of
        None \<Rightarrow> map_of (et_applied t) name
      | Some i \<Rightarrow> if esi_Remove i then None else Some i)"

text \<open>The slices of the cache, by service and slice name: wanted, and applied.\<close>

definition wanted :: "EndpointSliceCache \<Rightarrow> NamespacedName \<times> string \<Rightarrow> endpointSliceInfo option" where
  "wanted cache = (\<lambda>(nn, name).
     case map_of (esc_trackerByServiceMap cache) nn of None \<Rightarrow> None | Some t \<Rightarrow> wanted_slice t name)"

definition applied :: "EndpointSliceCache \<Rightarrow> NamespacedName \<times> string \<Rightarrow> endpointSliceInfo option" where
  "applied cache = (\<lambda>(nn, name).
     case map_of (esc_trackerByServiceMap cache) nn of None \<Rightarrow> None | Some t \<Rightarrow> map_of (et_applied t) name)"

definition tracker_ok :: "endpointSliceTracker \<Rightarrow> bool" where
  "tracker_ok t \<longleftrightarrow> wf_map (et_pending t) \<and> (\<forall>name i. map_of (et_applied t) name = Some i \<longrightarrow> \<not> esi_Remove i)"

definition cache_inv :: "EndpointSliceCache \<Rightarrow> bool" where
  "cache_inv cache \<longleftrightarrow> wf_map (esc_trackerByServiceMap cache) \<and>
     (\<forall>nn t. map_of (esc_trackerByServiceMap cache) nn = Some t \<longrightarrow> tracker_ok t)"

lemma cache_invD: "cache_inv c \<Longrightarrow> map_of (esc_trackerByServiceMap c) nn = Some t \<Longrightarrow> tracker_ok t"
  by (simp add: cache_inv_def)

lemma map_of_apply_slices:
  assumes "wf_map pending"
  shows "map_of (fold apply_slice pending appl) name =
    (case map_of pending name of
       None \<Rightarrow> map_of appl name
     | Some i \<Rightarrow> if esi_Remove i then None else Some i)"
proof -
  have "map_of (fold apply_slice pending appl) (id name) =
      (case map_of pending name of None \<Rightarrow> map_of appl (id name)
       | Some i \<Rightarrow> (if esi_Remove i then None else Some i))"
    by (rule fold_per_key [where h = "\<lambda>_ i _. if esi_Remove i then None else Some i", OF assms])
       (auto simp: apply_slice_def)
  then show ?thesis by (simp only: id_apply)
qed

section \<open>Receiving a slice\<close>

lemma newEndpointSliceInfo_Remove: "newEndpointSliceInfo env s remove = Inr i \<Longrightarrow> esi_Remove i = remove"
  by (auto simp: newEndpointSliceInfo_def split: if_splits)

text \<open>
  The tracker after a slice arrived: it pends unless it is what was known, or a removal of
  an unknown slice.
\<close>

definition receive :: "string \<Rightarrow> endpointSliceInfo \<Rightarrow> endpointSliceTracker \<Rightarrow> endpointSliceTracker" where
  "receive name i t =
     (let known = (case map_of (et_pending t) name of Some p \<Rightarrow> Some p | None \<Rightarrow> map_of (et_applied t) name) in
      if (case known of Some k \<Rightarrow> i \<noteq> k | None \<Rightarrow> \<not> esi_Remove i)
      then t\<lparr>et_pending := AList.update name i (et_pending t)\<rparr> else t)"

lemma wanted_receive:
  assumes "tracker_ok t"
  shows "wanted_slice (receive name i t) n =
    (if n = name then (if esi_Remove i then None else Some i) else wanted_slice t n)"
  using assms
  by (cases "map_of (et_pending t) name"; cases "map_of (et_applied t) name")
     (auto simp: receive_def wanted_slice_def tracker_ok_def Let_def cong: option.case_cong)

lemma tracker_ok_receive: "tracker_ok t \<Longrightarrow> tracker_ok (receive name i t)"
  by (simp add: receive_def tracker_ok_def Let_def)

lemma et_applied_receive [simp]: "et_applied (receive name i t) = et_applied t"
  by (simp add: receive_def Let_def)

lemma updatePending_tracker:
  assumes "endpointSliceCacheKeys s = (nn, name, None)" "newEndpointSliceInfo env s remove = Inr i"
  shows "\<exists>b m. updatePending env s remove c = Inr (b, c\<lparr>esc_trackerByServiceMap := m\<rparr>) \<and>
    (\<forall>k. map_of m k = (if k = nn
       then Some (receive name i (case map_of (esc_trackerByServiceMap c) nn of None \<Rightarrow> newEndpointSliceTracker | Some t \<Rightarrow> t))
       else map_of (esc_trackerByServiceMap c) k)) \<and>
    (wf_map (esc_trackerByServiceMap c) \<longrightarrow> wf_map m)"
proof -
  define t where "t = (case map_of (esc_trackerByServiceMap c) nn of None \<Rightarrow> newEndpointSliceTracker | Some t \<Rightarrow> t)"
  define m where "m = (if map_of (esc_trackerByServiceMap c) nn = None
      then AList.update nn newEndpointSliceTracker (esc_trackerByServiceMap c) else esc_trackerByServiceMap c)"
  define b where "b = esInfoChanged (c\<lparr>esc_trackerByServiceMap := m\<rparr>) nn name i"
  define n where "n = (if b then AList.update nn (t\<lparr>et_pending := AList.update name i (et_pending t)\<rparr>) m else m)"
  have t: "map_of m k = (if k = nn then Some t else map_of (esc_trackerByServiceMap c) k)" for k
    by (auto simp: m_def t_def split: option.split)
  have wf: "wf_map (esc_trackerByServiceMap c) \<Longrightarrow> wf_map m" by (simp add: m_def)
  have "updatePending env s remove c = Inr (b, if b
      then c\<lparr>esc_trackerByServiceMap := AList.update nn (t\<lparr>et_pending := AList.update name i (et_pending t)\<rparr>) m\<rparr>
      else c\<lparr>esc_trackerByServiceMap := m\<rparr>)"
    unfolding updatePending_def assms prod.case option.case go_bind_simps Let_def m_def [symmetric] b_def [symmetric]
    by (simp add: t)
  then have "updatePending env s remove c = Inr (b, c\<lparr>esc_trackerByServiceMap := n\<rparr>)"
    by (simp add: n_def)
  moreover have "b \<longleftrightarrow> (case (case map_of (et_pending t) name of Some p \<Rightarrow> Some p | None \<Rightarrow> map_of (et_applied t) name) of
         Some k \<Rightarrow> i \<noteq> k | None \<Rightarrow> \<not> esi_Remove i)"
    unfolding b_def esInfoChanged_def by (simp add: t Let_def split: option.split)
  then have "receive name i t = (if b then t\<lparr>et_pending := AList.update name i (et_pending t)\<rparr> else t)"
    by (simp add: receive_def Let_def)
  then have "map_of n k = (if k = nn then Some (receive name i t) else map_of (esc_trackerByServiceMap c) k)" for k
    by (simp add: n_def t)
  moreover have "wf_map (esc_trackerByServiceMap c) \<longrightarrow> wf_map n" using wf by (simp add: n_def)
  ultimately show ?thesis unfolding t_def by blast
qed

section \<open>Checking out\<close>

lemma checkout_tracker_applied:
  assumes "tracker_ok t"
  shows "map_of (et_applied (snd (checkout_tracker env c (nn, t)))) name = wanted_slice t name"
    and "et_pending (snd (checkout_tracker env c (nn, t))) = []"
    and "tracker_ok (snd (checkout_tracker env c (nn, t)))"
proof -
  have wf: "wf_map (et_pending t)" using assms by (simp add: tracker_ok_def)
  show a: "map_of (et_applied (snd (checkout_tracker env c (nn, t)))) name = wanted_slice t name" for name
    by (simp add: checkout_tracker_def wanted_slice_def map_of_apply_slices [OF wf] Let_def)
  show p: "et_pending (snd (checkout_tracker env c (nn, t))) = []"
    by (simp add: checkout_tracker_def Let_def)
  show "tracker_ok (snd (checkout_tracker env c (nn, t)))"
    using assms unfolding tracker_ok_def [of "snd _"] a p
    by (auto simp: wanted_slice_def tracker_ok_def split: option.splits if_splits)
qed

lemma wanted_slice_checkout:
  assumes "tracker_ok t"
  shows "wanted_slice (snd (checkout_tracker env c (nn, t))) name = wanted_slice t name"
  by (subst wanted_slice_def) (simp add: checkout_tracker_applied [OF assms])

lemma map_of_map_tracker:
  "map_of (map (\<lambda>(nn, t). (nn, f nn t)) m) k = map_option (f k) (map_of m k)"
  by (induction m) auto

section \<open>Steps and reachable states\<close>

inductive slice_step :: "'e slice_env \<Rightarrow> EndpointSliceCache \<Rightarrow> EndpointSliceCache \<Rightarrow> bool" for env where
  update: "updatePending env s remove c = Inr (b, c') \<Longrightarrow> slice_step env c c'"
| checkout: "slice_step env c (snd (checkoutChanges env c))"

inductive slice_reachable :: "'e slice_env \<Rightarrow> EndpointSliceCache \<Rightarrow> bool" for env where
  start: "slice_reachable env (NewEndpointSliceCache hostname ipFamily)"
| step: "slice_reachable env c \<Longrightarrow> slice_step env c c' \<Longrightarrow> slice_reachable env c'"

lemma updatePending_error:
  assumes "endpointSliceCacheKeys s = (nn, name, Some err)"
  shows "updatePending env s remove c = Inr (False, c)"
  by (simp add: updatePending_def assms)

lemma tracker_ok_new: "tracker_ok newEndpointSliceTracker"
  by (simp add: tracker_ok_def newEndpointSliceTracker_def)

lemma cache_inv_update: "updatePending env s remove c = Inr (b, c') \<Longrightarrow> cache_inv c \<Longrightarrow> cache_inv c'"
proof -
  assume u: "updatePending env s remove c = Inr (b, c')" and inv: "cache_inv c"
  obtain nn name err where k: "endpointSliceCacheKeys s = (nn, name, err)" by (metis prod.collapse)
  show "cache_inv c'"
  proof (cases err)
    case (Some e)
    with u k inv show ?thesis by (simp add: updatePending_error)
  next
    case None
    with u k obtain i where i: "newEndpointSliceInfo env s remove = Inr i"
      by (auto simp: updatePending_def go_bind_eq_Inr)
    obtain b' m where m: "updatePending env s remove c = Inr (b', c\<lparr>esc_trackerByServiceMap := m\<rparr>)"
      "\<forall>k. map_of m k = (if k = nn
       then Some (receive name i (case map_of (esc_trackerByServiceMap c) nn of None \<Rightarrow> newEndpointSliceTracker | Some t \<Rightarrow> t))
       else map_of (esc_trackerByServiceMap c) k)" "wf_map (esc_trackerByServiceMap c) \<longrightarrow> wf_map m"
      using updatePending_tracker [OF _ i, of nn name c] k None by auto
    from u m(1) have c': "c' = c\<lparr>esc_trackerByServiceMap := m\<rparr>" by simp
    show ?thesis
      using inv m(2,3) unfolding cache_inv_def c'
      by (auto simp: tracker_ok_receive tracker_ok_new split: option.split)
  qed
qed

lemma cache_inv_checkout: "cache_inv c \<Longrightarrow> cache_inv (snd (checkoutChanges env c))"
  by (auto simp: cache_inv_def checkoutChanges_def map_of_map_tracker case_prod_beta comp_def
      intro: checkout_tracker_applied(3))

lemma cache_inv_start: "cache_inv (NewEndpointSliceCache hostname ipFamily)"
  by (simp add: cache_inv_def NewEndpointSliceCache_def)

lemma slice_reachable_inv: "slice_reachable env c \<Longrightarrow> cache_inv c"
  by (induction rule: slice_reachable.induct)
     (auto simp: cache_inv_start elim!: slice_step.cases intro: cache_inv_update cache_inv_checkout)

text \<open>
  C23. The slice cache refines a map of slices. Receiving a slice (or its removal) with valid
  keys sets (or removes) exactly this slice in what is wanted, whatever was pending or
  applied, and changes nothing of what is applied; checking out makes what is applied
  equal to what is wanted, which stays the same, and leaves nothing pending, so that a
  second checkout finds no change.
\<close>

theorem slice_cache_refines:
  assumes "slice_reachable env c"
  shows "(endpointSliceCacheKeys s = (nn, name, None) \<longrightarrow> newEndpointSliceInfo env s remove = Inr i \<longrightarrow>
      (\<exists>b c'. updatePending env s remove c = Inr (b, c') \<and>
         wanted c' = (wanted c)((nn, name) := if remove then None else Some i) \<and> applied c' = applied c)) \<and>
    (\<forall>changes c'. checkoutChanges env c = (changes, c') \<longrightarrow>
         applied c' = wanted c \<and> wanted c' = wanted c \<and> fst (checkoutChanges env c') = [])"
proof (intro conjI impI allI)
  have inv: "cache_inv c" using assms by (rule slice_reachable_inv)
  assume k: "endpointSliceCacheKeys s = (nn, name, None)" and i: "newEndpointSliceInfo env s remove = Inr i"
  let ?t = "case map_of (esc_trackerByServiceMap c) nn of None \<Rightarrow> newEndpointSliceTracker | Some t \<Rightarrow> t"
  obtain b m where m: "updatePending env s remove c = Inr (b, c\<lparr>esc_trackerByServiceMap := m\<rparr>)"
    "\<And>k. map_of m k = (if k = nn then Some (receive name i ?t) else map_of (esc_trackerByServiceMap c) k)"
    using updatePending_tracker [OF k i, of c] by auto
  have ok: "tracker_ok ?t" using cache_invD [OF inv] tracker_ok_new by (auto split: option.split)
  have new: "wanted_slice newEndpointSliceTracker n = None" for n
    by (simp add: wanted_slice_def newEndpointSliceTracker_def)
  have "wanted (c\<lparr>esc_trackerByServiceMap := m\<rparr>) = (wanted c)((nn, name) := if remove then None else Some i)"
    using wanted_receive [OF ok, of name i] newEndpointSliceInfo_Remove [OF i]
    by (auto simp: wanted_def m(2) new fun_eq_iff split: option.split)
  moreover have "applied (c\<lparr>esc_trackerByServiceMap := m\<rparr>) = applied c"
    by (auto simp: applied_def m(2) fun_eq_iff newEndpointSliceTracker_def split: option.split)
  ultimately show "\<exists>b c'. updatePending env s remove c = Inr (b, c') \<and>
      wanted c' = (wanted c)((nn, name) := if remove then None else Some i) \<and> applied c' = applied c"
    using m(1) by blast
next
  fix changes c'
  have inv: "cache_inv c" using assms by (rule slice_reachable_inv)
  assume "checkoutChanges env c = (changes, c')"
  then have t: "map_of (esc_trackerByServiceMap c') k =
      map_option (\<lambda>t. snd (checkout_tracker env c (k, t))) (map_of (esc_trackerByServiceMap c) k)"
    and e: "esc_trackerByServiceMap c' =
      map (\<lambda>(nn, t). (nn, snd (checkout_tracker env c (nn, t)))) (esc_trackerByServiceMap c)" for k
    by (auto simp: checkoutChanges_def map_of_map_tracker)
  note ck = checkout_tracker_applied [OF cache_invD [OF inv]]
  have "applied c' (k, name) = wanted c (k, name)" for k name
    by (cases "map_of (esc_trackerByServiceMap c) k") (simp_all add: applied_def wanted_def t ck(1))
  then show "applied c' = wanted c" by (simp add: fun_eq_iff)
  have "wanted c' (k, name) = wanted c (k, name)" for k name
    by (cases "map_of (esc_trackerByServiceMap c) k")
       (simp_all add: wanted_def t wanted_slice_checkout [OF cache_invD [OF inv]])
  then show "wanted c' = wanted c" by (simp add: fun_eq_iff)
  have "fst (checkout_tracker env d (k, snd (checkout_tracker env c (k, t)))) = []"
    if "(k, t) \<in> set (esc_trackerByServiceMap c)" for k t d
  proof -
    have "map_of (esc_trackerByServiceMap c) k = Some t"
      using that inv wf_map_set_iff by (auto simp: cache_inv_def)
    from ck(2) [OF this, of env c k] show ?thesis by (simp add: checkout_tracker_def [of env d])
  qed
  then have "\<forall>x \<in> set (esc_trackerByServiceMap c'). fst (checkout_tracker env c' x) = []"
    unfolding e by auto
  then show "fst (checkoutChanges env c') = []" by (simp add: checkoutChanges_def)
qed

end
