(* ===== verification/SliceEndpoints.thy ===== *)
theory SliceEndpoints
  imports SliceCacheProps
begin

text \<open>
  The endpoints that the slice cache computes from a set of slices: for every endpoint type
  that meets the provider interface, the endpoints of a service port are exactly the valid
  addresses of the slices, sorted by their string, each once, and an endpoint is local when
  one of the slices has it on this node.
\<close>

section \<open>Contributions\<close>

text \<open>
  What an endpoint of a slice adds to a port: the key in the endpoint set and its locality;
  an endpoint without an address or of the other family adds nothing.
\<close>

definition on_this_node :: "EndpointSliceCache \<Rightarrow> endpointInfo \<Rightarrow> bool" where
  "on_this_node cache ep = (case ei_NodeName ep of None \<Rightarrow> False | Some n \<Rightarrow> isLocal cache n)"

definition contribution ::
  "'e slice_env \<Rightarrow> EndpointSliceCache \<Rightarrow> int \<Rightarrow> endpointInfo \<Rightarrow> (string \<times> bool) option" where
  "contribution env cache portNum ep =
     (case ei_Addresses ep of
        [] \<Rightarrow> None
      | address # _ \<Rightarrow>
          if (esc_ipFamily cache = IPv6Protocol) \<noteq> sv_is_ipv6 env address then None
          else Some (JoinHostPort address (Itoa portNum), on_this_node cache ep))"

text \<open>All contributions of a set of slices: port name, key, locality.\<close>

definition contributions ::
  "'e slice_env \<Rightarrow> EndpointSliceCache \<Rightarrow> endpointSliceInfo set \<Rightarrow> (string \<times> string \<times> bool) set" where
  "contributions env cache sis =
     {(name, k, l) |name k l si p n ep. si \<in> sis \<and> p \<in> set (esi_Ports si) \<and> dp_Name p = Some name \<and>
        dp_Port p = Some n \<and> n \<noteq> 0 \<and> ep \<in> set (esi_Endpoints si) \<and>
        contribution env cache (sint n) ep = Some (k, l)}"

definition psp :: "NamespacedName \<Rightarrow> string \<Rightarrow> SvcPortName" where
  "psp nn name = \<lparr>psp_NamespacedName = nn, psp_Port = name, psp_Protocol = Protocol_TCP\<rparr>"

lemma psp_inj [simp]: "psp nn a = psp nn b \<longleftrightarrow> a = b"
  by (simp add: psp_def)

text \<open>
  The base endpoint of an endpoint of a slice, and the endpoint set as one step on its key.
\<close>

definition base_of :: "EndpointSliceCache \<Rightarrow> int \<Rightarrow> endpointInfo \<Rightarrow> BaseEndpointInfo" where
  "base_of cache portNum ep =
     newBaseEndpointInfo (hd (ei_Addresses ep))
       (case ei_NodeName ep of None \<Rightarrow> [] | Some n \<Rightarrow> n) (case ei_Zone ep of None \<Rightarrow> [] | Some z \<Rightarrow> z)
       portNum (on_this_node cache ep) (ei_Ready ep) (ei_Serving ep) (ei_Terminating ep) (ei_ZoneHints ep)"

lemma add_endpoint_contribution:
  "add_endpoint env cache portNum ep s =
     (case contribution env cache portNum ep of
        None \<Rightarrow> s
      | Some (k, l) \<Rightarrow>
          if map_of s k = None \<or> l then AList.update k (eo_make (sv_ops env) (base_of cache portNum ep)) s else s)"
  by (auto simp: add_endpoint_def contribution_def base_of_def on_this_node_def BaseEndpointInfo_String_def Let_def
      split: list.split option.split)

lemma base_of_contribution:
  "contribution env cache portNum ep = Some (k, l) \<Longrightarrow>
     be_Endpoint (base_of cache portNum ep) = k \<and> be_IsLocal (base_of cache portNum ep) = l"
  by (auto simp: contribution_def base_of_def split: list.splits if_splits)

section \<open>Endpoint sets\<close>

text \<open>The endpoint of a key, when the pairs \<open>C\<close> were contributed.\<close>

definition entry_ok :: "'e endpoint_ops \<Rightarrow> (string \<times> bool) set \<Rightarrow> string \<Rightarrow> 'e option \<Rightarrow> bool" where
  "entry_ok ops C k entry =
     (case entry of
        None \<Rightarrow> \<forall>l. (k, l) \<notin> C
      | Some e \<Rightarrow> eo_String ops e = k \<and> (\<exists>l. (k, l) \<in> C) \<and> eo_GetIsLocal ops e = ((k, True) \<in> C))"

lemma entry_ok_other: "k' \<noteq> k \<Longrightarrow> entry_ok ops (insert (k, l) C) k' = entry_ok ops C k'"
  by (rule ext) (auto simp: entry_ok_def split: option.split)

definition set_ok :: "'e endpoint_ops \<Rightarrow> (string \<times> bool) set \<Rightarrow> (string, 'e) gomap \<Rightarrow> bool" where
  "set_ok ops C s \<longleftrightarrow> wf_map s \<and> (\<forall>k. entry_ok ops C k (map_of s k))"

lemma set_ok_empty: "set_ok ops {} []"
  by (simp add: set_ok_def entry_ok_def)

definition sp_ok ::
  "'e endpoint_ops \<Rightarrow> NamespacedName \<Rightarrow> (string \<times> string \<times> bool) set \<Rightarrow> 'e spToEndpointMap \<Rightarrow> bool" where
  "sp_ok ops nn C m \<longleftrightarrow> wf_map m \<and> (\<forall>k. map_of m k \<noteq> None \<longrightarrow> k \<in> range (psp nn)) \<and>
     (\<forall>name. set_ok ops {(k, l). (name, k, l) \<in> C}
        (case map_of m (psp nn name) of None \<Rightarrow> [] | Some s \<Rightarrow> s))"

text \<open>The provider is good for all endpoints of a slice that are made.\<close>

definition good_slice ::
  "(BaseEndpointInfo \<Rightarrow> bool) \<Rightarrow> 'e slice_env \<Rightarrow> EndpointSliceCache \<Rightarrow> endpointSliceInfo \<Rightarrow> bool" where
  "good_slice good env cache si \<longleftrightarrow>
     (\<forall>p \<in> set (esi_Ports si). \<forall>ep \<in> set (esi_Endpoints si). case dp_Port p of None \<Rightarrow> True | Some n \<Rightarrow>
        n \<noteq> 0 \<longrightarrow> contribution env cache (sint n) ep \<noteq> None \<longrightarrow> good (base_of cache (sint n) ep))"

lemma good_sliceD:
  assumes "good_slice good env cache si" "p \<in> set (esi_Ports si)" "ep \<in> set (esi_Endpoints si)"
    and "dp_Port p = Some n" "n \<noteq> 0" "contribution env cache (sint n) ep \<noteq> None"
  shows "good (base_of cache (sint n) ep)"
proof -
  from assms(1-3) have "case dp_Port p of None \<Rightarrow> True | Some n \<Rightarrow>
      n \<noteq> 0 \<longrightarrow> contribution env cache (sint n) ep \<noteq> None \<longrightarrow> good (base_of cache (sint n) ep)"
    unfolding good_slice_def by blast
  with assms(4-6) show ?thesis by simp
qed

lemma good_slice_True: "good_slice (\<lambda>_. True) env cache si"
  by (simp add: good_slice_def split: option.split)

context endpoint_provider
begin

lemma set_ok_add:
  assumes "set_ok ops C s" "sv_ops env = ops" "contribution env cache portNum ep \<noteq> None \<Longrightarrow> good (base_of cache portNum ep)"
  shows "set_ok ops (C \<union> set_option (contribution env cache portNum ep)) (add_endpoint env cache portNum ep s)"
proof (cases "contribution env cache portNum ep")
  case None
  with assms(1) show ?thesis by (simp add: add_endpoint_contribution)
next
  case (Some kl)
  obtain k l where kl: "kl = (k, l)" by fastforce
  have bc: "be_Endpoint (base_of cache portNum ep) = k \<and> be_IsLocal (base_of cache portNum ep) = l"
    by (rule base_of_contribution [of env]) (simp add: Some kl)
  have made: "eo_String ops (eo_make ops (base_of cache portNum ep)) = k"
    "eo_GetIsLocal ops (eo_make ops (base_of cache portNum ep)) = l"
    using make_String [OF assms(3)] make_IsLocal [OF assms(3)] bc Some by simp_all
  have C: "set_option (contribution env cache portNum ep) = {(k, l)}" by (simp add: Some kl)
  have wf: "wf_map s" using assms(1) by (simp add: set_ok_def)
  have old: "entry_ok ops C k' (map_of s k')" for k' using assms(1) by (simp add: set_ok_def)
  have new: "set_ok ops (C \<union> {(k, l)}) s'"
    if "wf_map s'" "entry_ok ops (C \<union> {(k, l)}) k (map_of s' k)" "\<And>k'. k' \<noteq> k \<Longrightarrow> map_of s' k' = map_of s k'" for s'
    unfolding set_ok_def
  proof (intro conjI allI)
    show "entry_ok ops (C \<union> {(k, l)}) k' (map_of s' k')" for k'
      using that(2,3) old by (cases "k' = k") (simp_all add: entry_ok_other)
  qed (rule that(1))
  show ?thesis
  proof (cases "map_of s k = None \<or> l")
    case True
    then have "add_endpoint env cache portNum ep s = AList.update k (eo_make ops (base_of cache portNum ep)) s"
      by (simp add: add_endpoint_contribution Some kl assms(2))
    moreover have "l = ((k, True) \<in> C \<union> {(k, l)})" using True old [of k] by (auto simp: entry_ok_def)
    ultimately show ?thesis unfolding C using wf by (intro new) (auto simp: entry_ok_def made)
  next
    case False
    then obtain e where e: "map_of s k = Some e" "\<not> l" by auto
    then have "add_endpoint env cache portNum ep s = s" by (simp add: add_endpoint_contribution Some kl)
    then show ?thesis unfolding C using wf e old [of k] by (intro new) (auto simp: entry_ok_def)
  qed
qed

lemma set_ok_addEndpoints:
  assumes "set_ok ops C s" "sv_ops env = ops"
    and "\<And>ep. ep \<in> set eps \<Longrightarrow> contribution env cache portNum ep \<noteq> None \<Longrightarrow> good (base_of cache portNum ep)"
  shows "set_ok ops (C \<union> {kl. \<exists>ep \<in> set eps. contribution env cache portNum ep = Some kl})
    (addEndpoints env cache portNum eps s)"
  using assms
proof (induction eps arbitrary: C s)
  case (Cons ep eps)
  from Cons.IH [OF set_ok_add [OF Cons.prems(1,2)]] Cons.prems(2,3)
  have "set_ok ops (C \<union> set_option (contribution env cache portNum ep) \<union>
      {kl. \<exists>ep \<in> set eps. contribution env cache portNum ep = Some kl}) (addEndpoints env cache portNum (ep # eps) s)"
    by (simp add: addEndpoints_def)
  moreover have "C \<union> set_option (contribution env cache portNum ep) \<union>
      {kl. \<exists>ep \<in> set eps. contribution env cache portNum ep = Some kl} =
      C \<union> {kl. \<exists>ep \<in> set (ep # eps). contribution env cache portNum ep = Some kl}"
    by (cases "contribution env cache portNum ep") auto
  ultimately show ?case by simp
qed (simp add: addEndpoints_def)

text \<open>The contributions of one port of a slice.\<close>

definition port_contributions ::
  "'e slice_env \<Rightarrow> EndpointSliceCache \<Rightarrow> endpointInfo list \<Rightarrow> EndpointPort \<Rightarrow> (string \<times> string \<times> bool) set" where
  "port_contributions env cache eps p =
     {(name, k, l) |name k l n ep. dp_Name p = Some name \<and> dp_Port p = Some n \<and> n \<noteq> 0 \<and> ep \<in> set eps \<and>
        contribution env cache (sint n) ep = Some (k, l)}"

lemma sp_ok_add_port:
  assumes "sp_ok ops nn C m" "sv_ops env = ops"
    and "\<And>ep n. ep \<in> set eps \<Longrightarrow> dp_Port p = Some n \<Longrightarrow> n \<noteq> 0 \<Longrightarrow> contribution env cache (sint n) ep \<noteq> None \<Longrightarrow>
      good (base_of cache (sint n) ep)"
  shows "sp_ok ops nn (C \<union> port_contributions env cache eps p) (add_port env cache nn eps p m)"
proof (cases "\<exists>name n. dp_Name p = Some name \<and> dp_Port p = Some n \<and> n \<noteq> 0")
  case False
  then have "add_port env cache nn eps p m = m" "port_contributions env cache eps p = {}"
    by (auto simp: add_port_def port_contributions_def split: option.split)
  with assms(1) show ?thesis by simp
next
  case True
  then obtain name n where p: "dp_Name p = Some name" "dp_Port p = Some n" "n \<noteq> 0" by blast
  let ?s = "\<lambda>name. case map_of m (psp nn name) of None \<Rightarrow> [] | Some s \<Rightarrow> s"
  let ?new = "{kl. \<exists>ep \<in> set eps. contribution env cache (sint n) ep = Some kl}"
  have m': "add_port env cache nn eps p m =
      AList.update (psp nn name) (addEndpoints env cache (sint n) eps (?s name)) m"
    by (simp add: add_port_def p psp_def Let_def)
  have C: "{(k, l). (name', k, l) \<in> C \<union> port_contributions env cache eps p} =
      {(k, l). (name', k, l) \<in> C} \<union> (if name' = name then ?new else {})" for name'
    using p by (auto simp: port_contributions_def)
  have old: "set_ok ops {(k, l). (name', k, l) \<in> C} (?s name')" for name'
    using assms(1) by (simp add: sp_ok_def)
  have "set_ok ops ({(k, l). (name, k, l) \<in> C} \<union> ?new) (addEndpoints env cache (sint n) eps (?s name))"
    by (rule set_ok_addEndpoints [OF old assms(2)]) (use assms(3) p in blast)
  with assms(1) old show ?thesis
    unfolding sp_ok_def C m' by auto
qed

lemma sp_ok_slices:
  assumes "sv_ops env = ops" "\<And>si. si \<in> snd ` set slices \<Longrightarrow> good_slice good env cache si"
  shows "sp_ok ops nn (contributions env cache (snd ` set slices)) (endpointInfoByServicePort env cache nn slices)"
proof -
  have ports: "sp_ok ops nn (C \<union> (\<Union>p \<in> set ps. port_contributions env cache eps p)) (fold (add_port env cache nn eps) ps m)"
    if "sp_ok ops nn C m" and "\<And>p ep n. p \<in> set ps \<Longrightarrow> ep \<in> set eps \<Longrightarrow> dp_Port p = Some n \<Longrightarrow> n \<noteq> 0 \<Longrightarrow>
      contribution env cache (sint n) ep \<noteq> None \<Longrightarrow> good (base_of cache (sint n) ep)" for C m eps ps
    using that
  proof (induction ps arbitrary: C m)
    case (Cons p ps)
    have "sp_ok ops nn (C \<union> port_contributions env cache eps p) (add_port env cache nn eps p m)"
      by (rule sp_ok_add_port [OF Cons.prems(1) assms(1)]) (rule Cons.prems(2) [OF list.set_intros(1)])
    from Cons.IH [OF this Cons.prems(2) [OF list.set_intros(2)]]
    show ?case by (simp add: Un_assoc)
  qed simp
  have "sp_ok ops nn (C \<union> (\<Union>si \<in> snd ` set slices. \<Union>p \<in> set (esi_Ports si). port_contributions env cache (esi_Endpoints si) p))
      (fold (\<lambda>(_, si). fold (add_port env cache nn (esi_Endpoints si)) (esi_Ports si)) slices m)"
    if "sp_ok ops nn C m" for C m
    using that assms(2)
  proof (induction slices arbitrary: C m)
    case (Cons nsi slices)
    obtain n si where nsi: "nsi = (n, si)" by fastforce
    have "sp_ok ops nn (C \<union> (\<Union>p \<in> set (esi_Ports si). port_contributions env cache (esi_Endpoints si) p))
        (fold (add_port env cache nn (esi_Endpoints si)) (esi_Ports si) m)"
      by (rule ports [OF Cons.prems(1)]) (rule good_sliceD [OF Cons.prems(2) [of si]], auto simp: nsi)
    then have ports: "sp_ok ops nn (C \<union> (\<Union>p \<in> set (esi_Ports si). port_contributions env cache (esi_Endpoints si) p))
        (fold (add_port env cache nn (esi_Endpoints si)) (esi_Ports si) m)" .
    have "sp_ok ops nn ((C \<union> (\<Union>p \<in> set (esi_Ports si). port_contributions env cache (esi_Endpoints si) p)) \<union>
        (\<Union>si \<in> snd ` set slices. \<Union>p \<in> set (esi_Ports si). port_contributions env cache (esi_Endpoints si) p))
      (fold (\<lambda>(_, si). fold (add_port env cache nn (esi_Endpoints si)) (esi_Ports si)) slices
        (fold (add_port env cache nn (esi_Endpoints si)) (esi_Ports si) m))"
      by (rule Cons.IH [OF ports]) (use Cons.prems(2) in auto)
    then show ?case by (simp add: nsi Un_assoc)
  qed simp
  from this [of "{}" "[]"] have "sp_ok ops nn
      (\<Union>si \<in> snd ` set slices. \<Union>p \<in> set (esi_Ports si). port_contributions env cache (esi_Endpoints si) p)
      (endpointInfoByServicePort env cache nn slices)"
    by (simp add: endpointInfoByServicePort_def sp_ok_def set_ok_empty)
  moreover have "(\<Union>si \<in> snd ` set slices. \<Union>p \<in> set (esi_Ports si). port_contributions env cache (esi_Endpoints si) p) =
      contributions env cache (snd ` set slices)"
    unfolding contributions_def port_contributions_def by blast
  ultimately show ?thesis by simp
qed

text \<open>The sorted endpoints of a set, as strings.\<close>

lemma set_ok_sorted:
  assumes "set_ok ops C s"
  shows "map (eo_String ops) (sort_key (eo_String ops) (map snd s)) = sorted_list_of_set (fst ` C)"
    and "s = [] \<longleftrightarrow> C = {}"
    and "e \<in> snd ` set s \<Longrightarrow> eo_GetIsLocal ops e = ((eo_String ops e, True) \<in> C)"
proof -
  have wf: "wf_map s" using assms by (simp add: set_ok_def)
  have e: "eo_String ops e = k \<and> eo_GetIsLocal ops e = ((k, True) \<in> C)" if "(k, e) \<in> set s" for k e
  proof -
    from that wf have m: "map_of s k = Some e" by simp
    from assms have "entry_ok ops C k (map_of s k)" by (simp add: set_ok_def)
    then show ?thesis unfolding m by (simp add: entry_ok_def)
  qed
  have keys: "fst ` set s = fst ` C"
  proof -
    have "k \<in> fst ` set s \<longleftrightarrow> k \<in> fst ` C" for k
    proof -
      from assms have "entry_ok ops C k (map_of s k)" by (simp add: set_ok_def)
      then have "map_of s k \<noteq> None \<longleftrightarrow> (\<exists>l. (k, l) \<in> C)" by (auto simp: entry_ok_def split: option.splits)
      moreover have "k \<in> fst ` set s \<longleftrightarrow> map_of s k \<noteq> None" by (simp only: map_of_eq_None_iff not_not)
      moreover have "k \<in> fst ` C \<longleftrightarrow> (\<exists>l. (k, l) \<in> C)" by force
      ultimately show ?thesis by blast
    qed
    then show ?thesis by blast
  qed
  have "map (eo_String ops) (map snd s) = map fst s"
    by (simp only: map_map) (rule map_cong [OF refl], use e in force)
  then have "map (eo_String ops) (sort_key (eo_String ops) (map snd s)) = sort (map fst s)"
    by (simp only: map_sort_key)
  also have "\<dots> = sorted_list_of_set (set (map fst s))" by (simp only: sorted_list_of_set_sort_remdups distinct_remdups_id [OF wf])
  finally show "map (eo_String ops) (sort_key (eo_String ops) (map snd s)) = sorted_list_of_set (fst ` C)"
    by (simp add: keys)
  show "s = [] \<longleftrightarrow> C = {}" using keys by (metis image_is_empty set_empty)
  show "e \<in> snd ` set s \<Longrightarrow> eo_GetIsLocal ops e = ((eo_String ops e, True) \<in> C)" using e by force
qed

lemma map_of_endpointsMap:
  assumes "wf_map m"
  shows "map_of (endpointsMapFromEndpointInfo env m) k =
    (case map_of m k of
       None \<Rightarrow> None
     | Some s \<Rightarrow> if s = [] then None else Some (sort_key (eo_String (sv_ops env)) (map snd s)))"
proof -
  have "map_of (endpointsMapFromEndpointInfo env m) (id k) =
      (case map_of m k of None \<Rightarrow> map_of [] (id k)
       | Some s \<Rightarrow> (if s = [] then map_of [] (id k) else Some (sort_key (eo_String (sv_ops env)) (map snd s))))"
    unfolding endpointsMapFromEndpointInfo_def
    by (rule fold_per_key [OF assms, where h = "\<lambda>k s st. if s = [] then st
          else Some (sort_key (eo_String (sv_ops env)) (map snd s))"]) auto
  then show ?thesis by (simp only: id_apply map_of.simps)
qed

lemma getEndpointsMap_provider:
  assumes "sv_ops env = ops" "\<And>si. si \<in> snd ` set slices \<Longrightarrow> good_slice good env cache si"
  shows "case map_of (getEndpointsMap env cache nn slices) (psp nn name) of
      None \<Rightarrow> \<forall>k l. (name, k, l) \<notin> contributions env cache (snd ` set slices)
    | Some es \<Rightarrow>
        formatEndpointsList env es =
          sorted_list_of_set {k. \<exists>l. (name, k, l) \<in> contributions env cache (snd ` set slices)} \<and> es \<noteq> [] \<and>
        (\<forall>e \<in> set es. eo_GetIsLocal ops e \<longleftrightarrow>
           (name, eo_String ops e, True) \<in> contributions env cache (snd ` set slices))"
proof -
  let ?C = "contributions env cache (snd ` set slices)"
  let ?m = "endpointInfoByServicePort env cache nn slices"
  have ok: "sp_ok ops nn ?C ?m" using assms by (rule sp_ok_slices)
  then have wf: "wf_map ?m" by (simp add: sp_ok_def)
  have s: "set_ok ops {(k, l). (name, k, l) \<in> ?C} (case map_of ?m (psp nn name) of None \<Rightarrow> [] | Some s \<Rightarrow> s)"
    using ok by (simp add: sp_ok_def)
  have fst: "fst ` {(k, l). (name, k, l) \<in> ?C} = {k. \<exists>l. (name, k, l) \<in> ?C}" by force
  show ?thesis
  proof (cases "map_of ?m (psp nn name)")
    case None
    then have "{(k, l). (name, k, l) \<in> ?C} = {}" using set_ok_sorted(2) [OF s] by simp
    with None show ?thesis by (auto simp: getEndpointsMap_def map_of_endpointsMap [OF wf])
  next
    case (Some t)
    with s have t: "set_ok ops {(k, l). (name, k, l) \<in> ?C} t" by simp
    show ?thesis
    proof (cases "t = []")
      case True
      with set_ok_sorted(2) [OF t] have "{(k, l). (name, k, l) \<in> ?C} = {}" by simp
      with True Some show ?thesis by (auto simp: getEndpointsMap_def map_of_endpointsMap [OF wf])
    next
      case False
      have m: "map_of (getEndpointsMap env cache nn slices) (psp nn name) =
          Some (sort_key (eo_String ops) (map snd t))"
        using Some False by (simp add: getEndpointsMap_def map_of_endpointsMap [OF wf] assms(1))
      have "formatEndpointsList env (sort_key (eo_String ops) (map snd t)) =
          sorted_list_of_set {k. \<exists>l. (name, k, l) \<in> ?C}"
        using set_ok_sorted(1) [OF t] by (simp add: formatEndpointsList_def assms(1) fst)
      moreover have "sort_key (eo_String ops) (map snd t) \<noteq> []"
        using False by (metis length_0_conv length_map length_sort)
      moreover have "eo_GetIsLocal ops e \<longleftrightarrow> (name, eo_String ops e, True) \<in> ?C"
        if "e \<in> set (sort_key (eo_String ops) (map snd t))" for e
        using set_ok_sorted(3) [OF t, of e] that by simp
      ultimately show ?thesis unfolding m by simp
    qed
  qed
qed

lemma getEndpointsMap_other:
  assumes "sv_ops env = ops" "\<And>si. si \<in> snd ` set slices \<Longrightarrow> good_slice good env cache si"
    and "k \<notin> range (psp nn)"
  shows "map_of (getEndpointsMap env cache nn slices) k = None"
proof -
  have ok: "sp_ok ops nn (contributions env cache (snd ` set slices)) (endpointInfoByServicePort env cache nn slices)"
    using assms(1,2) by (rule sp_ok_slices)
  then have "wf_map (endpointInfoByServicePort env cache nn slices)"
    "map_of (endpointInfoByServicePort env cache nn slices) k = None"
    using assms(3) unfolding sp_ok_def by blast+
  then show ?thesis by (simp add: getEndpointsMap_def map_of_endpointsMap)
qed

end

section \<open>The default endpoints\<close>

text \<open>
  C24. The endpoints that the cache computes for a named port from a set of slices, with the
  default constructor: there is an entry exactly when some slice has a valid endpoint for
  the port, its endpoint strings are exactly the valid ones of all slices, sorted and each
  once (so Go's iteration order and the order inside the slices play no role), and an
  endpoint is local exactly when one of the slices has it on this node. There is no entry
  for another service or protocol.
\<close>

theorem getEndpointsMap_endpoints:
  assumes "sv_ops env = standard_ops"
  shows "(case map_of (getEndpointsMap env cache nn slices) (psp nn name) of
      None \<Rightarrow> \<forall>k l. (name, k, l) \<notin> contributions env cache (snd ` set slices)
    | Some es \<Rightarrow>
        map BaseEndpointInfo_String es =
          sorted_list_of_set {k. \<exists>l. (name, k, l) \<in> contributions env cache (snd ` set slices)} \<and> es \<noteq> [] \<and>
        (\<forall>e \<in> set es. be_IsLocal e \<longleftrightarrow>
           (name, BaseEndpointInfo_String e, True) \<in> contributions env cache (snd ` set slices))) \<and>
    (\<forall>k. k \<notin> range (psp nn) \<longrightarrow> map_of (getEndpointsMap env cache nn slices) k = None)"
proof -
  have ops: "eo_String standard_ops = BaseEndpointInfo_String" "eo_GetIsLocal standard_ops = be_IsLocal"
    by (simp_all add: standard_ops_def)
  note found = standard.getEndpointsMap_provider
    [where env = env and cache = cache and nn = nn and slices = slices and name = name, OF assms good_slice_True, unfolded formatEndpointsList_def assms ops]
  note other = standard.getEndpointsMap_other
    [where env = env and cache = cache and nn = nn and slices = slices, OF assms good_slice_True]
  from found other show ?thesis by blast
qed

definition demo_senv :: "BaseEndpointInfo slice_env" where
  "demo_senv = \<lparr>sv_sort_ports = sort_key (\<lambda>p. case dp_Port p of None \<Rightarrow> 0 | Some n \<Rightarrow> sint n),
     sv_sort_endpoints = sort_key (\<lambda>e. Join (ei_Addresses e) '',''), sv_is_ipv6 = (\<lambda>s. CHR '':'' \<in> set s),
     sv_ops = standard_ops\<rparr>"

definition demo_slice :: EndpointSlice where
  "demo_slice = \<lparr>es_Namespace = ''default'', es_Name = ''web-1'', es_Labels = [(LabelServiceName, ''web'')],
     es_Ports = [\<lparr>dp_Name = Some ''http'', dp_Protocol = None, dp_Port = Some 8080, dp_AppProtocol = None\<rparr>],
     es_Endpoints = [
       \<lparr>de_Addresses = [''10.0.0.2''], de_Ready = None, de_Serving = None, de_Terminating = None, de_NodeName = Some ''a'', de_Zone = None\<rparr>,
       \<lparr>de_Addresses = [''10.0.0.1''], de_Ready = None, de_Serving = None, de_Terminating = None, de_NodeName = Some ''b'', de_Zone = None\<rparr>]\<rparr>"

definition demo_sinfo :: endpointSliceInfo where
  "demo_sinfo = \<lparr>esi_Ports = es_Ports demo_slice,
     esi_Endpoints = map slice_endpoint (rev (es_Endpoints demo_slice)), esi_Remove = False\<rparr>"

lemma demo_new: "newEndpointSliceInfo demo_senv demo_slice False = Inr demo_sinfo"
  by code_simp

theorem getEndpointsMap_endpoints_witness:
  "map_of (getEndpointsMap demo_senv (NewEndpointSliceCache ''a'' IPv4Protocol)
     \<lparr>nn_Namespace = ''default'', nn_Name = ''web''\<rparr> [(''web-1'', demo_sinfo)])
     \<lparr>psp_NamespacedName = \<lparr>nn_Namespace = ''default'', nn_Name = ''web''\<rparr>, psp_Port = ''http'', psp_Protocol = Protocol_UDP\<rparr> = None"
proof -
  have ops: "sv_ops demo_senv = standard_ops" by (simp add: demo_senv_def)
  have "\<lparr>psp_NamespacedName = \<lparr>nn_Namespace = ''default'', nn_Name = ''web''\<rparr>, psp_Port = ''http'', psp_Protocol = Protocol_UDP\<rparr>
    \<notin> range (psp \<lparr>nn_Namespace = ''default'', nn_Name = ''web''\<rparr>)" by (auto simp: psp_def)
  with getEndpointsMap_endpoints [OF ops, where cache = "NewEndpointSliceCache ''a'' IPv4Protocol"
      and nn = "\<lparr>nn_Namespace = ''default'', nn_Name = ''web''\<rparr>" and slices = "[(''web-1'', demo_sinfo)]"]
  show ?thesis by blast
qed

theorem slice_cache_refines_witness:
  "\<exists>b c'. updatePending demo_senv demo_slice False (NewEndpointSliceCache ''a'' IPv4Protocol) = Inr (b, c') \<and>
     wanted c' (\<lparr>nn_Namespace = ''default'', nn_Name = ''web''\<rparr>, ''web-1'') = Some demo_sinfo"
proof -
  have "endpointSliceCacheKeys demo_slice = (\<lparr>nn_Namespace = ''default'', nn_Name = ''web''\<rparr>, ''web-1'', None)"
    by code_simp
  with slice_cache_refines [OF slice_reachable.start, of demo_slice _ _ demo_senv False] demo_new
  show ?thesis by fastforce
qed

end
