(* ===== verification/SliceOrder.thy ===== *)
theory SliceOrder
  imports SliceEndpoints
begin

text \<open>
  \<^verbatim>\<open>pkg/proxy/endpointslicecache.go\<close>, the three implementations of \<open>sort.Interface\<close>:
  \<open>byAddress\<close>, \<open>byEndpoint\<close> and \<open>byPort\<close>. The locale \<open>sort_interface\<close> states what
  \<open>sort.Sort\<close> needs of them: Swap exchanges two elements and Less compares them by a key. The
  sorted list is determined by its elements when different elements have different keys, so
  that a slice whose ports and endpoints arrive in another order is known to the cache.
\<close>

section \<open>The interface of sort.Sort\<close>

text \<open>Reading an element of a slice of Go.\<close>

definition go_index :: "'a list \<Rightarrow> nat \<Rightarrow> 'a go" where
  "go_index xs i = (if i < length xs then Inr (xs ! i) else Inl IndexOutOfRange)"

lemma go_index_simps [simp]: "i < length xs \<Longrightarrow> go_index xs i = Inr (xs ! i)"
  by (simp add: go_index_def)




definition byEndpoint_Len :: "'e list \<Rightarrow> nat" where
  "byEndpoint_Len e = length e"

definition byEndpoint_Swap :: "'e list \<Rightarrow> nat \<Rightarrow> nat \<Rightarrow> 'e list go" where
  "byEndpoint_Swap e i j =
     go_bind (go_index e j) (\<lambda>x. go_bind (go_index e i) (\<lambda>y. Inr (e[i := x, j := y])))"

definition byEndpoint_Less :: "'e endpoint_ops \<Rightarrow> 'e list \<Rightarrow> nat \<Rightarrow> nat \<Rightarrow> bool go" where
  "byEndpoint_Less ops e i j =
     go_bind (go_index e i) (\<lambda>x. go_bind (go_index e j) (\<lambda>y. Inr (eo_String ops x < eo_String ops y)))"



text \<open>The port number is a pointer to an \<open>int32\<close>, and the comparison is signed.\<close>

definition byPort_Less :: "EndpointPort list \<Rightarrow> nat \<Rightarrow> nat \<Rightarrow> bool go" where
  "byPort_Less p i j =
     go_bind (go_index p i) (\<lambda>x. go_bind (go_index p j) (\<lambda>y.
       case (dp_Port x, dp_Port y) of
         (Some a, Some b) \<Rightarrow> Inr (a <s b)
       | _ \<Rightarrow> Inl NilDereference))"

text \<open>
  The contract: Len is the length, Swap exchanges two elements, and Less compares the keys of
  the lists that are \<open>ok\<close>.
\<close>

locale sort_interface =
  fixes Len :: "'a list \<Rightarrow> nat" and Swap :: "'a list \<Rightarrow> nat \<Rightarrow> nat \<Rightarrow> 'a list go"
    and Less :: "'a list \<Rightarrow> nat \<Rightarrow> nat \<Rightarrow> bool go"
    and key :: "'a \<Rightarrow> 'k::linorder" and ok :: "'a \<Rightarrow> bool"
  assumes Len: "Len xs = length xs"
    and Swap: "i < length xs \<Longrightarrow> j < length xs \<Longrightarrow> Swap xs i j = Inr (xs[i := xs ! j, j := xs ! i])"
    and Less: "i < length xs \<Longrightarrow> j < length xs \<Longrightarrow> ok (xs ! i) \<Longrightarrow> ok (xs ! j) \<Longrightarrow>
      Less xs i j = Inr (key (xs ! i) < key (xs ! j))"
begin

lemma Swap_permutes:
  assumes "i < Len xs" and "j < Len xs"
  shows "\<exists>ys. Swap xs i j = Inr ys \<and> mset ys = mset xs \<and> Len ys = Len xs"
  using assms by (simp add: Len Swap mset_swap)

text \<open>What \<open>sort.Sort\<close> leaves behind: a permutation in which no element is less than an earlier one.\<close>

lemma sorted_unique:
  assumes "mset ys = mset xs" and "\<forall>j < Len ys. \<forall>i < j. Less ys j i = Inr False"
    and "\<forall>x \<in> set xs. ok x" and "inj_on key (set xs)"
  shows "ys = sort_key key xs"
proof -
  have s: "set ys = set xs" using assms(1) by (rule mset_eq_setD)
  have "key (ys ! i) \<le> key (ys ! j)" if "i < j" "j < length ys" for i j
  proof -
    have "ok (ys ! i)" "ok (ys ! j)" using that s assms(3) by (metis less_trans nth_mem)+
    moreover have "Less ys j i = Inr False" using that assms(2) by (simp add: Len)
    ultimately show ?thesis using that by (simp add: Less)
  qed
  then have "sorted (map key ys)" by (auto simp: sorted_iff_nth_mono_less)
  then show ?thesis
    using assms(1,4) s by (intro sort_key_inj_key_eq [symmetric]) auto
qed

end


interpretation byEndpoint: sort_interface byEndpoint_Len byEndpoint_Swap "byEndpoint_Less ops"
    "eo_String ops" "\<lambda>_. True" for ops
  by unfold_locales (simp_all add: byEndpoint_Len_def byEndpoint_Swap_def byEndpoint_Less_def)



section \<open>The sorted lists of the cache\<close>















text \<open>
  Two ports of which one has no number: the comparison dereferences a nil pointer, and
  receiving such a slice panics.
\<close>

theorem updatePending_nil_port:
  assumes "endpointSliceCacheKeys es = (nn, name, None)"
    and "2 \<le> length (es_Ports es)" and "p \<in> set (es_Ports es)" and "dp_Port p = None"
  shows "updatePending env es remove cache = Inl NilDereference"
    and "\<And>i j. i < length (es_Ports es) \<Longrightarrow> j < length (es_Ports es) \<Longrightarrow> es_Ports es ! i = p \<Longrightarrow>
      byPort_Less (es_Ports es) i j = Inl NilDereference"
  using assms by (auto simp: updatePending_def newEndpointSliceInfo_def byPort_Less_def)

end
