(* ===== verification/WinTypes.thy ===== *)
theory WinTypes
  imports ProxyTypes
begin

text \<open>
  \<^verbatim>\<open>pkg/proxy/winkernel/hns.go\<close> and \<^verbatim>\<open>endpoints.go\<close>: the data of the Windows kernel
  proxier, the interface \<open>HostNetworkService\<close> of \<^verbatim>\<open>hnsV1.go\<close>, and the two Windows APIs that
  its implementations call (\<open>hcsshim\<close> and \<open>hcn\<close> of Microsoft), which are parameters: every
  call is a function of the world \<open>'w\<close>, which it may change.
\<close>

section \<open>Calls that may fail, panic and change the world\<close>

datatype hns_error =
    ApiError string
  | ListEndpointsFailed string
  | LocalCreationFailed string
  | PAPolicyFailed string
  | SubnetUnmarshalFailed
  | EndpointNotFound string string

type_synonym ('w, 'a) hio = "'w \<Rightarrow> ((hns_error + 'a) \<times> 'w) go"
type_synonym ('w, 'a) api_call = "'w \<Rightarrow> (string + 'a) \<times> 'w"

definition hio_return :: "'a \<Rightarrow> ('w, 'a) hio" where
  "hio_return x w = Inr (Inr x, w)"

definition hio_fail :: "hns_error \<Rightarrow> ('w, 'a) hio" where
  "hio_fail err w = Inr (Inl err, w)"

definition hio_panic :: "go_panic \<Rightarrow> ('w, 'a) hio" where
  "hio_panic p w = Inl p"

definition hio_bind :: "('w, 'a) hio \<Rightarrow> ('a \<Rightarrow> ('w, 'b) hio) \<Rightarrow> ('w, 'b) hio" where
  "hio_bind m f w = go_bind (m w) (\<lambda>(r, w). case r of Inl err \<Rightarrow> Inr (Inl err, w) | Inr x \<Rightarrow> f x w)"

text \<open>A call of an API, and one whose error the caller wraps.\<close>

definition wrapped :: "(string \<Rightarrow> hns_error) \<Rightarrow> ('w, 'a) api_call \<Rightarrow> ('w, 'a) hio" where
  "wrapped mk_err c w = (case c w of (Inl err, w) \<Rightarrow> Inr (Inl (mk_err err), w) | (Inr x, w) \<Rightarrow> Inr (Inr x, w))"

definition api :: "('w, 'a) api_call \<Rightarrow> ('w, 'a) hio" where
  "api = wrapped ApiError"

named_theorems hio_defs "the calls as functions of the world"

lemma hio_bind_Inr: "hio_bind m f w = Inr (r, w') \<longleftrightarrow>
    (\<exists>err. m w = Inr (Inl err, w') \<and> r = Inl err) \<or> (\<exists>x w1. m w = Inr (Inr x, w1) \<and> f x w1 = Inr (r, w'))"
proof (cases "m w")
  case (Inr p)
  then show ?thesis by (cases p; cases "fst p") (auto simp: hio_bind_def)
qed (simp add: hio_bind_def)

lemma hio_simps [simp]:
  "hio_bind (hio_return x) f = f x"
  "hio_bind (hio_fail err) f = hio_fail err"
  "hio_bind (hio_panic p) f = hio_panic p"
  by (simp_all add: hio_bind_def hio_return_def hio_fail_def hio_panic_def fun_eq_iff)

text \<open>A call that never panics, whatever the world.\<close>

definition total_call :: "('w, 'a) hio \<Rightarrow> bool" where
  "total_call m \<longleftrightarrow> (\<forall>w. \<exists>r w'. m w = Inr (r, w'))"

named_theorems total_intros "calls that do not panic"

lemma total_return [total_intros]: "total_call (hio_return x)"
  by (simp add: total_call_def hio_return_def)

lemma total_fail [total_intros]: "total_call (hio_fail err)"
  by (simp add: total_call_def hio_fail_def)

lemma total_wrapped [total_intros]: "total_call (wrapped mk_err c)"
  by (simp add: total_call_def wrapped_def split: prod.splits sum.splits)

lemma total_api [total_intros]: "total_call (api c)"
  by (simp add: api_def total_wrapped)

lemma total_bind [total_intros]: "total_call m \<Longrightarrow> (\<And>x. total_call (f x)) \<Longrightarrow> total_call (hio_bind m f)"
proof (unfold total_call_def, rule allI)
  fix w assume m: "\<forall>w. \<exists>r w'. m w = Inr (r, w')" and f: "\<And>x. \<forall>w. \<exists>r w'. f x w = Inr (r, w')"
  from m obtain r w' where r: "m w = Inr (r, w')" by blast
  show "\<exists>r w'. hio_bind m f w = Inr (r, w')"
  proof (cases r)
    case (Inr x)
    from f [of x] have "\<exists>r1 w1. f x w' = Inr (r1, w1)" by blast
    with r Inr show ?thesis by (simp add: hio_bind_def)
  qed (use r in \<open>simp add: hio_bind_def\<close>)
qed

text \<open>A loop over a list that may return early.\<close>

fun find_go :: "('a \<Rightarrow> bool go) \<Rightarrow> 'a list \<Rightarrow> 'a option go" where
  "find_go P [] = Inr None"
| "find_go P (x # xs) = go_bind (P x) (\<lambda>b. if b then Inr (Some x) else find_go P xs)"

lemma find_go_pure: "(\<And>x. x \<in> set xs \<Longrightarrow> P x = Inr (Q x)) \<Longrightarrow> find_go P xs = Inr (List.find Q xs)"
  by (induction xs) auto

definition hio_go :: "'a go \<Rightarrow> ('w, 'a) hio" where
  "hio_go m w = go_bind m (\<lambda>x. Inr (Inr x, w))"

fun hio_map :: "('a \<Rightarrow> ('w, 'b) hio) \<Rightarrow> 'a list \<Rightarrow> ('w, 'b list) hio" where
  "hio_map f [] = hio_return []"
| "hio_map f (x # xs) = hio_bind (f x) (\<lambda>y. hio_bind (hio_map f xs) (\<lambda>ys. hio_return (y # ys)))"

lemma total_map [total_intros]: "(\<And>x. total_call (f x)) \<Longrightarrow> total_call (hio_map f xs)"
  by (induction xs) (simp_all add: total_intros)

section \<open>The data of hns.go and endpoints.go\<close>

record remoteSubnetInfo =
  rs_destinationPrefix :: string
  rs_isolationID :: "16 word"
  rs_providerAddress :: string
  rs_drMacAddress :: string

record hnsNetworkInfo =
  ni_name :: string
  ni_id :: string
  ni_networkType :: string
  ni_remoteSubnets :: "remoteSubnetInfo list"

record loadBalancerFlags =
  lf_isILB :: bool
  lf_isDSR :: bool
  lf_localRoutedVIP :: bool
  lf_useMUX :: bool
  lf_preserveDIP :: bool
  lf_sessionAffinity :: bool
  lf_isIPv6 :: bool

record loadBalancerInfo =
  li_hnsID :: string

record externalIPInfo =
  xi_ip :: string
  xi_hnsID :: string

record loadBalancerIngressInfo =
  ii_ip :: string
  ii_hnsID :: string

text \<open>
  The two implementations of \<open>HostNetworkService\<close> are empty structs, so that a value of the
  interface is which of them it is.
\<close>

datatype HostNetworkService = HnsV1 | HnsV2

text \<open>
  The reference count of an endpoint is a pointer to a 16-bit counter. \<open>new(uint16)\<close> makes a
  counter that only the endpoint has; a counter of the map \<open>endPointsRefCount\<close> is shared by
  all endpoints that point to it and is named by its place in a list of counters.
\<close>

datatype refcount = OwnCell "16 word" | SharedCell nat

record endpointsInfo =
  epi_ip :: string
  epi_port :: "16 word"
  epi_isLocal :: bool
  epi_macAddress :: string
  epi_hnsID :: string
  epi_refCount :: "refcount option"
  epi_providerAddress :: string
  epi_hns :: "HostNetworkService option"
  epi_ready :: bool
  epi_serving :: bool
  epi_terminating :: bool

section \<open>The operations of HostNetworkService\<close>

record 'w hns_ops =
  hn_getNetworkByName :: "string \<Rightarrow> ('w, hnsNetworkInfo) hio"
  hn_getEndpointByID :: "string \<Rightarrow> ('w, endpointsInfo) hio"
  hn_getEndpointByIpAddress :: "string \<Rightarrow> string \<Rightarrow> ('w, endpointsInfo) hio"
  hn_createEndpoint :: "endpointsInfo \<Rightarrow> string \<Rightarrow> ('w, endpointsInfo) hio"
  hn_deleteEndpoint :: "string \<Rightarrow> ('w, unit) hio"
  hn_getLoadBalancer :: "endpointsInfo list \<Rightarrow> loadBalancerFlags \<Rightarrow> string \<Rightarrow> string \<Rightarrow> 16 word \<Rightarrow> 16 word \<Rightarrow> 16 word \<Rightarrow>
     ('w, loadBalancerInfo) hio"
  hn_deleteLoadBalancer :: "string \<Rightarrow> ('w, unit) hio"

text \<open>
  What the proxier relies on: looking up a network and deleting never panic, and the
  endpoints that the service hands out belong to it, carry no reference count and keep the
  provider address they were created with.
\<close>

locale host_network_service =
  fixes self :: HostNetworkService and ops :: "'w hns_ops"
  assumes network_total: "total_call (hn_getNetworkByName ops name)"
    and deleteEndpoint_total: "total_call (hn_deleteEndpoint ops hnsID)"
    and deleteLoadBalancer_total: "total_call (hn_deleteLoadBalancer ops hnsID)"
    and createEndpoint_info: "hn_createEndpoint ops ep networkName w = Inr (Inr e, w') \<Longrightarrow>
      epi_hns e = Some self \<and> epi_refCount e = None \<and> epi_providerAddress e = epi_providerAddress ep"
    and getEndpointByID_info: "hn_getEndpointByID ops hnsID w = Inr (Inr e, w') \<Longrightarrow>
      epi_hns e = Some self \<and> epi_refCount e = None"
    and getEndpointByIpAddress_info: "hn_getEndpointByIpAddress ops ip networkName w = Inr (Inr e, w') \<Longrightarrow>
      epi_hns e = Some self \<and> epi_refCount e = None"

text \<open>
  \<open>strings.EqualFold\<close> on strings whose letters fold to ASCII letters only (as those of
  \<open>overlay\<close> and of identifiers in hexadecimal digits do).
\<close>

definition fold_char :: "char \<Rightarrow> char" where
  "fold_char c = (let n = (of_char c :: nat) in if 65 \<le> n \<and> n \<le> 90 then char_of (n + 32) else c)"

definition EqualFold :: "string \<Rightarrow> string \<Rightarrow> bool" where
  "EqualFold s t \<longleftrightarrow> map fold_char s = map fold_char t"

end
