(* ===== verification/WinHnsV1.thy ===== *)
theory WinHnsV1
  imports WinTypes
begin

text \<open>
  \<^verbatim>\<open>pkg/proxy/winkernel/hnsV1.go\<close>: the implementation of \<open>HostNetworkService\<close> on the first
  version of the Windows API (\<open>hcsshim\<close>). The records hold the fields of the API's objects
  that the code reads or sets; the calls of the API and the JSON coding of its policies are
  parameters.
\<close>

section \<open>The API\<close>

record HNSNetwork =
  hns_Id :: string
  hns_Name :: string
  hns_Type :: string

record HNSEndpoint =
  hep_Id :: string
  hep_IPAddress :: IP
  hep_MacAddress :: string
  hep_VirtualNetwork :: string
  hep_IsRemoteEndpoint :: bool
  hep_Policies :: "string list"

record ELBPolicy =
  elb_Protocol :: "16 word"
  elb_InternalPort :: "16 word"
  elb_ExternalPort :: "16 word"
  elb_ILB :: bool
  elb_VIPs :: "string list"

record PolicyList =
  pl_ID :: string
  pl_EndpointReferences :: "string list"
  pl_Policies :: "string list"

record 'w hcsshim =
  hs_GetHNSNetworkByName :: "string \<Rightarrow> ('w, HNSNetwork) api_call"
  hs_GetHNSEndpointByID :: "string \<Rightarrow> ('w, HNSEndpoint) api_call"
  hs_HNSListEndpointRequest :: "('w, HNSEndpoint list) api_call"
  hs_CreateEndpoint :: "HNSNetwork \<Rightarrow> HNSEndpoint \<Rightarrow> ('w, HNSEndpoint) api_call"
  hs_CreateRemoteEndpoint :: "HNSNetwork \<Rightarrow> HNSEndpoint \<Rightarrow> ('w, HNSEndpoint) api_call"
  hs_Endpoint_Delete :: "HNSEndpoint \<Rightarrow> ('w, unit) api_call"
  hs_HNSListPolicyListRequest :: "('w, PolicyList list) api_call"
  hs_AddLoadBalancer :: "HNSEndpoint list \<Rightarrow> bool \<Rightarrow> string \<Rightarrow> string \<Rightarrow> 16 word \<Rightarrow> 16 word \<Rightarrow> 16 word \<Rightarrow> ('w, PolicyList) api_call"
  hs_GetPolicyListByID :: "string \<Rightarrow> ('w, PolicyList) api_call"
  hs_PolicyList_Delete :: "PolicyList \<Rightarrow> ('w, unit) api_call"
  hs_parse_ip :: "string \<Rightarrow> IP"
  hs_marshal_PaPolicy :: "string \<Rightarrow> string + string"
  hs_unmarshal_ELBPolicy :: "string \<Rightarrow> ELBPolicy option"

section \<open>The methods\<close>

definition getNetworkByName_V1 :: "'w hcsshim \<Rightarrow> string \<Rightarrow> ('w, hnsNetworkInfo) hio" where
  "getNetworkByName_V1 hs name =
     hio_bind (api (hs_GetHNSNetworkByName hs name)) (\<lambda>hnsnetwork.
       hio_return \<lparr>ni_name = hns_Name hnsnetwork, ni_id = hns_Id hnsnetwork,
                   ni_networkType = hns_Type hnsnetwork, ni_remoteSubnets = []\<rparr>)"

text \<open>The endpoint that the lookups make of an endpoint of the API.\<close>

definition found_endpoint_V1 :: "HNSEndpoint \<Rightarrow> endpointsInfo" where
  "found_endpoint_V1 hnsendpoint =
     \<lparr>epi_ip = IP_String (hep_IPAddress hnsendpoint), epi_port = 0,
      epi_isLocal = (\<not> hep_IsRemoteEndpoint hnsendpoint),
      epi_macAddress = hep_MacAddress hnsendpoint, epi_hnsID = hep_Id hnsendpoint,
      epi_refCount = None, epi_providerAddress = [], epi_hns = Some HnsV1,
      epi_ready = True, epi_serving = True, epi_terminating = False\<rparr>"

definition getEndpointByID_V1 :: "'w hcsshim \<Rightarrow> string \<Rightarrow> ('w, endpointsInfo) hio" where
  "getEndpointByID_V1 hs hnsID =
     hio_bind (api (hs_GetHNSEndpointByID hs hnsID)) (\<lambda>hnsendpoint. hio_return (found_endpoint_V1 hnsendpoint))"

definition endpoint_matches_V1 :: "string \<Rightarrow> HNSNetwork \<Rightarrow> HNSEndpoint \<Rightarrow> bool" where
  "endpoint_matches_V1 ip hnsnetwork endpoint =
     (let equal = (if hep_IPAddress endpoint \<noteq> [] then IP_String (hep_IPAddress endpoint) = ip else False)
      in equal \<and> EqualFold (hep_VirtualNetwork endpoint) (hns_Id hnsnetwork))"

definition getEndpointByIpAddress_V1 :: "'w hcsshim \<Rightarrow> string \<Rightarrow> string \<Rightarrow> ('w, endpointsInfo) hio" where
  "getEndpointByIpAddress_V1 hs ip networkName =
     hio_bind (api (hs_GetHNSNetworkByName hs networkName)) (\<lambda>hnsnetwork.
     hio_bind (wrapped ListEndpointsFailed (hs_HNSListEndpointRequest hs)) (\<lambda>endpoints.
       case List.find (endpoint_matches_V1 ip hnsnetwork) endpoints of
         Some endpoint \<Rightarrow> hio_return (found_endpoint_V1 endpoint)
       | None \<Rightarrow> hio_fail (EndpointNotFound ip networkName)))"

text \<open>
  \<open>createEndpoint\<close>: the endpoint that is asked for, and the result made of the created one.
\<close>

definition requested_V1 :: "'w hcsshim \<Rightarrow> endpointsInfo \<Rightarrow> HNSEndpoint" where
  "requested_V1 hs ep =
     \<lparr>hep_Id = [], hep_IPAddress = hs_parse_ip hs (epi_ip ep), hep_MacAddress = epi_macAddress ep,
      hep_VirtualNetwork = [], hep_IsRemoteEndpoint = False, hep_Policies = []\<rparr>"

definition created_V1 :: "endpointsInfo \<Rightarrow> HNSEndpoint \<Rightarrow> endpointsInfo" where
  "created_V1 ep createdEndpoint =
     \<lparr>epi_ip = IP_String (hep_IPAddress createdEndpoint), epi_port = 0,
      epi_isLocal = hep_IsRemoteEndpoint createdEndpoint,
      epi_macAddress = hep_MacAddress createdEndpoint, epi_hnsID = hep_Id createdEndpoint,
      epi_refCount = None, epi_providerAddress = epi_providerAddress ep, epi_hns = Some HnsV1,
      epi_ready = epi_ready ep, epi_serving = epi_serving ep, epi_terminating = epi_terminating ep\<rparr>"

definition createEndpoint_V1 :: "'w hcsshim \<Rightarrow> endpointsInfo \<Rightarrow> string \<Rightarrow> ('w, endpointsInfo) hio" where
  "createEndpoint_V1 hs ep networkName =
     hio_bind (api (hs_GetHNSNetworkByName hs networkName)) (\<lambda>hnsNetwork.
     let hnsEndpoint = requested_V1 hs ep
     in hio_bind
          (if \<not> epi_isLocal ep then
             hio_bind
               (if epi_providerAddress ep \<noteq> [] then
                  (case hs_marshal_PaPolicy hs (epi_providerAddress ep) of
                     Inl err \<Rightarrow> hio_fail (ApiError err)
                   | Inr paPolicyJson \<Rightarrow>
                       hio_return (hnsEndpoint\<lparr>hep_Policies := hep_Policies hnsEndpoint @ [paPolicyJson]\<rparr>))
                else hio_return hnsEndpoint)
               (\<lambda>hnsEndpoint. api (hs_CreateRemoteEndpoint hs hnsNetwork hnsEndpoint))
           else wrapped LocalCreationFailed (hs_CreateEndpoint hs hnsNetwork hnsEndpoint))
          (\<lambda>createdEndpoint. hio_return (created_V1 ep createdEndpoint)))"

definition deleteEndpoint_V1 :: "'w hcsshim \<Rightarrow> string \<Rightarrow> ('w, unit) hio" where
  "deleteEndpoint_V1 hs hnsID =
     hio_bind (api (hs_GetHNSEndpointByID hs hnsID)) (\<lambda>hnsendpoint. api (hs_Endpoint_Delete hs hnsendpoint))"

text \<open>
  Whether a policy list serves the request. The policy list of another number of endpoints,
  one that cannot be decoded and one for other ports are skipped; \<open>Policies[0]\<close> of a policy
  list without policies panics.
\<close>

definition policy_serves ::
  "'w hcsshim \<Rightarrow> nat \<Rightarrow> loadBalancerFlags \<Rightarrow> string \<Rightarrow> 16 word \<Rightarrow> 16 word \<Rightarrow> 16 word \<Rightarrow> PolicyList \<Rightarrow> bool go" where
  "policy_serves hs n flags vip protocol internalPort externalPort plist =
     (if length (pl_EndpointReferences plist) \<noteq> n then Inr False
      else case pl_Policies plist of
        [] \<Rightarrow> Inl IndexOutOfRange
      | policy # _ \<Rightarrow>
          (case hs_unmarshal_ELBPolicy hs policy of
             None \<Rightarrow> Inr False
           | Some elbPolicy \<Rightarrow>
               if elb_Protocol elbPolicy = protocol \<and> elb_InternalPort elbPolicy = internalPort \<and>
                  elb_ExternalPort elbPolicy = externalPort \<and> elb_ILB elbPolicy = lf_isILB flags
               then if 0 < length vip
                    then (case elb_VIPs elbPolicy of [] \<Rightarrow> Inr False | v # _ \<Rightarrow> Inr (v = vip))
                    else Inr (elb_VIPs elbPolicy = [])
               else Inr False))"

definition getLoadBalancer_V1 ::
  "'w hcsshim \<Rightarrow> endpointsInfo list \<Rightarrow> loadBalancerFlags \<Rightarrow> string \<Rightarrow> string \<Rightarrow> 16 word \<Rightarrow> 16 word \<Rightarrow> 16 word \<Rightarrow>
   ('w, loadBalancerInfo) hio" where
  "getLoadBalancer_V1 hs endpoints flags sourceVip vip protocol internalPort externalPort =
     hio_bind (api (hs_HNSListPolicyListRequest hs)) (\<lambda>plists.
     hio_bind (hio_go (find_go (policy_serves hs (length endpoints) flags vip protocol internalPort externalPort) plists))
       (\<lambda>existing. case existing of
          Some plist \<Rightarrow> hio_return \<lparr>li_hnsID = pl_ID plist\<rparr>
        | None \<Rightarrow>
            hio_bind (hio_map (\<lambda>ep. api (hs_GetHNSEndpointByID hs (epi_hnsID ep))) endpoints) (\<lambda>hnsEndpoints.
            hio_bind (api (hs_AddLoadBalancer hs hnsEndpoints (lf_isILB flags) sourceVip vip protocol internalPort externalPort))
              (\<lambda>lb. hio_return \<lparr>li_hnsID = pl_ID lb\<rparr>))))"

definition deleteLoadBalancer_V1 :: "'w hcsshim \<Rightarrow> string \<Rightarrow> ('w, unit) hio" where
  "deleteLoadBalancer_V1 hs hnsID =
     (if hnsID = [] then hio_return ()
      else hio_bind (api (hs_GetPolicyListByID hs hnsID)) (\<lambda>hnsloadBalancer. api (hs_PolicyList_Delete hs hnsloadBalancer)))"

text \<open>The function \<open>deleteAllHnsLoadBalancerPolicy\<close> of \<^verbatim>\<open>hns.go\<close> uses the same API.\<close>

definition deleteAllHnsLoadBalancerPolicy :: "'w hcsshim \<Rightarrow> 'w \<Rightarrow> 'w" where
  "deleteAllHnsLoadBalancerPolicy hs w =
     (case hs_HNSListPolicyListRequest hs w of
        (Inl err, w) \<Rightarrow> w
      | (Inr plists, w) \<Rightarrow> fold (\<lambda>plist w. snd (hs_PolicyList_Delete hs plist w)) plists w)"

definition hns_V1 :: "'w hcsshim \<Rightarrow> 'w hns_ops" where
  "hns_V1 hs =
     \<lparr>hn_getNetworkByName = getNetworkByName_V1 hs, hn_getEndpointByID = getEndpointByID_V1 hs,
      hn_getEndpointByIpAddress = getEndpointByIpAddress_V1 hs, hn_createEndpoint = createEndpoint_V1 hs,
      hn_deleteEndpoint = deleteEndpoint_V1 hs, hn_getLoadBalancer = getLoadBalancer_V1 hs,
      hn_deleteLoadBalancer = deleteLoadBalancer_V1 hs\<rparr>"

section \<open>The contract\<close>

lemma hio_return_Inr [simp]: "hio_return x w = Inr (r, w') \<longleftrightarrow> r = Inr x \<and> w' = w"
  by (auto simp: hio_return_def)

lemma hio_fail_Inr [simp]: "hio_fail err w = Inr (r, w') \<longleftrightarrow> r = Inl err \<and> w' = w"
  by (auto simp: hio_fail_def)

interpretation v1: host_network_service HnsV1 "hns_V1 hs" for hs
proof (unfold_locales, goal_cases)
  case (1 name)
  show ?case by (simp add: hns_V1_def getNetworkByName_V1_def total_intros)
next
  case (2 hnsID)
  show ?case by (simp add: hns_V1_def deleteEndpoint_V1_def total_intros)
next
  case (3 hnsID)
  show ?case by (simp add: hns_V1_def deleteLoadBalancer_V1_def total_intros)
next
  case (4 ep networkName w e w')
  then show ?case
    by (auto simp: hns_V1_def createEndpoint_V1_def Let_def hio_bind_Inr created_V1_def)
next
  case (5 hnsID w e w')
  then show ?case by (auto simp: hns_V1_def getEndpointByID_V1_def hio_bind_Inr found_endpoint_V1_def)
next
  case (6 ip networkName w e w')
  then show ?case
    by (auto simp: hns_V1_def getEndpointByIpAddress_V1_def hio_bind_Inr found_endpoint_V1_def split: option.splits)
qed

end
