(* ===== verification/WinHnsV2.thy ===== *)
theory WinHnsV2
  imports WinHnsV1
begin

unbundle bit_operations_syntax

text \<open>
  \<^verbatim>\<open>pkg/proxy/winkernel/hnsV2.go\<close>: the implementation of \<open>HostNetworkService\<close> on the second
  version of the Windows API (\<open>hcn\<close>). The records hold the fields of the API's objects that
  the code reads or sets; the calls of the API, its flag constants and the JSON coding of
  its policies are parameters. Reading \<open>IpConfigurations[0]\<close> of an endpoint without any and
  \<open>PortMappings[0]\<close> of a load balancer without any panics.
\<close>

section \<open>The API\<close>

record NetworkPolicy =
  np_Type :: string
  np_Settings :: string

record HostComputeNetwork =
  hcnet_Id :: string
  hcnet_Name :: string
  hcnet_Type :: string
  hcnet_Policies :: "NetworkPolicy list"

record EndpointPolicy =
  epo_Type :: string
  epo_Settings :: string

record HostComputeEndpoint =
  hce_Id :: string
  hce_HostComputeNetwork :: string
  hce_IpConfigurations :: "string list"
  hce_MacAddress :: string
  hce_Flags :: "32 word"
  hce_Policies :: "EndpointPolicy list"
  hce_SchemaVersion :: "int \<times> int"

record LoadBalancerPortMapping =
  lpm_Protocol :: "32 word"
  lpm_InternalPort :: "16 word"
  lpm_ExternalPort :: "16 word"
  lpm_DistributionType :: "32 word"
  lpm_Flags :: "32 word"

record HostComputeLoadBalancer =
  hcl_Id :: string
  hcl_HostComputeEndpoints :: "string list"
  hcl_SourceVIP :: string
  hcl_FrontendVIPs :: "string list"
  hcl_PortMappings :: "LoadBalancerPortMapping list"
  hcl_SchemaVersion :: "int \<times> int"
  hcl_Flags :: "32 word"

record hcn_constants =
  hk_EndpointFlagsRemoteEndpoint :: "32 word"
  hk_RemoteSubnetRoute :: string
  hk_NetworkProviderAddress :: string
  hk_PortMappingFlagsNone :: "32 word"
  hk_PortMappingFlagsILB :: "32 word"
  hk_PortMappingFlagsUseMux :: "32 word"
  hk_PortMappingFlagsPreserveDIP :: "32 word"
  hk_PortMappingFlagsLocalRoutedVIP :: "32 word"
  hk_LoadBalancerFlagsNone :: "32 word"
  hk_LoadBalancerFlagsDSR :: "32 word"
  hk_DistributionNone :: "32 word"
  hk_DistributionSourceIP :: "32 word"

record 'w hcn =
  hc_const :: hcn_constants
  hc_GetNetworkByName :: "string \<Rightarrow> ('w, HostComputeNetwork) api_call"
  hc_GetEndpointByID :: "string \<Rightarrow> ('w, HostComputeEndpoint) api_call"
  hc_ListEndpoints :: "('w, HostComputeEndpoint list) api_call"
  hc_CreateEndpoint :: "HostComputeNetwork \<Rightarrow> HostComputeEndpoint \<Rightarrow> ('w, HostComputeEndpoint) api_call"
  hc_CreateRemoteEndpoint :: "HostComputeNetwork \<Rightarrow> HostComputeEndpoint \<Rightarrow> ('w, HostComputeEndpoint) api_call"
  hc_Endpoint_Delete :: "HostComputeEndpoint \<Rightarrow> ('w, unit) api_call"
  hc_ListLoadBalancers :: "('w, HostComputeLoadBalancer list) api_call"
  hc_GetLoadBalancerByID :: "string \<Rightarrow> ('w, HostComputeLoadBalancer) api_call"
  hc_LoadBalancer_Create :: "HostComputeLoadBalancer \<Rightarrow> ('w, HostComputeLoadBalancer) api_call"
  hc_LoadBalancer_Delete :: "HostComputeLoadBalancer \<Rightarrow> ('w, unit) api_call"
  hc_unmarshal_RemoteSubnet :: "string \<Rightarrow> remoteSubnetInfo option"
  hc_marshal_ProviderAddress :: "string \<Rightarrow> string + string"

section \<open>Networks and endpoints\<close>

text \<open>
  The loop over the policies of a network, with the subnets found before; it returns the
  error at the first subnet policy whose settings cannot be decoded.
\<close>

fun remote_subnets :: "'w hcn \<Rightarrow> NetworkPolicy list \<Rightarrow> remoteSubnetInfo list \<Rightarrow> remoteSubnetInfo list option" where
  "remote_subnets hc [] remoteSubnets = Some remoteSubnets"
| "remote_subnets hc (policy # policies) remoteSubnets =
     (if np_Type policy = hk_RemoteSubnetRoute (hc_const hc)
      then (case hc_unmarshal_RemoteSubnet hc (np_Settings policy) of
              None \<Rightarrow> None
            | Some rs \<Rightarrow> remote_subnets hc policies (remoteSubnets @ [rs]))
      else remote_subnets hc policies remoteSubnets)"

definition getNetworkByName_V2 :: "'w hcn \<Rightarrow> string \<Rightarrow> ('w, hnsNetworkInfo) hio" where
  "getNetworkByName_V2 hc name =
     hio_bind (api (hc_GetNetworkByName hc name)) (\<lambda>hnsnetwork.
       case remote_subnets hc (hcnet_Policies hnsnetwork) [] of
         None \<Rightarrow> hio_fail SubnetUnmarshalFailed
       | Some remoteSubnets \<Rightarrow>
           hio_return \<lparr>ni_name = hcnet_Name hnsnetwork, ni_id = hcnet_Id hnsnetwork,
                       ni_networkType = hcnet_Type hnsnetwork, ni_remoteSubnets = remoteSubnets\<rparr>)"

text \<open>Locality by the flag of remote endpoints, and the endpoint info that V2 makes.\<close>

definition is_local_flags :: "'w hcn \<Rightarrow> 32 word \<Rightarrow> bool" where
  "is_local_flags hc flags \<longleftrightarrow> flags AND hk_EndpointFlagsRemoteEndpoint (hc_const hc) = 0"

definition info_V2 :: "'w hcn \<Rightarrow> string \<Rightarrow> string \<Rightarrow> HostComputeEndpoint \<Rightarrow> endpointsInfo" where
  "info_V2 hc ip providerAddress endpoint =
     \<lparr>epi_ip = ip, epi_port = 0, epi_isLocal = is_local_flags hc (hce_Flags endpoint),
      epi_macAddress = hce_MacAddress endpoint, epi_hnsID = hce_Id endpoint,
      epi_refCount = None, epi_providerAddress = providerAddress, epi_hns = Some HnsV2,
      epi_ready = False, epi_serving = False, epi_terminating = False\<rparr>"

definition first_ip :: "HostComputeEndpoint \<Rightarrow> string go" where
  "first_ip endpoint = (case hce_IpConfigurations endpoint of [] \<Rightarrow> Inl IndexOutOfRange | ip # _ \<Rightarrow> Inr ip)"

definition getEndpointByID_V2 :: "'w hcn \<Rightarrow> string \<Rightarrow> ('w, endpointsInfo) hio" where
  "getEndpointByID_V2 hc hnsID =
     hio_bind (api (hc_GetEndpointByID hc hnsID)) (\<lambda>hnsendpoint.
     hio_bind (hio_go (first_ip hnsendpoint)) (\<lambda>ip. hio_return (info_V2 hc ip [] hnsendpoint)))"

definition endpoint_matches_V2 :: "string \<Rightarrow> HostComputeNetwork \<Rightarrow> HostComputeEndpoint \<Rightarrow> bool" where
  "endpoint_matches_V2 ip hnsnetwork endpoint =
     (let configs = hce_IpConfigurations endpoint;
          equal = (if 0 < length configs
                   then let equal = configs ! 0 = ip
                        in if \<not> equal \<and> 1 < length configs then configs ! 1 = ip else equal
                   else False)
      in equal \<and> EqualFold (hce_HostComputeNetwork endpoint) (hcnet_Id hnsnetwork))"

definition getEndpointByIpAddress_V2 :: "'w hcn \<Rightarrow> string \<Rightarrow> string \<Rightarrow> ('w, endpointsInfo) hio" where
  "getEndpointByIpAddress_V2 hc ip networkName =
     hio_bind (api (hc_GetNetworkByName hc networkName)) (\<lambda>hnsnetwork.
     hio_bind (wrapped ListEndpointsFailed (hc_ListEndpoints hc)) (\<lambda>endpoints.
       case List.find (endpoint_matches_V2 ip hnsnetwork) endpoints of
         Some endpoint \<Rightarrow> hio_return (info_V2 hc ip [] endpoint)
       | None \<Rightarrow> hio_fail (EndpointNotFound ip networkName)))"

definition requested_V2 :: "'w hcn \<Rightarrow> endpointsInfo \<Rightarrow> HostComputeEndpoint" where
  "requested_V2 hc ep =
     \<lparr>hce_Id = [], hce_HostComputeNetwork = [], hce_IpConfigurations = [epi_ip ep],
      hce_MacAddress = epi_macAddress ep,
      hce_Flags = (if \<not> epi_isLocal ep then 0 OR hk_EndpointFlagsRemoteEndpoint (hc_const hc) else 0),
      hce_Policies = [], hce_SchemaVersion = (2, 0)\<rparr>"

definition createEndpoint_V2 :: "'w hcn \<Rightarrow> endpointsInfo \<Rightarrow> string \<Rightarrow> ('w, endpointsInfo) hio" where
  "createEndpoint_V2 hc ep networkName =
     hio_bind (api (hc_GetNetworkByName hc networkName)) (\<lambda>hnsNetwork.
     let hnsEndpoint = requested_V2 hc ep
     in hio_bind
          (if \<not> epi_isLocal ep then
             hio_bind
               (if epi_providerAddress ep \<noteq> [] then
                  (case hc_marshal_ProviderAddress hc (epi_providerAddress ep) of
                     Inl err \<Rightarrow> hio_fail (PAPolicyFailed err)
                   | Inr policySettingsJson \<Rightarrow>
                       let paPolicy = \<lparr>epo_Type = hk_NetworkProviderAddress (hc_const hc), epo_Settings = policySettingsJson\<rparr>
                       in hio_return (hnsEndpoint\<lparr>hce_Policies := hce_Policies hnsEndpoint @ [paPolicy]\<rparr>))
                else hio_return hnsEndpoint)
               (\<lambda>hnsEndpoint. api (hc_CreateRemoteEndpoint hc hnsNetwork hnsEndpoint))
           else api (hc_CreateEndpoint hc hnsNetwork hnsEndpoint))
          (\<lambda>createdEndpoint. hio_bind (hio_go (first_ip createdEndpoint))
             (\<lambda>ip. hio_return (info_V2 hc ip (epi_providerAddress ep) createdEndpoint))))"

definition deleteEndpoint_V2 :: "'w hcn \<Rightarrow> string \<Rightarrow> ('w, unit) hio" where
  "deleteEndpoint_V2 hc hnsID =
     hio_bind (api (hc_GetEndpointByID hc hnsID)) (\<lambda>hnsendpoint. api (hc_Endpoint_Delete hc hnsendpoint))"

section \<open>Load balancers\<close>

definition LoadBalancerFlagsIPv6 :: "32 word" where
  "LoadBalancerFlagsIPv6 = 2"

definition balancer_serves ::
  "nat \<Rightarrow> loadBalancerFlags \<Rightarrow> string \<Rightarrow> 16 word \<Rightarrow> 16 word \<Rightarrow> 16 word \<Rightarrow> HostComputeLoadBalancer \<Rightarrow> bool go" where
  "balancer_serves n flags vip protocol internalPort externalPort plist =
     (if length (hcl_HostComputeEndpoints plist) \<noteq> n then Inr False
      else case hcl_PortMappings plist of
        [] \<Rightarrow> Inl IndexOutOfRange
      | lbPortMapping # _ \<Rightarrow>
          if lpm_Protocol lbPortMapping = ucast protocol \<and> lpm_InternalPort lbPortMapping = internalPort \<and>
             lpm_ExternalPort lbPortMapping = externalPort \<and> (lpm_Flags lbPortMapping AND 1 \<noteq> 0) = lf_isILB flags
          then if 0 < length vip
               then (case hcl_FrontendVIPs plist of [] \<Rightarrow> Inr False | v # _ \<Rightarrow> Inr (v = vip))
               else Inr (hcl_FrontendVIPs plist = [])
          else Inr False)"

text \<open>The load balancer that is created when none serves the request.\<close>

definition port_mapping_flags :: "hcn_constants \<Rightarrow> loadBalancerFlags \<Rightarrow> 32 word" where
  "port_mapping_flags hk flags =
     (let f = hk_PortMappingFlagsNone hk;
          f = (if lf_isILB flags then f OR hk_PortMappingFlagsILB hk else f);
          f = (if lf_useMUX flags then f OR hk_PortMappingFlagsUseMux hk else f);
          f = (if lf_preserveDIP flags then f OR hk_PortMappingFlagsPreserveDIP hk else f)
      in if lf_localRoutedVIP flags then f OR hk_PortMappingFlagsLocalRoutedVIP hk else f)"

definition balancer_flags :: "hcn_constants \<Rightarrow> loadBalancerFlags \<Rightarrow> 32 word" where
  "balancer_flags hk flags =
     (let f = hk_LoadBalancerFlagsNone hk;
          f = (if lf_isDSR flags then f OR hk_LoadBalancerFlagsDSR hk else f)
      in if lf_isIPv6 flags then f OR LoadBalancerFlagsIPv6 else f)"

definition new_balancer ::
  "hcn_constants \<Rightarrow> loadBalancerFlags \<Rightarrow> string \<Rightarrow> string \<Rightarrow> 16 word \<Rightarrow> 16 word \<Rightarrow> 16 word \<Rightarrow>
   HostComputeEndpoint list \<Rightarrow> HostComputeLoadBalancer" where
  "new_balancer hk flags sourceVip vip protocol internalPort externalPort hnsEndpoints =
     \<lparr>hcl_Id = [], hcl_HostComputeEndpoints = map hce_Id hnsEndpoints, hcl_SourceVIP = sourceVip,
      hcl_FrontendVIPs = (if 0 < length vip then [vip] else []),
      hcl_PortMappings = [\<lparr>lpm_Protocol = ucast protocol, lpm_InternalPort = internalPort,
         lpm_ExternalPort = externalPort,
         lpm_DistributionType = (if lf_sessionAffinity flags then hk_DistributionSourceIP hk else hk_DistributionNone hk),
         lpm_Flags = port_mapping_flags hk flags\<rparr>],
      hcl_SchemaVersion = (2, 0), hcl_Flags = balancer_flags hk flags\<rparr>"

definition getLoadBalancer_V2 ::
  "'w hcn \<Rightarrow> endpointsInfo list \<Rightarrow> loadBalancerFlags \<Rightarrow> string \<Rightarrow> string \<Rightarrow> 16 word \<Rightarrow> 16 word \<Rightarrow> 16 word \<Rightarrow>
   ('w, loadBalancerInfo) hio" where
  "getLoadBalancer_V2 hc endpoints flags sourceVip vip protocol internalPort externalPort =
     hio_bind (api (hc_ListLoadBalancers hc)) (\<lambda>plists.
     hio_bind (hio_go (find_go (balancer_serves (length endpoints) flags vip protocol internalPort externalPort) plists))
       (\<lambda>existing. case existing of
          Some plist \<Rightarrow> hio_return \<lparr>li_hnsID = hcl_Id plist\<rparr>
        | None \<Rightarrow>
            hio_bind (hio_map (\<lambda>ep. api (hc_GetEndpointByID hc (epi_hnsID ep))) endpoints) (\<lambda>hnsEndpoints.
            hio_bind (api (hc_LoadBalancer_Create hc
                (new_balancer (hc_const hc) flags sourceVip vip protocol internalPort externalPort hnsEndpoints)))
              (\<lambda>lb. hio_return \<lparr>li_hnsID = hcl_Id lb\<rparr>))))"

text \<open>Deleting a load balancer that is not found is silent.\<close>

definition deleteLoadBalancer_V2 :: "'w hcn \<Rightarrow> string \<Rightarrow> ('w, unit) hio" where
  "deleteLoadBalancer_V2 hc hnsID w =
     (case hc_GetLoadBalancerByID hc hnsID w of
        (Inl err, w) \<Rightarrow> hio_return () w
      | (Inr lb, w) \<Rightarrow> api (hc_LoadBalancer_Delete hc lb) w)"

definition hns_V2 :: "'w hcn \<Rightarrow> 'w hns_ops" where
  "hns_V2 hc =
     \<lparr>hn_getNetworkByName = getNetworkByName_V2 hc, hn_getEndpointByID = getEndpointByID_V2 hc,
      hn_getEndpointByIpAddress = getEndpointByIpAddress_V2 hc, hn_createEndpoint = createEndpoint_V2 hc,
      hn_deleteEndpoint = deleteEndpoint_V2 hc, hn_getLoadBalancer = getLoadBalancer_V2 hc,
      hn_deleteLoadBalancer = deleteLoadBalancer_V2 hc\<rparr>"

section \<open>The contract\<close>

lemma info_V2_simps [simp]:
  "epi_hns (info_V2 hc ip pa e) = Some HnsV2" "epi_refCount (info_V2 hc ip pa e) = None"
  "epi_providerAddress (info_V2 hc ip pa e) = pa" "epi_isLocal (info_V2 hc ip pa e) = is_local_flags hc (hce_Flags e)"
  "epi_ip (info_V2 hc ip pa e) = ip" "epi_hnsID (info_V2 hc ip pa e) = hce_Id e"
  by (simp_all add: info_V2_def)

lemma total_deleteLoadBalancer_V2: "total_call (deleteLoadBalancer_V2 hc hnsID)"
proof (unfold total_call_def, rule allI)
  fix w
  show "\<exists>r w'. deleteLoadBalancer_V2 hc hnsID w = Inr (r, w')"
  proof (cases "hc_GetLoadBalancerByID hc hnsID w")
    case (Pair r w1)
    with total_api [of "hc_LoadBalancer_Delete hc (projr r)"] show ?thesis
      by (cases r) (auto simp: deleteLoadBalancer_V2_def total_call_def)
  qed
qed

interpretation v2: host_network_service HnsV2 "hns_V2 hc" for hc
proof (unfold_locales, goal_cases)
  case (1 name)
  show ?case by (simp add: hns_V2_def getNetworkByName_V2_def total_intros split: option.split)
next
  case (2 hnsID)
  show ?case by (simp add: hns_V2_def deleteEndpoint_V2_def total_intros)
next
  case (3 hnsID)
  show ?case by (simp add: hns_V2_def total_deleteLoadBalancer_V2)
next
  case (4 ep networkName w e w')
  then show ?case by (auto simp: hns_V2_def createEndpoint_V2_def Let_def hio_bind_Inr)
next
  case (5 hnsID w e w')
  then show ?case by (auto simp: hns_V2_def getEndpointByID_V2_def hio_bind_Inr)
next
  case (6 ip networkName w e w')
  then show ?case
    by (auto simp: hns_V2_def getEndpointByIpAddress_V2_def hio_bind_Inr split: option.splits)
qed

end
