(* ===== verification/ServiceTracker.thy ===== *)
theory ServiceTracker
  imports ProxyTypes
begin

text \<open>
  \<^verbatim>\<open>pkg/proxy/service.go\<close>: the base information of a service port and the tracker of
  service changes. A \<open>ServiceMap\<close> is a map that may be nil, which \<open>reflect.DeepEqual\<close>
  tells from an empty map. The Go interface \<open>ServicePort\<close> holds either the base information
  or what the injected constructor makes. \<open>parse_ip\<close> is \<open>netutils.ParseIPSloppy\<close>.
  The fields that no code of the repository sets (session affinity, external addresses,
  load balancer status, health check port, internal traffic policy) have their zero value.
\<close>

section \<open>Data\<close>

record BaseServiceInfo =
  bs_clusterIP :: IP
  bs_port :: int
  bs_protocol :: Protocol
  bs_nodePort :: int
  bs_loadBalancerStatus :: "string list"
  bs_sessionAffinityType :: string
  bs_stickyMaxAgeSeconds :: int
  bs_externalIPs :: "string list"
  bs_loadBalancerSourceRanges :: "string list"
  bs_healthCheckNodePort :: int
  bs_nodeLocalExternal :: bool
  bs_nodeLocalInternal :: bool
  bs_internalTrafficPolicy :: "string option"
  bs_hintsAnnotation :: string

text \<open>
  \<open>BaseServiceInfo.String\<close> and \<open>LoadBalancerIPStrings\<close>; the ingress entries of the status
  are kept as their addresses. \<open>protocol_string\<close> is the generated \<open>String\<close> method of the
  protocol.
\<close>

definition BaseServiceInfo_String :: "(Protocol \<Rightarrow> string) \<Rightarrow> BaseServiceInfo \<Rightarrow> string" where
  "BaseServiceInfo_String protocol_string info =
     IP_String (bs_clusterIP info) @ '':'' @ Itoa (bs_port info) @ ''/'' @ protocol_string (bs_protocol info)"

definition LoadBalancerIPStrings :: "BaseServiceInfo \<Rightarrow> string list" where
  "LoadBalancerIPStrings info = fold (\<lambda>ing ips. ips @ [ing]) (bs_loadBalancerStatus info) []"

datatype 'sp ServicePort = SP_Base BaseServiceInfo | SP_Made 'sp

type_synonym 'sp ServiceMap = "(SvcPortName, 'sp ServicePort) gomap option"

record 'sp serviceChange =
  sc_previous :: "'sp ServiceMap"
  sc_current :: "'sp ServiceMap"

record 'sp ServiceChangeTracker =
  sct_items :: "(NamespacedName, 'sp serviceChange) gomap"
  sct_PersistentServices :: "(NamespacedName, Service) gomap"
  sct_ipFamily :: IPFamily

text \<open>What the tracker is given: the address parser and the injected constructor, or nil.\<close>

type_synonym 'sp makeServicePortFunc = "PortMapping \<Rightarrow> Service \<Rightarrow> BaseServiceInfo \<Rightarrow> 'sp"

record 'sp tracker_env =
  te_parse_ip :: "string \<Rightarrow> IP"
  te_makeServiceInfo :: "'sp makeServicePortFunc option"

section \<open>Operations\<close>

definition NewServiceChangeTracker :: "IPFamily \<Rightarrow> 'sp ServiceChangeTracker" where
  "NewServiceChangeTracker ipFamily =
     \<lparr>sct_items = [], sct_PersistentServices = [], sct_ipFamily = ipFamily\<rparr>"

definition AnnotationTopologyAwareHints :: string where
  "AnnotationTopologyAwareHints = ''service.kubernetes.io/topology-aware-hints''"

definition newBaseServiceInfo ::
  "'sp tracker_env \<Rightarrow> 'sp ServiceChangeTracker \<Rightarrow> PortMapping \<Rightarrow> Service \<Rightarrow> BaseServiceInfo" where
  "newBaseServiceInfo env sct port service =
     (let clusterIP = GetClusterIPByFamily (sct_ipFamily sct) service
      in \<lparr>bs_clusterIP = te_parse_ip env clusterIP,
          bs_port = sint (pm_Port port),
          bs_protocol = pm_Protocol port,
          bs_nodePort = sint (pm_NodePort port),
          bs_loadBalancerStatus = [], bs_sessionAffinityType = [], bs_stickyMaxAgeSeconds = 0,
          bs_externalIPs = [], bs_loadBalancerSourceRanges = [], bs_healthCheckNodePort = 0,
          bs_nodeLocalExternal = False, bs_nodeLocalInternal = False, bs_internalTrafficPolicy = None,
          bs_hintsAnnotation =
            (case map_of (svc_Annotations service) AnnotationTopologyAwareHints of None \<Rightarrow> [] | Some v \<Rightarrow> v)\<rparr>)"

definition service_port ::
  "'sp tracker_env \<Rightarrow> 'sp ServiceChangeTracker \<Rightarrow> Service \<Rightarrow> PortMapping \<Rightarrow>
   (SvcPortName, 'sp ServicePort) gomap \<Rightarrow> (SvcPortName, 'sp ServicePort) gomap" where
  "service_port env sct service servicePort serviceMap =
     (let svcName = \<lparr>nn_Namespace = svc_Namespace service, nn_Name = svc_Name service\<rparr>;
          svcPortName = \<lparr>psp_NamespacedName = svcName, psp_Port = pm_Name servicePort,
                         psp_Protocol = pm_Protocol servicePort\<rparr>;
          baseSvcInfo = newBaseServiceInfo env sct servicePort service
      in case te_makeServiceInfo env of
           Some mk_port \<Rightarrow> AList.update svcPortName (SP_Made (mk_port servicePort service baseSvcInfo)) serviceMap
         | None \<Rightarrow> AList.update svcPortName (SP_Base baseSvcInfo) serviceMap)"

definition serviceToServiceMap ::
  "'sp tracker_env \<Rightarrow> 'sp ServiceChangeTracker \<Rightarrow> Service option \<Rightarrow> 'sp ServiceMap" where
  "serviceToServiceMap env sct service =
     (case service of
        None \<Rightarrow> None
      | Some service \<Rightarrow>
          let clusterIP = GetClusterIPByFamily (sct_ipFamily sct) service
          in if clusterIP = [] then None
             else Some (fold (service_port env sct service) (svc_Ports service) []))"

definition GetName :: "string \<Rightarrow> string \<Rightarrow> NamespacedName" where
  "GetName namespace name = \<lparr>nn_Namespace = namespace, nn_Name = name\<rparr>"

text \<open>\<open>reflect.DeepEqual\<close> of two service maps: both nil, or none and equal as maps.\<close>

definition same_services :: "'sp ServiceMap \<Rightarrow> 'sp ServiceMap \<Rightarrow> bool" where
  "same_services a b =
     (case (a, b) of
        (None, None) \<Rightarrow> True
      | (Some m, Some n) \<Rightarrow> list_all (\<lambda>k. map_of m k = map_of n k) (map fst m @ map fst n)
      | _ \<Rightarrow> False)"

definition Update ::
  "'sp tracker_env \<Rightarrow> Service option \<Rightarrow> Service option \<Rightarrow> 'sp ServiceChangeTracker \<Rightarrow>
   bool \<times> 'sp ServiceChangeTracker" where
  "Update env previous current sct =
     (case (case current of None \<Rightarrow> previous | Some c \<Rightarrow> Some c) of
        None \<Rightarrow> (False, sct)
      | Some svc \<Rightarrow>
          let namespacedName = GetName (svc_Namespace svc) (svc_Name svc);
              change = (case map_of (sct_items sct) namespacedName of
                  Some change \<Rightarrow> change
                | None \<Rightarrow> \<lparr>sc_previous = serviceToServiceMap env sct previous, sc_current = None\<rparr>);
              sct = sct\<lparr>sct_PersistentServices := AList.update namespacedName svc (sct_PersistentServices sct)\<rparr>;
              change = change\<lparr>sc_current := serviceToServiceMap env sct current\<rparr>;
              items = AList.update namespacedName change (sct_items sct);
              items = (if same_services (sc_previous change) (sc_current change)
                       then AList.delete namespacedName items else items);
              sct = sct\<lparr>sct_items := items\<rparr>
          in (0 < length items, sct))"

section \<open>What the tracker records\<close>

text \<open>
  The cluster address is always the empty string, so that no service has a service map.
\<close>

lemma serviceToServiceMap_nil [simp]: "serviceToServiceMap env sct service = None"
  by (cases service) (simp_all add: serviceToServiceMap_def GetClusterIPByFamily_def)

definition remembered :: "Service option \<Rightarrow> Service option \<Rightarrow> Service option" where
  "remembered previous current = (case current of None \<Rightarrow> previous | Some c \<Rightarrow> Some c)"

lemma Update_items:
  assumes "sct_items sct = []"
  shows "Update env previous current sct =
    (False, case remembered previous current of None \<Rightarrow> sct
       | Some svc \<Rightarrow> sct\<lparr>sct_PersistentServices := AList.update (svc_key svc) svc (sct_PersistentServices sct)\<rparr>)"
  using assms
  by (cases current; cases previous) (simp_all add: Update_def remembered_def same_services_def svc_key_def GetName_def)

end
