(* ===== verification/WinPolicies.thy ===== *)
theory WinPolicies
  imports WinHnsV2 ServiceTracker
begin

text \<open>
  The parts of \<^verbatim>\<open>pkg/proxy/winkernel/endpoints.go\<close> and \<^verbatim>\<open>hns.go\<close> that release what was
  programmed into the host network: \<open>Cleanup\<close> of an endpoint, and \<open>cleanupAllPolicies\<close> of a
  service. Objects behind pointers are returned updated; the counters that endpoints share
  are a list of 16-bit cells. A method call on a nil interface panics; an error of the
  host network service is logged only.
\<close>

section \<open>Data\<close>

record serviceInfo_win =
  ws_Base :: BaseServiceInfo
  ws_targetPort :: int
  ws_externalIPs :: "externalIPInfo list"
  ws_loadBalancerIngressIPs :: "loadBalancerIngressInfo list"
  ws_hnsID :: string
  ws_nodePorthnsID :: string
  ws_policyApplied :: bool
  ws_remoteEndpoint :: "endpointsInfo option"
  ws_hns :: "HostNetworkService option"
  ws_preserveDIP :: bool
  ws_localTrafficDSR :: bool

text \<open>The dynamic type of an endpoint: what this proxier makes, or the base endpoint.\<close>

datatype Endpoint_win = EP_Made endpointsInfo | EP_Base BaseEndpointInfo

text \<open>The methods of the implementation that a value of the interface is.\<close>

type_synonym 'w hns_methods = "HostNetworkService \<Rightarrow> 'w hns_ops"

definition hns_table :: "'w hcsshim \<Rightarrow> 'w hcn \<Rightarrow> 'w hns_methods" where
  "hns_table hs hc h = (case h of HnsV1 \<Rightarrow> hns_V1 hs | HnsV2 \<Rightarrow> hns_V2 hc)"

section \<open>Endpoints\<close>

fun count_of :: "16 word list \<Rightarrow> refcount \<Rightarrow> 16 word" where
  "count_of cells (OwnCell c) = c"
| "count_of cells (SharedCell i) = cells ! i"

fun decrement :: "16 word list \<Rightarrow> refcount \<Rightarrow> refcount \<times> 16 word list" where
  "decrement cells (OwnCell c) = (OwnCell (c - 1), cells)"
| "decrement cells (SharedCell i) = (SharedCell i, cells[i := cells ! i - 1])"

definition Cleanup ::
  "'w hns_methods \<Rightarrow> endpointsInfo \<Rightarrow> 16 word list \<times> 'w \<Rightarrow> (endpointsInfo \<times> 16 word list \<times> 'w) go" where
  "Cleanup hns ep = (\<lambda>(cells, w).
     case epi_refCount ep of
       None \<Rightarrow> Inr (ep, cells, w)
     | Some rc \<Rightarrow>
         if epi_isLocal ep then Inr (ep, cells, w)
         else let (rc, cells) = decrement cells rc
              in if count_of cells rc \<le> 0 \<and> \<not> epi_isLocal ep
                 then (case epi_hns ep of
                         None \<Rightarrow> Inl NilDereference
                       | Some h \<Rightarrow>
                           go_bind (hn_deleteEndpoint (hns h) (epi_hnsID ep) w) (\<lambda>(r, w).
                             Inr ((case r of Inr _ \<Rightarrow> ep\<lparr>epi_hnsID := []\<rparr> | Inl err \<Rightarrow> ep)\<lparr>epi_refCount := None\<rparr>, cells, w)))
                 else Inr (ep\<lparr>epi_refCount := None\<rparr>, cells, w))"

text \<open>The loop over the endpoints of a service; endpoints of another type are left alone.\<close>

fun cleanup_endpoints ::
  "'w hns_methods \<Rightarrow> Endpoint_win list \<Rightarrow> 16 word list \<times> 'w \<Rightarrow> (Endpoint_win list \<times> 16 word list \<times> 'w) go" where
  "cleanup_endpoints hns [] s = Inr ([], s)"
| "cleanup_endpoints hns (ep # eps) s =
     (case ep of
        EP_Made epInfo \<Rightarrow>
          go_bind (Cleanup hns epInfo s) (\<lambda>(epInfo, s).
            go_bind (cleanup_endpoints hns eps s) (\<lambda>(eps, s). Inr (EP_Made epInfo # eps, s)))
      | EP_Base b \<Rightarrow> go_bind (cleanup_endpoints hns eps s) (\<lambda>(eps, s). Inr (EP_Base b # eps, s)))"

section \<open>Policies of a service\<close>

definition drop_balancer :: "'w hns_ops \<Rightarrow> string \<Rightarrow> 'w \<Rightarrow> 'w go" where
  "drop_balancer ops hnsID w = go_bind (hn_deleteLoadBalancer ops hnsID w) (\<lambda>(_, w). Inr w)"

definition delete_policies :: "'w hns_ops \<Rightarrow> serviceInfo_win \<Rightarrow> 'w \<Rightarrow> (serviceInfo_win \<times> 'w) go" where
  "delete_policies ops svcInfo w =
     go_bind (drop_balancer ops (ws_hnsID svcInfo) w) (\<lambda>w.
       let svcInfo = svcInfo\<lparr>ws_hnsID := []\<rparr>
       in go_bind (drop_balancer ops (ws_nodePorthnsID svcInfo) w) (\<lambda>w.
       let svcInfo = svcInfo\<lparr>ws_nodePorthnsID := []\<rparr>
       in go_bind (go_fold (\<lambda>externalIP. drop_balancer ops (xi_hnsID externalIP)) (ws_externalIPs svcInfo) w) (\<lambda>w.
       let svcInfo = svcInfo\<lparr>ws_externalIPs := map (xi_hnsID_update (\<lambda>_. [])) (ws_externalIPs svcInfo)\<rparr>
       in go_bind (go_fold (\<lambda>lbIngressIP. drop_balancer ops (ii_hnsID lbIngressIP)) (ws_loadBalancerIngressIPs svcInfo) w) (\<lambda>w.
       let svcInfo = svcInfo\<lparr>ws_loadBalancerIngressIPs := map (ii_hnsID_update (\<lambda>_. [])) (ws_loadBalancerIngressIPs svcInfo)\<rparr>
       in Inr (svcInfo, w)))))"

definition deleteAllHnsLoadBalancerPolicy_service ::
  "'w hns_methods \<Rightarrow> serviceInfo_win \<Rightarrow> 'w \<Rightarrow> (serviceInfo_win \<times> 'w) go" where
  "deleteAllHnsLoadBalancerPolicy_service hns svcInfo w =
     (case ws_hns svcInfo of
        None \<Rightarrow> Inl NilDereference
      | Some h \<Rightarrow> delete_policies (hns h) svcInfo w)"

definition cleanupAllPolicies ::
  "'w hns_methods \<Rightarrow> serviceInfo_win \<Rightarrow> Endpoint_win list \<Rightarrow> 16 word list \<times> 'w \<Rightarrow>
   (serviceInfo_win \<times> Endpoint_win list \<times> 16 word list \<times> 'w) go" where
  "cleanupAllPolicies hns svcInfo endpoints = (\<lambda>(cells, w).
     go_bind (deleteAllHnsLoadBalancerPolicy_service hns svcInfo w) (\<lambda>(svcInfo, w).
     go_bind (cleanup_endpoints hns endpoints (cells, w)) (\<lambda>(endpoints, cells, w).
     go_bind (case ws_remoteEndpoint svcInfo of
                None \<Rightarrow> Inr (svcInfo, cells, w)
              | Some ep \<Rightarrow> go_bind (Cleanup hns ep (cells, w)) (\<lambda>(ep, cells, w).
                  Inr (svcInfo\<lparr>ws_remoteEndpoint := Some ep\<rparr>, cells, w))) (\<lambda>(svcInfo, cells, w).
     Inr (svcInfo\<lparr>ws_policyApplied := False\<rparr>, endpoints, cells, w)))))"

end
