(* ===== verification/EndpointTracker.thy ===== *)
theory EndpointTracker
  imports SliceEndpoints
begin

text \<open>
  The tracker of endpoint changes of \<^verbatim>\<open>pkg/proxy/endpoints.go\<close>, of which the repository has the
  data and the constructor: its slice cache is the one of \<^verbatim>\<open>endpointslicecache.go\<close>. The clock
  is a parameter; times are numbers.
\<close>

record 'e EndpointChangeTracker =
  ect_hostname :: string
  ect_items :: "(NamespacedName, 'e endpointsChange) gomap"
  ect_endpointSliceCache :: EndpointSliceCache
  ect_ipFamily :: IPFamily
  ect_lastChangeTriggerTimes :: "(NamespacedName, int list) gomap"
  ect_trackerStartTime :: int

definition NewEndpointChangeTracker :: "int \<Rightarrow> string \<Rightarrow> IPFamily \<Rightarrow> 'e EndpointChangeTracker" where
  "NewEndpointChangeTracker now hostname ipFamily =
     \<lparr>ect_hostname = hostname, ect_items = [],
      ect_endpointSliceCache = NewEndpointSliceCache hostname ipFamily, ect_ipFamily = ipFamily,
      ect_lastChangeTriggerTimes = [], ect_trackerStartTime = now\<rparr>"

end
