(* ===== verification/WinProxier.thy ===== *)
theory WinProxier
  imports WinPolicies EndpointTracker
begin

text \<open>
  \<^verbatim>\<open>pkg/proxy/winkernel/proxier.go\<close>, \<^verbatim>\<open>service.go\<close> and the rest of \<^verbatim>\<open>endpoints.go\<close>: the
  endpoints and services the proxier makes, its reaction to changes of the two maps, its
  construction and its handlers. The services and endpoints of the maps are pointers that
  only the maps hold; they are stored updated. \<open>Sync\<close>, \<open>SyncLoop\<close> and \<open>syncProxyRules\<close>
  only print: their bodies are commented out in the source.
\<close>

section \<open>Endpoints\<close>

definition conjureMac :: "string \<Rightarrow> IP \<Rightarrow> string" where
  "conjureMac macPrefix ip =
     (let mac = (\<lambda>a b c d. macPrefix @ ''-'' @ hex2 a @ ''-'' @ hex2 b @ ''-'' @ hex2 c @ ''-'' @ hex2 d);
          ip4 = To4 ip
      in if ip4 \<noteq> [] then mac (ip4 ! 0) (ip4 ! 1) (ip4 ! 2) (ip4 ! 3)
         else let ip6 = To16 ip
              in if ip6 \<noteq> [] then mac (ip6 ! 15) (ip6 ! 14) (ip6 ! 13) (ip6 ! 12)
                 else ''02-11-22-33-44-55'')"

definition endpointsInfo_String :: "endpointsInfo \<Rightarrow> string" where
  "endpointsInfo_String info = JoinHostPort (epi_ip info) (Itoa (uint (epi_port info)))"

definition endpointsInfo_Equal :: "endpointsInfo \<Rightarrow> string \<times> bool \<Rightarrow> bool" where
  "endpointsInfo_Equal info other \<longleftrightarrow>
     endpointsInfo_String info = fst other \<and> epi_isLocal info = snd other"

definition newEndpointInfo ::
  "(string \<Rightarrow> IP) \<Rightarrow> HostNetworkService option \<Rightarrow> BaseEndpointInfo \<Rightarrow> endpointsInfo" where
  "newEndpointInfo parse_ip hns baseInfo =
     (let (portNumber, err) = BaseEndpointInfo_Port baseInfo;
          portNumber = (if err \<noteq> None then 0 else portNumber)
      in \<lparr>epi_ip = BaseEndpointInfo_IP parse_ip baseInfo, epi_port = word_of_int portNumber,
          epi_isLocal = be_IsLocal baseInfo,
          epi_macAddress = conjureMac ''02-11'' (parse_ip (BaseEndpointInfo_IP parse_ip baseInfo)),
          epi_hnsID = [], epi_refCount = Some (OwnCell 0), epi_providerAddress = [], epi_hns = hns,
          epi_ready = be_Ready baseInfo, epi_serving = be_Serving baseInfo,
          epi_terminating = be_Terminating baseInfo\<rparr>)"

text \<open>The endpoints of this proxier, as the slice cache uses them.\<close>

definition win_ops :: "(string \<Rightarrow> IP) \<Rightarrow> HostNetworkService option \<Rightarrow> endpointsInfo endpoint_ops" where
  "win_ops parse_ip hns =
     \<lparr>eo_String = endpointsInfo_String, eo_GetIsLocal = epi_isLocal, eo_make = newEndpointInfo parse_ip hns\<rparr>"

section \<open>Services\<close>

text \<open>\<open>dsr_supported\<close> is whether \<open>hcn.DSRSupported\<close> returns no error.\<close>

definition newServiceInfo ::
  "bool \<Rightarrow> HostNetworkService option \<Rightarrow> serviceInfo_win makeServicePortFunc" where
  "newServiceInfo dsr_supported hns port service baseInfo =
     (let preserveDIP = (map_of (svc_Annotations service) ''preserve-destination'' = Some ''true'');
          preserveDIP = (if \<not> dsr_supported then False else preserveDIP)
      in \<lparr>ws_Base = baseInfo, ws_targetPort = sint (pm_TargetPort port), ws_externalIPs = [],
          ws_loadBalancerIngressIPs = [], ws_hnsID = [], ws_nodePorthnsID = [], ws_policyApplied = False,
          ws_remoteEndpoint = None, ws_hns = hns, ws_preserveDIP = preserveDIP, ws_localTrafficDSR = False\<rparr>)"

section \<open>The proxier\<close>

record Proxier_win =
  wp_endpointsChanges :: "endpointsInfo EndpointChangeTracker option"
  wp_endPointsRefCount :: "(string, nat) gomap"
  wp_cells :: "16 word list"
  wp_serviceChanges :: "serviceInfo_win ServiceChangeTracker option"
  wp_serviceMap :: "(SvcPortName, serviceInfo_win ServicePort) gomap"
  wp_endpointsMap :: "(SvcPortName, Endpoint_win list) gomap"
  wp_endpointSlicesSynced :: bool
  wp_servicesSynced :: bool
  wp_isIPv6Mode :: bool
  wp_initialized :: int32
  wp_masqueradeAll :: bool
  wp_masqueradeMark :: string
  wp_clusterCIDR :: string
  wp_hostname :: string
  wp_nodeIP :: IP
  wp_hns :: "HostNetworkService option"
  wp_network :: hnsNetworkInfo
  wp_sourceVip :: string
  wp_hostMac :: string
  wp_isDSR :: bool

text \<open>
  \<open>onServiceMapChange\<close> and \<open>onEndpointsMapChange\<close>: the service of the name is cleaned up with
  its endpoints, when the proxier has it and made it; without a service the endpoints of the
  name are cleaned up.
\<close>

definition cleanup_service ::
  "'w hns_methods \<Rightarrow> SvcPortName \<Rightarrow> serviceInfo_win \<Rightarrow> Proxier_win \<times> 'w \<Rightarrow> (Proxier_win \<times> 'w) go" where
  "cleanup_service hns svcPortName svcInfo = (\<lambda>(proxier, w).
     let endpoints = (case map_of (wp_endpointsMap proxier) svcPortName of None \<Rightarrow> [] | Some eps \<Rightarrow> eps)
     in go_bind (cleanupAllPolicies hns svcInfo endpoints (wp_cells proxier, w)) (\<lambda>(svcInfo, endpoints, cells, w).
          Inr (proxier\<lparr>wp_serviceMap := AList.update svcPortName (SP_Made svcInfo) (wp_serviceMap proxier),
                       wp_endpointsMap :=
                         (if map_of (wp_endpointsMap proxier) svcPortName = None then wp_endpointsMap proxier
                          else AList.update svcPortName endpoints (wp_endpointsMap proxier)),
                       wp_cells := cells\<rparr>, w)))"

definition onServiceMapChange ::
  "'w hns_methods \<Rightarrow> SvcPortName \<Rightarrow> Proxier_win \<times> 'w \<Rightarrow> (Proxier_win \<times> 'w) go" where
  "onServiceMapChange hns svcPortName = (\<lambda>(proxier, w).
     case map_of (wp_serviceMap proxier) svcPortName of
       None \<Rightarrow> Inr (proxier, w)
     | Some (SP_Base b) \<Rightarrow> Inr (proxier, w)
     | Some (SP_Made svcInfo) \<Rightarrow> cleanup_service hns svcPortName svcInfo (proxier, w))"

definition onEndpointsMapChange ::
  "'w hns_methods \<Rightarrow> SvcPortName \<Rightarrow> Proxier_win \<times> 'w \<Rightarrow> (Proxier_win \<times> 'w) go" where
  "onEndpointsMapChange hns svcPortName = (\<lambda>(proxier, w).
     case map_of (wp_serviceMap proxier) svcPortName of
       Some (SP_Base b) \<Rightarrow> Inr (proxier, w)
     | Some (SP_Made svcInfo) \<Rightarrow> cleanup_service hns svcPortName svcInfo (proxier, w)
     | None \<Rightarrow>
         (case map_of (wp_endpointsMap proxier) svcPortName of
            None \<Rightarrow> Inr (proxier, w)
          | Some epInfos \<Rightarrow>
              go_bind (cleanup_endpoints hns epInfos (wp_cells proxier, w)) (\<lambda>(epInfos, cells, w).
                Inr (proxier\<lparr>wp_endpointsMap := AList.update svcPortName epInfos (wp_endpointsMap proxier),
                             wp_cells := cells\<rparr>, w))))"

text \<open>The two loops over the keys of the old and of the new map, in some order.\<close>

definition endpointsMapChange ::
  "'w hns_methods \<Rightarrow> SvcPortName list \<Rightarrow> SvcPortName list \<Rightarrow> Proxier_win \<times> 'w \<Rightarrow> (Proxier_win \<times> 'w) go" where
  "endpointsMapChange hns oldEndpointsMap newEndpointsMap s =
     go_bind (go_fold (onEndpointsMapChange hns) oldEndpointsMap s) (go_fold (onEndpointsMapChange hns) newEndpointsMap)"

definition serviceMapChange ::
  "'w hns_methods \<Rightarrow> SvcPortName list \<Rightarrow> SvcPortName list \<Rightarrow> Proxier_win \<times> 'w \<Rightarrow> (Proxier_win \<times> 'w) go" where
  "serviceMapChange hns previous current s =
     go_bind (go_fold (onServiceMapChange hns) current s)
       (go_fold (\<lambda>svcPortName s. if svcPortName \<in> set current then Inr s else onServiceMapChange hns svcPortName s) previous)"

end
