(* ===== verification/WinHandlers.thy ===== *)
theory WinHandlers
  imports WinProxier
begin

text \<open>
  The construction of the Windows proxier (\<open>NewProxier\<close> of \<^verbatim>\<open>proxier.go\<close> and the functions of
  \<^verbatim>\<open>hns.go\<close> it calls), its handlers, and the sink of \<^verbatim>\<open>sink.go\<close>. What the code asks of the
  machine is a parameter: the two network APIs, the environment variables, the network
  interfaces, the features the host supports, the resolver of the bind address, the address
  parsers of \<open>k8s.io/utils/net\<close>, sleeping and the clock.
\<close>

section \<open>The environment\<close>

record 'w win_env =
  wv_hcsshim :: "'w hcsshim"
  wv_hcn :: "'w hcn"
  wv_Api_V2 :: "'w \<Rightarrow> bool"
  wv_DSRSupported :: "'w \<Rightarrow> string option"
  wv_RemoteSubnetSupported :: "'w \<Rightarrow> string option"
  wv_Getenv :: "string \<Rightarrow> 'w \<Rightarrow> string"
  wv_Interfaces :: "'w \<Rightarrow> (string \<times> string list) list"
  wv_ResolveBindAddress :: "IP \<Rightarrow> 'w \<Rightarrow> IP \<times> string option"
  wv_sleep :: "'w \<Rightarrow> 'w"
  wv_now :: "'w \<Rightarrow> int"
  wv_parse_ip :: "string \<Rightarrow> IP"
  wv_parse_cidr :: "string \<Rightarrow> IP"
  wv_is_ipv6 :: "IP \<Rightarrow> bool"

definition env_table :: "'w win_env \<Rightarrow> 'w hns_methods" where
  "env_table env = hns_table (wv_hcsshim env) (wv_hcn env)"

section \<open>The network\<close>

definition newHostNetworkService :: "'w win_env \<Rightarrow> 'w \<Rightarrow> HostNetworkService" where
  "newHostNetworkService env w = (let hns = HnsV1 in if wv_Api_V2 env w then HnsV2 else hns)"

definition getNetworkName :: "'w win_env \<Rightarrow> string \<Rightarrow> 'w \<Rightarrow> string option" where
  "getNetworkName env hnsNetworkName w =
     (if length hnsNetworkName = 0
      then let hnsNetworkName = wv_Getenv env ''KUBE_NETWORK'' w
           in if length hnsNetworkName = 0 then None else Some hnsNetworkName
      else Some hnsNetworkName)"

text \<open>
  \<open>getNetworkInfo\<close> asks again every second until the network is found. The state of the loop
  is the last answer and the world.
\<close>

definition network_turn ::
  "'w win_env \<Rightarrow> 'w hns_ops \<Rightarrow> string \<Rightarrow> (hns_error + hnsNetworkInfo) \<times> 'w \<Rightarrow>
   (loop_ctl \<times> (hns_error + hnsNetworkInfo) \<times> 'w) go" where
  "network_turn env ops hnsNetworkName = (\<lambda>(r, w).
     case r of
       Inr info \<Rightarrow> Inr (Return, r, w)
     | Inl err \<Rightarrow>
         go_bind (hn_getNetworkByName ops hnsNetworkName (wv_sleep env w)) (\<lambda>s. Inr (Again, s)))"

definition getNetworkInfo ::
  "'w win_env \<Rightarrow> 'w hns_ops \<Rightarrow> string \<Rightarrow> 'w \<Rightarrow> ((hns_error + hnsNetworkInfo) \<times> 'w) go option" where
  "getNetworkInfo env ops hnsNetworkName w =
     ogo_bind (Some (hn_getNetworkByName ops hnsNetworkName w)) (go_loop (network_turn env ops hnsNetworkName))"

definition NETWORK_TYPE_OVERLAY :: string where
  "NETWORK_TYPE_OVERLAY = ''overlay''"

definition isOverlay :: "hnsNetworkInfo \<Rightarrow> bool" where
  "isOverlay info = EqualFold (ni_networkType info) NETWORK_TYPE_OVERLAY"

section \<open>NewProxier\<close>

record KubeProxyWinkernelConfiguration =
  kc_NetworkName :: string
  kc_SourceVip :: string
  kc_EnableDSR :: bool

datatype new_proxier_error =
    NetworkNameMissing
  | NetworkFailed hns_error
  | NetworkNotFound string
  | WinDSRNotEnabled
  | DSRNotSupported string
  | RemoteSubnetNotSupported string
  | SourceVipNotSet
  | HostMacNotFound IP

text \<open>
  \<open>fmt.Sprintf("%#08x")\<close> of a Go int: at least eight digits (seven after a sign) behind
  \<open>0x\<close>. A shift by 64 or more gives 0, and a negative bit number is a huge one.
\<close>

fun hex_nat :: "nat \<Rightarrow> string" where
  "hex_nat n = (if n < 16 then [hex_digit n] else hex_nat (n div 16) @ [hex_digit (n mod 16)])"

declare hex_nat.simps [simp del]

definition hex_padded :: "nat \<Rightarrow> nat \<Rightarrow> string" where
  "hex_padded width n = (let ds = hex_nat n in replicate (width - length ds) (CHR ''0'') @ ds)"

definition Sprintf_08x :: "int \<Rightarrow> string" where
  "Sprintf_08x i = (if i < 0 then ''-0x'' @ hex_padded 7 (nat (- i)) else ''0x'' @ hex_padded 8 (nat i))"

definition masqueradeMark :: "int \<Rightarrow> string" where
  "masqueradeMark masqueradeBit =
     (let masqueradeValue = (if 0 \<le> masqueradeBit \<and> masqueradeBit < 64
            then sint (push_bit (nat masqueradeBit) (1 :: 64 word)) else 0)
      in Sprintf_08x masqueradeValue @ ''/'' @ Sprintf_08x masqueradeValue)"

text \<open>The mark of the default bit of kube-proxy.\<close>

lemma masqueradeMark_default: "masqueradeMark 14 = ''0x00004000/0x00004000''"
  by (simp add: masqueradeMark_def Sprintf_08x_def hex_padded_def hex_nat.simps hex_digit_def, code_simp)

definition IsUnspecified :: "IP \<Rightarrow> bool" where
  "IsUnspecified ip \<longleftrightarrow> IP_Equal ip (To16 [0, 0, 0, 0]) \<or> IP_Equal ip (replicate 16 0)"

text \<open>The hardware address of the last interface that has an address equal to the node's.\<close>

definition find_host_mac :: "'w win_env \<Rightarrow> IP \<Rightarrow> (string \<times> string list) list \<Rightarrow> string" where
  "find_host_mac env nodeIP interfaces =
     fold (\<lambda>(hardwareAddr, addresses) hostMac.
         fold (\<lambda>addr hostMac. if IP_String (wv_parse_cidr env addr) = IP_String nodeIP then hardwareAddr else hostMac)
           addresses hostMac)
       interfaces []"

text \<open>
  The part of \<open>NewProxier\<close> that only an overlay network needs: the source address, the node
  address and the hardware address.
\<close>

definition overlay_settings ::
  "'w win_env \<Rightarrow> KubeProxyWinkernelConfiguration \<Rightarrow> IP \<Rightarrow> 'w \<Rightarrow> new_proxier_error + (string \<times> IP \<times> string)" where
  "overlay_settings env config nodeIP w =
     (case wv_RemoteSubnetSupported env w of
        Some err \<Rightarrow> Inl (RemoteSubnetNotSupported err)
      | None \<Rightarrow>
          let sourceVip = kc_SourceVip config
          in if length sourceVip = 0 then Inl SourceVipNotSet
             else let nodeIP = (if IsUnspecified nodeIP then fst (wv_ResolveBindAddress env nodeIP w) else nodeIP);
                      hostMac = find_host_mac env nodeIP (wv_Interfaces env w)
                  in if length hostMac = 0 then Inl (HostMacNotFound nodeIP)
                     else Inr (sourceVip, nodeIP, hostMac))"

text \<open>
  The proxier made at the end, with its two trackers. The address family is that of the node
  address.
\<close>

definition make_proxier ::
  "'w win_env \<Rightarrow> bool \<Rightarrow> int \<Rightarrow> string \<Rightarrow> string \<Rightarrow> HostNetworkService \<Rightarrow> hnsNetworkInfo \<Rightarrow> bool \<Rightarrow>
   string \<times> IP \<times> string \<Rightarrow> 'w \<Rightarrow> Proxier_win" where
  "make_proxier env masqueradeAll masqueradeBit clusterCIDR hostname hns info isDSR = (\<lambda>(sourceVip, nodeIP, hostMac) w.
     let isIPv6 = wv_is_ipv6 env nodeIP;
         ipFamily = (if isIPv6 then IPv6Protocol else IPv4Protocol)
     in \<lparr>wp_endpointsChanges = Some (NewEndpointChangeTracker (wv_now env w) hostname ipFamily),
         wp_endPointsRefCount = [], wp_cells = [],
         wp_serviceChanges = Some (NewServiceChangeTracker ipFamily),
         wp_serviceMap = [], wp_endpointsMap = [],
         wp_endpointSlicesSynced = False, wp_servicesSynced = False, wp_isIPv6Mode = isIPv6,
         wp_initialized = 0, wp_masqueradeAll = masqueradeAll, wp_masqueradeMark = masqueradeMark masqueradeBit,
         wp_clusterCIDR = clusterCIDR, wp_hostname = hostname, wp_nodeIP = nodeIP, wp_hns = Some hns,
         wp_network = info, wp_sourceVip = sourceVip, wp_hostMac = hostMac, wp_isDSR = isDSR\<rparr>)"

definition check_settings ::
  "'w win_env \<Rightarrow> KubeProxyWinkernelConfiguration \<Rightarrow> IP \<Rightarrow> hnsNetworkInfo \<Rightarrow> 'w \<Rightarrow>
   new_proxier_error + (string \<times> IP \<times> string)" where
  "check_settings env config nodeIP info w =
     (let isDSR = kc_EnableDSR config
      in if isDSR then Inl WinDSRNotEnabled
         else (case (isDSR, wv_DSRSupported env w) of
                 (True, Some err) \<Rightarrow> Inl (DSRNotSupported err)
               | _ \<Rightarrow> if isOverlay info then overlay_settings env config nodeIP w else Inr ([], nodeIP, [])))"

text \<open>
  NewProxier. Left out are its arguments \<open>syncPeriod\<close> and \<open>minSyncPeriod\<close> and the
  \<open>BoundedFrequencyRunner\<close> of \<open>k8s.io/kubernetes\<close> that is built of them, since the function it
  would run, \<open>syncProxyRules\<close>, only prints and nothing else reads the runner; and printing the
  list of networks.
\<close>

definition NewProxier_win ::
  "'w win_env \<Rightarrow> bool \<Rightarrow> int \<Rightarrow> string \<Rightarrow> string \<Rightarrow> IP \<Rightarrow> KubeProxyWinkernelConfiguration \<Rightarrow> 'w \<Rightarrow>
   ((new_proxier_error + Proxier_win) \<times> 'w) go option" where
  "NewProxier_win env masqueradeAll masqueradeBit clusterCIDR hostname nodeIP config w =
     (let nodeIP = (if nodeIP = [] then wv_parse_ip env ''127.0.0.1'' else nodeIP);
          hns = newHostNetworkService env w;
          ops = env_table env hns
      in case getNetworkName env (kc_NetworkName config) w of
           None \<Rightarrow> Some (Inr (Inl NetworkNameMissing, w))
         | Some hnsNetworkName \<Rightarrow>
             let w = deleteAllHnsLoadBalancerPolicy (wv_hcsshim env) w
             in ogo_bind (getNetworkInfo env ops hnsNetworkName w) (\<lambda>(r, w).
                  case r of
                    Inl err \<Rightarrow> Some (Inr (Inl (NetworkFailed err), w))
                  | Inr info \<Rightarrow>
                      ogo_bind (Some (if isOverlay info then hn_getNetworkByName ops hnsNetworkName w else Inr (Inr info, w)))
                        (\<lambda>(r, w). case r of
                           Inl err \<Rightarrow> Some (Inr (Inl (NetworkNotFound hnsNetworkName), w))
                         | Inr info \<Rightarrow>
                             (case check_settings env config nodeIP info w of
                                Inl err \<Rightarrow> Some (Inr (Inl err, w))
                              | Inr settings \<Rightarrow>
                                  Some (Inr (Inr (make_proxier env masqueradeAll masqueradeBit clusterCIDR hostname hns info
                                    (kc_EnableDSR config) settings w), w))))))"

section \<open>Handlers\<close>

definition isInitialized :: "Proxier_win \<Rightarrow> bool" where
  "isInitialized proxier \<longleftrightarrow> 0 <s wp_initialized proxier"

definition setInitialized :: "bool \<Rightarrow> Proxier_win \<Rightarrow> Proxier_win" where
  "setInitialized v proxier = proxier\<lparr>wp_initialized := (if v then 1 else 0)\<rparr>"

definition syncProxyRules :: "Proxier_win \<Rightarrow> Proxier_win" where
  "syncProxyRules proxier = proxier"

definition Sync_win :: "Proxier_win \<Rightarrow> Proxier_win" where
  "Sync_win proxier = proxier"

definition GetServiceChangeTracker :: "Proxier_win \<Rightarrow> serviceInfo_win ServiceChangeTracker option" where
  "GetServiceChangeTracker proxier = wp_serviceChanges proxier"

definition service_tracker_env :: "'w win_env \<Rightarrow> bool \<Rightarrow> Proxier_win \<Rightarrow> serviceInfo_win tracker_env" where
  "service_tracker_env env dsr_supported proxier =
     \<lparr>te_parse_ip = wv_parse_ip env, te_makeServiceInfo = Some (newServiceInfo dsr_supported (wp_hns proxier))\<rparr>"

text \<open>
  \<open>Update\<close> of a nil tracker returns false before it takes the lock when both services are nil
  and panics otherwise.
\<close>

definition OnServiceUpdate_win ::
  "'w win_env \<Rightarrow> bool \<Rightarrow> Service option \<Rightarrow> Service option \<Rightarrow> Proxier_win \<Rightarrow> Proxier_win go" where
  "OnServiceUpdate_win env dsr_supported oldService service proxier =
     (case wp_serviceChanges proxier of
        None \<Rightarrow> if oldService = None \<and> service = None then Inr proxier else Inl NilDereference
      | Some sct \<Rightarrow>
          let (changed, sct) = Update (service_tracker_env env dsr_supported proxier) oldService service sct;
              proxier = proxier\<lparr>wp_serviceChanges := Some sct\<rparr>
          in Inr (if changed \<and> isInitialized proxier then Sync_win proxier else proxier))"

definition OnServiceAdd_win :: "'w win_env \<Rightarrow> bool \<Rightarrow> Service option \<Rightarrow> Proxier_win \<Rightarrow> Proxier_win go" where
  "OnServiceAdd_win env dsr_supported service = OnServiceUpdate_win env dsr_supported None service"

definition OnServiceDelete_win :: "'w win_env \<Rightarrow> bool \<Rightarrow> Service option \<Rightarrow> Proxier_win \<Rightarrow> Proxier_win go" where
  "OnServiceDelete_win env dsr_supported service = OnServiceUpdate_win env dsr_supported service None"

definition OnServiceSynced_win :: "Proxier_win \<Rightarrow> Proxier_win" where
  "OnServiceSynced_win proxier =
     (let proxier = proxier\<lparr>wp_servicesSynced := True\<rparr>;
          proxier = setInitialized (wp_endpointSlicesSynced proxier) proxier
      in syncProxyRules proxier)"

section \<open>The sink\<close>

text \<open>
  The sink works on the package variable that holds the proxier. \<open>log.Fatal\<close> ends the
  process.
\<close>

definition Setup_win :: "'w win_env \<Rightarrow> 'w \<Rightarrow> (Proxier_win \<times> 'w) go option" where
  "Setup_win env w =
     ogo_bind (NewProxier_win env False 0 [] [] (To16 [192, 168, 0, 12])
        \<lparr>kc_NetworkName = ''flannel.4096'', kc_SourceVip = ''192.168.0.12'', kc_EnableDSR = False\<rparr> w) (\<lambda>(r, w).
       case r of Inl err \<Rightarrow> Some (Inl (Panicked ''log.Fatal'')) | Inr proxier \<Rightarrow> Some (Inr (proxier, w)))"

definition SetService_win :: "'w win_env \<Rightarrow> bool \<Rightarrow> Service \<Rightarrow> Proxier_win \<Rightarrow> Proxier_win go" where
  "SetService_win env dsr_supported service proxier =
     (case GetServiceChangeTracker proxier of
        None \<Rightarrow> Inl NilDereference
      | Some svcChangeTracker \<Rightarrow>
          let svcName = GetName (svc_Namespace service) (svc_Name service)
          in case map_of (sct_PersistentServices svcChangeTracker) svcName of
               None \<Rightarrow> OnServiceAdd_win env dsr_supported (Some service) proxier
             | Some oldService \<Rightarrow> OnServiceUpdate_win env dsr_supported (Some oldService) (Some service) proxier)"

definition DeleteService_win :: "'w win_env \<Rightarrow> bool \<Rightarrow> string \<Rightarrow> string \<Rightarrow> Proxier_win \<Rightarrow> Proxier_win go" where
  "DeleteService_win env dsr_supported namespace name proxier =
     (case GetServiceChangeTracker proxier of
        None \<Rightarrow> Inl NilDereference
      | Some svcChangeTracker \<Rightarrow>
          let svcName = GetName namespace name;
              service = map_of (sct_PersistentServices svcChangeTracker) svcName
          in go_bind (OnServiceDelete_win env dsr_supported service proxier) (\<lambda>proxier.
               Inr (proxier\<lparr>wp_serviceChanges := map_option
                 (\<lambda>sct. sct\<lparr>sct_PersistentServices := AList.delete svcName (sct_PersistentServices sct)\<rparr>)
                 (wp_serviceChanges proxier)\<rparr>)))"

text \<open>Endpoints, syncs and resets are only printed.\<close>

definition SetEndpoint_win :: "string \<Rightarrow> string \<Rightarrow> string \<Rightarrow> Endpoint option \<Rightarrow> Proxier_win \<Rightarrow> Proxier_win" where
  "SetEndpoint_win namespace serviceName key endpoint proxier = proxier"

definition DeleteEndpoint_win :: "string \<Rightarrow> string \<Rightarrow> string \<Rightarrow> Proxier_win \<Rightarrow> Proxier_win" where
  "DeleteEndpoint_win namespace serviceName key proxier = proxier"

definition Sync_sink_win :: "Proxier_win \<Rightarrow> Proxier_win" where
  "Sync_sink_win proxier = proxier"

definition Reset_win :: "Proxier_win \<Rightarrow> Proxier_win" where
  "Reset_win proxier = proxier"

text \<open>The calls of the sink interface and one call of the backend.\<close>

datatype sink_op =
    CallSetService Service
  | CallDeleteService string string
  | CallSetEndpoint string string string "Endpoint option"
  | CallDeleteEndpoint string string string
  | CallSync
  | CallReset

fun sink_call :: "'w win_env \<Rightarrow> bool \<Rightarrow> sink_op \<Rightarrow> Proxier_win \<Rightarrow> Proxier_win go" where
  "sink_call env dsr (CallSetService service) p = SetService_win env dsr service p"
| "sink_call env dsr (CallDeleteService namespace name) p = DeleteService_win env dsr namespace name p"
| "sink_call env dsr (CallSetEndpoint namespace serviceName key endpoint) p = Inr (SetEndpoint_win namespace serviceName key endpoint p)"
| "sink_call env dsr (CallDeleteEndpoint namespace serviceName key) p = Inr (DeleteEndpoint_win namespace serviceName key p)"
| "sink_call env dsr CallSync p = Inr (Sync_sink_win p)"
| "sink_call env dsr CallReset p = Inr (Reset_win p)"

end
