(* ===== verification/WinDemo.thy ===== *)
theory WinDemo
  imports WinHnsV2
begin

text \<open>
  A small host network on which the properties of the Windows proxier are applied to
  concrete inputs: one network, a list of endpoints, of policy lists and of load balancers.
  Both APIs work on the same host; an object that is created gets the next number as its
  identifier.
\<close>

record demo_host =
  dh_network_type :: string
  dh_eps1 :: "HNSEndpoint list"
  dh_plists :: "PolicyList list"
  dh_eps2 :: "HostComputeEndpoint list"
  dh_balancers :: "HostComputeLoadBalancer list"
  dh_next :: nat

definition demo_lookup :: "('a \<Rightarrow> string) \<Rightarrow> string \<Rightarrow> 'a list \<Rightarrow> string + 'a" where
  "demo_lookup key i xs = (case List.find (\<lambda>x. key x = i) xs of None \<Rightarrow> Inl ''not found'' | Some x \<Rightarrow> Inr x)"

definition demo_create1 :: "bool \<Rightarrow> HNSEndpoint \<Rightarrow> (demo_host, HNSEndpoint) api_call" where
  "demo_create1 remote e w =
     (let e = e\<lparr>hep_Id := decimal (dh_next w), hep_IsRemoteEndpoint := remote\<rparr>
      in (Inr e, w\<lparr>dh_eps1 := dh_eps1 w @ [e], dh_next := dh_next w + 1\<rparr>))"

definition demo_hcsshim :: "demo_host hcsshim" where
  "demo_hcsshim =
     \<lparr>hs_GetHNSNetworkByName = (\<lambda>name w.
        (if name = ''flannel.4096'' then Inr \<lparr>hns_Id = ''N1'', hns_Name = name, hns_Type = dh_network_type w\<rparr>
         else Inl ''not found'', w)),
      hs_GetHNSEndpointByID = (\<lambda>i w. (demo_lookup hep_Id i (dh_eps1 w), w)),
      hs_HNSListEndpointRequest = (\<lambda>w. (Inr (dh_eps1 w), w)),
      hs_CreateEndpoint = (\<lambda>net. demo_create1 False),
      hs_CreateRemoteEndpoint = (\<lambda>net. demo_create1 True),
      hs_Endpoint_Delete = (\<lambda>e w. (Inr (), w\<lparr>dh_eps1 := filter (\<lambda>x. hep_Id x \<noteq> hep_Id e) (dh_eps1 w)\<rparr>)),
      hs_HNSListPolicyListRequest = (\<lambda>w. (Inr (dh_plists w), w)),
      hs_AddLoadBalancer = (\<lambda>eps ilb sourceVip vip protocol internalPort externalPort w.
        (let pl = \<lparr>pl_ID = decimal (dh_next w), pl_EndpointReferences = map hep_Id eps, pl_Policies = [''elb'']\<rparr>
         in (Inr pl, w\<lparr>dh_plists := dh_plists w @ [pl], dh_next := dh_next w + 1\<rparr>))),
      hs_GetPolicyListByID = (\<lambda>i w. (demo_lookup pl_ID i (dh_plists w), w)),
      hs_PolicyList_Delete = (\<lambda>pl w. (Inr (), w\<lparr>dh_plists := filter (\<lambda>x. pl_ID x \<noteq> pl_ID pl) (dh_plists w)\<rparr>)),
      hs_parse_ip = (\<lambda>s. if s = ''10.0.0.7'' then [10, 0, 0, 7] else []),
      hs_marshal_PaPolicy = (\<lambda>pa. Inr pa),
      hs_unmarshal_ELBPolicy = (\<lambda>p. Some
        \<lparr>elb_Protocol = 6, elb_InternalPort = 8080, elb_ExternalPort = 80, elb_ILB = False, elb_VIPs = [''10.96.0.1'']\<rparr>)\<rparr>"

definition demo_const :: hcn_constants where
  "demo_const =
     \<lparr>hk_EndpointFlagsRemoteEndpoint = 1, hk_RemoteSubnetRoute = ''RemoteSubnetRoute'',
      hk_NetworkProviderAddress = ''ProviderAddress'',
      hk_PortMappingFlagsNone = 0, hk_PortMappingFlagsILB = 1, hk_PortMappingFlagsUseMux = 4,
      hk_PortMappingFlagsPreserveDIP = 8, hk_PortMappingFlagsLocalRoutedVIP = 2,
      hk_LoadBalancerFlagsNone = 0, hk_LoadBalancerFlagsDSR = 1,
      hk_DistributionNone = 0, hk_DistributionSourceIP = 1\<rparr>"

definition demo_create2 :: "HostComputeEndpoint \<Rightarrow> (demo_host, HostComputeEndpoint) api_call" where
  "demo_create2 e w =
     (let e = e\<lparr>hce_Id := decimal (dh_next w), hce_HostComputeNetwork := ''N1''\<rparr>
      in (Inr e, w\<lparr>dh_eps2 := dh_eps2 w @ [e], dh_next := dh_next w + 1\<rparr>))"

definition demo_hcn :: "demo_host hcn" where
  "demo_hcn =
     \<lparr>hc_const = demo_const,
      hc_GetNetworkByName = (\<lambda>name w.
        (if name = ''flannel.4096''
         then Inr \<lparr>hcnet_Id = ''N1'', hcnet_Name = name, hcnet_Type = dh_network_type w, hcnet_Policies = []\<rparr>
         else Inl ''not found'', w)),
      hc_GetEndpointByID = (\<lambda>i w. (demo_lookup hce_Id i (dh_eps2 w), w)),
      hc_ListEndpoints = (\<lambda>w. (Inr (dh_eps2 w), w)),
      hc_CreateEndpoint = (\<lambda>net. demo_create2),
      hc_CreateRemoteEndpoint = (\<lambda>net. demo_create2),
      hc_Endpoint_Delete = (\<lambda>e w. (Inr (), w\<lparr>dh_eps2 := filter (\<lambda>x. hce_Id x \<noteq> hce_Id e) (dh_eps2 w)\<rparr>)),
      hc_ListLoadBalancers = (\<lambda>w. (Inr (dh_balancers w), w)),
      hc_GetLoadBalancerByID = (\<lambda>i w. (demo_lookup hcl_Id i (dh_balancers w), w)),
      hc_LoadBalancer_Create = (\<lambda>lb w.
        (let lb = lb\<lparr>hcl_Id := decimal (dh_next w)\<rparr>
         in (Inr lb, w\<lparr>dh_balancers := dh_balancers w @ [lb], dh_next := dh_next w + 1\<rparr>))),
      hc_LoadBalancer_Delete = (\<lambda>lb w. (Inr (), w\<lparr>dh_balancers := filter (\<lambda>x. hcl_Id x \<noteq> hcl_Id lb) (dh_balancers w)\<rparr>)),
      hc_unmarshal_RemoteSubnet = (\<lambda>s. None),
      hc_marshal_ProviderAddress = (\<lambda>pa. Inr pa)\<rparr>"

definition demo_win_endpoint :: "string \<Rightarrow> endpointsInfo" where
  "demo_win_endpoint i =
     \<lparr>epi_ip = ''10.0.0.7'', epi_port = 8080, epi_isLocal = False, epi_macAddress = ''02-11-0a-00-00-07'',
      epi_hnsID = i, epi_refCount = Some (SharedCell 0), epi_providerAddress = [], epi_hns = Some HnsV1,
      epi_ready = True, epi_serving = True, epi_terminating = False\<rparr>"

definition demo_ep1 :: "string \<Rightarrow> HNSEndpoint" where
  "demo_ep1 i = \<lparr>hep_Id = i, hep_IPAddress = [10, 0, 0, 7], hep_MacAddress = [], hep_VirtualNetwork = ''N1'',
     hep_IsRemoteEndpoint = True, hep_Policies = []\<rparr>"

definition demo_ep2 :: "string \<Rightarrow> HostComputeEndpoint" where
  "demo_ep2 i = \<lparr>hce_Id = i, hce_HostComputeNetwork = ''N1'', hce_IpConfigurations = [''10.0.0.7''],
     hce_MacAddress = [], hce_Flags = 1, hce_Policies = [], hce_SchemaVersion = (2, 0)\<rparr>"

definition demo_host0 :: demo_host where
  "demo_host0 = \<lparr>dh_network_type = ''L2Bridge'', dh_eps1 = [demo_ep1 ''E1''],
     dh_plists = [\<lparr>pl_ID = ''P1'', pl_EndpointReferences = [''E1''], pl_Policies = [''elb'']\<rparr>],
     dh_eps2 = [demo_ep2 ''E1''], dh_balancers = [], dh_next = 2\<rparr>"

end
