(* ===== verification/WinPoliciesProps.thy ===== *)
theory WinPoliciesProps
  imports WinPolicies WinDemo
begin

text \<open>
  What releasing endpoints and policies does: the last reference of a shared counter deletes
  the endpoint, a cleanup never panics and is idempotent, and endpoints that the host
  network service handed out are never deleted.
\<close>

section \<open>The table of methods\<close>

lemma hns_table_simps [simp]: "hns_table hs hc HnsV1 = hns_V1 hs" "hns_table hs hc HnsV2 = hns_V2 hc"
  by (simp_all add: hns_table_def)

lemma table_service: "host_network_service h (hns_table hs hc h)"
  by (cases h) (simp_all add: v1.host_network_service_axioms v2.host_network_service_axioms)

context host_network_service
begin

lemma deleteEndpoint_returns: "\<exists>r w'. hn_deleteEndpoint ops hnsID w = Inr (r, w')"
  using deleteEndpoint_total by (simp add: total_call_def)

lemma drop_returns: "\<exists>w'. drop_balancer ops hnsID w = Inr w'"
proof -
  from deleteLoadBalancer_total [of hnsID] obtain r w' where "hn_deleteLoadBalancer ops hnsID w = Inr (r, w')"
    unfolding total_call_def by blast
  then show ?thesis by (simp add: drop_balancer_def)
qed

lemma drops_return: "\<exists>w'. go_fold (\<lambda>x. drop_balancer ops (f x)) xs w = Inr w'"
proof (induction xs arbitrary: w)
  case (Cons x xs)
  from drop_returns [of "f x" w] obtain w1 where "drop_balancer ops (f x) w = Inr w1" ..
  with Cons.IH [of w1] show ?case by simp
qed simp

lemma delete_policies_returns:
  "\<exists>w'. delete_policies ops svcInfo w = Inr (svcInfo\<lparr>ws_hnsID := [], ws_nodePorthnsID := [],
      ws_externalIPs := map (xi_hnsID_update (\<lambda>_. [])) (ws_externalIPs svcInfo),
      ws_loadBalancerIngressIPs := map (ii_hnsID_update (\<lambda>_. [])) (ws_loadBalancerIngressIPs svcInfo)\<rparr>, w') \<and>
    go_fold (drop_balancer ops) ([ws_hnsID svcInfo, ws_nodePorthnsID svcInfo] @
      map xi_hnsID (ws_externalIPs svcInfo) @ map ii_hnsID (ws_loadBalancerIngressIPs svcInfo)) w = Inr w'"
proof -
  have m: "go_fold (drop_balancer ops) (map f xs) w = go_fold (\<lambda>x. drop_balancer ops (f x)) xs w"
    for f :: "'x \<Rightarrow> string" and xs w
    by (induction xs arbitrary: w) (simp_all, metis drop_returns go_bind_simps(2))
  from drop_returns obtain w1 where 1: "drop_balancer ops (ws_hnsID svcInfo) w = Inr w1" by blast
  from drop_returns obtain w2 where 2: "drop_balancer ops (ws_nodePorthnsID svcInfo) w1 = Inr w2" by blast
  from drops_return [of xi_hnsID "ws_externalIPs svcInfo" w2] obtain w3
    where 3: "go_fold (\<lambda>x. drop_balancer ops (xi_hnsID x)) (ws_externalIPs svcInfo) w2 = Inr w3" by blast
  from drops_return [of ii_hnsID "ws_loadBalancerIngressIPs svcInfo" w3] obtain w4
    where 4: "go_fold (\<lambda>x. drop_balancer ops (ii_hnsID x)) (ws_loadBalancerIngressIPs svcInfo) w3 = Inr w4" by blast
  show ?thesis
    by (rule exI [of _ w4]) (simp add: delete_policies_def Let_def 1 2 3 4 go_fold_append m)
qed

lemma cleanup_returns:
  assumes "hns self = ops" "epi_hns ep = Some self \<or> epi_hns ep = None \<and> epi_refCount ep = None"
  shows "\<exists>ep' cells' w'. Cleanup hns ep (cells, w) = Inr (ep', cells', w')"
proof (cases "epi_refCount ep")
  case (Some rc)
  obtain r w' where "hn_deleteEndpoint ops (epi_hnsID ep) w = Inr (r, w')" using deleteEndpoint_returns by blast
  with Some assms show ?thesis by (auto simp: Cleanup_def Let_def split: prod.split)
qed (simp add: Cleanup_def)

lemma handed_out_kept:
  assumes "hn_createEndpoint ops ep networkName w = Inr (Inr e, w') \<or> hn_getEndpointByID ops hnsID w = Inr (Inr e, w') \<or>
    hn_getEndpointByIpAddress ops ip networkName w = Inr (Inr e, w')"
  shows "Cleanup hns e s = Inr (e, s)"
  using assms createEndpoint_info getEndpointByID_info getEndpointByIpAddress_info
  by (cases s) (auto simp: Cleanup_def)

end

section \<open>Counters\<close>

lemma Cleanup_shared:
  assumes "\<not> epi_isLocal ep" "epi_refCount ep = Some (SharedCell i)" "i < length cells" "cells ! i \<noteq> 1"
  shows "Cleanup hns ep (cells, w) = Inr (ep\<lparr>epi_refCount := None\<rparr>, cells[i := cells ! i - 1], w)"
  using assms by (auto simp: Cleanup_def)

lemma Cleanup_shared_last:
  assumes "\<not> epi_isLocal ep" "epi_refCount ep = Some (SharedCell i)" "i < length cells" "cells ! i = 1"
    and "epi_hns ep = Some h" "hn_deleteEndpoint (hns h) (epi_hnsID ep) w = Inr (r, w')"
  shows "\<exists>ep'. Cleanup hns ep (cells, w) = Inr (ep', cells[i := 0], w') \<and> epi_refCount ep' = None"
  using assms by (cases r) (auto simp: Cleanup_def)

lemma cleanup_references:
  assumes "\<forall>e \<in> set eps. \<not> epi_isLocal e \<and> epi_refCount e = Some (SharedCell i) \<and> epi_hns e = Some h"
    and "i < length cells" "length eps \<le> unat (cells ! i)" "host_network_service h (hns h)"
  shows "\<exists>eps' w'. cleanup_endpoints hns (map EP_Made eps) (cells, w) =
       Inr (map EP_Made eps', cells[i := cells ! i - of_nat (length eps)], w') \<and>
     list_all (\<lambda>e. epi_refCount e = None) eps' \<and>
     (if eps \<noteq> [] \<and> length eps = unat (cells ! i)
      then \<exists>r. hn_deleteEndpoint (hns h) (epi_hnsID (last eps)) w = Inr (r, w') else w' = w)"
  using assms
proof (induction eps arbitrary: cells)
  case Nil
  then show ?case by (intro exI [of _ "[]"]) simp
next
  case (Cons e eps)
  note returns = host_network_service.deleteEndpoint_returns [OF Cons.prems(4)]
  show ?case
  proof (cases "eps = []")
    case True
    show ?thesis
    proof (cases "cells ! i = 1")
      case 1: True
      from returns [of "epi_hnsID e" w] obtain r w'
        where r: "hn_deleteEndpoint (hns h) (epi_hnsID e) w = Inr (r, w')" by blast
      with Cons.prems(1,2) 1 Cleanup_shared_last [of e i cells h hns w r w'] obtain ep'
        where "Cleanup hns e (cells, w) = Inr (ep', cells[i := 0], w')" "epi_refCount ep' = None" by auto
      with True 1 r show ?thesis by (intro exI [of _ "[ep']"] exI [of _ w']) simp
    next
      case False
      then have "unat (cells ! i) \<noteq> 1" by (metis unat_1 word_unat_eq_iff)
      with False True Cons.prems Cleanup_shared [of e i cells hns w] show ?thesis
        by (intro exI [of _ "[e\<lparr>epi_refCount := None\<rparr>]"] exI [of _ w]) simp
    qed
  next
    case False
    then have len: "0 < length eps" by simp
    have n1: "cells ! i \<noteq> 1" using Cons.prems(3) len by (auto simp: unat_1)
    have pos: "unat (cells ! i - 1) = unat (cells ! i) - 1"
      using Cons.prems(3) by (subst unat_minus_one) (auto simp: unat_eq_0)
    let ?cells = "cells[i := cells ! i - 1]"
    have step: "Cleanup hns e (cells, w) = Inr (e\<lparr>epi_refCount := None\<rparr>, ?cells, w)"
      by (rule Cleanup_shared) (use Cons.prems n1 in auto)
    obtain eps' w' where IH: "cleanup_endpoints hns (map EP_Made eps) (?cells, w) =
         Inr (map EP_Made eps', ?cells[i := ?cells ! i - of_nat (length eps)], w')"
       "list_all (\<lambda>e. epi_refCount e = None) eps'"
       "if eps \<noteq> [] \<and> length eps = unat (?cells ! i)
        then \<exists>r. hn_deleteEndpoint (hns h) (epi_hnsID (last eps)) w = Inr (r, w') else w' = w"
    proof -
      have "i < length ?cells" "length eps \<le> unat (?cells ! i)"
        "\<forall>e \<in> set eps. \<not> epi_isLocal e \<and> epi_refCount e = Some (SharedCell i) \<and> epi_hns e = Some h"
        using Cons.prems pos by auto
      from Cons.IH [OF this(3,1,2) Cons.prems(4)] that show ?thesis by blast
    qed
    have "(length (e # eps) = unat (cells ! i)) = (length eps = unat (?cells ! i))"
      using Cons.prems(2,3) pos by auto
    with IH step False Cons.prems(2) show ?thesis
      by (intro exI [of _ "e\<lparr>epi_refCount := None\<rparr> # eps'"] exI [of _ w'])
         (auto simp: algebra_simps)
  qed
qed

section \<open>Idempotence\<close>

lemma unit_result_cases: "\<forall>err. r \<noteq> Inl err \<Longrightarrow> r \<noteq> Inr () \<Longrightarrow> False"
  by (cases r) auto

lemma Cleanup_done: "Cleanup hns ep s = Inr (ep', s') \<Longrightarrow> epi_isLocal ep' \<or> epi_refCount ep' = None"
  by (cases s)
     (auto simp: Cleanup_def Let_def go_bind_eq_Inr split: option.splits if_splits prod.splits sum.splits
       dest: unit_result_cases)

lemma Cleanup_none: "epi_isLocal ep \<or> epi_refCount ep = None \<Longrightarrow> Cleanup hns ep s = Inr (ep, s)"
  by (cases s) (auto simp: Cleanup_def split: option.split)

lemmas Cleanup_twice = Cleanup_none [OF Cleanup_done]

lemma Cleanup_isLocal: "Cleanup hns ep s = Inr (ep', s') \<Longrightarrow> epi_isLocal ep' = epi_isLocal ep"
  by (cases s)
     (auto simp: Cleanup_def Let_def go_bind_eq_Inr split: option.splits if_splits prod.splits sum.splits
       dest: unit_result_cases)

lemma Cleanup_released: "Cleanup hns ep s = Inr (ep', s') \<Longrightarrow> epi_isLocal ep \<or> epi_refCount ep' = None"
  using Cleanup_done Cleanup_isLocal by metis

text \<open>The remote endpoint of a service, when it has one.\<close>

definition cleanup_remote ::
  "'w hns_methods \<Rightarrow> endpointsInfo option \<Rightarrow> 16 word list \<times> 'w \<Rightarrow>
   (endpointsInfo option \<times> 16 word list \<times> 'w) go" where
  "cleanup_remote hns remote s =
     (case remote of
        None \<Rightarrow> Inr (None, s)
      | Some ep \<Rightarrow> go_bind (Cleanup hns ep s) (\<lambda>(ep, s). Inr (Some ep, s)))"

lemma cleanup_remote_twice:
  "cleanup_remote hns remote s = Inr (remote', s') \<Longrightarrow> cleanup_remote hns remote' s'' = Inr (remote', s'')"
  by (cases s'') (auto simp: cleanup_remote_def go_bind_eq_Inr Cleanup_twice split: option.splits)

lemma cleanup_remote_returns:
  assumes "pred_option (\<lambda>ep. epi_hns ep = Some h) remote"
  shows "\<exists>remote' cells' w'. cleanup_remote (hns_table hs hc) remote (cells, w) = Inr (remote', cells', w')"
proof (cases remote)
  case (Some ep)
  with assms host_network_service.cleanup_returns [OF table_service, of "hns_table hs hc" h hs hc ep cells w]
  show ?thesis by (auto simp: cleanup_remote_def)
qed (simp add: cleanup_remote_def)

lemma cleanup_endpoints_twice:
  "cleanup_endpoints hns eps s = Inr (eps', s') \<Longrightarrow> cleanup_endpoints hns eps' s'' = Inr (eps', s'')"
proof (induction eps arbitrary: s eps' s')
  case (Cons ep eps)
  from Cons.prems consider
      (made) e e' es s1 where "ep = EP_Made e" "Cleanup hns e s = Inr (e', s1)"
        "cleanup_endpoints hns eps s1 = Inr (es, s')" "eps' = EP_Made e' # es"
    | (base) b es where "ep = EP_Base b" "cleanup_endpoints hns eps s = Inr (es, s')" "eps' = EP_Base b # es"
    by (cases ep) (auto simp: go_bind_eq_Inr)
  then show ?case
  proof cases
    case made
    with Cleanup_twice [OF made(2), of hns s''] Cons.IH [OF made(3)] show ?thesis by simp
  next
    case base
    with Cons.IH [OF base(2)] show ?thesis by simp
  qed
qed simp

lemma cleanup_endpoints_return:
  assumes "\<forall>ep \<in> set endpoints. case ep of EP_Made e \<Rightarrow> epi_hns e = Some h | EP_Base b \<Rightarrow> True"
  shows "\<exists>endpoints' cells' w'. cleanup_endpoints (hns_table hs hc) endpoints (cells, w) = Inr (endpoints', cells', w')"
  using assms
proof (induction endpoints arbitrary: cells w)
  case (Cons ep eps)
  show ?case
  proof (cases ep)
    case (EP_Made e)
    with Cons.prems have "epi_hns e = Some h" by simp
    then obtain e' cells1 w1 where "Cleanup (hns_table hs hc) e (cells, w) = Inr (e', cells1, w1)"
      using host_network_service.cleanup_returns [OF table_service, of "hns_table hs hc" h hs hc e cells w] by blast
    moreover obtain es cells2 w2 where "cleanup_endpoints (hns_table hs hc) eps (cells1, w1) = Inr (es, cells2, w2)"
      using Cons.IH [of cells1 w1] Cons.prems by auto
    ultimately show ?thesis using EP_Made by simp
  next
    case (EP_Base b)
    moreover obtain es cells2 w2 where "cleanup_endpoints (hns_table hs hc) eps (cells, w) = Inr (es, cells2, w2)"
      using Cons.IH [of cells w] Cons.prems by auto
    ultimately show ?thesis by simp
  qed
qed simp

lemma drop_empty:
  assumes "h = HnsV2 \<Longrightarrow> \<exists>err. hc_GetLoadBalancerByID hc [] w = (Inl err, w)"
  shows "drop_balancer (hns_table hs hc h) [] w = Inr w"
  using assms
  by (cases h) (auto simp: drop_balancer_def hns_V1_def hns_V2_def deleteLoadBalancer_V1_def deleteLoadBalancer_V2_def hio_return_def)

lemma drop_empties:
  assumes "\<And>w. drop_balancer ops [] w = Inr w" "\<And>x. x \<in> set xs \<Longrightarrow> f x = []"
  shows "go_fold (\<lambda>x. drop_balancer ops (f x)) xs w = Inr w"
  using assms by (induction xs) auto

section \<open>Properties\<close>

text \<open>
  C30. Reference counts: of the remote endpoints that share a counter, cleaning them all up
  subtracts their number from it, and the host network is asked to delete an endpoint
  exactly when the counter reaches zero, which the last of them does, for its own identifier;
  with more references left nothing is deleted. Every cleaned endpoint loses its counter, so
  no reference is dropped twice. The counter does not wrap as long as it is at least the
  number of endpoints.
\<close>

theorem Cleanup_last_reference:
  assumes "\<forall>e \<in> set eps. \<not> epi_isLocal e \<and> epi_refCount e = Some (SharedCell i) \<and> epi_hns e = Some h"
    and "i < length cells" "length eps \<le> unat (cells ! i)"
  shows "\<exists>eps' w'. cleanup_endpoints (hns_table hs hc) (map EP_Made eps) (cells, w) =
       Inr (map EP_Made eps', cells[i := cells ! i - of_nat (length eps)], w') \<and>
     list_all (\<lambda>e. epi_refCount e = None) eps' \<and>
     (if eps \<noteq> [] \<and> length eps = unat (cells ! i)
      then \<exists>r. hn_deleteEndpoint (hns_table hs hc h) (epi_hnsID (last eps)) w = Inr (r, w') else w' = w)"
  using assms by (rule cleanup_references) (rule table_service)

theorem Cleanup_last_reference_witness:
  "case cleanup_endpoints (hns_table demo_hcsshim demo_hcn)
       (map EP_Made [demo_win_endpoint ''E1'', demo_win_endpoint ''E1'']) ([2], demo_host0) of
     Inl p \<Rightarrow> False
   | Inr (eps, cells, w) \<Rightarrow> cells = [0] \<and> dh_eps1 w = []"
proof -
  have "\<forall>e \<in> set [demo_win_endpoint ''E1'', demo_win_endpoint ''E1'']. \<not> epi_isLocal e \<and>
      epi_refCount e = Some (SharedCell 0) \<and> epi_hns e = Some HnsV1"
    by (simp add: demo_win_endpoint_def)
  from Cleanup_last_reference [OF this, of "[2]" demo_hcsshim demo_hcn demo_host0]
  obtain eps' w' r where run: "cleanup_endpoints (hns_table demo_hcsshim demo_hcn)
       (map EP_Made [demo_win_endpoint ''E1'', demo_win_endpoint ''E1'']) ([2], demo_host0) = Inr (map EP_Made eps', [0], w')"
    and del: "hn_deleteEndpoint (hns_V1 demo_hcsshim) ''E1'' demo_host0 = Inr (r, w')"
    by (auto simp: demo_win_endpoint_def)
  have "case hn_deleteEndpoint (hns_V1 demo_hcsshim) ''E1'' demo_host0 of Inl p \<Rightarrow> False | Inr (r, w) \<Rightarrow> dh_eps1 w = []"
    by code_simp
  with run del show ?thesis by simp
qed

text \<open>The steps of cleanupAllPolicies.\<close>

definition released :: "endpointsInfo option \<Rightarrow> serviceInfo_win \<Rightarrow> serviceInfo_win" where
  "released remote svcInfo = svcInfo\<lparr>ws_hnsID := [], ws_nodePorthnsID := [],
     ws_externalIPs := map (xi_hnsID_update (\<lambda>_. [])) (ws_externalIPs svcInfo),
     ws_loadBalancerIngressIPs := map (ii_hnsID_update (\<lambda>_. [])) (ws_loadBalancerIngressIPs svcInfo),
     ws_remoteEndpoint := remote, ws_policyApplied := False\<rparr>"

definition policy_ids :: "serviceInfo_win \<Rightarrow> string list" where
  "policy_ids svcInfo = [ws_hnsID svcInfo, ws_nodePorthnsID svcInfo] @
     map xi_hnsID (ws_externalIPs svcInfo) @ map ii_hnsID (ws_loadBalancerIngressIPs svcInfo)"

lemma cleanupAllPolicies_steps:
  assumes "ws_hns svcInfo = Some h"
    and "go_fold (drop_balancer (hns_table hs hc h)) (policy_ids svcInfo) w = Inr w1"
    and "cleanup_endpoints (hns_table hs hc) endpoints (cells, w1) = Inr (endpoints', cells2, w2)"
    and "cleanup_remote (hns_table hs hc) (ws_remoteEndpoint svcInfo) (cells2, w2) = Inr (remote', cells', w')"
  shows "cleanupAllPolicies (hns_table hs hc) svcInfo endpoints (cells, w) =
    Inr (released remote' svcInfo, endpoints', cells', w')"
proof -
  let ?svc = "svcInfo\<lparr>ws_hnsID := [], ws_nodePorthnsID := [],
      ws_externalIPs := map (xi_hnsID_update (\<lambda>_. [])) (ws_externalIPs svcInfo),
      ws_loadBalancerIngressIPs := map (ii_hnsID_update (\<lambda>_. [])) (ws_loadBalancerIngressIPs svcInfo)\<rparr>"
  from host_network_service.delete_policies_returns [OF table_service, of hs hc h svcInfo w] assms(2)
  have "delete_policies (hns_table hs hc h) svcInfo w = Inr (?svc, w1)"
    by (auto simp: policy_ids_def)
  with assms(1,3) have "cleanupAllPolicies (hns_table hs hc) svcInfo endpoints (cells, w) =
      go_bind (case ws_remoteEndpoint svcInfo of
                None \<Rightarrow> Inr (?svc, cells2, w2)
              | Some ep \<Rightarrow> go_bind (Cleanup (hns_table hs hc) ep (cells2, w2)) (\<lambda>(ep, cells, w).
                  Inr (?svc\<lparr>ws_remoteEndpoint := Some ep\<rparr>, cells, w))) (\<lambda>(svcInfo, cells, w).
     Inr (svcInfo\<lparr>ws_policyApplied := False\<rparr>, endpoints', cells, w))"
    by (simp add: cleanupAllPolicies_def deleteAllHnsLoadBalancerPolicy_service_def)
  also have "\<dots> = Inr (released remote' svcInfo, endpoints', cells', w')"
  proof (cases "ws_remoteEndpoint svcInfo")
    case None
    with assms(4) show ?thesis by (simp add: cleanup_remote_def released_def)
  next
    case (Some ep)
    with assms(4) obtain ep' where "Cleanup (hns_table hs hc) ep (cells2, w2) = Inr (ep', cells', w')" "remote' = Some ep'"
      by (auto simp: cleanup_remote_def go_bind_eq_Inr)
    with Some show ?thesis by (simp add: released_def)
  qed
  finally show ?thesis .
qed

text \<open>
  C31. Cleaning up the policies of a service never panics when the service, its remote
  endpoint if it has one, and its endpoints have the same host network service. First every load
  balancer identifier of the service (its own, the one of the node port, those of the external
  and the ingress addresses) is given up for deletion once, in this order; then the
  endpoints are cleaned up; last the remote endpoint, which is local or has no counter
  afterwards. The identifiers are cleared, the policy counts as not applied, and nothing
  else of the service changes. Doing it again changes neither the service, nor its endpoints,
  nor its remote endpoint, nor a counter, nor the host: with the first API always, with the second one
  when no load balancer has the empty identifier.
\<close>

theorem cleanupAllPolicies_releases:
  assumes "ws_hns svcInfo = Some h" "pred_option (\<lambda>ep. epi_hns ep = Some h) (ws_remoteEndpoint svcInfo)"
    and "\<forall>ep \<in> set endpoints. case ep of EP_Made e \<Rightarrow> epi_hns e = Some h | EP_Base b \<Rightarrow> True"
    and "\<forall>w. h = HnsV2 \<longrightarrow> (\<exists>err. hc_GetLoadBalancerByID hc [] w = (Inl err, w))"
  shows "\<exists>svcInfo' endpoints' remote' w1 cells2 w2 cells' w'.
     cleanupAllPolicies (hns_table hs hc) svcInfo endpoints (cells, w) = Inr (svcInfo', endpoints', cells', w') \<and>
     svcInfo' = svcInfo\<lparr>ws_hnsID := [], ws_nodePorthnsID := [],
       ws_externalIPs := map (xi_hnsID_update (\<lambda>_. [])) (ws_externalIPs svcInfo),
       ws_loadBalancerIngressIPs := map (ii_hnsID_update (\<lambda>_. [])) (ws_loadBalancerIngressIPs svcInfo),
       ws_remoteEndpoint := remote', ws_policyApplied := False\<rparr> \<and>
     go_fold (drop_balancer (hns_table hs hc h)) ([ws_hnsID svcInfo, ws_nodePorthnsID svcInfo] @
       map xi_hnsID (ws_externalIPs svcInfo) @ map ii_hnsID (ws_loadBalancerIngressIPs svcInfo)) w = Inr w1 \<and>
     cleanup_endpoints (hns_table hs hc) endpoints (cells, w1) = Inr (endpoints', cells2, w2) \<and>
     (case ws_remoteEndpoint svcInfo of
        None \<Rightarrow> remote' = None \<and> cells' = cells2 \<and> w' = w2
      | Some ep \<Rightarrow> \<exists>ep'. remote' = Some ep' \<and> Cleanup (hns_table hs hc) ep (cells2, w2) = Inr (ep', cells', w') \<and>
          (epi_isLocal ep \<or> epi_refCount ep' = None)) \<and>
     cleanupAllPolicies (hns_table hs hc) svcInfo' endpoints' (cells', w') = Inr (svcInfo', endpoints', cells', w')"
proof -
  let ?t = "hns_table hs hc"
  from host_network_service.delete_policies_returns [OF table_service, of hs hc h svcInfo w]
  obtain w1 where drops: "go_fold (drop_balancer (?t h)) (policy_ids svcInfo) w = Inr w1"
    unfolding policy_ids_def by blast
  from cleanup_endpoints_return [OF assms(3), of hs hc cells w1]
  obtain endpoints' cells2 w2 where eps: "cleanup_endpoints ?t endpoints (cells, w1) = Inr (endpoints', cells2, w2)" by blast
  from cleanup_remote_returns [OF assms(2), of hs hc cells2 w2] obtain remote' cells' w'
    where rem: "cleanup_remote ?t (ws_remoteEndpoint svcInfo) (cells2, w2) = Inr (remote', cells', w')" by blast
  have "drop_balancer (?t h) [] v = Inr v" for v by (rule drop_empty) (use assms(4) in blast)
  then have "go_fold (drop_balancer (?t h)) (policy_ids (released remote' svcInfo)) w' = Inr w'"
    using drop_empties [of "?t h" "policy_ids (released remote' svcInfo)" id w']
    by (auto simp: policy_ids_def released_def)
  moreover have "ws_hns (released remote' svcInfo) = Some h" "ws_remoteEndpoint (released remote' svcInfo) = remote'"
    "released remote' (released remote' svcInfo) = released remote' svcInfo"
    using assms(1) by (simp_all add: released_def o_def)
  ultimately have "cleanupAllPolicies ?t (released remote' svcInfo) endpoints' (cells', w') =
      Inr (released remote' svcInfo, endpoints', cells', w')"
    using cleanupAllPolicies_steps [of "released remote' svcInfo" h hs hc w' w'] cleanup_endpoints_twice [OF eps]
      cleanup_remote_twice [OF rem] by metis
  moreover have "case ws_remoteEndpoint svcInfo of
        None \<Rightarrow> remote' = None \<and> cells' = cells2 \<and> w' = w2
      | Some ep \<Rightarrow> \<exists>ep'. remote' = Some ep' \<and> Cleanup ?t ep (cells2, w2) = Inr (ep', cells', w') \<and>
          (epi_isLocal ep \<or> epi_refCount ep' = None)"
    using rem by (auto simp: cleanup_remote_def go_bind_eq_Inr split: option.splits dest: Cleanup_released)
  ultimately show ?thesis
    using cleanupAllPolicies_steps [OF assms(1) drops eps rem] drops eps
    unfolding policy_ids_def by (intro exI conjI) (simp_all add: released_def)
qed

definition demo_service_win :: serviceInfo_win where
  "demo_service_win =
     \<lparr>ws_Base = \<lparr>bs_clusterIP = [10, 96, 0, 1], bs_port = 80, bs_protocol = Protocol_TCP, bs_nodePort = 0,
        bs_loadBalancerStatus = [], bs_sessionAffinityType = [], bs_stickyMaxAgeSeconds = 0, bs_externalIPs = [],
        bs_loadBalancerSourceRanges = [], bs_healthCheckNodePort = 0, bs_nodeLocalExternal = False,
        bs_nodeLocalInternal = False, bs_internalTrafficPolicy = None, bs_hintsAnnotation = []\<rparr>,
      ws_targetPort = 8080, ws_externalIPs = [\<lparr>xi_ip = ''1.2.3.4'', xi_hnsID = ''P9''\<rparr>],
      ws_loadBalancerIngressIPs = [], ws_hnsID = ''P1'', ws_nodePorthnsID = [], ws_policyApplied = True,
      ws_remoteEndpoint = None, ws_hns = Some HnsV1, ws_preserveDIP = False, ws_localTrafficDSR = False\<rparr>"

definition demo_service_remote :: serviceInfo_win where
  "demo_service_remote = demo_service_win\<lparr>ws_remoteEndpoint := Some (demo_win_endpoint ''E2'')\<rparr>"

theorem cleanupAllPolicies_releases_witness:
  "case cleanupAllPolicies (hns_table demo_hcsshim demo_hcn) demo_service_remote [EP_Made (demo_win_endpoint ''E1'')] ([2], demo_host0) of
     Inl p \<Rightarrow> False
   | Inr (svcInfo, eps, cells, w) \<Rightarrow> ws_hnsID svcInfo = [] \<and> \<not> ws_policyApplied svcInfo \<and>
       (case ws_remoteEndpoint svcInfo of None \<Rightarrow> False | Some ep \<Rightarrow> epi_refCount ep = None)"
proof -
  have hyps: "ws_hns demo_service_remote = Some HnsV1"
    "pred_option (\<lambda>ep. epi_hns ep = Some HnsV1) (ws_remoteEndpoint demo_service_remote)"
    "\<forall>ep \<in> set [EP_Made (demo_win_endpoint ''E1'')]. case ep of EP_Made e \<Rightarrow> epi_hns e = Some HnsV1 | EP_Base b \<Rightarrow> True"
    "\<forall>w. HnsV1 = HnsV2 \<longrightarrow> (\<exists>err. hc_GetLoadBalancerByID demo_hcn [] w = (Inl err, w))"
    by (simp_all add: demo_service_remote_def demo_service_win_def demo_win_endpoint_def)
  have remote: "ws_remoteEndpoint demo_service_remote = Some (demo_win_endpoint ''E2'')"
    "\<not> epi_isLocal (demo_win_endpoint ''E2'')"
    by (simp_all add: demo_service_remote_def demo_win_endpoint_def)
  from cleanupAllPolicies_releases [OF hyps, of demo_hcsshim "[2]" demo_host0] show ?thesis
    unfolding remote(1) using remote(2) by auto
qed

end
