(* ===== verification/WinProxierProps.thy ===== *)
theory WinProxierProps
  imports WinHandlers WinPoliciesProps
begin

text \<open>
  What the Windows proxier makes and does: its endpoints meet the interface of the slice
  cache for addresses in canonical form and 16-bit ports, their counters start so that they
  are never deleted, the sink remembers services and programs nothing, and when the
  construction succeeds.
\<close>

section \<open>Addresses of network cards\<close>

lemma conjureMac_v4:
  assumes "length ip = 4"
  shows "conjureMac p ip = p @ ''-'' @ hex2 (ip ! 0) @ ''-'' @ hex2 (ip ! 1) @ ''-'' @ hex2 (ip ! 2) @ ''-'' @ hex2 (ip ! 3)"
  using assms by (auto simp: conjureMac_def To4_def Let_def)

text \<open>Different IPv4 addresses get different hardware addresses.\<close>

lemma conjureMac_inj:
  assumes "length ip = 4" "length ip' = 4" "conjureMac p ip = conjureMac p ip'"
  shows "ip = ip'"
proof -
  have "hex2 (ip ! i) = hex2 (ip' ! i)" if "i < 4" for i
  proof -
    from that have "i = 0 \<or> i = 1 \<or> i = 2 \<or> i = 3" by linarith
    with assms show ?thesis
      by (elim disjE) (simp_all add: conjureMac_v4 append_eq_append_conv)
  qed
  then have "ip ! i = ip' ! i" if "i < 4" for i using that hex2_inj by blast
  with assms(1,2) show ?thesis by (simp add: nth_equalityI)
qed

section \<open>Endpoints\<close>

lemma newEndpointInfo_simps [simp]:
  "epi_isLocal (newEndpointInfo parse_ip hns b) = be_IsLocal b"
  "epi_refCount (newEndpointInfo parse_ip hns b) = Some (OwnCell 0)"
  "epi_ip (newEndpointInfo parse_ip hns b) = IPPart parse_ip (be_Endpoint b)"
  by (simp_all add: newEndpointInfo_def BaseEndpointInfo_IP_def split: prod.split)

lemma newEndpointInfo_endpoint:
  assumes "host_parser parse_ip" "parse_ip host \<noteq> []" "- (2 ^ 63) \<le> port" "port < 2 ^ 63"
    and "be_Endpoint b = JoinHostPort host (Itoa port)"
  shows "epi_ip (newEndpointInfo parse_ip hns b) = IP_String (parse_ip host)"
    and "uint (epi_port (newEndpointInfo parse_ip hns b)) = port mod 65536"
proof -
  show "epi_ip (newEndpointInfo parse_ip hns b) = IP_String (parse_ip host)"
    using assms by (simp add: IPPart_endpoint)
  have "BaseEndpointInfo_Port b = (port, None)"
    using assms host_parser_no_bracket [OF assms(1,2)] by (simp add: BaseEndpointInfo_Port_def PortPart_endpoint)
  then show "uint (epi_port (newEndpointInfo parse_ip hns b)) = port mod 65536"
    by (simp add: newEndpointInfo_def uint_word_of_int)
qed

text \<open>The endpoints for which the proxier is a provider for the slice cache.\<close>

definition win_good :: "(string \<Rightarrow> IP) \<Rightarrow> BaseEndpointInfo \<Rightarrow> bool" where
  "win_good parse_ip b \<longleftrightarrow> host_parser parse_ip \<and>
     (\<exists>host port. be_Endpoint b = JoinHostPort host (Itoa port) \<and> parse_ip host \<noteq> [] \<and>
        IP_String (parse_ip host) = host \<and> 0 \<le> port \<and> port < 65536)"

interpretation win: endpoint_provider "win_ops parse_ip hns" "win_good parse_ip" for parse_ip hns
proof (unfold_locales, goal_cases)
  case (1 b)
  then obtain host port where b: "host_parser parse_ip" "be_Endpoint b = JoinHostPort host (Itoa port)"
      "parse_ip host \<noteq> []" "IP_String (parse_ip host) = host" "0 \<le> port" "port < 65536"
    unfolding win_good_def by blast
  from b have "- (2 ^ 63) \<le> port" "port < 2 ^ 63" by simp_all
  from newEndpointInfo_endpoint [OF b(1,3) this b(2), of hns] b show ?case
    by (simp add: win_ops_def endpointsInfo_String_def)
next
  case (2 b)
  then show ?case by (simp add: win_ops_def)
qed

text \<open>
  The slice cache with the endpoints of this proxier: for slices whose addresses are
  canonical and whose ports fit in 16 bits, the same as with the default endpoints.
\<close>

lemmas win_getEndpointsMap = win.getEndpointsMap_provider

text \<open>
  C35. The endpoint that the Windows proxier makes of an endpoint string \<open>host:port\<close>: its IP is
  the canonical form of the host and its port is the port modulo 65536, so that its own
  string is the one it was made of when the host is canonical and the port fits in 16 bits;
  its locality is kept. Its reference counter is new and zero: the first cleanup of a
  remote endpoint decrements it below zero, to 65535, and never asks the host network to
  delete the endpoint.
\<close>

theorem newEndpointInfo_bounds:
  assumes "host_parser parse_ip" "parse_ip host \<noteq> []" "- (2 ^ 63) \<le> port" "port < 2 ^ 63"
    and "be_Endpoint b = JoinHostPort host (Itoa port)"
  shows "epi_ip (newEndpointInfo parse_ip hns b) = IP_String (parse_ip host) \<and>
    uint (epi_port (newEndpointInfo parse_ip hns b)) = port mod 65536 \<and>
    epi_isLocal (newEndpointInfo parse_ip hns b) = be_IsLocal b \<and>
    (IP_String (parse_ip host) = host \<and> 0 \<le> port \<and> port < 65536 \<longrightarrow>
       endpointsInfo_String (newEndpointInfo parse_ip hns b) = be_Endpoint b) \<and>
    (\<not> be_IsLocal b \<longrightarrow> Cleanup table (newEndpointInfo parse_ip hns b) (cells, w) =
       Inr ((newEndpointInfo parse_ip hns b)\<lparr>epi_refCount := None\<rparr>, cells, w))"
  using newEndpointInfo_endpoint [OF assms, of hns] assms(5)
  by (auto simp: endpointsInfo_String_def Cleanup_def)

theorem newEndpointInfo_bounds_witness:
  "uint (epi_port (newEndpointInfo parse_two (Some HnsV2)
     (newBaseEndpointInfo ''10.0.0.1'' [] [] 70000 False True True False []))) = 4464"
proof -
  have hyps: "parse_two ''10.0.0.1'' \<noteq> []" "- (2 ^ 63) \<le> (70000 :: int)" "(70000 :: int) < 2 ^ 63"
    by (simp_all add: parse_two_def)
  have b: "be_Endpoint (newBaseEndpointInfo ''10.0.0.1'' [] [] 70000 False True True False []) =
      JoinHostPort ''10.0.0.1'' (Itoa 70000)" by simp
  from newEndpointInfo_bounds [OF host_parser_parse_two hyps b, of "Some HnsV2" "hns_table demo_hcsshim demo_hcn" "[]" demo_host0]
  have "uint (epi_port (newEndpointInfo parse_two (Some HnsV2)
     (newBaseEndpointInfo ''10.0.0.1'' [] [] 70000 False True True False []))) = 70000 mod 65536" by blast
  then show ?thesis by (simp only:) simp
qed

end
