(* ===== verification/WinSinkProps.thy ===== *)
theory WinSinkProps
  imports WinProxierProps
begin

text \<open>
  The Windows backend from its construction on: waiting for the network, what a constructed
  proxier is like, and what the calls of the sink do to it.
\<close>

section \<open>Waiting for the network\<close>

text \<open>The answer to the (n+1)-th question for the network, and the world after it.\<close>

fun lookups ::
  "'w win_env \<Rightarrow> 'w hns_ops \<Rightarrow> string \<Rightarrow> nat \<Rightarrow> 'w \<Rightarrow> (hns_error + hnsNetworkInfo) \<times> 'w" where
  "lookups env ops name 0 w = projr (hn_getNetworkByName ops name w)"
| "lookups env ops name (Suc n) w =
     projr (hn_getNetworkByName ops name (wv_sleep env (snd (lookups env ops name n w))))"

lemma getNetworkByName_returns:
  "hn_getNetworkByName (env_table env h) name w = Inr (projr (hn_getNetworkByName (env_table env h) name w))"
proof -
  from host_network_service.network_total [OF table_service, of "wv_hcsshim env" "wv_hcn env" h name]
  obtain r w' where "hn_getNetworkByName (env_table env h) name w = Inr (r, w')"
    unfolding total_call_def env_table_def by blast
  then show ?thesis by simp
qed

lemma turns_snoc: "turns f n s = Some t \<Longrightarrow> f t = Inr (Again, u) \<Longrightarrow> turns f (Suc n) s = Some u"
proof (induction n arbitrary: s)
  case (Suc n)
  from Suc.prems(1) obtain s1 where s1: "f s = Inr (Again, s1)" "turns f n s1 = Some t"
    by (auto split: sum.splits prod.splits loop_ctl.splits)
  from Suc.IH [OF s1(2) Suc.prems(2)] s1(1) show ?case by (subst turns.simps(2)) simp
qed simp

lemma network_turns:
  assumes "\<forall>m < n. isl (fst (lookups env (env_table env h) name m w))"
  shows "turns (network_turn env (env_table env h) name) n (lookups env (env_table env h) name 0 w) =
    Some (lookups env (env_table env h) name n w)"
proof -
  let ?f = "network_turn env (env_table env h) name" and ?l = "\<lambda>n. lookups env (env_table env h) name n w"
  have step: "?f (?l m) = Inr (Again, ?l (Suc m))" if failed: "isl (fst (?l m))" for m
  proof -
    obtain err v where m: "?l m = (Inl err, v)" using failed by (cases "?l m"; cases "fst (?l m)") auto
    have "?f (?l m) = go_bind (hn_getNetworkByName (env_table env h) name (wv_sleep env v)) (\<lambda>s. Inr (Again, s))"
      unfolding m by (simp add: network_turn_def)
    also have "\<dots> = Inr (Again, ?l (Suc m))"
      unfolding lookups.simps m snd_conv by (subst getNetworkByName_returns) simp
    finally show ?thesis .
  qed
  show ?thesis using assms
  proof (induction n)
    case (Suc n)
    then show ?case using turns_snoc [of ?f n "?l 0" "?l n"] step [of n] by simp
  qed simp
qed

text \<open>
  C29. \<open>getNetworkInfo\<close> returns exactly when some question finds the network, with the first
  answer that does; it never panics and never returns an error. When the network is never
  found, it does not return, so that \<open>NewProxier\<close> does not either.
\<close>

theorem getNetworkInfo_waits:
  "getNetworkInfo env (env_table env h) name w =
     (if \<exists>n. \<not> isl (fst (lookups env (env_table env h) name n w))
      then Some (Inr (lookups env (env_table env h) name
             (LEAST n. \<not> isl (fst (lookups env (env_table env h) name n w))) w))
      else None)"
proof -
  let ?f = "network_turn env (env_table env h) name" and ?l = "\<lambda>n. lookups env (env_table env h) name n w"
  have loop: "getNetworkInfo env (env_table env h) name w = go_loop ?f (?l 0)"
    unfolding getNetworkInfo_def lookups.simps by (subst getNetworkByName_returns) simp
  show ?thesis
  proof (cases "\<exists>n. \<not> isl (fst (?l n))")
    case True
    define n where "n = (LEAST n. \<not> isl (fst (?l n)))"
    have found: "\<not> isl (fst (?l n))" unfolding n_def using True by (rule LeastI_ex)
    have "\<forall>m < n. isl (fst (?l m))" unfolding n_def using not_less_Least by blast
    then have "turns ?f n (?l 0) = Some (?l n)" by (rule network_turns)
    moreover have "?f (?l n) = Inr (Return, ?l n)"
      using found by (cases "?l n"; cases "fst (?l n)") (auto simp: network_turn_def)
    ultimately have "go_loop ?f (?l 0) = Some (Inr (?l n))" by (rule go_loop_stops)
    with True loop show ?thesis by (simp add: n_def)
  next
    case False
    have "go_loop ?f (?l 0) = None"
    proof (rule ccontr)
      assume "go_loop ?f (?l 0) \<noteq> None"
      then obtain r where "go_loop ?f (?l 0) = Some r" by blast
      from go_loop_Some [OF this] obtain n t where t: "turns ?f n (?l 0) = Some t"
        and stop: "case r of Inl p \<Rightarrow> ?f t = Inl p | Inr u \<Rightarrow> ?f t = Inr (Return, u)"
        by blast
      have "turns ?f n (?l 0) = Some (?l n)" by (rule network_turns) (use False in blast)
      with t have "t = ?l n" by simp
      moreover have "isl (fst (?l n))" using False by blast
      ultimately obtain err v where "t = (Inl err, v)" by (metis isl_def prod.collapse)
      then have "?f t = go_bind (hn_getNetworkByName (env_table env h) name (wv_sleep env v)) (\<lambda>s. Inr (Again, s))"
        by (simp add: network_turn_def)
      then have "\<exists>s. ?f t = Inr (Again, s)" by (subst (asm) getNetworkByName_returns) simp
      with stop show False by (auto split: sum.splits)
    qed
    with False loop show ?thesis by simp
  qed
qed

section \<open>The constructed proxier\<close>

lemma NewProxier_win_made:
  assumes "NewProxier_win env masqueradeAll masqueradeBit clusterCIDR hostname nodeIP config w = Some (Inr (Inr px, w'))"
  obtains info ip settings where "check_settings env config ip info w' = Inr settings"
    "px = make_proxier env masqueradeAll masqueradeBit clusterCIDR hostname (newHostNetworkService env w) info
      (kc_EnableDSR config) settings w'"
proof -
  define ip where "ip = (if nodeIP = [] then wv_parse_ip env ''127.0.0.1'' else nodeIP)"
  define hns where "hns = newHostNetworkService env w"
  define w1 where "w1 = deleteAllHnsLoadBalancerPolicy (wv_hcsshim env) w"
  note run = assms [unfolded NewProxier_win_def Let_def, folded ip_def hns_def w1_def]
  obtain name where name: "getNetworkName env (kc_NetworkName config) w = Some name"
    using run by (cases "getNetworkName env (kc_NetworkName config) w") auto
  from run [unfolded name option.case] obtain r0 w2 where r0: "getNetworkInfo env (env_table env hns) name w1 = Some (Inr (r0, w2))"
    by (auto simp: ogo_bind_eq_Inr)
  obtain info0 where "r0 = Inr info0" using run [unfolded name option.case r0 ogo_bind_simps] by (cases r0) auto
  note run1 = run [unfolded name option.case r0 this ogo_bind_simps prod.case sum.case]
  obtain r1 w3 where r1: "(if isOverlay info0 then hn_getNetworkByName (env_table env hns) name w2 else Inr (Inr info0, w2)) = Inr (r1, w3)"
    using run1 by (auto simp: ogo_bind_eq_Inr)
  obtain info where "r1 = Inr info" using run1 [unfolded r1 ogo_bind_simps] by (cases r1) auto
  note run2 = run1 [unfolded r1 this ogo_bind_simps prod.case sum.case]
  obtain settings where "check_settings env config ip info w3 = Inr settings"
    using run2 by (cases "check_settings env config ip info w3") auto
  with run2 have "check_settings env config ip info w' = Inr settings"
    and "px = make_proxier env masqueradeAll masqueradeBit clusterCIDR hostname (newHostNetworkService env w) info
      (kc_EnableDSR config) settings w'"
    by (auto simp: hns_def)
  then show thesis by (rule that)
qed

text \<open>
  C28. When \<open>NewProxier\<close> returns a proxier, direct server return was not asked for, the
  network service is the second one exactly when the host has its API, both trackers are new
  and of the family of the node address, nothing is programmed and the proxier does not count
  as initialized; on an overlay network the source address is the configured one and the
  hardware address was found, and on another network both are empty. A configuration that
  asks for direct server return never gives a proxier.
\<close>

theorem NewProxier_win_outcome:
  assumes "NewProxier_win env masqueradeAll masqueradeBit clusterCIDR hostname nodeIP config w = Some (Inr (Inr px, w'))"
  shows "\<not> kc_EnableDSR config \<and> wp_hns px = Some (if wv_Api_V2 env w then HnsV2 else HnsV1) \<and>
    wp_isIPv6Mode px = wv_is_ipv6 env (wp_nodeIP px) \<and>
    wp_serviceChanges px = Some (NewServiceChangeTracker (if wp_isIPv6Mode px then IPv6Protocol else IPv4Protocol)) \<and>
    wp_endpointsChanges px =
      Some (NewEndpointChangeTracker (wv_now env w') hostname (if wp_isIPv6Mode px then IPv6Protocol else IPv4Protocol)) \<and>
    wp_serviceMap px = [] \<and> wp_endpointsMap px = [] \<and> \<not> isInitialized px \<and>
    (if isOverlay (wp_network px)
     then wv_RemoteSubnetSupported env w' = None \<and> wp_sourceVip px = kc_SourceVip config \<and> wp_sourceVip px \<noteq> [] \<and>
       wp_hostMac px = find_host_mac env (wp_nodeIP px) (wv_Interfaces env w') \<and> wp_hostMac px \<noteq> []
     else wp_sourceVip px = [] \<and> wp_hostMac px = [])"
proof -
  obtain info ip settings where settings: "check_settings env config ip info w' = Inr settings"
    and px: "px = make_proxier env masqueradeAll masqueradeBit clusterCIDR hostname (newHostNetworkService env w) info
      (kc_EnableDSR config) settings w'"
    using assms by (rule NewProxier_win_made)
  obtain sourceVip nodeIP' hostMac where s: "settings = (sourceVip, nodeIP', hostMac)" by (cases settings)
  have dsr: "\<not> kc_EnableDSR config" using settings by (auto simp: check_settings_def Let_def split: if_splits)
  have overlay: "if isOverlay info
     then wv_RemoteSubnetSupported env w' = None \<and> sourceVip = kc_SourceVip config \<and> sourceVip \<noteq> [] \<and>
       hostMac = find_host_mac env nodeIP' (wv_Interfaces env w') \<and> hostMac \<noteq> []
     else sourceVip = [] \<and> hostMac = []"
    using settings dsr unfolding s
    by (auto simp: check_settings_def overlay_settings_def Let_def split: if_splits option.splits)
  show ?thesis
    using dsr overlay unfolding px s
    by (auto simp: make_proxier_def Let_def isInitialized_def newHostNetworkService_def)
qed

section \<open>The sink\<close>

definition remember :: "sink_op \<Rightarrow> (NamespacedName \<Rightarrow> Service option) \<Rightarrow> NamespacedName \<Rightarrow> Service option" where
  "remember c m =
     (case c of
        CallSetService service \<Rightarrow> m(svc_key service \<mapsto> service)
      | CallDeleteService namespace name \<Rightarrow> m(\<lparr>nn_Namespace = namespace, nn_Name = name\<rparr> := None)
      | _ \<Rightarrow> m)"

lemma GetName_svc_key: "GetName (svc_Namespace s) (svc_Name s) = svc_key s"
  by (simp add: GetName_def svc_key_def)

lemma sink_call_remembers:
  assumes "wp_serviceChanges px = Some sct" "sct_items sct = []"
    and "\<And>k s. map_of (sct_PersistentServices sct) k = Some s \<Longrightarrow> svc_key s = k"
  shows "\<exists>m. sink_call env dsr c px = Inr (px\<lparr>wp_serviceChanges := Some (sct\<lparr>sct_PersistentServices := m\<rparr>)\<rparr>) \<and>
    map_of m = remember c (map_of (sct_PersistentServices sct))"
proof (cases c)
  case (CallSetService service)
  with assms(1,2) show ?thesis
    by (intro exI [of _ "AList.update (svc_key service) service (sct_PersistentServices sct)"])
       (simp add: SetService_win_def GetServiceChangeTracker_def OnServiceAdd_win_def OnServiceUpdate_win_def
         Update_items remembered_def GetName_svc_key remember_def split: option.split)
next
  case (CallDeleteService namespace name)
  let ?k = "GetName namespace name"
  let ?m = "AList.delete ?k (sct_PersistentServices sct)"
  have del: "AList.delete ?k (AList.update ?k s (sct_PersistentServices sct)) = ?m" for s
    by (simp add: delete_update_same)
  show ?thesis
  proof (cases "map_of (sct_PersistentServices sct) ?k")
    case None
    with assms(1,2) CallDeleteService show ?thesis
      by (intro exI [of _ ?m])
         (simp add: DeleteService_win_def GetServiceChangeTracker_def OnServiceDelete_win_def OnServiceUpdate_win_def
           Update_items remembered_def remember_def GetName_def)
  next
    case (Some service)
    with assms(3) have "svc_key service = ?k" by blast
    with assms(1,2) CallDeleteService Some del show ?thesis
      by (intro exI [of _ ?m])
         (simp add: DeleteService_win_def GetServiceChangeTracker_def OnServiceDelete_win_def OnServiceUpdate_win_def
           Update_items remembered_def remember_def, simp add: GetName_def)
  qed
next
  case (CallSetEndpoint namespace serviceName key endpoint)
  with assms(1) show ?thesis
    by (intro exI [of _ "sct_PersistentServices sct"]) (simp add: SetEndpoint_win_def remember_def)
next
  case (CallDeleteEndpoint namespace serviceName key)
  with assms(1) show ?thesis
    by (intro exI [of _ "sct_PersistentServices sct"]) (simp add: DeleteEndpoint_win_def remember_def)
next
  case CallSync
  with assms(1) show ?thesis
    by (intro exI [of _ "sct_PersistentServices sct"]) (simp add: Sync_sink_win_def remember_def)
next
  case CallReset
  with assms(1) show ?thesis
    by (intro exI [of _ "sct_PersistentServices sct"]) (simp add: Reset_win_def remember_def)
qed

lemma sink_calls_remember:
  assumes "wp_serviceChanges px = Some sct" "sct_items sct = []"
    and "\<And>k s. map_of (sct_PersistentServices sct) k = Some s \<Longrightarrow> svc_key s = k"
  shows "\<exists>m. go_fold (sink_call env dsr) calls px = Inr (px\<lparr>wp_serviceChanges := Some (sct\<lparr>sct_PersistentServices := m\<rparr>)\<rparr>) \<and>
    map_of m = fold remember calls (map_of (sct_PersistentServices sct))"
  using assms
proof (induction calls arbitrary: px sct)
  case Nil
  then show ?case by (intro exI [of _ "sct_PersistentServices sct"]) simp
next
  case (Cons c calls)
  obtain m where m: "sink_call env dsr c px = Inr (px\<lparr>wp_serviceChanges := Some (sct\<lparr>sct_PersistentServices := m\<rparr>)\<rparr>)"
      "map_of m = remember c (map_of (sct_PersistentServices sct))"
    using sink_call_remembers [OF Cons.prems] by blast
  let ?sct = "sct\<lparr>sct_PersistentServices := m\<rparr>"
  have keys: "svc_key s = k" if "map_of (sct_PersistentServices ?sct) k = Some s" for k s
    using that Cons.prems(3) by (cases c) (auto simp: m(2) remember_def svc_key_def split: if_splits)
  from Cons.IH [of "px\<lparr>wp_serviceChanges := Some ?sct\<rparr>" ?sct, OF _ _ keys] Cons.prems(2)
  obtain m' where "go_fold (sink_call env dsr) calls (px\<lparr>wp_serviceChanges := Some ?sct\<rparr>) =
       Inr (px\<lparr>wp_serviceChanges := Some (sct\<lparr>sct_PersistentServices := m'\<rparr>)\<rparr>)"
     "map_of m' = fold remember calls (map_of m)" by auto
  with m show ?case by auto
qed

lemma Setup_win_fresh:
  assumes "Setup_win env w = Some (Inr (px, w'))"
  shows "wp_serviceChanges px = Some (NewServiceChangeTracker (if wp_isIPv6Mode px then IPv6Protocol else IPv4Protocol))"
    and "wp_serviceMap px = []" "wp_endpointsMap px = []"
proof -
  from assms obtain res where res: "NewProxier_win env False 0 [] [] (To16 [192, 168, 0, 12])
        \<lparr>kc_NetworkName = ''flannel.4096'', kc_SourceVip = ''192.168.0.12'', kc_EnableDSR = False\<rparr> w = Some (Inr res)"
      "(case res of (Inl err, w) \<Rightarrow> Some (Inl (Panicked ''log.Fatal'')) | (Inr proxier, w) \<Rightarrow> Some (Inr (proxier, w))) = Some (Inr (px, w'))"
    by (auto simp: Setup_win_def ogo_bind_eq_Inr)
  from res(2) have "res = (Inr px, w')" by (cases res; cases "fst res") auto
  note r = res(1) [unfolded this]
  obtain info ip settings where "px = make_proxier env False 0 [] [] (newHostNetworkService env w) info False settings w'"
    by (rule NewProxier_win_made [OF r]) simp
  then show "wp_serviceChanges px =
      Some (NewServiceChangeTracker (if wp_isIPv6Mode px then IPv6Protocol else IPv4Protocol))"
    and "wp_serviceMap px = []" "wp_endpointsMap px = []"
    by (cases settings, simp add: make_proxier_def Let_def)+
qed

text \<open>
  C26. On the proxier that \<open>Setup\<close> constructs no sequence of calls of the Windows sink panics, and all
  of them together change one thing: the tracker remembers, for each namespaced name, the
  service set last and not deleted since. No change is ever recorded for the host network
  (the tracker's items stay empty, because every service has an empty cluster address), the
  maps of services and endpoints stay as they were, and endpoints are ignored: nothing is
  ever programmed.
\<close>

theorem win_sink_programs_nothing:
  assumes "Setup_win env w = Some (Inr (px, w'))"
  shows "\<exists>m. go_fold (sink_call env dsr) calls px =
      Inr (px\<lparr>wp_serviceChanges := Some \<lparr>sct_items = [], sct_PersistentServices = m,
        sct_ipFamily = if wp_isIPv6Mode px then IPv6Protocol else IPv4Protocol\<rparr>\<rparr>) \<and>
    map_of m = fold remember calls (\<lambda>_. None) \<and> wp_serviceMap px = [] \<and> wp_endpointsMap px = []"
  using sink_calls_remember [OF Setup_win_fresh(1) [OF assms], of env dsr calls] Setup_win_fresh(2,3) [OF assms]
  by (simp add: NewServiceChangeTracker_def)

section \<open>A host\<close>

definition demo_wenv :: "demo_host win_env" where
  "demo_wenv =
     \<lparr>wv_hcsshim = demo_hcsshim, wv_hcn = demo_hcn, wv_Api_V2 = (\<lambda>w. True), wv_DSRSupported = (\<lambda>w. None),
      wv_RemoteSubnetSupported = (\<lambda>w. None), wv_Getenv = (\<lambda>v w. []),
      wv_Interfaces = (\<lambda>w. [(''aa-bb'', [''192.168.0.12/24''])]),
      wv_ResolveBindAddress = (\<lambda>ip w. (ip, None)), wv_sleep = (\<lambda>w. w), wv_now = (\<lambda>w. 0),
      wv_parse_ip = (\<lambda>s. if s = ''127.0.0.1'' then To16 [127, 0, 0, 1] else []),
      wv_parse_cidr = (\<lambda>s. if s = ''192.168.0.12/24'' then To16 [192, 168, 0, 12] else []),
      wv_is_ipv6 = (\<lambda>ip. ip \<noteq> [] \<and> To4 ip = [])\<rparr>"

definition demo_config :: KubeProxyWinkernelConfiguration where
  "demo_config = \<lparr>kc_NetworkName = ''flannel.4096'', kc_SourceVip = ''192.168.0.12'', kc_EnableDSR = False\<rparr>"

definition demo_network :: hnsNetworkInfo where
  "demo_network = \<lparr>ni_name = ''flannel.4096'', ni_id = ''N1'', ni_networkType = ''Overlay'', ni_remoteSubnets = []\<rparr>"

definition demo_overlay :: demo_host where
  "demo_overlay = demo_host0\<lparr>dh_network_type := ''Overlay'', dh_plists := []\<rparr>"

lemma demo_lookup_network: "hn_getNetworkByName (env_table demo_wenv HnsV2) ''flannel.4096'' demo_overlay = Inr (Inr demo_network, demo_overlay)"
  by code_simp

definition demo_win :: Proxier_win where
  "demo_win = make_proxier demo_wenv False 0 [] [] HnsV2 demo_network False
     (''192.168.0.12'', To16 [192, 168, 0, 12], ''aa-bb'') demo_overlay"

lemma demo_NewProxier:
  "NewProxier_win demo_wenv False 0 [] [] (To16 [192, 168, 0, 12]) demo_config demo_overlay =
     Some (Inr (Inr demo_win, demo_overlay))"
proof -
  have "newHostNetworkService demo_wenv demo_overlay = HnsV2"
    and "getNetworkName demo_wenv (kc_NetworkName demo_config) demo_overlay = Some ''flannel.4096''"
    and "deleteAllHnsLoadBalancerPolicy (wv_hcsshim demo_wenv) demo_overlay = demo_overlay"
    and "To16 [192, 168, 0, 12] \<noteq> []" and "isOverlay demo_network" and "kc_EnableDSR demo_config = False"
    and "check_settings demo_wenv demo_config (To16 [192, 168, 0, 12]) demo_network demo_overlay =
      Inr (''192.168.0.12'', To16 [192, 168, 0, 12], ''aa-bb'')"
    by code_simp+
  moreover have "getNetworkInfo demo_wenv (env_table demo_wenv HnsV2) ''flannel.4096'' demo_overlay =
      Some (Inr (Inr demo_network, demo_overlay))"
    by (simp add: getNetworkInfo_def demo_lookup_network go_loop.simps network_turn_def)
  ultimately show ?thesis by (simp add: NewProxier_win_def demo_lookup_network demo_win_def)
qed

theorem NewProxier_win_outcome_witness:
  "wp_hostMac demo_win = find_host_mac demo_wenv (wp_nodeIP demo_win) (wv_Interfaces demo_wenv demo_overlay) \<and>
   wp_hns demo_win = Some HnsV2"
proof -
  have "isOverlay (wp_network demo_win)" and "wv_Api_V2 demo_wenv demo_overlay" by code_simp+
  with NewProxier_win_outcome [OF demo_NewProxier] show ?thesis by simp
qed

definition demo_svc :: "string \<Rightarrow> Service" where
  "demo_svc name = \<lparr>svc_Namespace = ''default'', svc_Name = name, svc_Ports = [], svc_IPs = None, svc_Annotations = []\<rparr>"

theorem win_sink_programs_nothing_witness:
  "\<exists>m. go_fold (sink_call demo_wenv True)
      [CallSetService (demo_svc ''web''), CallSetService (demo_svc ''db''), CallDeleteService ''default'' ''web''] demo_win =
    Inr (demo_win\<lparr>wp_serviceChanges := Some \<lparr>sct_items = [], sct_PersistentServices = m, sct_ipFamily = IPv4Protocol\<rparr>\<rparr>) \<and>
    map_of m \<lparr>nn_Namespace = ''default'', nn_Name = ''web''\<rparr> = None \<and>
    map_of m \<lparr>nn_Namespace = ''default'', nn_Name = ''db''\<rparr> = Some (demo_svc ''db'')"
proof -
  have "Setup_win demo_wenv demo_overlay = Some (Inr (demo_win, demo_overlay))"
    using demo_NewProxier by (simp add: Setup_win_def demo_config_def)
  note sinks = win_sink_programs_nothing [OF this, of True
      "[CallSetService (demo_svc ''web''), CallSetService (demo_svc ''db''), CallDeleteService ''default'' ''web'']"]
  have "\<not> wp_isIPv6Mode demo_win" by code_simp
  with sinks show ?thesis by (elim exE conjE) (auto simp: remember_def demo_svc_def svc_key_def)
qed

end
