(* ===== verification/WinSound.thy ===== *)
theory WinSound
  imports WinSinkProps
begin

text \<open>
  Type soundness of the Windows proxier. Go's types leave open whether an interface is nil
  and, in this model, whether the place of a shared counter exists. \<open>win_wf\<close> says that the
  services and endpoints of the proxier's maps have what their methods dereference; the
  handlers keep it, and a proxier that has it never panics.
\<close>

section \<open>Well-formed values\<close>

fun refcount_wf :: "nat \<Rightarrow> refcount \<Rightarrow> bool" where
  "refcount_wf n (OwnCell c) \<longleftrightarrow> True"
| "refcount_wf n (SharedCell i) \<longleftrightarrow> i < n"

text \<open>An endpoint that still counts references has a host network service and an existing counter.\<close>

definition info_wf :: "nat \<Rightarrow> endpointsInfo \<Rightarrow> bool" where
  "info_wf n ep \<longleftrightarrow> (\<forall>rc. epi_refCount ep = Some rc \<longrightarrow> epi_hns ep \<noteq> None \<and> refcount_wf n rc)"

fun endpoint_wf :: "nat \<Rightarrow> Endpoint_win \<Rightarrow> bool" where
  "endpoint_wf n (EP_Made ep) \<longleftrightarrow> info_wf n ep"
| "endpoint_wf n (EP_Base b) \<longleftrightarrow> True"

definition service_wf :: "nat \<Rightarrow> serviceInfo_win \<Rightarrow> bool" where
  "service_wf n svcInfo \<longleftrightarrow> ws_hns svcInfo \<noteq> None \<and> (\<forall>ep. ws_remoteEndpoint svcInfo = Some ep \<longrightarrow> info_wf n ep)"

text \<open>A map of services: its keys are different and what the proxier made is well-formed.\<close>

definition services_wf :: "nat \<Rightarrow> (SvcPortName, serviceInfo_win ServicePort) gomap \<Rightarrow> bool" where
  "services_wf n m \<longleftrightarrow> wf_map m \<and> (\<forall>k s. map_of m k = Some (SP_Made s) \<longrightarrow> service_wf n s)"

definition endpoints_wf :: "nat \<Rightarrow> (SvcPortName, Endpoint_win list) gomap \<Rightarrow> bool" where
  "endpoints_wf n m \<longleftrightarrow> wf_map m \<and> (\<forall>k eps. map_of m k = Some eps \<longrightarrow> list_all (endpoint_wf n) eps)"

definition changes_wf :: "nat \<Rightarrow> serviceInfo_win ServiceChangeTracker \<Rightarrow> bool" where
  "changes_wf n sct \<longleftrightarrow> wf_map (sct_items sct) \<and> wf_map (sct_PersistentServices sct) \<and>
     (\<forall>k c m. map_of (sct_items sct) k = Some c \<longrightarrow> sc_previous c = Some m \<or> sc_current c = Some m \<longrightarrow> services_wf n m)"

definition win_wf :: "Proxier_win \<Rightarrow> bool" where
  "win_wf p \<longleftrightarrow>
     (let n = length (wp_cells p)
      in services_wf n (wp_serviceMap p) \<and> endpoints_wf n (wp_endpointsMap p) \<and>
         (\<forall>k i. map_of (wp_endPointsRefCount p) k = Some i \<longrightarrow> i < n) \<and>
         wp_hns p \<noteq> None \<and> (\<exists>sct. wp_serviceChanges p = Some sct \<and> changes_wf n sct))"

lemmas wf_defs = win_wf_def services_wf_def endpoints_wf_def changes_wf_def service_wf_def info_wf_def

section \<open>Cleaning up\<close>

lemma info_wf_done: "epi_refCount ep = None \<Longrightarrow> info_wf n ep"
  by (simp add: info_wf_def)

lemma length_decrement [simp]: "length (snd (decrement cells rc)) = length cells"
  by (cases rc) simp_all

lemma Cleanup_sound:
  assumes "info_wf (length cells) ep"
  shows "\<exists>ep' cells' w'. Cleanup (hns_table hs hc) ep (cells, w) = Inr (ep', cells', w') \<and>
    info_wf (length cells) ep' \<and> length cells' = length cells"
proof (cases "epi_refCount ep = None \<or> epi_isLocal ep")
  case True
  with assms show ?thesis by (auto simp: Cleanup_def split: option.split)
next
  case False
  then obtain rc where rc: "epi_refCount ep = Some rc" "\<not> epi_isLocal ep" by auto
  with assms obtain h where h: "epi_hns ep = Some h" by (auto simp: info_wf_def)
  obtain r w' where d: "hn_deleteEndpoint (hns_table hs hc h) (epi_hnsID ep) w = Inr (r, w')"
    using host_network_service.deleteEndpoint_returns [OF table_service, of hs hc h "epi_hnsID ep" w] by blast
  obtain rc' cells' where c: "decrement cells rc = (rc', cells')" by (cases "decrement cells rc")
  then have l: "length cells' = length cells" using length_decrement [of cells rc] by simp
  from rc h d c l show ?thesis by (cases r) (simp_all add: Cleanup_def info_wf_def)
qed

lemma cleanup_endpoints_sound:
  assumes "list_all (endpoint_wf (length cells)) eps"
  shows "\<exists>eps' cells' w'. cleanup_endpoints (hns_table hs hc) eps (cells, w) = Inr (eps', cells', w') \<and>
    list_all (endpoint_wf (length cells)) eps' \<and> length cells' = length cells"
  using assms
proof (induction eps arbitrary: cells w)
  case (Cons ep eps)
  show ?case
  proof (cases ep)
    case (EP_Base b)
    with Cons.IH [of cells w] Cons.prems show ?thesis by auto
  next
    case (EP_Made e)
    with Cons.prems have "info_wf (length cells) e" by simp
    from Cleanup_sound [OF this, of hs hc w] obtain e' cells1 w1 where
      1: "Cleanup (hns_table hs hc) e (cells, w) = Inr (e', cells1, w1)" "info_wf (length cells) e'" "length cells1 = length cells"
      by blast
    from Cons.IH [of cells1 w1] Cons.prems 1(3) obtain es cells2 w2 where
      2: "cleanup_endpoints (hns_table hs hc) eps (cells1, w1) = Inr (es, cells2, w2)"
        "list_all (endpoint_wf (length cells)) es" "length cells2 = length cells"
      by auto
    from EP_Made 1 2 show ?thesis by simp
  qed
qed simp

lemma cleanupAllPolicies_sound:
  assumes "service_wf (length cells) svcInfo" and "list_all (endpoint_wf (length cells)) eps"
  shows "\<exists>svcInfo' eps' cells' w'. cleanupAllPolicies (hns_table hs hc) svcInfo eps (cells, w) = Inr (svcInfo', eps', cells', w') \<and>
    service_wf (length cells) svcInfo' \<and> list_all (endpoint_wf (length cells)) eps' \<and> length cells' = length cells"
proof -
  from assms(1) obtain h where h: "ws_hns svcInfo = Some h" by (auto simp: service_wf_def)
  obtain svc1 w1 where 1: "delete_policies (hns_table hs hc h) svcInfo w = Inr (svc1, w1)"
    and same: "ws_hns svc1 = Some h" "ws_remoteEndpoint svc1 = ws_remoteEndpoint svcInfo"
    using host_network_service.delete_policies_returns [OF table_service, of hs hc h svcInfo w] h by auto
  from cleanup_endpoints_sound [OF assms(2), of hs hc w1] obtain eps' cells2 w2 where
    2: "cleanup_endpoints (hns_table hs hc) eps (cells, w1) = Inr (eps', cells2, w2)"
      "list_all (endpoint_wf (length cells)) eps'" "length cells2 = length cells" by blast
  show ?thesis
  proof (cases "ws_remoteEndpoint svcInfo")
    case None
    with h 1 2 same show ?thesis
      by (simp add: cleanupAllPolicies_def deleteAllHnsLoadBalancerPolicy_service_def service_wf_def)
  next
    case (Some ep)
    with assms(1) 2(3) have "info_wf (length cells2) ep" by (simp add: service_wf_def)
    from Cleanup_sound [OF this, of hs hc w2] obtain ep' cells3 w3 where
      3: "Cleanup (hns_table hs hc) ep (cells2, w2) = Inr (ep', cells3, w3)"
        "info_wf (length cells2) ep'" "length cells3 = length cells2" by blast
    with Some h 1 2 same show ?thesis
      by (simp add: cleanupAllPolicies_def deleteAllHnsLoadBalancerPolicy_service_def service_wf_def)
  qed
qed

section \<open>The handlers of the maps\<close>

lemma map_of_endpoints_wf:
  "endpoints_wf n m \<Longrightarrow> list_all (endpoint_wf n) (case map_of m k of None \<Rightarrow> [] | Some eps \<Rightarrow> eps)"
  by (auto simp: endpoints_wf_def split: option.split)

lemma services_wf_update: "services_wf n m \<Longrightarrow> service_wf n s \<Longrightarrow> services_wf n (AList.update k (SP_Made s) m)"
  by (auto simp: services_wf_def)

lemma endpoints_wf_update: "endpoints_wf n m \<Longrightarrow> list_all (endpoint_wf n) eps \<Longrightarrow> endpoints_wf n (AList.update k eps m)"
  by (auto simp: endpoints_wf_def)

definition keeps_wf :: "(Proxier_win \<times> 'w) go \<Rightarrow> bool" where
  "keeps_wf r \<longleftrightarrow> (\<exists>p w. r = Inr (p, w) \<and> win_wf p)"

lemma keeps_wf_Inr [simp]: "keeps_wf (Inr (p, w)) \<longleftrightarrow> win_wf p"
  by (auto simp: keeps_wf_def)

lemma cleanup_service_sound:
  assumes "win_wf p" and "service_wf (length (wp_cells p)) svcInfo"
  shows "keeps_wf (cleanup_service (hns_table hs hc) k svcInfo (p, w))"
proof -
  let ?eps = "case map_of (wp_endpointsMap p) k of None \<Rightarrow> [] | Some eps \<Rightarrow> eps"
  from assms(1) have "list_all (endpoint_wf (length (wp_cells p))) ?eps"
    by (auto intro: map_of_endpoints_wf simp: win_wf_def Let_def)
  from cleanupAllPolicies_sound [OF assms(2) this, of hs hc w] obtain svcInfo' eps' cells' w' where
    c: "cleanupAllPolicies (hns_table hs hc) svcInfo ?eps (wp_cells p, w) = Inr (svcInfo', eps', cells', w')"
      "service_wf (length (wp_cells p)) svcInfo'" "list_all (endpoint_wf (length (wp_cells p))) eps'"
      "length cells' = length (wp_cells p)" by blast
  with assms(1) show ?thesis
    by (auto simp: cleanup_service_def win_wf_def Let_def intro: services_wf_update endpoints_wf_update)
qed

lemma win_wf_service:
  "win_wf p \<Longrightarrow> map_of (wp_serviceMap p) k = Some (SP_Made s) \<Longrightarrow> service_wf (length (wp_cells p)) s"
  by (simp add: win_wf_def services_wf_def Let_def)

lemma onServiceMapChange_sound:
  assumes "win_wf p" shows "keeps_wf (onServiceMapChange (hns_table hs hc) k (p, w))"
proof (cases "map_of (wp_serviceMap p) k")
  case (Some sp)
  with assms show ?thesis
    by (cases sp) (auto simp: onServiceMapChange_def intro: cleanup_service_sound win_wf_service)
qed (use assms in \<open>simp add: onServiceMapChange_def\<close>)

lemma onEndpointsMapChange_sound:
  assumes "win_wf p" shows "keeps_wf (onEndpointsMapChange (hns_table hs hc) k (p, w))"
proof (cases "map_of (wp_serviceMap p) k")
  case (Some sp)
  with assms show ?thesis
    by (cases sp) (auto simp: onEndpointsMapChange_def intro: cleanup_service_sound win_wf_service)
next
  case no_service: None
  show ?thesis
  proof (cases "map_of (wp_endpointsMap p) k")
    case None
    with no_service assms show ?thesis by (simp add: onEndpointsMapChange_def)
  next
    case (Some eps)
    with assms have "list_all (endpoint_wf (length (wp_cells p))) eps"
      by (simp add: win_wf_def endpoints_wf_def Let_def)
    from cleanup_endpoints_sound [OF this, of hs hc w] obtain eps' cells' w' where
      c: "cleanup_endpoints (hns_table hs hc) eps (wp_cells p, w) = Inr (eps', cells', w')"
        "list_all (endpoint_wf (length (wp_cells p))) eps'" "length cells' = length (wp_cells p)" by blast
    with no_service Some assms show ?thesis
      by (auto simp: onEndpointsMapChange_def win_wf_def Let_def intro: endpoints_wf_update)
  qed
qed

text \<open>Loops of such reactions.\<close>

lemma keeps_wf_fold:
  assumes "win_wf p" and "\<And>x p w. x \<in> set xs \<Longrightarrow> win_wf p \<Longrightarrow> keeps_wf (f x (p, w))"
  shows "keeps_wf (go_fold f xs (p, w))"
proof -
  have "\<exists>t. go_fold f xs (p, w) = Inr t \<and> win_wf (fst t)"
    by (rule go_fold_returns) (use assms in \<open>auto simp: keeps_wf_def\<close>)
  then show ?thesis by (auto simp: keeps_wf_def)
qed

lemma keeps_wf_bind:
  "keeps_wf r \<Longrightarrow> (\<And>p w. win_wf p \<Longrightarrow> keeps_wf (f (p, w))) \<Longrightarrow> keeps_wf (go_bind r f)"
  by (auto simp: keeps_wf_def)

lemma serviceMapChange_sound: "win_wf p \<Longrightarrow> keeps_wf (serviceMapChange (hns_table hs hc) previous current (p, w))"
  unfolding serviceMapChange_def
  by (intro keeps_wf_bind keeps_wf_fold) (auto intro: onServiceMapChange_sound)

lemma endpointsMapChange_sound: "win_wf p \<Longrightarrow> keeps_wf (endpointsMapChange (hns_table hs hc) old new (p, w))"
  unfolding endpointsMapChange_def
  by (intro keeps_wf_bind keeps_wf_fold) (auto intro: onEndpointsMapChange_sound)

section \<open>The handlers of services\<close>

lemma changes_wf_Update:
  assumes "changes_wf n sct" shows "changes_wf n (snd (Update env previous current sct))"
proof (cases "case current of None \<Rightarrow> previous | Some c \<Rightarrow> Some c")
  case None
  with assms show ?thesis by (simp add: Update_def)
next
  case (Some svc)
  with assms show ?thesis
    by (auto simp: Update_def changes_wf_def Let_def simp del: map_of_eq_Some_iff split: option.splits if_splits)
qed

lemma OnServiceUpdate_win_sound:
  assumes "win_wf p" shows "\<exists>p'. OnServiceUpdate_win env dsr old service p = Inr p' \<and> win_wf p'"
proof -
  from assms obtain sct where sct: "wp_serviceChanges p = Some sct" "changes_wf (length (wp_cells p)) sct"
    by (auto simp: win_wf_def Let_def)
  obtain changed sct' where u: "Update (service_tracker_env env dsr p) old service sct = (changed, sct')" by fastforce
  with changes_wf_Update [OF sct(2), of "service_tracker_env env dsr p" old service] have "changes_wf (length (wp_cells p)) sct'"
    by simp
  with assms sct u show ?thesis
    by (simp add: OnServiceUpdate_win_def Sync_win_def win_wf_def Let_def)
qed

lemma sink_call_sound:
  assumes "win_wf p" shows "\<exists>p'. sink_call env dsr c p = Inr p' \<and> win_wf p'"
proof (cases c)
  case (CallSetService service)
  with assms OnServiceUpdate_win_sound [OF assms] show ?thesis
    by (auto simp: SetService_win_def OnServiceAdd_win_def GetServiceChangeTracker_def win_wf_def Let_def split: option.split)
next
  case (CallDeleteService namespace name)
  obtain sct where sct: "wp_serviceChanges p = Some sct" using assms by (auto simp: win_wf_def Let_def)
  let ?k = "GetName namespace name"
  from OnServiceUpdate_win_sound [OF assms, of env dsr "map_of (sct_PersistentServices sct) ?k" None]
  obtain p' where p': "OnServiceUpdate_win env dsr (map_of (sct_PersistentServices sct) ?k) None p = Inr p'" "win_wf p'" by blast
  moreover from p'(2) have "win_wf (p'\<lparr>wp_serviceChanges := map_option
      (\<lambda>sct. sct\<lparr>sct_PersistentServices := AList.delete ?k (sct_PersistentServices sct)\<rparr>) (wp_serviceChanges p')\<rparr>)"
    by (auto simp: win_wf_def changes_wf_def Let_def)
  ultimately show ?thesis
    using CallDeleteService sct
    by (simp add: DeleteService_win_def GetServiceChangeTracker_def OnServiceDelete_win_def)
qed (use assms in \<open>simp_all add: SetEndpoint_win_def DeleteEndpoint_win_def Sync_sink_win_def Reset_win_def\<close>)

section \<open>Soundness\<close>

text \<open>What happens to a proxier: a call of its sink, its handlers, and the changes of its maps.\<close>

datatype win_op =
    WinSink sink_op
  | WinServiceUpdate "Service option" "Service option"
  | WinServiceSynced
  | WinServicesChanged "SvcPortName list" "SvcPortName list"
  | WinEndpointsChanged "SvcPortName list" "SvcPortName list"

fun win_step :: "'w win_env \<Rightarrow> bool \<Rightarrow> win_op \<Rightarrow> Proxier_win \<times> 'w \<Rightarrow> (Proxier_win \<times> 'w) go" where
  "win_step env dsr (WinSink c) (p, w) = go_bind (sink_call env dsr c p) (\<lambda>p. Inr (p, w))"
| "win_step env dsr (WinServiceUpdate old service) (p, w) =
     go_bind (OnServiceUpdate_win env dsr old service p) (\<lambda>p. Inr (p, w))"
| "win_step env dsr WinServiceSynced (p, w) = Inr (OnServiceSynced_win p, w)"
| "win_step env dsr (WinServicesChanged previous current) (p, w) = serviceMapChange (env_table env) previous current (p, w)"
| "win_step env dsr (WinEndpointsChanged old new) (p, w) = endpointsMapChange (env_table env) old new (p, w)"

lemma win_step_sound: "win_wf p \<Longrightarrow> keeps_wf (win_step env dsr c (p, w))"
proof (cases c)
  case (WinSink s)
  assume "win_wf p"
  with sink_call_sound [of p env dsr s] WinSink show ?thesis by auto
next
  case (WinServiceUpdate old service)
  assume "win_wf p"
  with OnServiceUpdate_win_sound [of p env dsr old service] WinServiceUpdate show ?thesis by auto
qed (simp_all add: env_table_def serviceMapChange_sound endpointsMapChange_sound,
     simp add: OnServiceSynced_win_def setInitialized_def syncProxyRules_def win_wf_def Let_def)

lemma win_steps_sound: "win_wf p \<Longrightarrow> keeps_wf (go_fold (win_step env dsr) ops (p, w))"
  by (intro keeps_wf_fold win_step_sound)

lemma make_proxier_wf: "win_wf (make_proxier env masqueradeAll masqueradeBit clusterCIDR hostname hns info isDSR settings w)"
  by (cases settings) (simp add: make_proxier_def wf_defs Let_def NewServiceChangeTracker_def)

text \<open>
  C27. Type soundness of the Windows proxier: on a well-formed proxier (the services and endpoints
  of its maps have a host network service and an existing counter where they count
  references, its tracker is there and all recorded changes are well-formed) no sequence of
  calls of the sink, of handlers and of changes of the maps panics, whatever the two network APIs
  answer, and the proxier stays well-formed. A new proxier is well-formed, and so are the
  endpoints and services that a well-formed proxier makes.
\<close>

theorem win_handlers_sound:
  assumes "win_wf p"
  shows "(\<exists>p' w'. go_fold (win_step env dsr) ops (p, w) = Inr (p', w') \<and> win_wf p') \<and>
    win_wf (make_proxier env masqueradeAll masqueradeBit clusterCIDR hostname hns info isDSR settings w) \<and>
    info_wf (length (wp_cells p)) (newEndpointInfo (wv_parse_ip env) (wp_hns p) baseInfo) \<and>
    service_wf (length (wp_cells p)) (newServiceInfo dsr (wp_hns p) port service baseSvcInfo)"
proof (intro conjI make_proxier_wf)
  show "\<exists>p' w'. go_fold (win_step env dsr) ops (p, w) = Inr (p', w') \<and> win_wf p'"
    using win_steps_sound [OF assms, of env dsr ops w] by (auto simp: keeps_wf_def)
  show "info_wf (length (wp_cells p)) (newEndpointInfo (wv_parse_ip env) (wp_hns p) baseInfo)"
    using assms by (auto simp: newEndpointInfo_def info_wf_def win_wf_def Let_def split: prod.split)
  show "service_wf (length (wp_cells p)) (newServiceInfo dsr (wp_hns p) port service baseSvcInfo)"
    using assms by (auto simp: newServiceInfo_def service_wf_def win_wf_def Let_def)
qed

text \<open>A proxier with one service, whose endpoint shares a counter.\<close>

definition demo_port_name :: SvcPortName where
  "demo_port_name = \<lparr>psp_NamespacedName = \<lparr>nn_Namespace = ''default'', nn_Name = ''web''\<rparr>,
     psp_Port = ''http'', psp_Protocol = Protocol_TCP\<rparr>"

definition demo_full_win :: Proxier_win where
  "demo_full_win = demo_win\<lparr>wp_cells := [1], wp_endPointsRefCount := [(''10.0.0.7'', 0)],
     wp_serviceMap := [(demo_port_name, SP_Made demo_service_win)],
     wp_endpointsMap := [(demo_port_name, [EP_Made (demo_win_endpoint ''E1'')])]\<rparr>"

lemma demo_full_win_wf: "win_wf demo_full_win"
  by (simp add: wf_defs Let_def demo_full_win_def demo_win_def make_proxier_def NewServiceChangeTracker_def
      demo_service_win_def demo_win_endpoint_def)

theorem win_handlers_sound_witness:
  "\<exists>p' w'. go_fold (win_step demo_wenv True)
     [WinSink (CallSetService (demo_svc ''web'')), WinServicesChanged [] [demo_port_name],
      WinEndpointsChanged [demo_port_name] [], WinSink (CallDeleteService ''default'' ''web'')]
     (demo_full_win, demo_overlay) = Inr (p', w') \<and> win_wf p'"
  by (rule win_handlers_sound [OF demo_full_win_wf, THEN conjunct1])

end
