(* ===== verification/Interfaces.thy ===== *)
theory Interfaces
  imports ServiceTracker
begin

text \<open>
  The Go interfaces \<open>Endpoint\<close> and \<open>ServicePort\<close> of \<^verbatim>\<open>pkg/proxy/types.go\<close> and their base
  implementations in \<^verbatim>\<open>endpoints.go\<close> and \<^verbatim>\<open>service.go\<close>. The methods only read, so that an
  interface value is the record of what its methods return. The locale \<open>endpoint_methods\<close> is
  what an implementation of \<open>Endpoint\<close> owes its callers: \<open>Equal\<close> compares the string and the
  locality of the two values and nothing else. Two implementations that keep it
  agree on which endpoints are equal, in both directions.
\<close>

section \<open>Endpoint\<close>

record Endpoint_iface =
  en_String :: string
  en_GetIsLocal :: bool
  en_IsReady :: bool
  en_IsServing :: bool
  en_IsTerminating :: bool
  en_GetZoneHints :: "string list"
  en_IP :: string
  en_Port :: "int \<times> port_error option"
  en_GetNodeName :: string
  en_GetZone :: string

definition BaseEndpointInfo_GetIsLocal :: "BaseEndpointInfo \<Rightarrow> bool" where
  "BaseEndpointInfo_GetIsLocal info = be_IsLocal info"

definition BaseEndpointInfo_IsReady :: "BaseEndpointInfo \<Rightarrow> bool" where
  "BaseEndpointInfo_IsReady info = be_Ready info"

definition BaseEndpointInfo_IsServing :: "BaseEndpointInfo \<Rightarrow> bool" where
  "BaseEndpointInfo_IsServing info = be_Serving info"

definition BaseEndpointInfo_IsTerminating :: "BaseEndpointInfo \<Rightarrow> bool" where
  "BaseEndpointInfo_IsTerminating info = be_Terminating info"

definition BaseEndpointInfo_GetZoneHints :: "BaseEndpointInfo \<Rightarrow> string list" where
  "BaseEndpointInfo_GetZoneHints info = be_ZoneHints info"

definition BaseEndpointInfo_GetNodeName :: "BaseEndpointInfo \<Rightarrow> string" where
  "BaseEndpointInfo_GetNodeName info = be_NodeName info"

definition BaseEndpointInfo_GetZone :: "BaseEndpointInfo \<Rightarrow> string" where
  "BaseEndpointInfo_GetZone info = be_Zone info"

text \<open>A \<open>*BaseEndpointInfo\<close> as an \<open>Endpoint\<close>.\<close>

definition BaseEndpointInfo_Endpoint :: "(string \<Rightarrow> IP) \<Rightarrow> BaseEndpointInfo \<Rightarrow> Endpoint_iface" where
  "BaseEndpointInfo_Endpoint parse_ip info =
     \<lparr>en_String = BaseEndpointInfo_String info, en_GetIsLocal = BaseEndpointInfo_GetIsLocal info,
      en_IsReady = BaseEndpointInfo_IsReady info, en_IsServing = BaseEndpointInfo_IsServing info,
      en_IsTerminating = BaseEndpointInfo_IsTerminating info,
      en_GetZoneHints = BaseEndpointInfo_GetZoneHints info,
      en_IP = BaseEndpointInfo_IP parse_ip info, en_Port = BaseEndpointInfo_Port info,
      en_GetNodeName = BaseEndpointInfo_GetNodeName info, en_GetZone = BaseEndpointInfo_GetZone info\<rparr>"

lemmas base_endpoint_defs = BaseEndpointInfo_Endpoint_def BaseEndpointInfo_String_def
  BaseEndpointInfo_GetIsLocal_def BaseEndpointInfo_IsReady_def BaseEndpointInfo_IsServing_def
  BaseEndpointInfo_IsTerminating_def BaseEndpointInfo_GetZoneHints_def
  BaseEndpointInfo_GetNodeName_def BaseEndpointInfo_GetZone_def

text \<open>The two methods of an endpoint that \<open>Equal\<close> calls.\<close>

definition endpoint_id :: "Endpoint_iface \<Rightarrow> string \<times> bool" where
  "endpoint_id e = (en_String e, en_GetIsLocal e)"

locale endpoint_methods =
  fixes as_Endpoint :: "'e \<Rightarrow> Endpoint_iface" and Equal :: "'e \<Rightarrow> string \<times> bool \<Rightarrow> bool"
  assumes Equal: "Equal e other \<longleftrightarrow> endpoint_id (as_Endpoint e) = other"
begin

lemma Equal_refl: "Equal e (endpoint_id (as_Endpoint e))"
  by (simp add: Equal)

lemma Equal_determines: "Equal e x \<Longrightarrow> Equal e y \<Longrightarrow> x = y"
  by (simp add: Equal)

end

text \<open>Two implementations of the interface, or the same one twice.\<close>

locale two_endpoint_methods =
  A: endpoint_methods as_A Equal_A + B: endpoint_methods as_B Equal_B
  for as_A :: "'a \<Rightarrow> Endpoint_iface" and Equal_A and as_B :: "'b \<Rightarrow> Endpoint_iface" and Equal_B
begin

lemma Equal_sym: "Equal_A a (endpoint_id (as_B b)) \<longleftrightarrow> Equal_B b (endpoint_id (as_A a))"
  by (auto simp: A.Equal B.Equal)

lemma Equal_trans:
  "Equal_A a (endpoint_id (as_B b)) \<Longrightarrow> Equal_B b (endpoint_id c) \<Longrightarrow> Equal_A a (endpoint_id c)"
  by (simp add: A.Equal B.Equal)

end

interpretation base: endpoint_methods "BaseEndpointInfo_Endpoint parse_ip" BaseEndpointInfo_Equal for parse_ip
  by unfold_locales (auto simp: base_endpoint_defs BaseEndpointInfo_Equal_def endpoint_id_def)

section \<open>ServicePort\<close>

record ServicePort_iface =
  sp_String :: string
  sp_ClusterIP :: IP
  sp_Port :: int
  sp_SessionAffinityType :: string
  sp_StickyMaxAgeSeconds :: int
  sp_ExternalIPStrings :: "string list"
  sp_LoadBalancerIPStrings :: "string list"
  sp_Protocol :: Protocol
  sp_LoadBalancerSourceRanges :: "string list"
  sp_HealthCheckNodePort :: int
  sp_NodePort :: int
  sp_NodeLocalExternal :: bool
  sp_NodeLocalInternal :: bool
  sp_InternalTrafficPolicy :: "string option"
  sp_HintsAnnotation :: string

definition BaseServiceInfo_ClusterIP :: "BaseServiceInfo \<Rightarrow> IP" where
  "BaseServiceInfo_ClusterIP info = bs_clusterIP info"

definition BaseServiceInfo_Port :: "BaseServiceInfo \<Rightarrow> int" where
  "BaseServiceInfo_Port info = bs_port info"

definition BaseServiceInfo_SessionAffinityType :: "BaseServiceInfo \<Rightarrow> string" where
  "BaseServiceInfo_SessionAffinityType info = bs_sessionAffinityType info"

definition BaseServiceInfo_StickyMaxAgeSeconds :: "BaseServiceInfo \<Rightarrow> int" where
  "BaseServiceInfo_StickyMaxAgeSeconds info = bs_stickyMaxAgeSeconds info"

definition BaseServiceInfo_Protocol :: "BaseServiceInfo \<Rightarrow> Protocol" where
  "BaseServiceInfo_Protocol info = bs_protocol info"

definition BaseServiceInfo_LoadBalancerSourceRanges :: "BaseServiceInfo \<Rightarrow> string list" where
  "BaseServiceInfo_LoadBalancerSourceRanges info = bs_loadBalancerSourceRanges info"

definition BaseServiceInfo_HealthCheckNodePort :: "BaseServiceInfo \<Rightarrow> int" where
  "BaseServiceInfo_HealthCheckNodePort info = bs_healthCheckNodePort info"

definition BaseServiceInfo_NodePort :: "BaseServiceInfo \<Rightarrow> int" where
  "BaseServiceInfo_NodePort info = bs_nodePort info"

definition BaseServiceInfo_ExternalIPStrings :: "BaseServiceInfo \<Rightarrow> string list" where
  "BaseServiceInfo_ExternalIPStrings info = bs_externalIPs info"

definition BaseServiceInfo_NodeLocalExternal :: "BaseServiceInfo \<Rightarrow> bool" where
  "BaseServiceInfo_NodeLocalExternal info = bs_nodeLocalExternal info"

definition BaseServiceInfo_NodeLocalInternal :: "BaseServiceInfo \<Rightarrow> bool" where
  "BaseServiceInfo_NodeLocalInternal info = bs_nodeLocalInternal info"

definition BaseServiceInfo_InternalTrafficPolicy :: "BaseServiceInfo \<Rightarrow> string option" where
  "BaseServiceInfo_InternalTrafficPolicy info = bs_internalTrafficPolicy info"

definition BaseServiceInfo_HintsAnnotation :: "BaseServiceInfo \<Rightarrow> string" where
  "BaseServiceInfo_HintsAnnotation info = bs_hintsAnnotation info"

text \<open>A \<open>*BaseServiceInfo\<close> as a \<open>ServicePort\<close>.\<close>

definition BaseServiceInfo_ServicePort :: "(Protocol \<Rightarrow> string) \<Rightarrow> BaseServiceInfo \<Rightarrow> ServicePort_iface" where
  "BaseServiceInfo_ServicePort protocol_string info =
     \<lparr>sp_String = BaseServiceInfo_String protocol_string info,
      sp_ClusterIP = BaseServiceInfo_ClusterIP info, sp_Port = BaseServiceInfo_Port info,
      sp_SessionAffinityType = BaseServiceInfo_SessionAffinityType info,
      sp_StickyMaxAgeSeconds = BaseServiceInfo_StickyMaxAgeSeconds info,
      sp_ExternalIPStrings = BaseServiceInfo_ExternalIPStrings info,
      sp_LoadBalancerIPStrings = LoadBalancerIPStrings info,
      sp_Protocol = BaseServiceInfo_Protocol info,
      sp_LoadBalancerSourceRanges = BaseServiceInfo_LoadBalancerSourceRanges info,
      sp_HealthCheckNodePort = BaseServiceInfo_HealthCheckNodePort info,
      sp_NodePort = BaseServiceInfo_NodePort info,
      sp_NodeLocalExternal = BaseServiceInfo_NodeLocalExternal info,
      sp_NodeLocalInternal = BaseServiceInfo_NodeLocalInternal info,
      sp_InternalTrafficPolicy = BaseServiceInfo_InternalTrafficPolicy info,
      sp_HintsAnnotation = BaseServiceInfo_HintsAnnotation info\<rparr>"

lemmas base_service_defs = BaseServiceInfo_ServicePort_def BaseServiceInfo_String_def
  BaseServiceInfo_ClusterIP_def BaseServiceInfo_Port_def BaseServiceInfo_SessionAffinityType_def
  BaseServiceInfo_StickyMaxAgeSeconds_def BaseServiceInfo_Protocol_def
  BaseServiceInfo_LoadBalancerSourceRanges_def BaseServiceInfo_HealthCheckNodePort_def
  BaseServiceInfo_NodePort_def BaseServiceInfo_ExternalIPStrings_def
  BaseServiceInfo_NodeLocalExternal_def BaseServiceInfo_NodeLocalInternal_def
  BaseServiceInfo_InternalTrafficPolicy_def BaseServiceInfo_HintsAnnotation_def

lemma LoadBalancerIPStrings_copies: "LoadBalancerIPStrings info = bs_loadBalancerStatus info"
proof -
  have "fold (\<lambda>ing ips. ips @ [ing]) xs acc = acc @ xs" for xs acc :: "string list"
    by (induction xs arbitrary: acc) simp_all
  then show ?thesis by (simp add: LoadBalancerIPStrings_def)
qed

text \<open>
  What the tracker's base information of a service port shows through the interface: the
  port and the node port as signed numbers, the protocol, the hints annotation, and no
  affinity, external address or load balancer.
\<close>

lemma newBaseServiceInfo_ServicePort:
  "BaseServiceInfo_ServicePort ps (newBaseServiceInfo env sct port service) =
     \<lparr>sp_String = IP_String (te_parse_ip env (GetClusterIPByFamily (sct_ipFamily sct) service)) @
        '':'' @ Itoa (sint (pm_Port port)) @ ''/'' @ ps (pm_Protocol port),
      sp_ClusterIP = te_parse_ip env (GetClusterIPByFamily (sct_ipFamily sct) service),
      sp_Port = sint (pm_Port port), sp_SessionAffinityType = [], sp_StickyMaxAgeSeconds = 0,
      sp_ExternalIPStrings = [], sp_LoadBalancerIPStrings = [], sp_Protocol = pm_Protocol port,
      sp_LoadBalancerSourceRanges = [], sp_HealthCheckNodePort = 0, sp_NodePort = sint (pm_NodePort port),
      sp_NodeLocalExternal = False, sp_NodeLocalInternal = False, sp_InternalTrafficPolicy = None,
      sp_HintsAnnotation = (case map_of (svc_Annotations service) AnnotationTopologyAwareHints of
         None \<Rightarrow> [] | Some v \<Rightarrow> v)\<rparr>"
  by (simp add: base_service_defs newBaseServiceInfo_def Let_def LoadBalancerIPStrings_copies)

section \<open>Provider\<close>

text \<open>
  The interface of a proxier, over its state \<open>'p\<close>; \<open>pv_SyncLoop\<close> is \<open>None\<close> when it does not
  return.
\<close>

record ('p, 'sp) Provider =
  pv_OnServiceAdd :: "Service option \<Rightarrow> 'p \<Rightarrow> 'p go"
  pv_OnServiceUpdate :: "Service option \<Rightarrow> Service option \<Rightarrow> 'p \<Rightarrow> 'p go"
  pv_OnServiceDelete :: "Service option \<Rightarrow> 'p \<Rightarrow> 'p go"
  pv_Sync :: "'p \<Rightarrow> 'p"
  pv_SyncLoop :: "'p \<Rightarrow> 'p option"
  pv_GetServiceChangeTracker :: "'p \<Rightarrow> 'sp ServiceChangeTracker option"

end
