(* ===== verification/WinInterfaces.thy ===== *)
theory WinInterfaces
  imports WinProxierProps Interfaces
begin

text \<open>
  \<^verbatim>\<open>pkg/proxy/winkernel/endpoints.go\<close> and \<^verbatim>\<open>service.go\<close>: the endpoints and services of the
  Windows proxier as values of the interfaces of \<^verbatim>\<open>pkg/proxy/types.go\<close>, and what they share
  with the base information they are made of.
\<close>

section \<open>Endpoints\<close>

definition endpointsInfo_GetIsLocal :: "endpointsInfo \<Rightarrow> bool" where
  "endpointsInfo_GetIsLocal info = epi_isLocal info"

definition endpointsInfo_IsReady :: "endpointsInfo \<Rightarrow> bool" where
  "endpointsInfo_IsReady info = epi_ready info"

definition endpointsInfo_IsServing :: "endpointsInfo \<Rightarrow> bool" where
  "endpointsInfo_IsServing info = epi_serving info"

definition endpointsInfo_IsTerminating :: "endpointsInfo \<Rightarrow> bool" where
  "endpointsInfo_IsTerminating info = epi_terminating info"

definition endpointsInfo_GetZoneHints :: "endpointsInfo \<Rightarrow> string list" where
  "endpointsInfo_GetZoneHints info = []"

definition endpointsInfo_IP :: "endpointsInfo \<Rightarrow> string" where
  "endpointsInfo_IP info = epi_ip info"

definition endpointsInfo_Port :: "endpointsInfo \<Rightarrow> int \<times> port_error option" where
  "endpointsInfo_Port info = (uint (epi_port info), None)"

definition endpointsInfo_GetNodeName :: "endpointsInfo \<Rightarrow> string" where
  "endpointsInfo_GetNodeName info = []"

definition endpointsInfo_GetZone :: "endpointsInfo \<Rightarrow> string" where
  "endpointsInfo_GetZone info = []"

text \<open>A \<open>*endpointsInfo\<close> as a \<open>proxy.Endpoint\<close>.\<close>

definition endpointsInfo_Endpoint :: "endpointsInfo \<Rightarrow> Endpoint_iface" where
  "endpointsInfo_Endpoint info =
     \<lparr>en_String = endpointsInfo_String info, en_GetIsLocal = endpointsInfo_GetIsLocal info,
      en_IsReady = endpointsInfo_IsReady info, en_IsServing = endpointsInfo_IsServing info,
      en_IsTerminating = endpointsInfo_IsTerminating info,
      en_GetZoneHints = endpointsInfo_GetZoneHints info,
      en_IP = endpointsInfo_IP info, en_Port = endpointsInfo_Port info,
      en_GetNodeName = endpointsInfo_GetNodeName info, en_GetZone = endpointsInfo_GetZone info\<rparr>"

lemmas win_endpoint_defs = endpointsInfo_Endpoint_def endpointsInfo_GetIsLocal_def
  endpointsInfo_IsReady_def endpointsInfo_IsServing_def endpointsInfo_IsTerminating_def
  endpointsInfo_GetZoneHints_def endpointsInfo_IP_def endpointsInfo_Port_def
  endpointsInfo_GetNodeName_def endpointsInfo_GetZone_def

interpretation winep: endpoint_methods endpointsInfo_Endpoint endpointsInfo_Equal
  by unfold_locales (auto simp: win_endpoint_defs endpointsInfo_Equal_def endpoint_id_def)

interpretation base_win: two_endpoint_methods "BaseEndpointInfo_Endpoint parse_ip" BaseEndpointInfo_Equal
    endpointsInfo_Endpoint endpointsInfo_Equal for parse_ip
  by unfold_locales

text \<open>The base endpoint and the endpoint made of it, method by method.\<close>

lemma newEndpointInfo_Endpoint:
  assumes "win_good parse_ip b"
  shows "endpointsInfo_Endpoint (newEndpointInfo parse_ip hns b) =
    (BaseEndpointInfo_Endpoint parse_ip b)\<lparr>en_GetZoneHints := [], en_GetNodeName := [], en_GetZone := []\<rparr>"
proof -
  from assms obtain host port where b: "host_parser parse_ip" "be_Endpoint b = JoinHostPort host (Itoa port)"
      "parse_ip host \<noteq> []" "0 \<le> port" "port < 65536"
    unfolding win_good_def by blast
  from b have r: "- (2 ^ 63) \<le> port" "port < 2 ^ 63" by simp_all
  have p: "uint (epi_port (newEndpointInfo parse_ip hns b)) = port"
    using newEndpointInfo_endpoint(2) [OF b(1,3) r b(2), of hns] b(4,5) by simp
  have "BaseEndpointInfo_Port b = (port, None)"
    using b r host_parser_no_bracket [OF b(1,3)] by (simp add: BaseEndpointInfo_Port_def PortPart_endpoint)
  moreover have "endpointsInfo_String (newEndpointInfo parse_ip hns b) = BaseEndpointInfo_String b"
    using win.make_String [OF assms, of hns] by (simp add: win_ops_def BaseEndpointInfo_String_def)
  ultimately show ?thesis using p
    by (simp add: win_endpoint_defs base_endpoint_defs BaseEndpointInfo_IP_def)
       (simp add: newEndpointInfo_def split: prod.split)
qed

text \<open>
  C36. The endpoint that the Windows proxier makes of a base endpoint is the same endpoint to the
  code that compares the two: \<open>Equal\<close> holds in both directions, and two endpoints that
  the proxier made are equal exactly when the base endpoints they were made of are. IP, port
  and conditions are those of the base endpoint; the zone hints, the node name and
  the zone are lost. This holds for addresses in canonical form and ports that fit in 16 bits.
\<close>

theorem newEndpointInfo_same_endpoint:
  assumes "win_good parse_ip b" and "win_good parse_ip b'"
  shows "endpointsInfo_Equal (newEndpointInfo parse_ip hns b) (endpoint_id (BaseEndpointInfo_Endpoint parse_ip b)) \<and>
    BaseEndpointInfo_Equal b (endpoint_id (endpointsInfo_Endpoint (newEndpointInfo parse_ip hns b))) \<and>
    (endpointsInfo_Equal (newEndpointInfo parse_ip hns b)
        (endpoint_id (endpointsInfo_Endpoint (newEndpointInfo parse_ip hns b'))) \<longleftrightarrow>
     BaseEndpointInfo_Equal b (endpoint_id (BaseEndpointInfo_Endpoint parse_ip b'))) \<and>
    endpointsInfo_Endpoint (newEndpointInfo parse_ip hns b) =
      (BaseEndpointInfo_Endpoint parse_ip b)\<lparr>en_GetZoneHints := [], en_GetNodeName := [], en_GetZone := []\<rparr>"
proof -
  have id: "endpoint_id (endpointsInfo_Endpoint (newEndpointInfo parse_ip hns x)) =
      endpoint_id (BaseEndpointInfo_Endpoint parse_ip x)" if "win_good parse_ip x" for x
    using newEndpointInfo_Endpoint [OF that, of hns] by (simp add: endpoint_id_def)
  show ?thesis
    using id [OF assms(1)] id [OF assms(2)] newEndpointInfo_Endpoint [OF assms(1), of hns]
    by (simp only: winep.Equal base.Equal [where parse_ip = parse_ip] simp_thms)
qed

text \<open>Two nodes of a zone, and the endpoint of each.\<close>

definition demo_base :: "string \<Rightarrow> BaseEndpointInfo" where
  "demo_base node = newBaseEndpointInfo ''10.0.0.1'' node ''zone-a'' 8080 False True True False [''zone-a'']"

lemma demo_base_good: "win_good parse_two (demo_base node)"
  unfolding win_good_def demo_base_def
  by (intro conjI host_parser_parse_two exI [of _ "''10.0.0.1''"] exI [of _ "8080"])
     (simp_all add: parse_two_def IP_String_v4, code_simp)

theorem newEndpointInfo_same_endpoint_witness:
  "endpointsInfo_Equal (newEndpointInfo parse_two (Some HnsV2) (demo_base ''a''))
     (endpoint_id (endpointsInfo_Endpoint (newEndpointInfo parse_two (Some HnsV2) (demo_base ''b''))))"
proof -
  have "BaseEndpointInfo_Equal (demo_base ''a'') (endpoint_id (BaseEndpointInfo_Endpoint parse_two (demo_base ''b'')))"
    by (simp add: demo_base_def base_endpoint_defs BaseEndpointInfo_Equal_def endpoint_id_def)
  then show ?thesis
    using newEndpointInfo_same_endpoint [OF demo_base_good [of "''a''"] demo_base_good [of "''b''"], of "Some HnsV2"] by blast
qed

section \<open>Services\<close>

text \<open>
  \<open>serviceInfo\<close> embeds a \<open>*BaseServiceInfo\<close> and defines no method of the interface itself: the
  methods are the embedded ones.
\<close>

definition serviceInfo_ServicePort :: "(Protocol \<Rightarrow> string) \<Rightarrow> serviceInfo_win \<Rightarrow> ServicePort_iface" where
  "serviceInfo_ServicePort protocol_string info = BaseServiceInfo_ServicePort protocol_string (ws_Base info)"

lemma newServiceInfo_ServicePort:
  "serviceInfo_ServicePort ps (newServiceInfo dsr hns port service baseInfo) = BaseServiceInfo_ServicePort ps baseInfo"
  by (simp add: serviceInfo_ServicePort_def newServiceInfo_def Let_def)

section \<open>The proxier\<close>

text \<open>\<open>SyncLoop\<close> prints and returns; the loop is commented out in the source.\<close>

definition SyncLoop_win :: "Proxier_win \<Rightarrow> Proxier_win option" where
  "SyncLoop_win proxier = Some proxier"

definition Proxier_win_Provider :: "'w win_env \<Rightarrow> bool \<Rightarrow> (Proxier_win, serviceInfo_win) Provider" where
  "Proxier_win_Provider env dsr_supported =
     \<lparr>pv_OnServiceAdd = OnServiceAdd_win env dsr_supported,
      pv_OnServiceUpdate = OnServiceUpdate_win env dsr_supported,
      pv_OnServiceDelete = OnServiceDelete_win env dsr_supported,
      pv_Sync = Sync_win, pv_SyncLoop = SyncLoop_win,
      pv_GetServiceChangeTracker = GetServiceChangeTracker\<rparr>"

text \<open>
  The interface says that \<open>SyncLoop\<close> does not return. It returns at once on every proxier, and
  neither it nor \<open>Sync\<close> changes anything.
\<close>

lemma Provider_never_syncs:
  "pv_SyncLoop (Proxier_win_Provider env dsr) proxier = Some proxier"
  "pv_Sync (Proxier_win_Provider env dsr) proxier = proxier"
  by (simp_all add: Proxier_win_Provider_def SyncLoop_win_def Sync_win_def)

end
