(* ===== verification/WinHnsProps.thy ===== *)
theory WinHnsProps
  imports WinPoliciesProps
begin

unbundle bit_operations_syntax

text \<open>
  What the two implementations of the host network service do: asking twice for a load
  balancer gives the same one, an existing load balancer is found by its ports, its protocol,
  its address and its number of endpoints only, and what a created endpoint is like, whose
  locality the first implementation inverts and whose conditions the second one drops.
\<close>

section \<open>Searching\<close>

lemma find_go_append:
  "find_go P (xs @ ys) = go_bind (find_go P xs) (\<lambda>r. case r of Some x \<Rightarrow> Inr (Some x) | None \<Rightarrow> find_go P ys)"
proof (induction xs)
  case (Cons x xs)
  then show ?case by (cases "P x") auto
qed simp

lemma find_go_find: "(\<And>x. x \<in> set xs \<Longrightarrow> P x = Inr (Q x)) \<Longrightarrow> find_go P xs = Inr (List.find Q xs)"
  by (induction xs) auto

lemma hio_map_Inr:
  assumes "hio_map f xs w = Inr (Inr ys, w')" and "I w"
    and "\<And>x w r w'. x \<in> set xs \<Longrightarrow> I w \<Longrightarrow> f x w = Inr (r, w') \<Longrightarrow> I w'"
  shows "I w' \<and> length ys = length xs"
  using assms
proof (induction xs arbitrary: w ys)
  case Nil
  then show ?case by simp
next
  case (Cons x xs)
  from Cons.prems(1) obtain y w1 zs where "f x w = Inr (Inr y, w1)" "hio_map f xs w1 = Inr (Inr zs, w')" "ys = y # zs"
    by (auto simp: hio_bind_Inr)
  with Cons.IH [of w1 zs] Cons.prems(2,3) show ?case by (metis length_Cons list.set_intros(1) list.set_intros(2))
qed

lemma wrapped_Inr: "wrapped mk_err c w = Inr (Inr x, w') \<longleftrightarrow> c w = (Inr x, w')"
  by (auto simp: wrapped_def split: prod.splits sum.splits)

lemma api_Inr: "api c w = Inr (Inr x, w') \<longleftrightarrow> c w = (Inr x, w')"
  by (simp add: api_def wrapped_Inr)

lemma api_run: "api c w = Inr (r, w') \<Longrightarrow> w' = snd (c w)"
  by (auto simp: api_def wrapped_def split: prod.splits sum.splits)

lemma hio_go_Inr: "hio_go m w = Inr (r, w') \<longleftrightarrow> (\<exists>x. m = Inr x \<and> r = Inr x \<and> w' = w)"
  by (cases m) (auto simp: hio_go_def)

section \<open>Load balancers\<close>

text \<open>
  The documented behaviour of the load balancers of the second API, with the list of those
  that exist: listing returns them, a lookup of an endpoint leaves them alone, and
  creating one stores it as it was asked for, with an identifier. And the documented values
  of the flags of a port mapping.
\<close>

definition balancer_host :: "'w hcn \<Rightarrow> ('w \<Rightarrow> HostComputeLoadBalancer list) \<Rightarrow> bool" where
  "balancer_host hc lbs \<longleftrightarrow>
     (\<forall>w. hc_ListLoadBalancers hc w = (Inr (lbs w), w)) \<and>
     (\<forall>i w. lbs (snd (hc_GetEndpointByID hc i w)) = lbs w) \<and>
     (\<forall>lb w lb' w'. hc_LoadBalancer_Create hc lb w = (Inr lb', w') \<longrightarrow>
        (\<exists>i. lb' = lb\<lparr>hcl_Id := i\<rparr>) \<and> lbs w' = lbs w @ [lb'])"

definition documented_flags :: "hcn_constants \<Rightarrow> bool" where
  "documented_flags hk \<longleftrightarrow> hk_PortMappingFlagsNone hk = 0 \<and> hk_PortMappingFlagsILB hk = 1 \<and>
     hk_PortMappingFlagsLocalRoutedVIP hk = 2 \<and> hk_PortMappingFlagsUseMux hk = 4 \<and> hk_PortMappingFlagsPreserveDIP hk = 8"

lemma port_mapping_ILB:
  assumes "documented_flags hk"
  shows "port_mapping_flags hk flags AND 1 \<noteq> 0 \<longleftrightarrow> lf_isILB flags"
  using assms
  by (cases "lf_isILB flags"; cases "lf_useMUX flags"; cases "lf_preserveDIP flags"; cases "lf_localRoutedVIP flags")
     (simp_all add: documented_flags_def port_mapping_flags_def Let_def)

lemma new_balancer_serves:
  assumes "documented_flags hk" "length hnsEndpoints = n"
  shows "balancer_serves n flags vip protocol internalPort externalPort
     ((new_balancer hk flags sourceVip vip protocol internalPort externalPort hnsEndpoints)\<lparr>hcl_Id := i\<rparr>) = Inr True"
  using assms port_mapping_ILB [OF assms(1)] by (simp add: balancer_serves_def new_balancer_def)

text \<open>
  C32. Asking the second implementation of the host network service twice for the same load
  balancer creates at most one: when the first call succeeds, whether it found a load
  balancer or created one, the second call returns the same identifier and changes nothing,
  because a created load balancer meets the test by which existing ones are found.
\<close>

theorem getLoadBalancer_V2_idempotent:
  assumes "balancer_host hc lbs" "documented_flags (hc_const hc)"
    and "getLoadBalancer_V2 hc endpoints flags sourceVip vip protocol internalPort externalPort w = Inr (Inr info, w')"
  shows "getLoadBalancer_V2 hc endpoints flags sourceVip vip protocol internalPort externalPort w' = Inr (Inr info, w') \<and>
    (lbs w' = lbs w \<or> (\<exists>lb. lbs w' = lbs w @ [lb]))"
proof -
  let ?serves = "balancer_serves (length endpoints) flags vip protocol internalPort externalPort"
  let ?new = "new_balancer (hc_const hc) flags sourceVip vip protocol internalPort externalPort"
  have listed: "hc_ListLoadBalancers hc v = (Inr (lbs v), v)" for v
    using assms(1) by (simp add: balancer_host_def)
  have list: "api (hc_ListLoadBalancers hc) v = Inr (Inr (lbs v), v)" for v by (simp add: api_Inr listed)
  from assms(3) obtain found where found: "find_go ?serves (lbs w) = Inr found"
    by (auto simp: getLoadBalancer_V2_def hio_bind_Inr list hio_go_Inr)
  show ?thesis
  proof (cases found)
    case (Some lb)
    with assms(3) found have "w' = w"
      by (auto simp: getLoadBalancer_V2_def hio_bind_Inr list hio_go_Inr)
    with assms(3) show ?thesis by simp
  next
    case None
    with assms(3) found obtain eps w1 lb where eps:
        "hio_map (\<lambda>ep. api (hc_GetEndpointByID hc (epi_hnsID ep))) endpoints w = Inr (Inr eps, w1)"
      and lb: "hc_LoadBalancer_Create hc (?new eps) w1 = (Inr lb, w')" "info = \<lparr>li_hnsID = hcl_Id lb\<rparr>"
      by (auto simp: getLoadBalancer_V2_def hio_bind_Inr list hio_go_Inr api_Inr)
    have "lbs w1 = lbs w \<and> length eps = length endpoints"
      by (rule hio_map_Inr [OF eps]) (use assms(1) in \<open>auto simp: balancer_host_def dest!: api_run\<close>)
    moreover from assms(1) lb obtain i where "lb = (?new eps)\<lparr>hcl_Id := i\<rparr>" "lbs w' = lbs w1 @ [lb]"
      unfolding balancer_host_def by blast
    ultimately have w': "lbs w' = lbs w @ [lb]" and serves: "?serves lb = Inr True"
      using new_balancer_serves [OF assms(2)] by simp_all
    from serves found None have "find_go ?serves (lbs w @ [lb]) = Inr (Some lb)" by (simp add: find_go_append)
    then have "getLoadBalancer_V2 hc endpoints flags sourceVip vip protocol internalPort externalPort w' = Inr (Inr info, w')"
      using lb(2) w' by (simp add: getLoadBalancer_V2_def hio_bind_Inr list hio_go_Inr)
    with w' show ?thesis by blast
  qed
qed

definition demo_flags :: loadBalancerFlags where
  "demo_flags = \<lparr>lf_isILB = True, lf_isDSR = False, lf_localRoutedVIP = True, lf_useMUX = False,
     lf_preserveDIP = False, lf_sessionAffinity = True, lf_isIPv6 = False\<rparr>"

lemma demo_balancers: "balancer_host demo_hcn dh_balancers"
  unfolding balancer_host_def demo_hcn_def by (auto simp: Let_def)

definition demo_balancer :: "demo_host \<Rightarrow> ((hns_error + loadBalancerInfo) \<times> demo_host) go" where
  "demo_balancer = getLoadBalancer_V2 demo_hcn [demo_win_endpoint ''E1''] demo_flags ''10.1.1.1'' ''10.96.0.1'' 6 8080 80"

lemma demo_balancer_run:
  "case demo_balancer demo_host0 of Inr (Inr info, w) \<Rightarrow> li_hnsID info = ''2'' \<and> length (dh_balancers w) = 1 | _ \<Rightarrow> False"
  by code_simp

theorem getLoadBalancer_V2_idempotent_witness:
  "\<exists>info w. demo_balancer demo_host0 = Inr (Inr info, w) \<and> demo_balancer w = Inr (Inr info, w)"
proof -
  obtain info w where run: "demo_balancer demo_host0 = Inr (Inr info, w)"
    using demo_balancer_run by (cases "demo_balancer demo_host0"; cases "fst (projr (demo_balancer demo_host0))") auto
  have "documented_flags (hc_const demo_hcn)" by (simp add: documented_flags_def demo_hcn_def demo_const_def)
  from getLoadBalancer_V2_idempotent [OF demo_balancers this run [unfolded demo_balancer_def]] run
  show ?thesis by (auto simp: demo_balancer_def)
qed

text \<open>
  When an existing load balancer is the one that is asked for: the number of its endpoints, the
  protocol, the two ports and the internal flag of its first port mapping, and its first
  address, where no address is asked for exactly by the empty one.
\<close>

definition agrees_V2 ::
  "nat \<Rightarrow> loadBalancerFlags \<Rightarrow> string \<Rightarrow> 16 word \<Rightarrow> 16 word \<Rightarrow> 16 word \<Rightarrow> HostComputeLoadBalancer \<Rightarrow> bool" where
  "agrees_V2 n flags vip protocol internalPort externalPort lb \<longleftrightarrow>
     length (hcl_HostComputeEndpoints lb) = n \<and>
     lpm_Protocol (hd (hcl_PortMappings lb)) = ucast protocol \<and>
     lpm_InternalPort (hd (hcl_PortMappings lb)) = internalPort \<and>
     lpm_ExternalPort (hd (hcl_PortMappings lb)) = externalPort \<and>
     bit (lpm_Flags (hd (hcl_PortMappings lb))) 0 = lf_isILB flags \<and>
     take 1 (hcl_FrontendVIPs lb) = (if vip = [] then [] else [vip])"

definition agrees_V1 ::
  "'w hcsshim \<Rightarrow> nat \<Rightarrow> loadBalancerFlags \<Rightarrow> string \<Rightarrow> 16 word \<Rightarrow> 16 word \<Rightarrow> 16 word \<Rightarrow> PolicyList \<Rightarrow> bool" where
  "agrees_V1 hs n flags vip protocol internalPort externalPort pl \<longleftrightarrow>
     length (pl_EndpointReferences pl) = n \<and>
     (case hs_unmarshal_ELBPolicy hs (hd (pl_Policies pl)) of
        None \<Rightarrow> False
      | Some policy \<Rightarrow> elb_Protocol policy = protocol \<and> elb_InternalPort policy = internalPort \<and>
          elb_ExternalPort policy = externalPort \<and> elb_ILB policy = lf_isILB flags \<and>
          take 1 (elb_VIPs policy) = (if vip = [] then [] else [vip]))"

lemma balancer_serves_agrees:
  assumes "hcl_PortMappings lb \<noteq> []"
  shows "balancer_serves n flags vip protocol internalPort externalPort lb =
    Inr (agrees_V2 n flags vip protocol internalPort externalPort lb)"
proof -
  from assms obtain m ms where "hcl_PortMappings lb = m # ms" by (cases "hcl_PortMappings lb") auto
  then show ?thesis
    by (cases "hcl_FrontendVIPs lb") (auto simp: balancer_serves_def agrees_V2_def bit_0 odd_iff_mod_2_eq_one and_one_eq)
qed

lemma policy_serves_agrees:
  assumes "pl_Policies pl \<noteq> []"
  shows "policy_serves hs n flags vip protocol internalPort externalPort pl =
    Inr (agrees_V1 hs n flags vip protocol internalPort externalPort pl)"
proof -
  from assms obtain x xs where x: "pl_Policies pl = x # xs" by (cases "pl_Policies pl") auto
  show ?thesis
  proof (cases "hs_unmarshal_ELBPolicy hs x")
    case (Some policy)
    with x show ?thesis by (cases "elb_VIPs policy") (auto simp: policy_serves_def agrees_V1_def)
  qed (use x in \<open>auto simp: policy_serves_def agrees_V1_def\<close>)
qed

lemma getLoadBalancer_V2_finds_or_creates:
  assumes "hc_ListLoadBalancers hc w = (Inr lbs, w1)" "\<forall>lb \<in> set lbs. hcl_PortMappings lb \<noteq> []"
  shows "case List.find (agrees_V2 (length endpoints) flags vip protocol internalPort externalPort) lbs of
      Some lb \<Rightarrow> getLoadBalancer_V2 hc endpoints flags sourceVip vip protocol internalPort externalPort w =
        Inr (Inr \<lparr>li_hnsID = hcl_Id lb\<rparr>, w1)
    | None \<Rightarrow> \<forall>info w'. getLoadBalancer_V2 hc endpoints flags sourceVip vip protocol internalPort externalPort w = Inr (Inr info, w') \<longrightarrow>
        (\<exists>eps u lb. hio_map (\<lambda>ep. api (hc_GetEndpointByID hc (epi_hnsID ep))) endpoints w1 = Inr (Inr eps, u) \<and>
           hc_LoadBalancer_Create hc
             (new_balancer (hc_const hc) flags sourceVip vip protocol internalPort externalPort eps) u = (Inr lb, w') \<and>
           info = \<lparr>li_hnsID = hcl_Id lb\<rparr>)"
proof -
  have "find_go (balancer_serves (length endpoints) flags vip protocol internalPort externalPort) lbs =
      Inr (List.find (agrees_V2 (length endpoints) flags vip protocol internalPort externalPort) lbs)"
    by (rule find_go_find) (simp add: balancer_serves_agrees assms(2))
  with assms(1) show ?thesis
    by (cases "List.find (agrees_V2 (length endpoints) flags vip protocol internalPort externalPort) lbs")
       (auto simp: getLoadBalancer_V2_def hio_bind_Inr api_Inr hio_go_Inr)
qed

lemma getLoadBalancer_V1_finds_or_creates:
  assumes "hs_HNSListPolicyListRequest hs v = (Inr pls, v1)" "\<forall>pl \<in> set pls. pl_Policies pl \<noteq> []"
  shows "case List.find (agrees_V1 hs (length endpoints) flags vip protocol internalPort externalPort) pls of
      Some pl \<Rightarrow> getLoadBalancer_V1 hs endpoints flags sourceVip vip protocol internalPort externalPort v =
        Inr (Inr \<lparr>li_hnsID = pl_ID pl\<rparr>, v1)
    | None \<Rightarrow> \<forall>info v'. getLoadBalancer_V1 hs endpoints flags sourceVip vip protocol internalPort externalPort v = Inr (Inr info, v') \<longrightarrow>
        (\<exists>eps u pl. hio_map (\<lambda>ep. api (hs_GetHNSEndpointByID hs (epi_hnsID ep))) endpoints v1 = Inr (Inr eps, u) \<and>
           hs_AddLoadBalancer hs eps (lf_isILB flags) sourceVip vip protocol internalPort externalPort u = (Inr pl, v') \<and>
           info = \<lparr>li_hnsID = pl_ID pl\<rparr>)"
proof -
  have "find_go (policy_serves hs (length endpoints) flags vip protocol internalPort externalPort) pls =
      Inr (List.find (agrees_V1 hs (length endpoints) flags vip protocol internalPort externalPort) pls)"
    by (rule find_go_find) (simp add: policy_serves_agrees assms(2))
  with assms(1) show ?thesis
    by (cases "List.find (agrees_V1 hs (length endpoints) flags vip protocol internalPort externalPort) pls")
       (auto simp: getLoadBalancer_V1_def hio_bind_Inr api_Inr hio_go_Inr)
qed

text \<open>
  C33. Which load balancer the two implementations of the host network service return. When
  the lists of the API are read and every entry has a port mapping, or a policy: the first
  entry that agrees with the request in its number of endpoints, its protocol, its internal
  and its external port, its internal flag and its first address is returned, nothing is
  created, and the endpoints themselves are not looked at, so a service whose
  endpoints were replaced by the same number of others gets the load balancer of the
  old ones. Exactly when no entry agrees, the result is a load balancer that the API
  creates now, for these endpoints and these fields.
\<close>

theorem getLoadBalancer_finds_or_creates:
  assumes "hc_ListLoadBalancers hc w = (Inr lbs, w1)" "\<forall>lb \<in> set lbs. hcl_PortMappings lb \<noteq> []"
    and "hs_HNSListPolicyListRequest hs v = (Inr pls, v1)" "\<forall>pl \<in> set pls. pl_Policies pl \<noteq> []"
  shows "(case List.find (agrees_V2 (length endpoints) flags vip protocol internalPort externalPort) lbs of
      Some lb \<Rightarrow> getLoadBalancer_V2 hc endpoints flags sourceVip vip protocol internalPort externalPort w =
        Inr (Inr \<lparr>li_hnsID = hcl_Id lb\<rparr>, w1)
    | None \<Rightarrow> \<forall>info w'. getLoadBalancer_V2 hc endpoints flags sourceVip vip protocol internalPort externalPort w = Inr (Inr info, w') \<longrightarrow>
        (\<exists>eps u lb. hio_map (\<lambda>ep. api (hc_GetEndpointByID hc (epi_hnsID ep))) endpoints w1 = Inr (Inr eps, u) \<and>
           hc_LoadBalancer_Create hc
             (new_balancer (hc_const hc) flags sourceVip vip protocol internalPort externalPort eps) u = (Inr lb, w') \<and>
           info = \<lparr>li_hnsID = hcl_Id lb\<rparr>)) \<and>
   (case List.find (agrees_V1 hs (length endpoints) flags vip protocol internalPort externalPort) pls of
      Some pl \<Rightarrow> getLoadBalancer_V1 hs endpoints flags sourceVip vip protocol internalPort externalPort v =
        Inr (Inr \<lparr>li_hnsID = pl_ID pl\<rparr>, v1)
    | None \<Rightarrow> \<forall>info v'. getLoadBalancer_V1 hs endpoints flags sourceVip vip protocol internalPort externalPort v = Inr (Inr info, v') \<longrightarrow>
        (\<exists>eps u pl. hio_map (\<lambda>ep. api (hs_GetHNSEndpointByID hs (epi_hnsID ep))) endpoints v1 = Inr (Inr eps, u) \<and>
           hs_AddLoadBalancer hs eps (lf_isILB flags) sourceVip vip protocol internalPort externalPort u = (Inr pl, v') \<and>
           info = \<lparr>li_hnsID = pl_ID pl\<rparr>))"
  using getLoadBalancer_V2_finds_or_creates [OF assms(1,2)] getLoadBalancer_V1_finds_or_creates [OF assms(3,4)]
  by (rule conjI)

definition demo_win_lb :: HostComputeLoadBalancer where
  "demo_win_lb = new_balancer demo_const demo_flags ''10.1.1.1'' ''10.96.0.1'' 6 8080 80 [demo_ep2 ''E1'']"

definition demo_win_lb2 :: HostComputeLoadBalancer where
  "demo_win_lb2 = demo_win_lb\<lparr>hcl_Id := ''L2'', hcl_PortMappings :=
     [\<lparr>lpm_Protocol = 6, lpm_InternalPort = 8080, lpm_ExternalPort = 80, lpm_DistributionType = 0, lpm_Flags = 0\<rparr>]\<rparr>"

text \<open>
  Two load balancers differ in the internal flag only; the second one is returned for an
  endpoint that it does not balance. The first API returns its policy list for the same request.
\<close>

theorem getLoadBalancer_finds_or_creates_witness:
  "getLoadBalancer_V2 demo_hcn [demo_win_endpoint ''E2''] (demo_flags\<lparr>lf_isILB := False\<rparr>) ''10.1.1.1'' ''10.96.0.1'' 6 8080 80
     (demo_host0\<lparr>dh_balancers := [demo_win_lb, demo_win_lb2]\<rparr>) =
   Inr (Inr \<lparr>li_hnsID = ''L2''\<rparr>, demo_host0\<lparr>dh_balancers := [demo_win_lb, demo_win_lb2]\<rparr>) \<and>
   getLoadBalancer_V1 demo_hcsshim [demo_win_endpoint ''E2''] (demo_flags\<lparr>lf_isILB := False\<rparr>) ''10.1.1.1'' ''10.96.0.1'' 6 8080 80
     demo_host0 = Inr (Inr \<lparr>li_hnsID = ''P1''\<rparr>, demo_host0)"
proof -
  let ?f = "demo_flags\<lparr>lf_isILB := False\<rparr>" and ?e = "[demo_win_endpoint ''E2'']"
  let ?w = "demo_host0\<lparr>dh_balancers := [demo_win_lb, demo_win_lb2]\<rparr>"
  have h1: "hc_ListLoadBalancers demo_hcn ?w = (Inr [demo_win_lb, demo_win_lb2], ?w)" by (simp add: demo_hcn_def)
  have h2: "\<forall>lb \<in> set [demo_win_lb, demo_win_lb2]. hcl_PortMappings lb \<noteq> []"
    by (simp add: demo_win_lb_def demo_win_lb2_def new_balancer_def)
  have h3: "hs_HNSListPolicyListRequest demo_hcsshim demo_host0 = (Inr (dh_plists demo_host0), demo_host0)"
    by (simp add: demo_hcsshim_def)
  have h4: "\<forall>pl \<in> set (dh_plists demo_host0). pl_Policies pl \<noteq> []" by (simp add: demo_host0_def)
  have f2: "List.find (agrees_V2 (length ?e) ?f ''10.96.0.1'' 6 8080 80) [demo_win_lb, demo_win_lb2] = Some demo_win_lb2"
    and f1: "List.find (agrees_V1 demo_hcsshim (length ?e) ?f ''10.96.0.1'' 6 8080 80) (dh_plists demo_host0) =
      Some (hd (dh_plists demo_host0))"
    and ids: "hcl_Id demo_win_lb2 = ''L2''" "pl_ID (hd (dh_plists demo_host0)) = ''P1''"
    by code_simp+
  from getLoadBalancer_finds_or_creates [OF h1 h2 h3 h4, of ?e ?f "''10.1.1.1''" "''10.96.0.1''" 6 8080 80]
  show ?thesis unfolding f1 f2 option.case ids .
qed

section \<open>Endpoints\<close>

text \<open>The policies that a request carries: that of the provider address of a remote endpoint.\<close>

definition provider_policies :: "(string \<Rightarrow> string + string) \<Rightarrow> endpointsInfo \<Rightarrow> (string + string) list" where
  "provider_policies marshal ep =
     (if epi_isLocal ep \<or> epi_providerAddress ep = [] then [] else [marshal (epi_providerAddress ep)])"

lemma createEndpoint_V1_created:
  assumes "createEndpoint_V1 hs ep networkName w = Inr (Inr e, w')"
  shows "\<exists>net req v r. e = created_V1 ep r \<and>
    hep_IPAddress req = hs_parse_ip hs (epi_ip ep) \<and> hep_MacAddress req = epi_macAddress ep \<and>
    map Inr (hep_Policies req) = provider_policies (hs_marshal_PaPolicy hs) ep \<and>
    (if epi_isLocal ep then hs_CreateEndpoint hs net req v = (Inr r, w') else hs_CreateRemoteEndpoint hs net req v = (Inr r, w'))"
proof -
  from assms obtain net w1 r where run:
    "(if \<not> epi_isLocal ep then
        hio_bind
          (if epi_providerAddress ep \<noteq> [] then
             (case hs_marshal_PaPolicy hs (epi_providerAddress ep) of
                Inl err \<Rightarrow> hio_fail (ApiError err)
              | Inr json \<Rightarrow> hio_return ((requested_V1 hs ep)\<lparr>hep_Policies := hep_Policies (requested_V1 hs ep) @ [json]\<rparr>))
           else hio_return (requested_V1 hs ep))
          (\<lambda>hnsEndpoint. api (hs_CreateRemoteEndpoint hs net hnsEndpoint))
      else wrapped LocalCreationFailed (hs_CreateEndpoint hs net (requested_V1 hs ep))) w1 = Inr (Inr r, w')"
    and e: "e = created_V1 ep r"
    by (auto simp: createEndpoint_V1_def Let_def hio_bind_Inr)
  define req where "req = (requested_V1 hs ep)\<lparr>hep_Policies :=
    map projr (provider_policies (hs_marshal_PaPolicy hs) ep)\<rparr>"
  have "map Inr (hep_Policies req) = provider_policies (hs_marshal_PaPolicy hs) ep \<and>
      (if epi_isLocal ep then hs_CreateEndpoint hs net req w1 = (Inr r, w') else hs_CreateRemoteEndpoint hs net req w1 = (Inr r, w'))"
    using run
    by (cases "hs_marshal_PaPolicy hs (epi_providerAddress ep)"; cases "epi_providerAddress ep = []"; cases "epi_isLocal ep")
       (simp_all add: req_def requested_V1_def provider_policies_def api_Inr wrapped_Inr hio_bind_Inr)
  moreover have "hep_IPAddress req = hs_parse_ip hs (epi_ip ep)" "hep_MacAddress req = epi_macAddress ep"
    by (simp_all add: req_def requested_V1_def)
  ultimately show ?thesis using e by blast
qed

lemma createEndpoint_V2_created:
  assumes "createEndpoint_V2 hc ep networkName w = Inr (Inr e, w')"
  shows "\<exists>net req v r ip ips. e = info_V2 hc ip (epi_providerAddress ep) r \<and> hce_IpConfigurations r = ip # ips \<and>
    hce_Flags req = hce_Flags (requested_V2 hc ep) \<and>
    hce_IpConfigurations req = [epi_ip ep] \<and> hce_MacAddress req = epi_macAddress ep \<and>
    map (\<lambda>p. Inr (epo_Settings p)) (hce_Policies req) = provider_policies (hc_marshal_ProviderAddress hc) ep \<and>
    (if epi_isLocal ep then hc_CreateEndpoint hc net req v = (Inr r, w') else hc_CreateRemoteEndpoint hc net req v = (Inr r, w'))"
proof -
  from assms obtain net w1 r ip where run:
    "(if \<not> epi_isLocal ep then
        hio_bind
          (if epi_providerAddress ep \<noteq> [] then
             (case hc_marshal_ProviderAddress hc (epi_providerAddress ep) of
                Inl err \<Rightarrow> hio_fail (PAPolicyFailed err)
              | Inr policySettingsJson \<Rightarrow>
                  let paPolicy = \<lparr>epo_Type = hk_NetworkProviderAddress (hc_const hc), epo_Settings = policySettingsJson\<rparr>
                  in hio_return ((requested_V2 hc ep)\<lparr>hce_Policies := hce_Policies (requested_V2 hc ep) @ [paPolicy]\<rparr>))
           else hio_return (requested_V2 hc ep))
          (\<lambda>hnsEndpoint. api (hc_CreateRemoteEndpoint hc net hnsEndpoint))
      else api (hc_CreateEndpoint hc net (requested_V2 hc ep))) w1 = Inr (Inr r, w')"
    and ip: "first_ip r = Inr ip" and e: "e = info_V2 hc ip (epi_providerAddress ep) r"
    by (auto simp: createEndpoint_V2_def Let_def hio_bind_Inr hio_go_Inr)
  define req where "req = (requested_V2 hc ep)\<lparr>hce_Policies :=
    map (\<lambda>json. \<lparr>epo_Type = hk_NetworkProviderAddress (hc_const hc), epo_Settings = projr json\<rparr>)
      (provider_policies (hc_marshal_ProviderAddress hc) ep)\<rparr>"
  have "map (\<lambda>p. Inr (epo_Settings p)) (hce_Policies req) = provider_policies (hc_marshal_ProviderAddress hc) ep \<and>
      (if epi_isLocal ep then hc_CreateEndpoint hc net req w1 = (Inr r, w') else hc_CreateRemoteEndpoint hc net req w1 = (Inr r, w'))"
    using run
    by (cases "hc_marshal_ProviderAddress hc (epi_providerAddress ep)"; cases "epi_providerAddress ep = []"; cases "epi_isLocal ep")
       (simp_all add: req_def requested_V2_def provider_policies_def api_Inr hio_bind_Inr Let_def)
  moreover have "hce_Flags req = hce_Flags (requested_V2 hc ep)" "hce_IpConfigurations req = [epi_ip ep]"
    "hce_MacAddress req = epi_macAddress ep"
    by (simp_all add: req_def requested_V2_def)
  moreover from ip obtain ips where "hce_IpConfigurations r = ip # ips"
    by (auto simp: first_ip_def split: list.splits)
  ultimately show ?thesis using e by blast
qed

lemma createEndpoint_V1_result:
  assumes "\<forall>net e v r v'. hs_CreateRemoteEndpoint hs net e v = (Inr r, v') \<longrightarrow> hep_IsRemoteEndpoint r"
    and "\<forall>net e v r v'. hs_CreateEndpoint hs net e v = (Inr r, v') \<longrightarrow> \<not> hep_IsRemoteEndpoint r"
    and "createEndpoint_V1 hs ep networkName w = Inr (Inr e, w')"
  shows "\<exists>net req v r.
    hep_IPAddress req = hs_parse_ip hs (epi_ip ep) \<and> hep_MacAddress req = epi_macAddress ep \<and>
    map Inr (hep_Policies req) = provider_policies (hs_marshal_PaPolicy hs) ep \<and>
    (if epi_isLocal ep then hs_CreateEndpoint hs net req v = (Inr r, w')
     else hs_CreateRemoteEndpoint hs net req v = (Inr r, w')) \<and>
    e = \<lparr>epi_ip = IP_String (hep_IPAddress r), epi_port = 0, epi_isLocal = (\<not> epi_isLocal ep),
         epi_macAddress = hep_MacAddress r, epi_hnsID = hep_Id r, epi_refCount = None,
         epi_providerAddress = epi_providerAddress ep, epi_hns = Some HnsV1,
         epi_ready = epi_ready ep, epi_serving = epi_serving ep, epi_terminating = epi_terminating ep\<rparr>"
proof -
  from createEndpoint_V1_created [OF assms(3)] obtain net req v r
    where r: "e = created_V1 ep r" "hep_IPAddress req = hs_parse_ip hs (epi_ip ep)" "hep_MacAddress req = epi_macAddress ep"
      "map Inr (hep_Policies req) = provider_policies (hs_marshal_PaPolicy hs) ep"
      "if epi_isLocal ep then hs_CreateEndpoint hs net req v = (Inr r, w') else hs_CreateRemoteEndpoint hs net req v = (Inr r, w')"
    by blast
  from r(5) assms(1,2) have "hep_IsRemoteEndpoint r = (\<not> epi_isLocal ep)" by (metis (full_types))
  with r(1) have "e = \<lparr>epi_ip = IP_String (hep_IPAddress r), epi_port = 0, epi_isLocal = (\<not> epi_isLocal ep),
         epi_macAddress = hep_MacAddress r, epi_hnsID = hep_Id r, epi_refCount = None,
         epi_providerAddress = epi_providerAddress ep, epi_hns = Some HnsV1,
         epi_ready = epi_ready ep, epi_serving = epi_serving ep, epi_terminating = epi_terminating ep\<rparr>"
    by (simp add: created_V1_def)
  with r(2-5) show ?thesis by (intro exI [of _ net] exI [of _ req] exI [of _ v] exI [of _ r] conjI)
qed

lemma createEndpoint_V2_result:
  assumes "\<forall>net e v r v'. hc_CreateRemoteEndpoint hc net e v = (Inr r, v') \<longrightarrow> hce_Flags r = hce_Flags e"
    and "\<forall>net e v r v'. hc_CreateEndpoint hc net e v = (Inr r, v') \<longrightarrow> hce_Flags r = hce_Flags e"
    and "hk_EndpointFlagsRemoteEndpoint (hc_const hc) \<noteq> 0"
    and "createEndpoint_V2 hc ep networkName w = Inr (Inr e, w')"
  shows "\<exists>net req v r ip ips.
    hce_IpConfigurations req = [epi_ip ep] \<and> hce_MacAddress req = epi_macAddress ep \<and>
    map (\<lambda>p. Inr (epo_Settings p)) (hce_Policies req) = provider_policies (hc_marshal_ProviderAddress hc) ep \<and>
    (if epi_isLocal ep then hc_CreateEndpoint hc net req v = (Inr r, w')
     else hc_CreateRemoteEndpoint hc net req v = (Inr r, w')) \<and>
    hce_IpConfigurations r = ip # ips \<and>
    e = \<lparr>epi_ip = ip, epi_port = 0, epi_isLocal = epi_isLocal ep,
         epi_macAddress = hce_MacAddress r, epi_hnsID = hce_Id r, epi_refCount = None,
         epi_providerAddress = epi_providerAddress ep, epi_hns = Some HnsV2,
         epi_ready = False, epi_serving = False, epi_terminating = False\<rparr>"
proof -
  from createEndpoint_V2_created [OF assms(4)] obtain net req v r ip ips
    where r: "e = info_V2 hc ip (epi_providerAddress ep) r" "hce_IpConfigurations r = ip # ips"
      "hce_Flags req = hce_Flags (requested_V2 hc ep)" "hce_IpConfigurations req = [epi_ip ep]"
      "hce_MacAddress req = epi_macAddress ep"
      "map (\<lambda>p. Inr (epo_Settings p)) (hce_Policies req) = provider_policies (hc_marshal_ProviderAddress hc) ep"
      "if epi_isLocal ep then hc_CreateEndpoint hc net req v = (Inr r, w') else hc_CreateRemoteEndpoint hc net req v = (Inr r, w')"
    by blast
  from r(3,7) assms(1,2) have "hce_Flags r = hce_Flags (requested_V2 hc ep)" by (metis (full_types))
  with assms(3) have "is_local_flags hc (hce_Flags r) = epi_isLocal ep"
    by (simp add: is_local_flags_def requested_V2_def)
  with r(1) have "e = \<lparr>epi_ip = ip, epi_port = 0, epi_isLocal = epi_isLocal ep,
         epi_macAddress = hce_MacAddress r, epi_hnsID = hce_Id r, epi_refCount = None,
         epi_providerAddress = epi_providerAddress ep, epi_hns = Some HnsV2,
         epi_ready = False, epi_serving = False, epi_terminating = False\<rparr>"
    by (simp add: info_V2_def)
  with r(2,4-7) show ?thesis
    by (intro exI [of _ net] exI [of _ req] exI [of _ v] exI [of _ r] exI [of _ ip] exI [of _ ips] conjI)
qed

text \<open>
  C34. What the two implementations return for a created endpoint, field by field, when the APIs
  report its locality as it was asked for (the first one as remote when it was created so, the
  second one with the flags it was given). Both ask for the address and the MAC address of
  the endpoint, with a policy for its provider address exactly when it is remote and has
  one, and the call for a remote endpoint is used exactly for one that is not
  local. Both take the address, the MAC address and the identifier from the created object,
  keep the provider address, set the port to zero, name their own implementation as the host
  network service, and give no reference count, so no cleanup ever deletes the endpoint. They
  differ in two ways. The first one gives back the opposite of the locality, because
  it reads \<open>IsRemoteEndpoint\<close> as the locality; the second one gives it back as it was. The first one
  copies the conditions ready, serving and terminating; the second one leaves all three false.
\<close>

theorem createEndpoint_result:
  assumes "\<forall>net e v r v'. hs_CreateRemoteEndpoint hs net e v = (Inr r, v') \<longrightarrow> hep_IsRemoteEndpoint r"
    and "\<forall>net e v r v'. hs_CreateEndpoint hs net e v = (Inr r, v') \<longrightarrow> \<not> hep_IsRemoteEndpoint r"
    and "\<forall>net e v r v'. hc_CreateRemoteEndpoint hc net e v = (Inr r, v') \<longrightarrow> hce_Flags r = hce_Flags e"
    and "\<forall>net e v r v'. hc_CreateEndpoint hc net e v = (Inr r, v') \<longrightarrow> hce_Flags r = hce_Flags e"
    and "hk_EndpointFlagsRemoteEndpoint (hc_const hc) \<noteq> 0"
    and "hn_createEndpoint (hns_table hs hc h) ep networkName w = Inr (Inr e, w')"
  shows "(case h of
      HnsV1 \<Rightarrow> \<exists>net req v r.
        hep_IPAddress req = hs_parse_ip hs (epi_ip ep) \<and> hep_MacAddress req = epi_macAddress ep \<and>
        map Inr (hep_Policies req) = provider_policies (hs_marshal_PaPolicy hs) ep \<and>
        (if epi_isLocal ep then hs_CreateEndpoint hs net req v = (Inr r, w')
         else hs_CreateRemoteEndpoint hs net req v = (Inr r, w')) \<and>
        e = \<lparr>epi_ip = IP_String (hep_IPAddress r), epi_port = 0, epi_isLocal = (\<not> epi_isLocal ep),
             epi_macAddress = hep_MacAddress r, epi_hnsID = hep_Id r, epi_refCount = None,
             epi_providerAddress = epi_providerAddress ep, epi_hns = Some HnsV1,
             epi_ready = epi_ready ep, epi_serving = epi_serving ep, epi_terminating = epi_terminating ep\<rparr>
    | HnsV2 \<Rightarrow> \<exists>net req v r ip ips.
        hce_IpConfigurations req = [epi_ip ep] \<and> hce_MacAddress req = epi_macAddress ep \<and>
        map (\<lambda>p. Inr (epo_Settings p)) (hce_Policies req) = provider_policies (hc_marshal_ProviderAddress hc) ep \<and>
        (if epi_isLocal ep then hc_CreateEndpoint hc net req v = (Inr r, w')
         else hc_CreateRemoteEndpoint hc net req v = (Inr r, w')) \<and>
        hce_IpConfigurations r = ip # ips \<and>
        e = \<lparr>epi_ip = ip, epi_port = 0, epi_isLocal = epi_isLocal ep,
             epi_macAddress = hce_MacAddress r, epi_hnsID = hce_Id r, epi_refCount = None,
             epi_providerAddress = epi_providerAddress ep, epi_hns = Some HnsV2,
             epi_ready = False, epi_serving = False, epi_terminating = False\<rparr>) \<and>
    Cleanup (hns_table hs hc) e s = Inr (e, s)"
proof (cases h)
  note kept = host_network_service.handed_out_kept [OF table_service disjI1 [OF assms(6)]]
  {
    case HnsV1
    with assms(6) have "createEndpoint_V1 hs ep networkName w = Inr (Inr e, w')" by (simp add: hns_V1_def)
    from createEndpoint_V1_result [OF assms(1,2) this] kept show ?thesis
      unfolding HnsV1 HostNetworkService.case by (rule conjI)
  next
    case HnsV2
    with assms(6) have "createEndpoint_V2 hc ep networkName w = Inr (Inr e, w')" by (simp add: hns_V2_def)
    from createEndpoint_V2_result [OF assms(3-5) this] kept show ?thesis
      unfolding HnsV2 HostNetworkService.case by (rule conjI)
  }
qed

text \<open>The same remote, ready endpoint is created by both implementations.\<close>

theorem createEndpoint_result_witness:
  "(case hn_createEndpoint (hns_table demo_hcsshim demo_hcn HnsV1) (demo_win_endpoint []) ''flannel.4096'' demo_host0 of
      Inr (Inr e, w) \<Rightarrow> epi_isLocal e \<and> epi_ready e | _ \<Rightarrow> False) \<and>
   (case hn_createEndpoint (hns_table demo_hcsshim demo_hcn HnsV2) (demo_win_endpoint []) ''flannel.4096'' demo_host0 of
      Inr (Inr e, w) \<Rightarrow> \<not> epi_isLocal e \<and> \<not> epi_ready e | _ \<Rightarrow> False)"
proof -
  let ?c = "\<lambda>h. hn_createEndpoint (hns_table demo_hcsshim demo_hcn h) (demo_win_endpoint []) ''flannel.4096'' demo_host0"
  have runs: "case ?c HnsV1 of Inr (Inr e, w) \<Rightarrow> True | _ \<Rightarrow> False" "case ?c HnsV2 of Inr (Inr e, w) \<Rightarrow> True | _ \<Rightarrow> False"
    by code_simp+
  from runs obtain e1 w1 where c1: "?c HnsV1 = Inr (Inr e1, w1)"
    by (cases "?c HnsV1"; cases "fst (projr (?c HnsV1))") auto
  from runs obtain e2 w2 where c2: "?c HnsV2 = Inr (Inr e2, w2)"
    by (cases "?c HnsV2"; cases "fst (projr (?c HnsV2))") auto
  have 1: "\<forall>net e v r v'. hs_CreateRemoteEndpoint demo_hcsshim net e v = (Inr r, v') \<longrightarrow> hep_IsRemoteEndpoint r"
    and 2: "\<forall>net e v r v'. hs_CreateEndpoint demo_hcsshim net e v = (Inr r, v') \<longrightarrow> \<not> hep_IsRemoteEndpoint r"
    and 3: "\<forall>net e v r v'. hc_CreateRemoteEndpoint demo_hcn net e v = (Inr r, v') \<longrightarrow> hce_Flags r = hce_Flags e"
    and 4: "\<forall>net e v r v'. hc_CreateEndpoint demo_hcn net e v = (Inr r, v') \<longrightarrow> hce_Flags r = hce_Flags e"
    and 5: "hk_EndpointFlagsRemoteEndpoint (hc_const demo_hcn) \<noteq> 0"
    by (auto simp: demo_hcsshim_def demo_hcn_def demo_create1_def demo_create2_def demo_const_def Let_def)
  have ep: "\<not> epi_isLocal (demo_win_endpoint [])" "epi_ready (demo_win_endpoint [])"
    by (simp_all add: demo_win_endpoint_def)
  from createEndpoint_result [OF 1 2 3 4 5 c1, THEN conjunct1] ep have "epi_isLocal e1 \<and> epi_ready e1" by auto
  moreover from createEndpoint_result [OF 1 2 3 4 5 c2, THEN conjunct1] ep have "\<not> epi_isLocal e2 \<and> \<not> epi_ready e2" by auto
  ultimately show ?thesis unfolding c1 c2 by simp
qed

end
