(* ===== verification/Spec2Isabelle.thy ===== *)
theory Spec2Isabelle
  imports UserPath SharedBalancer UserNames UserLifecycle ProxyTCP CmdLine EndpointUtil SliceOrder
    WinSound WinInterfaces WinHnsProps
begin

text \<open>
  A model of kpng-win, the Windows backends of KPNG (the Kubernetes proxy that feeds
  node-local sinks with services and endpoints), and the theorems about it.

  \<^bold>\<open>The program and its theories.\<close> The program has two backends and a library below them; the
  command line (\<^verbatim>\<open>main.go\<close>, \<^verbatim>\<open>cmd\<close>) runs one of the two and is the theory \<open>CmdLine\<close>.

  \<^item> Shared model: \<open>Prelude\<close> (panics as values, loops over lists, unbounded loops whose
    non-termination is \<open>None\<close>, Go maps as association lists with distinct keys), \<open>GoStd\<close>
    (the functions of Go's \<open>strings\<close>, \<open>strconv\<close> and \<open>net\<close> that the sources call, written out)
    and \<open>Localnet\<close> (the KPNG objects).
  \<^item> \<^verbatim>\<open>pkg/proxy/util\<close>: \<open>EndpointUtil\<close> (\<^verbatim>\<open>endpoints.go\<close>) and \<open>ProxyUtil\<close> (\<^verbatim>\<open>utils.go\<close>), with their
    properties: round trip of endpoint strings, the filtered dialer, the partition by
    address family, the shuffle as a permutation, the event for a wrong address family.
  \<^item> \<^verbatim>\<open>pkg/proxy\<close>: \<open>ProxyTypes\<close> (\<^verbatim>\<open>types.go\<close>, the base endpoint of \<^verbatim>\<open>endpoints.go\<close>, and the locale
    \<open>endpoint_provider\<close> for the constructor of endpoints that a proxier injects),
    \<open>EndpointTracker\<close> (the tracker of \<^verbatim>\<open>endpoints.go\<close>), \<open>SliceCache\<close> (\<^verbatim>\<open>endpointslicecache.go\<close>) with
    \<open>SliceCacheProps\<close> (refinement of two maps), \<open>SliceEndpoints\<close> (the computed endpoints, for
    every provider) and \<open>SliceOrder\<close> (its three orders, as the locale \<open>sort_interface\<close>),
    \<open>ServiceTracker\<close> (\<^verbatim>\<open>service.go\<close>), \<open>Interfaces\<close> (the interfaces \<open>Endpoint\<close>, \<open>ServicePort\<close>
    and \<open>Provider\<close> of \<^verbatim>\<open>types.go\<close> as records of what their methods return, the methods of the
    base implementations, and the locales \<open>endpoint_methods\<close> and \<open>two_endpoint_methods\<close>).
  \<^item> The userspace backend, \<^verbatim>\<open>pkg/proxy/userspace\<close>: \<open>LoadBalancer\<close> (the interface of
    \<^verbatim>\<open>loadbalancer.go\<close> as the locale \<open>load_balancer\<close>), \<open>RoundRobin\<close> (\<^verbatim>\<open>roundrobin.go\<close>) with
    \<open>RoundRobinCorrect\<close> and \<open>RoundRobinProps\<close>; \<open>Netsh\<close> (\<^verbatim>\<open>netsh.go\<close>); \<open>Sockets\<close> (\<^verbatim>\<open>utils.go\<close>,
    \<^verbatim>\<open>proxysocket.go\<close>) with \<open>SocketsProps\<close> (the locale \<open>proxy_balancer\<close>) and
    \<open>SharedBalancer\<close> (dialing while other goroutines use the balancer); \<open>ProxyTCP\<close> (\<open>proxyTCP\<close>
    and \<open>copyBytes\<close> of \<^verbatim>\<open>utils.go\<close>, three goroutines as interleaved steps); \<open>UserProxier\<close>
    (\<^verbatim>\<open>proxier.go\<close>) with \<open>UserNames\<close>, \<open>UserProxierCorrect\<close>, \<open>UserProxierProps\<close>, \<open>UserPortals\<close>
    and \<open>UserLifecycle\<close>; \<open>UserSink\<close> (\<^verbatim>\<open>sink.go\<close>); \<open>UserPath\<close> (the path of a connection from
    the sink over the balancer to the dialed backend).
  \<^item> The kernel backend, \<^verbatim>\<open>pkg/proxy/winkernel\<close>: \<open>WinTypes\<close> (data of \<^verbatim>\<open>hns.go\<close> and \<^verbatim>\<open>endpoints.go\<close>,
    calls that may fail, panic and change the host, and the interface
    \<open>HostNetworkService\<close> as the locale \<open>host_network_service\<close>), \<open>WinHnsV1\<close> and \<open>WinHnsV2\<close>
    (\<^verbatim>\<open>hnsV1.go\<close>, \<^verbatim>\<open>hnsV2.go\<close>), \<open>WinPolicies\<close> (\<open>Cleanup\<close> and \<open>cleanupAllPolicies\<close>), \<open>WinProxier\<close>
    (\<^verbatim>\<open>endpoints.go\<close>, \<^verbatim>\<open>service.go\<close>, the state of \<^verbatim>\<open>proxier.go\<close>), \<open>WinHandlers\<close> (\<open>NewProxier\<close>, the
    handlers, \<^verbatim>\<open>sink.go\<close>), with \<open>WinPoliciesProps\<close>, \<open>WinHnsProps\<close>, \<open>WinProxierProps\<close>,
    \<open>WinSinkProps\<close>, \<open>WinSound\<close> (type soundness) and \<open>WinInterfaces\<close> (its endpoints and services
    as values of the shared interfaces); \<open>WinDemo\<close> is a small host for the concrete instances. The names of this
    package that the userspace package has too end in \<open>_win\<close>.

  \<^bold>\<open>How code corresponds to definitions.\<close> A Go function is a definition of its name, a loop
  body with a name of its own where it needs lemmas. A method takes its receiver as an
  argument and returns it changed. A panic (nil dereference, index out of range) is the left
  value of \<open>go\<close>; an error result is a value of a sum or an option, with the error as a
  constructor. Integers have their width where the code narrows them (ports, the reference
  counter, flags). Shared objects live in a heap where aliasing matters: the infos of the
  userspace proxier are addressed by index, the counters of the kernel proxier are cells.
  Started goroutines are recorded in the state and their steps are steps of the relation; the
  copier of a TCP connection has a program counter for each goroutine, and its environment
  (bytes that arrive, streams that end, connections that fail, peers that stop reading) has
  steps of its own.
  A handler holds the lock of its object, so a handler is one step. \<open>tryConnect\<close> holds the lock
  of the balancer only during a call of \<open>NextEndpoint\<close>: its model takes the balancer as an
  argument, and \<open>shared_next\<close> is the balancer whose state carries the calls that other
  goroutines make in between. Iteration over a Go map
  follows the order of the association list; the theorems hold for every order.

  \<^bold>\<open>Interfaces.\<close> Each locale states what a client relies on and is interpreted on the
  definitions of every provider: \<open>load_balancer\<close> and \<open>proxy_balancer\<close> on the round-robin
  balancer, \<open>endpoint_provider\<close> and \<open>endpoint_methods\<close> on the default endpoints and on those of
  the kernel proxier, \<open>sort_interface\<close> on the three orders of the slice cache,
  \<open>host_network_service\<close> on both implementations, for every behaviour of the Windows APIs.

  \<^bold>\<open>What the theorems show.\<close> Of the balancer: no reachable state panics, fairness, refinement
  of rotating queues, the effect of every endpoint event. Of the userspace proxier: the
  invariant of its portals, what merging and unmerging a service opens and closes (the calls of
  \<open>Close\<close> are observed through \<open>close_log\<close>), the round
  trip of adding and deleting, the leak of replaced portals, the panic of UDP portals; of the
  sockets: dialing in queue order with the four timeouts, when a connection is found beside
  other goroutines, with the bound on their calls that it needs, the end of the accept loop, and
  for the copier of a connection that it loses no order, closes both ends and returns. Of the
  whole backend: a connection reaches an address of the endpoint object set last, at the
  port of the service (the target port is never read), and any endpoint key deletes all
  endpoints of the service. Of the
  slice cache: the refinement, the endpoints it computes, and that a reordered slice is no
  change. Of the kernel proxier: that well-formed states never panic and stay well-formed, reference
  counting, idempotent cleanup with its remote endpoint, which load balancer is reused and when
  one is created, the fields of created endpoints in both implementations, the
  16-bit bounds of its endpoints and their equality with the base endpoints, waiting for the network, what a constructed proxier is like,
  and that its sink remembers services and programs nothing.

  \<^bold>\<open>Bounds and fuel.\<close> No definition has fuel. Loops that may run for ever (accept loops, the
  polling of \<^verbatim>\<open>netsh\<close>, waiting for the network) are \<open>partial_function (option)\<close>; that they return,
  or exactly when, is proved. The copier is a step relation; \<open>proxy_cost\<close> bounds the steps it
  takes without its peers.

  \<^bold>\<open>Parameters.\<close> Code outside the repository: the address parsers of \<open>k8s.io/utils/net\<close>,
  the random source, the command executor, dialers, listeners and connections, the resolver,
  the host's interfaces and environment, the clock, the two Windows APIs with their flag
  constants and JSON coding, \<open>cobra\<close> and the job \<open>api2local\<close> of KPNG, the recorder of events,
  and how \<open>sort.Sort\<close> orders equal elements. A theorem that needs
  their documented behaviour has it as a hypothesis, and its witness gives an instance.

  \<^bold>\<open>Not modelled.\<close> Logging and printing; the methods that only pass on a call of package
  \<^verbatim>\<open>net\<close> (\<open>Addr\<close>) or wrap a value for a library (\<open>Sink\<close>, \<open>New\<close> of \<^verbatim>\<open>netsh.go\<close>, the empty
  \<open>BindFlags\<close>); code that is commented out in the sources, among it the body of
  \<open>syncProxyRules\<close> of the kernel proxier, so that nothing there fills its maps; the runner
  of \<open>syncProxyRules\<close> and its two periods; the counter \<open>numProxyLoops\<close>.
\<close>

end
